(* ===== verification/Prelude.thy ===== *)
theory Prelude
  imports Main "HOL-Library.Word" "HOL-Library.Monad_Syntax"
begin

unbundle bit_operations_syntax

text \<open>
  Shared vocabulary of the development: the machine integer types, the collections of rewrite
  rules the component proofs use, byte encodings of the integers the monitor hashes or copies,
  and the generic facts about options, functions and words that more than one component needs.

  A C function that may run into undefined behaviour (an access outside an array) or that ends
  in \<^verbatim>\<open>platform_panic\<close> / \<^verbatim>\<open>assert\<close> is a function into an option type: \<^term>\<open>None\<close> stands for
  the run that does not return to its caller.
\<close>

type_synonym u8 = "8 word"
type_synonym u32 = "32 word"
type_synonym u64 = "64 word"
type_synonym bytes = "u8 list"

named_theorems sm_const \<open>numeric values of the platform parameters\<close>
named_theorems lock_unfold \<open>definitions of the lock primitives\<close>
named_theorems step_iff \<open>the returning runs of the operations a transaction is built from\<close>
named_theorems lock_algebra \<open>lock words after a sequence of acquisitions and releases\<close>
named_theorems frame \<open>components of the state an operation leaves alone\<close>

section \<open>Options\<close>

lemma bind_SomeE:
  assumes "Option.bind m f = Some y"
  obtains x where "m = Some x" "f x = Some y"
  using assms by (cases m) auto

text \<open>
  \<open>yields m P\<close>: if \<open>m\<close> returns, its result satisfies \<open>P\<close>.  The rules walk down a transaction, one
  branch per early return; \<open>returns m\<close> is its total counterpart.
\<close>

definition yields :: "'a option \<Rightarrow> ('a \<Rightarrow> bool) \<Rightarrow> bool" where
  "yields m P \<longleftrightarrow> (\<forall>x. m = Some x \<longrightarrow> P x)"

definition returns :: "'a option \<Rightarrow> bool" where
  "returns m \<longleftrightarrow> (\<exists>x. m = Some x)"

lemma if_Some: "(if b then m else n) = Some x \<longleftrightarrow> b \<and> m = Some x \<or> \<not> b \<and> n = Some x"
  by simp

lemma yieldsD: "yields m P \<Longrightarrow> m = Some x \<Longrightarrow> P x"
  by (simp add: yields_def)

lemma returnsD: "returns m \<Longrightarrow> \<exists>x. m = Some x"
  by (simp add: returns_def)

lemma yields_bind: "(\<And>x. m = Some x \<Longrightarrow> yields (f x) P) \<Longrightarrow> yields (Option.bind m f) P"
  by (cases m) (auto simp: yields_def)

lemma yields_if: "(b \<Longrightarrow> yields m P) \<Longrightarrow> (\<not> b \<Longrightarrow> yields n P) \<Longrightarrow> yields (if b then m else n) P"
  by simp

lemma yields_Some: "P x \<Longrightarrow> yields (Some x) P"
  by (simp add: yields_def)

lemma yields_None: "yields None P"
  by (simp add: yields_def)

lemma yields_let: "(\<And>x. x = e \<Longrightarrow> yields (f x) P) \<Longrightarrow> yields (Let e f) P"
  by simp

lemma yields_prod: "(\<And>a b. p = (a, b) \<Longrightarrow> yields (f a b) P) \<Longrightarrow> yields (case p of (a, b) \<Rightarrow> f a b) P"
  by (cases p) simp

lemma yields_sum:
  "(\<And>a. x = Inl a \<Longrightarrow> yields (f a) P) \<Longrightarrow> (\<And>b. x = Inr b \<Longrightarrow> yields (g b) P) \<Longrightarrow>
   yields (case x of Inl a \<Rightarrow> f a | Inr b \<Rightarrow> g b) P"
  by (cases x) auto

lemma yields_option:
  "(x = None \<Longrightarrow> yields m P) \<Longrightarrow> (\<And>b. x = Some b \<Longrightarrow> yields (g b) P) \<Longrightarrow>
   yields (case x of None \<Rightarrow> m | Some b \<Rightarrow> g b) P"
  by (cases x) auto

lemmas yields_rules = yields_bind yields_if yields_Some yields_None yields_let yields_prod yields_sum yields_option

lemma returns_bind: "returns m \<Longrightarrow> (\<And>x. m = Some x \<Longrightarrow> returns (f x)) \<Longrightarrow> returns (Option.bind m f)"
  by (auto simp: returns_def)

lemma returns_if: "(b \<Longrightarrow> returns m) \<Longrightarrow> (\<not> b \<Longrightarrow> returns n) \<Longrightarrow> returns (if b then m else n)"
  by simp

lemma returns_Some: "returns (Some x)"
  by (simp add: returns_def)

lemma returns_let: "(\<And>x. x = e \<Longrightarrow> returns (f x)) \<Longrightarrow> returns (Let e f)"
  by simp

lemma returns_prod: "(\<And>a b. p = (a, b) \<Longrightarrow> returns (f a b)) \<Longrightarrow> returns (case p of (a, b) \<Rightarrow> f a b)"
  by (cases p) simp

lemmas returns_rules = returns_bind returns_if returns_Some returns_let returns_prod

text \<open>A checked array index: \<^verbatim>\<open>a[i]\<close> for an array of n elements.\<close>

definition c_index :: "nat \<Rightarrow> u64 \<Rightarrow> nat option" where
  "c_index n i = (if unat i < n then Some (unat i) else None)"

lemma c_index_Some [simp]: "c_index n i = Some k \<longleftrightarrow> unat i < n \<and> k = unat i"
  by (auto simp: c_index_def)

lemma c_index_None [simp]: "c_index n i = None \<longleftrightarrow> n \<le> unat i"
  by (auto simp: c_index_def)

lemma fold_commutes:
  assumes "\<And>x s. h (f x s) = f x (h s)" shows "h (fold f xs s) = fold f xs (h s)"
  by (induction xs arbitrary: s) (simp_all add: assms)

section \<open>Bytes\<close>

text \<open>Little-endian images of integers, as \<^verbatim>\<open>hash_extend(&x, sizeof(x))\<close> reads them.\<close>

primrec le_bytes :: "nat \<Rightarrow> 'a::len word \<Rightarrow> bytes" where
  "le_bytes 0 w = []"
| "le_bytes (Suc n) w = ucast w # le_bytes n (drop_bit 8 w)"

primrec of_le_bytes :: "bytes \<Rightarrow> 'a::len word" where
  "of_le_bytes [] = 0"
| "of_le_bytes (b # bs) = ucast b OR push_bit 8 (of_le_bytes bs)"

text \<open>Big-endian image of a 64-bit word (\<^verbatim>\<open>STORE64H\<close> / \<^verbatim>\<open>LOAD64H\<close> are in the SHA-512 theory).\<close>

lemma length_le_bytes [simp]: "length (le_bytes n w) = n"
  by (induction n arbitrary: w) auto

lemma le_bytes_eq_Nil [simp]: "le_bytes n w = [] \<longleftrightarrow> n = 0"
  by (cases n) auto

lemma bit_of_le_bytes:
  "bit (of_le_bytes (le_bytes n w) :: 'a::len word) i \<longleftrightarrow> i < 8 * n \<and> bit (w :: 'a word) i"
proof (induction n arbitrary: w i)
  case (Suc n)
  show ?case
    by (cases "i < 8") (auto simp: Suc bit_simps ac_simps dest: bit_imp_le_length)
qed simp

lemma of_le_bytes_le_bytes:
  assumes "LENGTH('a::len) \<le> 8 * n"
  shows "of_le_bytes (le_bytes n w) = (w :: 'a word)"
  using assms by (intro bit_word_eqI) (auto simp: bit_of_le_bytes)

lemma le_bytes_inject:
  assumes "LENGTH('a::len) \<le> 8 * n"
  shows "le_bytes n v = le_bytes n w \<longleftrightarrow> v = (w :: 'a word)"
  using of_le_bytes_le_bytes[OF assms] by metis

lemma le_bytes_map: "le_bytes n w = map (\<lambda>i. ucast (drop_bit (8 * i) w)) [0..<n]"
proof (induction n arbitrary: w)
  case (Suc n)
  have "[0..<Suc n] = 0 # map Suc [0..<n]"
    by (simp add: upt_conv_Cons map_Suc_upt del: upt_Suc)
  then show ?case by (simp add: Suc ac_simps del: upt_Suc)
qed simp

lemma le_bytes_add: "le_bytes (a + b) w = le_bytes a w @ le_bytes b (drop_bit (8 * a) w)"
  by (rule nth_equalityI) (auto simp: le_bytes_map nth_append algebra_simps)

lemma le_bytes_zero [simp]: "le_bytes n 0 = replicate n 0"
  by (induction n) auto

lemma le_bytes_ucast:
  assumes "8 * n \<le> LENGTH('b::len)"
  shows "le_bytes n (ucast (w :: 'a::len word) :: 'b word) = le_bytes n w"
  unfolding le_bytes_map
  by (rule nth_equalityI, simp, rule bit_word_eqI)
    (use assms in \<open>auto simp: bit_simps dest: bit_imp_le_length\<close>)

section \<open>Words\<close>

lemma unat_drop_bit: "unat (drop_bit k (w :: 'a::len word)) = unat w div 2 ^ k"
  by (subst unat_drop_bit_eq, rule drop_bit_eq_div)

lemma unat_take_bit: "unat (take_bit k (w :: 'a::len word)) = unat w mod 2 ^ k"
  by (subst unsigned_take_bit_eq, rule take_bit_eq_mod)

lemma unat_less_64: "unat (w :: u64) < 2 ^ 64"
  using unsigned_less[of w, where ?'a = nat] by simp

lemma unat_add_small:
  assumes "unat (a :: 'a::len word) + unat b < 2 ^ LENGTH('a)"
  shows "unat (a + b) = unat a + unat b"
  using assms by (simp add: unat_word_ariths)

lemma unat_mult_small:
  assumes "unat (a :: 'a::len word) * unat b < 2 ^ LENGTH('a)"
  shows "unat (a * b) = unat a * unat b"
  using assms by (simp add: unat_word_ariths)

lemma unat_of_nat_small [simp]:
  assumes "n < 2 ^ LENGTH('a)"
  shows "unat (of_nat n :: 'a::len word) = n"
  using assms by (simp add: unat_of_nat)

end
