(* ===== verification/SHA512.thy ===== *)
theory SHA512
  imports Prelude
begin

text \<open>
  The hash the monitor measures enclaves with: \<^verbatim>\<open>src/crypto/ed25519/sha512.c\<close> and its wrappers
  \<^verbatim>\<open>hash_init\<close>, \<^verbatim>\<open>hash_extend\<close>, \<^verbatim>\<open>hash_finalize\<close> of \<^verbatim>\<open>src/crypto/cryptography.h\<close>.  The streaming
  interface (a 128 byte buffer, a direct path for whole blocks) is proved to compute the one-shot
  function on the padded message; clients use it only through the locale \<open>hash_stream\<close>.
\<close>

section \<open>Compression function\<close>

record sha512_context =
  ctx_length :: u64
  ctx_state :: "u64 list"
  ctx_curlen :: nat
  ctx_buf :: "nat \<Rightarrow> u8"

definition sha512_K :: "u64 list" where
  "sha512_K =
  [4794697086780616226, 8158064640168781261, 13096744586834688815, 16840607885511220156,
   4131703408338449720, 6480981068601479193, 10538285296894168987, 12329834152419229976,
   15566598209576043074, 1334009975649890238, 2608012711638119052, 6128411473006802146,
   8268148722764581231, 9286055187155687089, 11230858885718282805, 13951009754708518548,
   16472876342353939154, 17275323862435702243, 1135362057144423861, 2597628984639134821,
   3308224258029322869, 5365058923640841347, 6679025012923562964, 8573033837759648693,
   10970295158949994411, 12119686244451234320, 12683024718118986047, 13788192230050041572,
   14330467153632333762, 15395433587784984357, 489312712824947311, 1452737877330783856,
   2861767655752347644, 3322285676063803686, 5560940570517711597, 5996557281743188959,
   7280758554555802590, 8532644243296465576, 9350256976987008742, 10552545826968843579,
   11727347734174303076, 12113106623233404929, 14000437183269869457, 14369950271660146224,
   15101387698204529176, 15463397548674623760, 17586052441742319658, 1182934255886127544,
   1847814050463011016, 2177327727835720531, 2830643537854262169, 3796741975233480872,
   4115178125766777443, 5681478168544905931, 6601373596472566643, 7507060721942968483,
   8399075790359081724, 8693463985226723168, 9568029438360202098, 10144078919501101548,
   10430055236837252648, 11840083180663258601, 13761210420658862357, 14299343276471374635,
   14566680578165727644, 15097957966210449927, 16922976911328602910, 17689382322260857208,
   500013540394364858, 748580250866718886, 1242879168328830382, 1977374033974150939,
   2944078676154940804, 3659926193048069267, 4368137639120453308, 4836135668995329356,
   5532061633213252278, 6448918945643986474, 6902733635092675308, 7801388544844847127]"

definition ROR64c :: "u64 \<Rightarrow> nat \<Rightarrow> u64" where
  "ROR64c x y = drop_bit (y mod 64) x OR push_bit (64 - y mod 64) x"

definition STORE64H :: "u64 \<Rightarrow> bytes" where
  "STORE64H x = [ucast (drop_bit 56 x), ucast (drop_bit 48 x), ucast (drop_bit 40 x),
     ucast (drop_bit 32 x), ucast (drop_bit 24 x), ucast (drop_bit 16 x),
     ucast (drop_bit 8 x), ucast x]"

definition LOAD64H :: "(nat \<Rightarrow> u8) \<Rightarrow> u64" where
  "LOAD64H y = push_bit 56 (ucast (y 0)) OR push_bit 48 (ucast (y 1)) OR
     push_bit 40 (ucast (y 2)) OR push_bit 32 (ucast (y 3)) OR
     push_bit 24 (ucast (y 4)) OR push_bit 16 (ucast (y 5)) OR
     push_bit 8 (ucast (y 6)) OR ucast (y 7)"

definition Ch :: "u64 \<Rightarrow> u64 \<Rightarrow> u64 \<Rightarrow> u64" where
  "Ch x y z = z XOR (x AND (y XOR z))"

definition Maj :: "u64 \<Rightarrow> u64 \<Rightarrow> u64 \<Rightarrow> u64" where
  "Maj x y z = ((x OR y) AND z) OR (x AND y)"

definition Sigma0 :: "u64 \<Rightarrow> u64" where
  "Sigma0 x = ROR64c x 28 XOR ROR64c x 34 XOR ROR64c x 39"

definition Sigma1 :: "u64 \<Rightarrow> u64" where
  "Sigma1 x = ROR64c x 14 XOR ROR64c x 18 XOR ROR64c x 41"

definition Gamma0 :: "u64 \<Rightarrow> u64" where
  "Gamma0 x = ROR64c x 1 XOR ROR64c x 8 XOR drop_bit 7 x"

definition Gamma1 :: "u64 \<Rightarrow> u64" where
  "Gamma1 x = ROR64c x 19 XOR ROR64c x 61 XOR drop_bit 6 x"

text \<open>The message schedule \<^verbatim>\<open>W[0..79]\<close>.\<close>

definition fill_W :: "bytes \<Rightarrow> u64 list" where
  "fill_W buf =
     fold (\<lambda>i W. W @ [Gamma1 (W ! (i - 2)) + W ! (i - 7) + Gamma0 (W ! (i - 15)) + W ! (i - 16)])
       [16..<80]
       (map (\<lambda>i. LOAD64H (\<lambda>j. buf ! (8 * i + j))) [0..<16])"

text \<open>
  One \<^verbatim>\<open>RND\<close>.  The source names the eight working variables by position and rotates the names
  from one round to the next; the list here is rotated instead, and after each group of eight
  rounds both are back in place.
\<close>

fun RND :: "u64 \<Rightarrow> u64 \<Rightarrow> u64 list \<Rightarrow> u64 list" where
  "RND Ki Wi [a, b, c, d, e, f, g, h] =
     (let t0 = h + Sigma1 e + Ch e f g + Ki + Wi;
          t1 = Sigma0 a + Maj a b c
      in [t0 + t1, a, b, c, d + t0, e, f, g])"
| "RND Ki Wi S = S"

definition sha512_compress :: "u64 list \<Rightarrow> bytes \<Rightarrow> u64 list" where
  "sha512_compress st buf =
     (let W = fill_W buf;
          S = fold (\<lambda>i. RND (sha512_K ! i) (W ! i)) [0..<80] st
      in map2 (+) st S)"

section \<open>Streaming interface\<close>

definition sha512_IV :: "u64 list" where
  "sha512_IV = [7640891576956012808, 13503953896175478587, 4354685564936845355,
     11912009170470909681, 5840696475078001361, 11170449401992604703,
     2270897969802886507, 6620516959819538809]"

definition sha512_init :: "sha512_context \<Rightarrow> sha512_context" where
  "sha512_init md = md\<lparr>ctx_curlen := 0, ctx_length := 0, ctx_state := sha512_IV\<rparr>"

definition buf_list :: "sha512_context \<Rightarrow> bytes" where
  "buf_list md = map (ctx_buf md) [0..<128]"

definition buf_copy :: "sha512_context \<Rightarrow> nat \<Rightarrow> bytes \<Rightarrow> sha512_context" where
  "buf_copy md n inp = md\<lparr>
     ctx_buf := (\<lambda>j. if ctx_curlen md \<le> j \<and> j < ctx_curlen md + n
                      then inp ! (j - ctx_curlen md) else ctx_buf md j),
     ctx_curlen := ctx_curlen md + n\<rparr>"

text \<open>
  The \<^verbatim>\<open>while (inlen > 0)\<close> loop of \<^verbatim>\<open>sha512_update\<close>.  With \<^verbatim>\<open>curlen == 128\<close> the C loop would make
  no progress (\<^verbatim>\<open>n == 0\<close>); that run is \<^term>\<open>None\<close>.
\<close>

function update_loop :: "sha512_context \<Rightarrow> bytes \<Rightarrow> sha512_context option" where
  "update_loop md inp =
     (if inp = [] then Some md
      else if ctx_curlen md = 0 \<and> 128 \<le> length inp then
        update_loop (md\<lparr>ctx_state := sha512_compress (ctx_state md) (take 128 inp),
                        ctx_length := ctx_length md + 1024\<rparr>) (drop 128 inp)
      else
        let n = min (length inp) (128 - ctx_curlen md) in
        if n = 0 then None
        else
          let md = buf_copy md n inp in
          update_loop
            (if ctx_curlen md = 128
             then md\<lparr>ctx_state := sha512_compress (ctx_state md) (buf_list md),
                     ctx_length := ctx_length md + 1024, ctx_curlen := 0\<rparr>
             else md) (drop n inp))"
  by pat_completeness auto
termination
  by (relation "measure (\<lambda>(md, inp). length inp)") (auto simp: min_def)

declare update_loop.simps [simp del]

definition sha512_update :: "sha512_context \<Rightarrow> bytes \<Rightarrow> (nat \<times> sha512_context) option" where
  "sha512_update md inp =
     (if 128 < ctx_curlen md then Some (1, md)
      else do { md \<leftarrow> update_loop md inp; Some (0, md) })"

text \<open>The zero padding loops \<^verbatim>\<open>while (md->curlen < k) md->buf[md->curlen++] = 0\<close>.\<close>

definition zero_upto :: "nat \<Rightarrow> sha512_context \<Rightarrow> sha512_context" where
  "zero_upto k md = buf_copy md (k - ctx_curlen md) (replicate (k - ctx_curlen md) 0)"

text \<open>Result code, digest written to \<^verbatim>\<open>out\<close> (nothing is written on the error return), context.\<close>

definition sha512_final :: "sha512_context \<Rightarrow> nat \<times> bytes option \<times> sha512_context" where
  "sha512_final md =
     (if 128 \<le> ctx_curlen md then (1, None, md)
      else
        let md = md\<lparr>ctx_length := ctx_length md + of_nat (ctx_curlen md) * 8\<rparr>;
            md = buf_copy md 1 [0x80];
            md = (if 112 < ctx_curlen md
                  then let md = zero_upto 128 md in
                    md\<lparr>ctx_state := sha512_compress (ctx_state md) (buf_list md), ctx_curlen := 0\<rparr>
                  else md);
            md = zero_upto 120 md;
            md = md\<lparr>ctx_buf := (\<lambda>j. if 120 \<le> j \<and> j < 128
                                     then STORE64H (ctx_length md) ! (j - 120) else ctx_buf md j)\<rparr>;
            md = md\<lparr>ctx_state := sha512_compress (ctx_state md) (buf_list md)\<rparr>
        in (0, Some (concat (map STORE64H (ctx_state md))), md))"

definition zero_context :: sha512_context where
  "zero_context = \<lparr>ctx_length = 0, ctx_state = replicate 8 0, ctx_curlen = 0, ctx_buf = (\<lambda>_. 0)\<rparr>"

text \<open>The one-shot function; \<^term>\<open>ctx\<close> is the uninitialised local of the C function.\<close>

definition sha512 :: "sha512_context \<Rightarrow> bytes \<Rightarrow> bytes option" where
  "sha512 ctx message = do {
     (ret, ctx) \<leftarrow> sha512_update (sha512_init ctx) message;
     if ret \<noteq> 0 then None else fst (snd (sha512_final ctx)) }"

text \<open>The wrappers the monitor calls; all three drop the result code.\<close>

definition hash_init :: "sha512_context \<Rightarrow> sha512_context" where
  "hash_init = sha512_init"

definition hash_extend :: "sha512_context \<Rightarrow> bytes \<Rightarrow> sha512_context option" where
  "hash_extend ctx x = do { (_, ctx) \<leftarrow> sha512_update ctx x; Some ctx }"

definition hash_finalize :: "sha512_context \<Rightarrow> bytes option \<times> sha512_context" where
  "hash_finalize ctx = snd (sha512_final ctx)"

section \<open>Reference: hash of the padded message\<close>

function absorb_blocks :: "u64 list \<Rightarrow> bytes \<Rightarrow> u64 list" where
  "absorb_blocks st m =
     (if length m < 128 then st
      else absorb_blocks (sha512_compress st (take 128 m)) (drop 128 m))"
  by pat_completeness auto
termination by (relation "measure (\<lambda>(st, m). length m)") auto

declare absorb_blocks.simps [simp del]

definition sha512_pad :: "bytes \<Rightarrow> bytes" where
  "sha512_pad m = m @ [0x80] @ replicate ((239 - length m mod 128) mod 128) 0 @
     rev (le_bytes 16 (of_nat (8 * length m) :: 128 word))"

definition sha512_spec :: "bytes \<Rightarrow> bytes" where
  "sha512_spec m = concat (map STORE64H (absorb_blocks sha512_IV (sha512_pad m)))"

lemma absorb_blocks_short [simp]: "length m < 128 \<Longrightarrow> absorb_blocks st m = st"
  by (subst absorb_blocks.simps) simp

lemma absorb_blocks_block:
  "length b = 128 \<Longrightarrow> absorb_blocks st (b @ m) = absorb_blocks (sha512_compress st b) m"
  by (subst absorb_blocks.simps) simp

text \<open>What is still waiting in the buffer, and what is left of a message after its whole blocks.\<close>

definition pending :: "sha512_context \<Rightarrow> bytes" where
  "pending md = map (ctx_buf md) [0..<ctx_curlen md]"

definition rest :: "bytes \<Rightarrow> bytes" where
  "rest m = drop (128 * (length m div 128)) m"

lemma length_pending [simp]: "length (pending md) = ctx_curlen md"
  by (simp add: pending_def)

lemma length_rest [simp]: "length (rest m) = length m mod 128"
  by (simp add: rest_def minus_mult_div_eq_mod)

lemma rest_short [simp]: "length m < 128 \<Longrightarrow> rest m = m"
  by (simp add: rest_def)

lemma rest_block:
  assumes "length b = 128" shows "rest (b @ m) = rest m"
proof -
  have "(128 + length m) div 128 = 1 + length m div 128"
    using div_add_self1[of 128 "length m"] by linarith
  then show ?thesis using assms by (simp add: rest_def)
qed

lemma absorb_blocks_append:
  "absorb_blocks st (a @ b) = absorb_blocks (absorb_blocks st a) (rest a @ b)"
proof (induction "length a" arbitrary: a st rule: less_induct)
  case less
  show ?case
  proof (cases "length a < 128")
    case False
    then obtain x y where a: "a = x @ y" "length x = 128"
      by (metis append_take_drop_id length_take min_absorb2 not_less)
    have "length y < length a" using a by simp
    from less[OF this] show ?thesis
      using a by (simp add: absorb_blocks_block rest_block)
  qed simp
qed

lemma rest_append: "rest (a @ b) = rest (rest a @ b)"
proof (induction "length a" arbitrary: a rule: less_induct)
  case less
  show ?case
  proof (cases "length a < 128")
    case False
    then obtain x y where a: "a = x @ y" "length x = 128"
      by (metis append_take_drop_id length_take min_absorb2 not_less)
    have "length y < length a" using a by simp
    from less[OF this] show ?thesis using a by (simp add: rest_block)
  qed simp
qed

section \<open>The streaming interface implements the reference\<close>

lemma buf_copy_sel [simp]:
  "ctx_curlen (buf_copy md n x) = ctx_curlen md + n"
  "ctx_state (buf_copy md n x) = ctx_state md"
  "ctx_length (buf_copy md n x) = ctx_length md"
  by (auto simp: buf_copy_def)

lemma pending_upd [simp]:
  "pending (md\<lparr>ctx_length := x\<rparr>) = pending md" "pending (md\<lparr>ctx_state := y\<rparr>) = pending md"
  by (auto simp: pending_def)

lemma pending_buf_copy:
  "n \<le> length x \<Longrightarrow> pending (buf_copy md n x) = pending md @ take n x"
  by (rule nth_equalityI) (auto simp: pending_def buf_copy_def nth_append)

lemma buf_list_pending: "ctx_curlen md = 128 \<Longrightarrow> buf_list md = pending md"
  by (simp add: buf_list_def pending_def)

text \<open>
  The relation between a context and the message it has absorbed since \<^const>\<open>sha512_init\<close>.
\<close>

definition ctx_holds :: "sha512_context \<Rightarrow> bytes \<Rightarrow> bool" where
  "ctx_holds md m \<longleftrightarrow>
     ctx_state md = absorb_blocks sha512_IV m \<and> pending md = rest m \<and>
     ctx_length md = of_nat (1024 * (length m div 128))"

lemma ctx_holds_curlen:
  assumes "ctx_holds md m" shows "ctx_curlen md = length m mod 128"
proof -
  have "length (pending md) = length (rest m)" using assms by (simp add: ctx_holds_def)
  then show ?thesis by simp
qed

lemma div_128_full:
  assumes "a mod 128 + b = (128::nat)" shows "(a + b) div 128 = a div 128 + 1"
proof -
  have "a + b = 128 * (a div 128 + 1)"
    using assms mult_div_mod_eq[of 128 a] unfolding distrib_left by linarith
  then show ?thesis by (metis nonzero_mult_div_cancel_left zero_neq_numeral)
qed

lemma div_128_part:
  assumes "a mod 128 + b < (128::nat)" shows "(a + b) div 128 = a div 128"
proof -
  have "a + b = 128 * (a div 128) + (a mod 128 + b)"
    using mult_div_mod_eq[of 128 a] by linarith
  then show ?thesis using assms by (metis add.right_neutral div_less div_mult_self4 zero_neq_numeral)
qed

lemma ctx_holds_block:
  assumes md: "ctx_holds md m" and b: "length (pending md @ b) = 128"
    and md': "ctx_state md' = sha512_compress (ctx_state md) (pending md @ b)"
      "ctx_curlen md' = 0" "ctx_length md' = ctx_length md + 1024"
  shows "ctx_holds md' (m @ b)"
proof -
  have len: "length m mod 128 + length b = 128" using b ctx_holds_curlen[OF md] by simp
  note d = div_128_full[OF len]
  have "rest (m @ b) = rest ((rest m @ b) @ [])" using rest_append[of m b] by simp
  also have "\<dots> = []" using len by (simp only: rest_block length_append length_rest) simp
  finally have r: "rest (m @ b) = []" .
  have p: "pending md' = []" using md'(2) by (simp add: pending_def)
  have "absorb_blocks sha512_IV (m @ b) = absorb_blocks (ctx_state md) ((rest m @ b) @ [])"
    using md by (simp add: absorb_blocks_append[of _ m] ctx_holds_def)
  also have "\<dots> = sha512_compress (ctx_state md) (rest m @ b)"
    using len by (simp only: absorb_blocks_block length_append length_rest) simp
  finally have s: "absorb_blocks sha512_IV (m @ b) = ctx_state md'"
    using md md' by (simp add: ctx_holds_def)
  show ?thesis using md md' d r p s by (simp add: ctx_holds_def algebra_simps)
qed

lemma ctx_holds_partial:
  assumes md: "ctx_holds md m" and b: "length (pending md @ b) < 128"
    and md': "ctx_state md' = ctx_state md" "pending md' = pending md @ b"
      "ctx_length md' = ctx_length md"
  shows "ctx_holds md' (m @ b)"
proof -
  have len: "length m mod 128 + length b < 128" using b ctx_holds_curlen[OF md] by simp
  note d = div_128_part[OF len]
  have r: "rest (m @ b) = rest m @ b" using len by (simp add: rest_append[of m])
  show ?thesis using md md' d r len
    by (simp add: ctx_holds_def absorb_blocks_append[of _ m])
qed

text \<open>One turn of the loop: the chunk it consumes and the context it continues with.\<close>

definition chunk :: "sha512_context \<Rightarrow> bytes \<Rightarrow> nat" where
  "chunk md inp = (if ctx_curlen md = 0 \<and> 128 \<le> length inp then 128
                   else min (length inp) (128 - ctx_curlen md))"

definition turn :: "sha512_context \<Rightarrow> bytes \<Rightarrow> sha512_context" where
  "turn md inp =
     (if ctx_curlen md = 0 \<and> 128 \<le> length inp
      then md\<lparr>ctx_state := sha512_compress (ctx_state md) (take 128 inp),
              ctx_length := ctx_length md + 1024\<rparr>
      else let md = buf_copy md (chunk md inp) inp in
        if ctx_curlen md = 128
        then md\<lparr>ctx_state := sha512_compress (ctx_state md) (buf_list md),
                ctx_length := ctx_length md + 1024, ctx_curlen := 0\<rparr>
        else md)"

lemma chunk_pos: "ctx_curlen md < 128 \<Longrightarrow> inp \<noteq> [] \<Longrightarrow> 0 < chunk md inp \<and> chunk md inp \<le> length inp"
  by (auto simp: chunk_def)

lemma update_loop_turn:
  assumes "ctx_curlen md < 128" "inp \<noteq> []"
  shows "update_loop md inp = update_loop (turn md inp) (drop (chunk md inp) inp)"
  by (subst update_loop.simps, use assms in \<open>simp only: turn_def chunk_def Let_def if_True if_False
    if_cancel split: if_split\<close>) auto

lemma turn_holds:
  assumes md: "ctx_holds md m" and inp: "inp \<noteq> []"
  shows "ctx_holds (turn md inp) (m @ take (chunk md inp) inp)"
proof -
  have cl: "ctx_curlen md < 128" using ctx_holds_curlen[OF md] by simp
  let ?n = "chunk md inp"
  consider (direct) "ctx_curlen md = 0" "128 \<le> length inp"
    | (full) "\<not> (ctx_curlen md = 0 \<and> 128 \<le> length inp)" "ctx_curlen md + ?n = 128"
    | (part) "\<not> (ctx_curlen md = 0 \<and> 128 \<le> length inp)" "ctx_curlen md + ?n \<noteq> 128"
    by metis
  then show ?thesis
  proof cases
    case direct
    then have "pending md = []" by (simp add: pending_def)
    with direct show ?thesis
      by (intro ctx_holds_block[OF md]) (auto simp: turn_def chunk_def)
  next
    case full
    have "?n \<le> length inp" using chunk_pos[OF cl inp] by simp
    with full show ?thesis
      by (intro ctx_holds_block[OF md])
        (auto simp: turn_def Let_def buf_list_pending pending_buf_copy)
  next
    case part
    have n: "?n \<le> length inp" "ctx_curlen md + ?n < 128"
      using chunk_pos[OF cl inp] part cl by (auto simp: chunk_def)
    with part show ?thesis
      by (intro ctx_holds_partial[OF md]) (auto simp: turn_def Let_def pending_buf_copy)
  qed
qed

lemma update_loop_holds:
  "ctx_holds md m \<Longrightarrow> \<exists>md'. update_loop md inp = Some md' \<and> ctx_holds md' (m @ inp)"
proof (induction "length inp" arbitrary: md m inp rule: less_induct)
  case less
  show ?case
  proof (cases "inp = []")
    case True
    then show ?thesis using less.prems by (simp add: update_loop.simps)
  next
    case False
    have cl: "ctx_curlen md < 128" using ctx_holds_curlen[OF less.prems] by simp
    let ?n = "chunk md inp"
    have "length (drop ?n inp) < length inp"
      using chunk_pos[OF cl False] by (simp only: length_drop) linarith
    from less.hyps[OF this turn_holds[OF less.prems False]]
    show ?thesis by (simp add: update_loop_turn[OF cl False])
  qed
qed

lemma ctx_holds_init: "ctx_holds (sha512_init md) []"
  by (simp add: ctx_holds_def sha512_init_def pending_def)

lemma ctx_holds_extend:
  assumes "ctx_holds md m"
  shows "\<exists>md'. hash_extend md x = Some md' \<and> ctx_holds md' (m @ x)"
  using update_loop_holds[OF assms, of x] ctx_holds_curlen[OF assms]
  by (auto simp: hash_extend_def sha512_update_def)

lemma STORE64H_rev: "STORE64H x = rev (le_bytes 8 x)"
  by (simp add: STORE64H_def le_bytes_map upt_rec)

lemma length_STORE64H [simp]: "length (STORE64H x) = 8"
  by (simp add: STORE64H_def)

lemma length_field:
  assumes "n < 2 ^ 64"
  shows "rev (le_bytes 16 (of_nat n :: 128 word)) = replicate 8 0 @ STORE64H (of_nat n)"
proof -
  have "drop_bit 64 (of_nat n :: 128 word) = 0"
    using assms by (simp add: word_unat_eq_iff unat_drop_bit del: drop_bit_of_nat)
  moreover have "le_bytes 8 (of_nat n :: 128 word) = le_bytes 8 (of_nat n :: u64)"
  proof -
    have "ucast (of_nat n :: 128 word) = (of_nat n :: u64)"
      by (rule bit_word_eqI) (simp add: bit_simps)
    then show ?thesis using le_bytes_ucast[of 8 "of_nat n :: 128 word", where 'b = 64] by simp
  qed
  ultimately show ?thesis
    using le_bytes_add[of 8 8 "of_nat n :: 128 word"] by (simp add: STORE64H_rev)
qed

lemma pending_zero_upto:
  "ctx_curlen md \<le> k \<Longrightarrow>
   pending (zero_upto k md) = pending md @ replicate (k - ctx_curlen md) 0"
  by (simp add: zero_upto_def pending_buf_copy)

lemma zero_upto_sel [simp]:
  "ctx_curlen md \<le> k \<Longrightarrow> ctx_curlen (zero_upto k md) = k"
  "ctx_state (zero_upto k md) = ctx_state md"
  "ctx_length (zero_upto k md) = ctx_length md"
  by (auto simp: zero_upto_def)

lemma buf_list_store:
  "ctx_curlen md = 120 \<Longrightarrow>
   buf_list (md\<lparr>ctx_buf := (\<lambda>j. if 120 \<le> j \<and> j < 128 then STORE64H x ! (j - 120) else ctx_buf md j)\<rparr>)
     = pending md @ STORE64H x"
  by (rule nth_equalityI) (auto simp: buf_list_def pending_def nth_append)

text \<open>The blocks the padding consists of, seen from the bytes still in the buffer.\<close>

lemma absorb_pad:
  assumes "8 * length m < 2 ^ 64"
  shows "absorb_blocks sha512_IV (sha512_pad m) =
    (let st = absorb_blocks sha512_IV m; r = length m mod 128;
         L = STORE64H (of_nat (8 * length m)) in
     if r < 112 then sha512_compress st (rest m @ [0x80] @ replicate (119 - r) 0 @ L)
     else sha512_compress (sha512_compress st (rest m @ [0x80] @ replicate (127 - r) 0))
            (replicate 120 0 @ L))"
proof -
  let ?r = "length m mod 128" and ?st = "absorb_blocks sha512_IV m"
  let ?L = "STORE64H (of_nat (8 * length m))"
  have r: "?r < 128" by simp
  have pad: "absorb_blocks sha512_IV (sha512_pad m) =
      absorb_blocks ?st (rest m @ [0x80] @ replicate ((239 - ?r) mod 128 + 8) 0 @ ?L)"
    unfolding sha512_pad_def absorb_blocks_append[of _ m] length_field[OF assms]
    by (simp add: replicate_add)
  show ?thesis
  proof (cases "?r < 112")
    case True
    then have "239 - ?r = 128 + (111 - ?r)" "111 - ?r < 128" by linarith+
    then have "(239 - ?r) mod 128 + 8 = 119 - ?r" using True by (simp only: mod_add_self1) simp
    moreover have "length (rest m @ [0x80] @ replicate (119 - ?r) 0 @ ?L) = 128" using True by simp
    ultimately show ?thesis
      using True absorb_blocks_block[of "rest m @ [0x80] @ replicate (119 - ?r) 0 @ ?L" ?st "[]"]
      unfolding pad by (simp add: Let_def)
  next
    case False
    then have "(239 - ?r) mod 128 + 8 = (127 - ?r) + 120" using r by simp
    then have z: "replicate ((239 - ?r) mod 128 + 8) (0::u8) = replicate (127 - ?r) 0 @ replicate 120 0"
      by (simp only: replicate_add)
    have "length (rest m @ [0x80] @ replicate (127 - ?r) 0) = 128" using False r by simp
    moreover have "length (replicate 120 0 @ ?L) = 128" by simp
    ultimately show ?thesis
      using False absorb_blocks_block[of "rest m @ [0x80] @ replicate (127 - ?r) 0" ?st "replicate 120 0 @ ?L"]
        absorb_blocks_block[of "replicate 120 0 @ ?L" _ "[]"]
      unfolding pad z by (simp add: Let_def)
  qed
qed

lemma ctx_holds_final:
  assumes md: "ctx_holds md m" and len: "length m < 2 ^ 61"
  shows "\<exists>md'. sha512_final md = (0, Some (sha512_spec m), md')"
proof -
  let ?r = "length m mod 128"
  have r: "ctx_curlen md = ?r" "?r < 128" using ctx_holds_curlen[OF md] by auto
  have "1024 * (length m div 128) + ?r * 8 = 8 * length m"
    using mult_div_mod_eq[of 128 "length m"] by linarith
  then have "of_nat (1024 * (length m div 128)) + of_nat (?r * 8) = (of_nat (8 * length m) :: u64)"
    by (simp only: of_nat_add[symmetric])
  then have L: "ctx_length md + of_nat ?r * 8 = of_nat (8 * length m)"
    using md unfolding ctx_holds_def by (simp only: of_nat_mult of_nat_numeral)
  have len8: "8 * length m < 2 ^ 64" using len by simp
  let ?md1 = "buf_copy (md\<lparr>ctx_length := of_nat (8 * length m)\<rparr>) 1 [0x80]"
  have p1: "pending ?md1 = rest m @ [0x80]" "ctx_curlen ?md1 = ?r + 1"
    using md r by (auto simp: pending_buf_copy ctx_holds_def)
  show ?thesis
  proof (cases "?r < 112")
    case True
    with p1 have "pending (zero_upto 120 ?md1) = rest m @ [0x80] @ replicate (119 - ?r) 0"
      by (simp add: pending_zero_upto)
    with True r L md p1 show ?thesis
      unfolding sha512_final_def sha512_spec_def absorb_pad[OF len8]
      by (simp add: Let_def buf_list_store ctx_holds_def)
  next
    case False
    let ?md2 = "zero_upto 128 ?md1"
    have "buf_list ?md2 = rest m @ [0x80] @ replicate (127 - ?r) 0"
      using p1 r by (simp add: buf_list_pending pending_zero_upto)
    moreover have "pending (zero_upto 120 (?md2\<lparr>ctx_state := s, ctx_curlen := 0\<rparr>)) = replicate 120 0" for s
      by (subst pending_zero_upto) (auto simp: pending_def)
    ultimately show ?thesis using False r L md p1
      unfolding sha512_final_def sha512_spec_def absorb_pad[OF len8]
      by (simp add: Let_def buf_list_store ctx_holds_def)
  qed
qed

section \<open>Extension as a function\<close>

text \<open>
  A context whose buffer is not exactly full accepts any input, and stays that way.  The two
  lemmas below are for arbitrary contexts, also those no initialisation has produced.
\<close>

lemma turn_curlen: "ctx_curlen md < 128 \<Longrightarrow> inp \<noteq> [] \<Longrightarrow> ctx_curlen (turn md inp) < 128"
  by (auto simp: turn_def chunk_def Let_def min_def)

lemma update_loop_returns:
  "ctx_curlen md < 128 \<Longrightarrow> \<exists>md'. update_loop md inp = Some md' \<and> ctx_curlen md' < 128"
proof (induction "length inp" arbitrary: md inp rule: less_induct)
  case less
  show ?case
  proof (cases "inp = []")
    case True
    then show ?thesis using less.prems by (simp add: update_loop.simps)
  next
    case False
    let ?n = "chunk md inp"
    have "length (drop ?n inp) < length inp"
      using chunk_pos[OF less.prems False] by (simp only: length_drop) linarith
    from less.hyps[OF this turn_curlen[OF less.prems False]]
    show ?thesis by (simp add: update_loop_turn[OF less.prems False])
  qed
qed

definition extend_ctx :: "sha512_context \<Rightarrow> bytes \<Rightarrow> sha512_context" where
  "extend_ctx c x = (case hash_extend c x of Some c' \<Rightarrow> c' | None \<Rightarrow> c)"

lemma hash_extend_eq:
  "hash_extend c x = (if x = [] \<or> ctx_curlen c \<noteq> 128 then Some (extend_ctx c x) else None)"
proof -
  have "\<exists>c'. hash_extend c x = Some c'" if "x = [] \<or> ctx_curlen c \<noteq> 128"
    using that update_loop_returns[of c x] update_loop.simps[of c x]
    by (auto simp: hash_extend_def sha512_update_def not_less_iff_gr_or_eq)
  moreover have "hash_extend c x = None" if "\<not> (x = [] \<or> ctx_curlen c \<noteq> 128)"
    using that by (auto simp: hash_extend_def sha512_update_def update_loop.simps)
  ultimately show ?thesis by (auto simp: extend_ctx_def)
qed

lemma hash_extend_Some [step_iff]:
  "hash_extend c x = Some c' \<longleftrightarrow> (x = [] \<or> ctx_curlen c \<noteq> 128) \<and> c' = extend_ctx c x"
  by (auto simp: hash_extend_eq)

lemma curlen_extend [simp]:
  assumes "ctx_curlen c \<noteq> 128" shows "ctx_curlen (extend_ctx c x) \<noteq> 128"
  using assms update_loop_returns[of c x]
  by (auto simp: extend_ctx_def hash_extend_def sha512_update_def not_less_iff_gr_or_eq split: option.splits)

lemma curlen_init [simp]: "ctx_curlen (hash_init c) = 0"
  by (simp add: hash_init_def sha512_init_def)

lemma holds_extend_ctx:
  assumes "ctx_holds c m" shows "ctx_holds (extend_ctx c x) (m @ x)"
  using ctx_holds_extend[OF assms, of x] by (auto simp: extend_ctx_def)

section \<open>Interface to the measurement code\<close>

primrec extend_all :: "('c \<Rightarrow> bytes \<Rightarrow> 'c option) \<Rightarrow> 'c \<Rightarrow> bytes list \<Rightarrow> 'c option" where
  "extend_all ext c [] = Some c"
| "extend_all ext c (x # xs) = do { c \<leftarrow> ext c x; extend_all ext c xs }"

locale hash_stream =
  fixes start :: "'c \<Rightarrow> 'c"
    and extend :: "'c \<Rightarrow> bytes \<Rightarrow> 'c option"
    and digest_of :: "'c \<Rightarrow> bytes option"
    and holds :: "'c \<Rightarrow> bytes \<Rightarrow> bool"
    and spec :: "bytes \<Rightarrow> bytes"
    and cap :: nat
  assumes holds_start: "holds (start c) []"
    and holds_extend: "holds c m \<Longrightarrow> \<exists>c'. extend c x = Some c' \<and> holds c' (m @ x)"
    and holds_digest: "holds c m \<Longrightarrow> length m < cap \<Longrightarrow> digest_of c = Some (spec m)"
begin

lemma extend_all_holds:
  "holds c m \<Longrightarrow> \<exists>c'. extend_all extend c xs = Some c' \<and> holds c' (m @ concat xs)"
proof (induction xs arbitrary: c m)
  case (Cons x xs)
  from holds_extend[OF Cons.prems, of x] obtain c' where
    "extend c x = Some c'" "holds c' (m @ x)" by blast
  with Cons.IH[OF this(2)] show ?case by auto
qed simp

lemma extend_step:
  assumes "holds c m" "extend c x = Some c'" shows "holds c' (m @ x)"
  using holds_extend[OF assms(1), of x] assms(2) by auto

lemma stream_digest:
  assumes "length (concat xs) < cap"
  shows "\<exists>c'. extend_all extend (start c) xs = Some c' \<and> digest_of c' = Some (spec (concat xs))"
  using extend_all_holds[OF holds_start, of c xs] holds_digest assms by auto

end

interpretation measure: hash_stream hash_init hash_extend "\<lambda>c. fst (hash_finalize c)"
  ctx_holds sha512_spec "2 ^ 61"
proof unfold_locales
  fix c m x
  show "ctx_holds (hash_init c) []" by (simp add: hash_init_def ctx_holds_init)
  assume h: "ctx_holds c m"
  show "\<exists>c'. hash_extend c x = Some c' \<and> ctx_holds c' (m @ x)" by (rule ctx_holds_extend[OF h])
  assume "length m < 2 ^ 61"
  from ctx_holds_final[OF h this] show "fst (hash_finalize c) = Some (sha512_spec m)"
    by (auto simp: hash_finalize_def)
qed

lemma sha512_one_shot:
  assumes "length m < 2 ^ 61" shows "sha512 ctx m = Some (sha512_spec m)"
proof -
  from update_loop_holds[OF ctx_holds_init, of ctx m] obtain md where
    md: "update_loop (sha512_init ctx) m = Some md" "ctx_holds md m" by auto
  from ctx_holds_final[OF md(2) assms] md(1) show ?thesis
    by (auto simp: sha512_def sha512_update_def sha512_init_def)
qed

section \<open>Properties\<close>

text \<open>C7. Feeding a message in pieces through \<^verbatim>\<open>hash_init\<close>, \<^verbatim>\<open>hash_extend\<close> and \<^verbatim>\<open>hash_finalize\<close> returns, and gives
  the digest of the concatenation: the same as the one-shot \<^verbatim>\<open>sha512\<close> and as the padded block-wise
  reference, for every way to cut a message of less than $2^{61}$ bytes.\<close>
theorem sha512_stream_is_one_shot:
  assumes "length (concat xs) < 2 ^ 61"
  shows "\<exists>c'. extend_all hash_extend (hash_init c) xs = Some c' \<and>
     fst (hash_finalize c') = Some (sha512_spec (concat xs)) \<and>
     sha512 ctx (concat xs) = Some (sha512_spec (concat xs))"
  using measure.stream_digest[OF assms] sha512_one_shot[OF assms] by blast

theorem sha512_stream_is_one_shot_witness:
  "\<exists>c'. extend_all hash_extend (hash_init zero_context) [[97], [98, 99]] = Some c' \<and>
     fst (hash_finalize c') = Some (sha512_spec [97, 98, 99])"
  using sha512_stream_is_one_shot[of "[[97], [98, 99]]" zero_context zero_context] by auto

end
