(* ===== verification/SM_Types.thy ===== *)
theory SM_Types
  imports Prelude SHA512
begin

unbundle bit_operations_syntax

text \<open>
  The data of the monitor: parameters (\<^verbatim>\<open>platform/parameters.h\<close>, \<^verbatim>\<open>src/sm_constants.h\<close>), API types
  (\<^verbatim>\<open>api/api_types.h\<close>), the structures of \<^verbatim>\<open>src/sm_types.h\<close> and \<^verbatim>\<open>platform/platform_types.h\<close>, and the
  machine they live in.

  Arrays of a fixed length are total functions on indices; every access through a computed index
  goes through a bound check in the operations.  Physical memory is a split heap: bytes in
  \<open>mem\<close>, the page maps of metadata regions in \<open>page_info\<close>, and the enclave and thread objects
  in \<open>enclaves\<close> and \<open>threads\<close>, each indexed by the physical address the source casts to a
  pointer.
\<close>

section \<open>Parameters\<close>

definition PAGE_SHIFT :: nat where [sm_const]: "PAGE_SHIFT = 12"
definition REGION_SHIFT :: nat where [sm_const]: "REGION_SHIFT = 25"
definition PAGE_SIZE :: u64 where [sm_const]: "PAGE_SIZE = 0x1000"
definition PAGE_MASK :: u64 where [sm_const]: "PAGE_MASK = 0xFFF"
definition REGION_SIZE :: u64 where [sm_const]: "REGION_SIZE = 0x2000000"
definition REGION_MASK :: u64 where [sm_const]: "REGION_MASK = 0xFFFFFFFFFE000000"
definition RAM_BASE :: u64 where [sm_const]: "RAM_BASE = 0x80000000"
definition NUM_REGIONS :: nat where [sm_const]: "NUM_REGIONS = 64"
definition NUM_REGION_PAGES :: nat where [sm_const]: "NUM_REGION_PAGES = 8192"
definition NUM_CORES :: nat where [sm_const]: "NUM_CORES = 2"
definition NUM_UNTRUSTED_MAILBOXES :: nat where [sm_const]: "NUM_UNTRUSTED_MAILBOXES = 8"
definition MAILBOX_SIZE :: nat where [sm_const]: "MAILBOX_SIZE = 256"
definition NUM_REGISTERS :: nat where [sm_const]: "NUM_REGISTERS = 32"

definition SM_ADDR :: u64 where [sm_const]: "SM_ADDR = 0x80000000"
definition HANDLER_LEN :: int where [sm_const]: "HANDLER_LEN = 0x8000"
definition SM_STATE_ADDR :: u64 where [sm_const]: "SM_STATE_ADDR = 0x80040000"
definition SM_STATE_LEN :: u64 where [sm_const]: "SM_STATE_LEN = 0x3000"
definition UNTRUSTED_ENTRY :: u64 where [sm_const]: "UNTRUSTED_ENTRY = 0x82000000"
definition PAYLOAD_MAXLEN :: u64 where [sm_const]: "PAYLOAD_MAXLEN = 0xC000000"
definition STACK_SIZE :: u64 where [sm_const]: "STACK_SIZE = 0x1000"
definition MENTRY_FRAME_SIZE :: u64 where [sm_const]: "MENTRY_FRAME_SIZE = 0x140"
definition IDPT_BASE :: u64 where [sm_const]: "IDPT_BASE = 0x8D000000"

definition LLC_CTRL_ADDR :: u64 where [sm_const]: "LLC_CTRL_ADDR = 0x200000000"
definition LLC_NUM_WAYS :: nat where [sm_const]: "LLC_NUM_WAYS = 16"
definition LLC_INDEX_OFFSET :: nat where [sm_const]: "LLC_INDEX_OFFSET = 6"
definition ZERO_DEVICE_OFFSET :: u64 where [sm_const]: "ZERO_DEVICE_OFFSET = 0x100000000"

definition MSPEC_NONE :: u64 where [sm_const]: "MSPEC_NONE = 3"
definition MSPEC_NOTRAINPRED :: u64 where [sm_const]: "MSPEC_NOTRAINPRED = 4"
definition MSPEC_NOUSEPRED :: u64 where [sm_const]: "MSPEC_NOUSEPRED = 8"
definition MSPEC_NOUSEL1 :: u64 where [sm_const]: "MSPEC_NOUSEL1 = 16"
definition SATP_MODE_SV39 :: u64 where [sm_const]: "SATP_MODE_SV39 = 8"
definition SATP_MODE :: nat where [sm_const]: "SATP_MODE = 60"
definition MSTATUS_TVM_MASK :: u64 where [sm_const]: "MSTATUS_TVM_MASK = 0x100000"
definition MSTATUS_MPP_MASK :: u64 where [sm_const]: "MSTATUS_MPP_MASK = 0x1800"
definition MSTATUS_MPIE_MASK :: u64 where [sm_const]: "MSTATUS_MPIE_MASK = 0x80"
definition MSTATUS_SIE_MASK :: u64 where [sm_const]: "MSTATUS_SIE_MASK = 2"
definition MSTATUS_UIE_MASK :: u64 where [sm_const]: "MSTATUS_UIE_MASK = 1"
definition MVBASE_DEFAULT :: u64 where [sm_const]: "MVBASE_DEFAULT = 0xFFFFFFFFFFFFFFFF"
definition MVMASK_DEFAULT :: u64 where [sm_const]: "MVMASK_DEFAULT = 0"
definition MIP_MSIP :: u64 where [sm_const]: "MIP_MSIP = 8"
definition MIP_MTIP :: u64 where [sm_const]: "MIP_MTIP = 0x80"

definition PTE_V :: u64 where [sm_const]: "PTE_V = 1"
definition PTE_R :: u64 where [sm_const]: "PTE_R = 2"
definition PTE_W :: u64 where [sm_const]: "PTE_W = 4"
definition PTE_X :: u64 where [sm_const]: "PTE_X = 8"
definition LEAF_ACL :: u64 where [sm_const]: "LEAF_ACL = 0xEF"
definition NODE_ACL :: u64 where [sm_const]: "NODE_ACL = 1"
definition PTE_SIZE :: u64 where [sm_const]: "PTE_SIZE = 8"
definition PN_OFFSET :: nat where [sm_const]: "PN_OFFSET = 9"
definition PPN2_OFFSET :: nat where [sm_const]: "PPN2_OFFSET = 26"
definition PAGE_ENTRY_ACL_OFFSET :: nat where [sm_const]: "PAGE_ENTRY_ACL_OFFSET = 10"
definition PN_MASK :: u64 where [sm_const]: "PN_MASK = push_bit PN_OFFSET 1 - 1"
definition PPN2_MASK :: u64 where [sm_const]: "PPN2_MASK = push_bit PPN2_OFFSET 1 - 1"
definition ACL_MASK :: u64 where [sm_const]: "ACL_MASK = push_bit PAGE_ENTRY_ACL_OFFSET 1 - 1"
definition SATP_PPN_MASK :: u64 where [sm_const]:
  "SATP_PPN_MASK = push_bit (PN_OFFSET * 2) PPN2_MASK OR push_bit PN_OFFSET PN_MASK OR PN_MASK"
definition PPNs_MASK :: u64 where [sm_const]: "PPNs_MASK = push_bit PAGE_ENTRY_ACL_OFFSET SATP_PPN_MASK"

section \<open>API types\<close>

type_synonym enclave_id_t = u64
type_synonym thread_id_t = u64
type_synonym region_id_t = u64
type_synonym mailbox_id_t = u64

definition OWNER_UNTRUSTED :: u64 where [sm_const]: "OWNER_UNTRUSTED = 1"
definition OWNER_SM :: u64 where [sm_const]: "OWNER_SM = 2"
definition ENCLAVE_THREAD_NONE :: u64 where [sm_const]: "ENCLAVE_THREAD_NONE = 1"

datatype api_result_t =
    MONITOR_OK | MONITOR_INVALID_VALUE | MONITOR_INVALID_STATE | MONITOR_CONCURRENT_CALL
  | MONITOR_ASYNC_EXIT | MONITOR_ACCESS_DENIED | MONITOR_UNSUPPORTED

primrec result_code :: "api_result_t \<Rightarrow> u64" where
  "result_code MONITOR_OK = 0"
| "result_code MONITOR_INVALID_VALUE = 1"
| "result_code MONITOR_INVALID_STATE = 2"
| "result_code MONITOR_CONCURRENT_CALL = 3"
| "result_code MONITOR_ASYNC_EXIT = 4"
| "result_code MONITOR_ACCESS_DENIED = 5"
| "result_code MONITOR_UNSUPPORTED = 6"

datatype region_state_t =
    REGION_STATE_INVALID | REGION_STATE_FREE | REGION_STATE_OWNED | REGION_STATE_BLOCKED

primrec state_code :: "region_state_t \<Rightarrow> u64" where
  "state_code REGION_STATE_INVALID = 0"
| "state_code REGION_STATE_FREE = 1"
| "state_code REGION_STATE_OWNED = 2"
| "state_code REGION_STATE_BLOCKED = 3"

datatype region_type_t =
    REGION_TYPE_SM | REGION_TYPE_UNTRUSTED | REGION_TYPE_ENCLAVE | REGION_TYPE_METADATA

type_synonym cache_partition_t = "nat \<Rightarrow> u8"

section \<open>Structures of the monitor\<close>

type_synonym region_map_t = "nat \<Rightarrow> bool"
type_synonym platform_core_state_t = "nat \<Rightarrow> u64"

text \<open>The word \<^verbatim>\<open>lock_flag\<close> only ever holds 0 and 1: \<^term>\<open>True\<close> is a held lock.\<close>

type_synonym platform_lock_t = bool

datatype enclave_mailbox_state_t =
    ENCLAVE_MAILBOX_STATE_UNUSED | ENCLAVE_MAILBOX_STATE_EMPTY | ENCLAVE_MAILBOX_STATE_FULL

record mailbox_t =
  mb_state :: enclave_mailbox_state_t
  mb_expected_sender :: enclave_id_t
  mb_sender_measurement :: bytes
  mb_message :: bytes

datatype enclave_init_state_t =
    ENCLAVE_STATE_CREATED | ENCLAVE_STATE_HANDLER_LOADED | ENCLAVE_STATE_PAGE_TABLES_LOADED
  | ENCLAVE_STATE_PAGE_DATA_LOADED | ENCLAVE_STATE_INITIALIZED

text \<open>The load calls compare initialisation states with \<^verbatim>\<open>>\<close>: the order of the C enumeration.\<close>

primrec init_state_code :: "enclave_init_state_t \<Rightarrow> nat" where
  "init_state_code ENCLAVE_STATE_CREATED = 0"
| "init_state_code ENCLAVE_STATE_HANDLER_LOADED = 1"
| "init_state_code ENCLAVE_STATE_PAGE_TABLES_LOADED = 2"
| "init_state_code ENCLAVE_STATE_PAGE_DATA_LOADED = 3"
| "init_state_code ENCLAVE_STATE_INITIALIZED = 4"

lemma init_state_code_inject: "init_state_code a = init_state_code b \<Longrightarrow> a = b"
  by (cases a; cases b) simp_all

instantiation enclave_init_state_t :: linorder
begin

definition less_eq_enclave_init_state_t :: "enclave_init_state_t \<Rightarrow> enclave_init_state_t \<Rightarrow> bool" where
  "less_eq_enclave_init_state_t a b \<longleftrightarrow> init_state_code a \<le> init_state_code b"

definition less_enclave_init_state_t :: "enclave_init_state_t \<Rightarrow> enclave_init_state_t \<Rightarrow> bool" where
  "less_enclave_init_state_t a b \<longleftrightarrow> init_state_code a < init_state_code b"

instance
  by standard (auto simp: less_eq_enclave_init_state_t_def less_enclave_init_state_t_def
      dest: init_state_code_inject)

end

lemma not_created_iff: "ENCLAVE_STATE_CREATED < a \<longleftrightarrow> a \<noteq> ENCLAVE_STATE_CREATED"
  by (cases a) (simp_all add: less_enclave_init_state_t_def)

record enclave_platform_csr_t =
  ep_ev_base :: u64
  ep_ev_mask :: u64
  ep_meparbase :: u64
  ep_meparmask :: u64
  ep_eptbr :: u64

record thread_platform_csr_t =
  tp_ev_base :: u64
  tp_ev_mask :: u64
  tp_memrbm :: u64
  tp_meparbase :: u64
  tp_meparmask :: u64
  tp_eptbr :: u64
  tp_mie :: u64
  tp_mideleg :: u64
  tp_medeleg :: u64

record enclave_metadata_t =
  e_init_state :: enclave_init_state_t
  e_last_phys_addr_loaded :: u64
  e_hash_context :: sha512_context
  e_platform_csr :: enclave_platform_csr_t
  e_num_mailboxes :: u64
  e_debug :: bool
  e_measurement :: bytes
  e_public_key :: bytes
  e_secret_key :: bytes
  e_attestation :: bytes
  e_fault_pc :: u64
  e_fault_sp_base :: u64
  e_num_threads :: u64
  e_regions :: region_map_t
  e_mailboxes :: "nat \<Rightarrow> mailbox_t"

record thread_metadata_t =
  t_owner :: enclave_id_t
  t_entry_pc :: u64
  t_entry_sp :: u64
  t_is_scheduled :: bool
  t_untrusted_pc :: u64
  t_untrusted_state :: platform_core_state_t
  t_untrusted_fault_pc :: u64
  t_untrusted_fault_sp :: u64
  t_fault_state :: platform_core_state_t
  t_aex_present :: bool
  t_aex_state :: platform_core_state_t
  t_timer_limit :: u64
  t_platform_csr :: thread_platform_csr_t

definition METADATA_PAGE_INVALID :: u8 where [sm_const]: "METADATA_PAGE_INVALID = 0"
definition METADATA_PAGE_FREE :: u8 where [sm_const]: "METADATA_PAGE_FREE = 1"
definition METADATA_PAGE_ENCLAVE :: u8 where [sm_const]: "METADATA_PAGE_ENCLAVE = 2"
definition METADATA_PAGE_THREAD :: u8 where [sm_const]: "METADATA_PAGE_THREAD = 3"

record sm_core_t =
  core_owner :: enclave_id_t
  core_thread :: thread_id_t
  core_hls_ptr :: u64
  core_mmrbm :: u64
  core_memrbm :: u64

record sm_region_t =
  region_owned_by :: enclave_id_t
  region_type :: region_type_t
  region_st :: region_state_t

record llc_sync_t =
  llc_waiting :: u64
  llc_wait :: bool
  llc_left :: u64
  llc_busy :: bool
  llc_lock :: platform_lock_t

record sm_keys_t =
  manufacturer_public_key :: bytes
  device_public_key_present :: u32
  device_public_key :: bytes
  device_signature :: bytes
  software_public_key_present :: u32
  software_measurement :: bytes
  software_public_key :: bytes
  software_secret_key :: bytes
  software_signature :: bytes
  software_measured_bytes :: u64

text \<open>
  The lock words of the regions, the cores and the untrusted state.  In the source they are the
  \<^verbatim>\<open>lock\<close> fields of \<^verbatim>\<open>sm_region_t\<close>, \<^verbatim>\<open>sm_core_t\<close> and the field \<^verbatim>\<open>untrusted_state_lock\<close>; like every heap
  cell of the model they are indexed by field first, so that what an operation does to the locks
  and what it does to the data they guard are separate components of the state.
\<close>

record sm_locks_t =
  region_locks :: "nat \<Rightarrow> platform_lock_t"
  core_locks :: "nat \<Rightarrow> platform_lock_t"
  untrusted_state_lock :: platform_lock_t

record sm_state_t =
  keys :: sm_keys_t
  cores :: "nat \<Rightarrow> sm_core_t"
  regions :: "nat \<Rightarrow> sm_region_t"
  untrusted_regions :: region_map_t
  untrusted_mailboxes :: "nat \<Rightarrow> mailbox_t"
  llc_partitions :: cache_partition_t
  llc_sync :: llc_sync_t
  console_lock :: platform_lock_t
  locks :: sm_locks_t

section \<open>The machine\<close>

text \<open>The control and status registers of one core that the monitor reads or writes.\<close>

record csr_file =
  csr_mstatus :: u64
  csr_mepc :: u64
  csr_mtvec :: u64
  csr_mscratch :: u64
  csr_mie :: u64
  csr_mip :: u64
  csr_mideleg :: u64
  csr_medeleg :: u64
  csr_satp :: u64
  csr_scounteren :: u64
  csr_mcounteren :: u64
  csr_mevbase :: u64
  csr_mevmask :: u64
  csr_meatp :: u64
  csr_mmrbm :: u64
  csr_memrbm :: u64
  csr_mparbase :: u64
  csr_mparmask :: u64
  csr_meparbase :: u64
  csr_meparmask :: u64
  csr_mspec :: u64

text \<open>
  Accesses that leave the core: a store to the LLC partition controller, a load from the zero
  device (which evicts one LLC line), a memory fence, a flush of the core's private state.
\<close>

datatype bus_event = LlcCtrl u64 | ZeroLoad u64 | Fence | PurgeCore nat | SendIpi "nat" u32

record machine = sm_state_t +
  csrs :: "nat \<Rightarrow> csr_file"
  gpr :: "nat \<Rightarrow> platform_core_state_t"
  trap_frame :: "nat \<Rightarrow> platform_core_state_t"
  pc :: "nat \<Rightarrow> u64"
  mem :: "u64 \<Rightarrow> u8"
  page_info :: "nat \<Rightarrow> nat \<Rightarrow> u8"
  enclaves :: "u64 \<Rightarrow> enclave_metadata_t"
  threads :: "u64 \<Rightarrow> thread_metadata_t"
  timecmp :: "nat \<Rightarrow> u64"
  mtime :: u64
  bus :: "bus_event list"

text \<open>
  What the C sources take from outside: the linker symbols whose addresses the monitor uses, the
  ed25519 entry points \<^verbatim>\<open>enclave_init\<close> calls, and the address translation the hardware performs
  when the monitor accesses caller memory with \<^verbatim>\<open>MPRV\<close> set: a function of the core's CSRs and of the page
  tables in memory (\<^term>\<open>None\<close> is a fault, which ends in \<^verbatim>\<open>bad_trap\<close>).
\<close>

record platform_env =
  trap_vector_from_untrusted :: u64
  stack_ptr :: u64
  enclave_handler_start :: u64
  enclave_handler_end :: u64
  compute_public_signing_key :: "bytes \<Rightarrow> bytes"
  create_secret_signing_key :: "bytes \<Rightarrow> bytes"
  sign :: "bytes \<Rightarrow> bytes \<Rightarrow> bytes \<Rightarrow> bytes"
  u_translate :: "csr_file \<Rightarrow> (u64 \<Rightarrow> u8) \<Rightarrow> u64 \<Rightarrow> u64 option"

end
