(* ===== verification/Machine.thy ===== *)
theory Machine
  imports SM_Types
begin

unbundle bit_operations_syntax

text \<open>
  Operations on the machine that every component uses: physical memory, caller memory, zeroed
  objects and \<^verbatim>\<open>memset\<close>, and updates of one core, one region, one enclave or one thread.
\<close>

section \<open>Physical memory\<close>

definition read_bytes :: "(u64 \<Rightarrow> u8) \<Rightarrow> u64 \<Rightarrow> nat \<Rightarrow> bytes" where
  "read_bytes m a n = map (\<lambda>i. m (a + of_nat i)) [0..<n]"

definition write_bytes :: "u64 \<Rightarrow> bytes \<Rightarrow> (u64 \<Rightarrow> u8) \<Rightarrow> u64 \<Rightarrow> u8" where
  "write_bytes a bs m = (\<lambda>x. if unat (x - a) < length bs then bs ! unat (x - a) else m x)"

definition load64 :: "(u64 \<Rightarrow> u8) \<Rightarrow> u64 \<Rightarrow> u64" where
  "load64 m a = of_le_bytes (read_bytes m a 8)"

definition store64 :: "u64 \<Rightarrow> u64 \<Rightarrow> (u64 \<Rightarrow> u8) \<Rightarrow> u64 \<Rightarrow> u8" where
  "store64 a w = write_bytes a (le_bytes 8 w)"

text \<open>\<^verbatim>\<open>memcpy\<close>, one byte after the other from the low end.\<close>

primrec memcpy :: "nat \<Rightarrow> u64 \<Rightarrow> u64 \<Rightarrow> (u64 \<Rightarrow> u8) \<Rightarrow> u64 \<Rightarrow> u8" where
  "memcpy 0 dest src m = m"
| "memcpy (Suc n) dest src m = memcpy n (dest + 1) (src + 1) (m(dest := m src))"

lemma length_read_bytes [simp]: "length (read_bytes m a n) = n"
  by (simp add: read_bytes_def)

lemma read_write_same:
  assumes "length bs \<le> 2 ^ 64" shows "read_bytes (write_bytes a bs m) a (length bs) = bs"
  by (rule nth_equalityI) (use assms in \<open>auto simp: read_bytes_def write_bytes_def\<close>)

lemma load_store64 [simp]: "load64 (store64 a w m) a = w"
  using read_write_same[of "le_bytes 8 w" a m]
  by (simp add: load64_def store64_def of_le_bytes_le_bytes)

lemma write_bytes_outside: "length bs \<le> unat (x - a) \<Longrightarrow> write_bytes a bs m x = m x"
  by (simp add: write_bytes_def)

lemma memcpy_outside:
  "n \<le> unat (x - dest) \<Longrightarrow> memcpy n dest src m x = m x"
proof (induction n arbitrary: dest src m)
  case (Suc n)
  have "x - dest \<noteq> 0" using Suc.prems by auto
  then have "unat (x - (dest + 1)) = unat (x - dest) - 1"
    using unat_minus_one[of "x - dest"] by (simp add: algebra_simps)
  with Suc.prems have "n \<le> unat (x - (dest + 1))" by simp
  from Suc.IH[OF this] \<open>x - dest \<noteq> 0\<close> show ?case by auto
qed simp

section \<open>Zeroed objects\<close>

definition zero_mailbox :: mailbox_t where
  "zero_mailbox = \<lparr>mb_state = ENCLAVE_MAILBOX_STATE_UNUSED, mb_expected_sender = 0,
     mb_sender_measurement = replicate 64 0, mb_message = replicate 256 0\<rparr>"

definition zero_enclave :: enclave_metadata_t where
  "zero_enclave = \<lparr>e_init_state = ENCLAVE_STATE_CREATED, e_last_phys_addr_loaded = 0,
     e_hash_context = zero_context,
     e_platform_csr = \<lparr>ep_ev_base = 0, ep_ev_mask = 0, ep_meparbase = 0, ep_meparmask = 0, ep_eptbr = 0\<rparr>,
     e_num_mailboxes = 0, e_debug = False,
     e_measurement = replicate 64 0, e_public_key = replicate 32 0,
     e_secret_key = replicate 64 0, e_attestation = replicate 64 0,
     e_fault_pc = 0, e_fault_sp_base = 0, e_num_threads = 0,
     e_regions = (\<lambda>_. False), e_mailboxes = (\<lambda>_. zero_mailbox)\<rparr>"

definition zero_thread :: thread_metadata_t where
  "zero_thread = \<lparr>t_owner = 0, t_entry_pc = 0, t_entry_sp = 0, t_is_scheduled = False,
     t_untrusted_pc = 0, t_untrusted_state = (\<lambda>_. 0), t_untrusted_fault_pc = 0,
     t_untrusted_fault_sp = 0, t_fault_state = (\<lambda>_. 0), t_aex_present = False,
     t_aex_state = (\<lambda>_. 0), t_timer_limit = 0,
     t_platform_csr = \<lparr>tp_ev_base = 0, tp_ev_mask = 0, tp_memrbm = 0, tp_meparbase = 0,
       tp_meparmask = 0, tp_eptbr = 0, tp_mie = 0, tp_mideleg = 0, tp_medeleg = 0\<rparr>\<rparr>"

text \<open>The address range \<open>[a, a + n)\<close>, and \<^verbatim>\<open>memset(a, 0, n)\<close> on every component of the split heap.\<close>

definition in_range :: "u64 \<Rightarrow> nat \<Rightarrow> u64 \<Rightarrow> bool" where
  "in_range a n x \<longleftrightarrow> unat (x - a) < n"

definition page_info_addr :: "nat \<Rightarrow> nat \<Rightarrow> u64" where
  "page_info_addr r p = RAM_BASE + push_bit REGION_SHIFT (of_nat r) + of_nat p"

definition memset_zero :: "u64 \<Rightarrow> nat \<Rightarrow> machine \<Rightarrow> machine" where
  "memset_zero a n s = s\<lparr>
     mem := (\<lambda>x. if in_range a n x then 0 else mem s x),
     page_info := (\<lambda>r p. if in_range a n (page_info_addr r p) then 0 else page_info s r p),
     enclaves := (\<lambda>x. if in_range a n x then zero_enclave else enclaves s x),
     threads := (\<lambda>x. if in_range a n x then zero_thread else threads s x)\<rparr>"

section \<open>Caller memory\<close>

text \<open>
  \<^verbatim>\<open>memcpy_u2m\<close> and \<^verbatim>\<open>memcpy_m2u\<close> (\<^verbatim>\<open>src/clib/memcpy_virt.c\<close>) copy from and to virtual addresses of the caller.
  When both pointers are aligned the C code moves eight bytes at a time; an aligned word lies within
  one page, so its bytes are translated alike and the copy is written byte by byte here.
\<close>

primrec memcpy_u2m :: "platform_env \<Rightarrow> nat \<Rightarrow> machine \<Rightarrow> nat \<Rightarrow> u64 \<Rightarrow> bytes option" where
  "memcpy_u2m env c s 0 u_src = Some []"
| "memcpy_u2m env c s (Suc n) u_src = do {
     p \<leftarrow> u_translate env (csrs s c) (mem s) u_src;
     bs \<leftarrow> memcpy_u2m env c s n (u_src + 1);
     Some (mem s p # bs) }"

primrec memcpy_m2u :: "platform_env \<Rightarrow> nat \<Rightarrow> u64 \<Rightarrow> bytes \<Rightarrow> machine \<Rightarrow> machine option" where
  "memcpy_m2u env c u_dest [] s = Some s"
| "memcpy_m2u env c u_dest (b # bs) s = do {
     p \<leftarrow> u_translate env (csrs s c) (mem s) u_dest;
     memcpy_m2u env c (u_dest + 1) bs (s\<lparr>mem := (mem s)(p := b)\<rparr>) }"

lemma length_memcpy_u2m: "memcpy_u2m env c s n a = Some bs \<Longrightarrow> length bs = n"
  by (induction n arbitrary: a bs) (auto simp: bind_eq_Some_conv)

text \<open>Storing to caller memory changes bytes of \<open>mem\<close> and nothing else.\<close>

lemma memcpy_m2u_mem:
  "memcpy_m2u env c a bs s = Some s' \<Longrightarrow> \<exists>m. s' = s\<lparr>mem := m\<rparr>"
proof (induction bs arbitrary: a s)
  case Nil
  then have "s' = s\<lparr>mem := mem s\<rparr>" by simp
  then show ?case by blast
next
  case (Cons b bs)
  then obtain p where "memcpy_m2u env c (a + 1) bs (s\<lparr>mem := (mem s)(p := b)\<rparr>) = Some s'"
    by (auto simp: bind_eq_Some_conv)
  from Cons.IH[OF this] show ?case by auto
qed

lemma memcpy_u2m_cong:
  "csrs s c = csrs t c \<Longrightarrow> mem s = mem t \<Longrightarrow> memcpy_u2m env c s n a = memcpy_u2m env c t n a"
  by (induction n arbitrary: a) simp_all

text \<open>The copy as a function of the core's CSRs and of memory alone.\<close>

primrec m2u_mem :: "platform_env \<Rightarrow> csr_file \<Rightarrow> u64 \<Rightarrow> bytes \<Rightarrow> (u64 \<Rightarrow> u8) \<Rightarrow> (u64 \<Rightarrow> u8) option" where
  "m2u_mem env r a [] m = Some m"
| "m2u_mem env r a (b # bs) m = do { p \<leftarrow> u_translate env r m a; m2u_mem env r (a + 1) bs (m(p := b)) }"

lemma memcpy_m2u_eq:
  "memcpy_m2u env c a bs s = map_option (\<lambda>m. s\<lparr>mem := m\<rparr>) (m2u_mem env (csrs s c) a bs (mem s))"
proof (induction bs arbitrary: a s)
  case (Cons b bs)
  show ?case
    by (cases "u_translate env (csrs s c) (mem s) a") (simp_all add: Cons.IH fun_upd_def)
qed simp

section \<open>Updates of one component\<close>

definition upd_core :: "nat \<Rightarrow> (sm_core_t \<Rightarrow> sm_core_t) \<Rightarrow> machine \<Rightarrow> machine" where
  "upd_core c f s = s\<lparr>cores := (cores s)(c := f (cores s c))\<rparr>"

definition upd_region :: "nat \<Rightarrow> (sm_region_t \<Rightarrow> sm_region_t) \<Rightarrow> machine \<Rightarrow> machine" where
  "upd_region i f s = s\<lparr>regions := (regions s)(i := f (regions s i))\<rparr>"

definition upd_enclave ::
  "u64 \<Rightarrow> (enclave_metadata_t \<Rightarrow> enclave_metadata_t) \<Rightarrow> machine \<Rightarrow> machine" where
  "upd_enclave e f s = s\<lparr>enclaves := (enclaves s)(e := f (enclaves s e))\<rparr>"

definition upd_thread ::
  "u64 \<Rightarrow> (thread_metadata_t \<Rightarrow> thread_metadata_t) \<Rightarrow> machine \<Rightarrow> machine" where
  "upd_thread t f s = s\<lparr>threads := (threads s)(t := f (threads s t))\<rparr>"

definition upd_csr :: "nat \<Rightarrow> (csr_file \<Rightarrow> csr_file) \<Rightarrow> machine \<Rightarrow> machine" where
  "upd_csr c f s = s\<lparr>csrs := (csrs s)(c := f (csrs s c))\<rparr>"

lemmas upd_defs = upd_core_def upd_region_def upd_enclave_def upd_thread_def upd_csr_def

end
