(* ===== verification/Address.thy ===== *)
theory Address
  imports Machine
begin

unbundle bit_operations_syntax

text \<open>
  The address arithmetic of \<^verbatim>\<open>src/sm.h\<close>: physical addresses to DRAM regions and pages, and back,
  and the sizes of metadata objects in pages.
\<close>

definition addr_to_region_id :: "u64 \<Rightarrow> u64" where
  "addr_to_region_id addr = drop_bit REGION_SHIFT ((addr - RAM_BASE) AND REGION_MASK)"

definition region_id_to_addr :: "u64 \<Rightarrow> u64" where
  "region_id_to_addr region_id = RAM_BASE + push_bit REGION_SHIFT region_id"

definition is_valid_region_id :: "u64 \<Rightarrow> bool" where
  "is_valid_region_id region_id \<longleftrightarrow> region_id < of_nat NUM_REGIONS"

definition is_page_aligned :: "u64 \<Rightarrow> bool" where
  "is_page_aligned addr \<longleftrightarrow> addr AND PAGE_MASK = 0"

definition addr_to_region_page_id :: "u64 \<Rightarrow> u64" where
  "addr_to_region_page_id addr = drop_bit PAGE_SHIFT ((addr - RAM_BASE) AND NOT REGION_MASK)"

definition is_valid_page_id_in_region :: "u64 \<Rightarrow> bool" where
  "is_valid_page_id_in_region page_id \<longleftrightarrow> page_id < of_nat NUM_REGION_PAGES"

text \<open>Sizes of the metadata structures under the LP64 ABI the monitor is compiled for.\<close>

definition sizeof_mailbox_t :: u64 where [sm_const]: "sizeof_mailbox_t = 336"
definition sizeof_enclave_metadata_t :: u64 where [sm_const]: "sizeof_enclave_metadata_t = 592"
definition sizeof_thread_metadata_t :: u64 where [sm_const]: "sizeof_thread_metadata_t = 912"

definition get_metadata_start_page :: u64 where
  "get_metadata_start_page = 1 + (of_nat NUM_REGION_PAGES + PAGE_SIZE - 1) div PAGE_SIZE"

definition thread_metadata_pages :: u64 where
  "thread_metadata_pages = (sizeof_thread_metadata_t + (PAGE_SIZE - 1)) div PAGE_SIZE"

definition enclave_metadata_pages :: "u64 \<Rightarrow> u64" where
  "enclave_metadata_pages num_mailboxes =
     (let enclave_size = sizeof_enclave_metadata_t + num_mailboxes * sizeof_mailbox_t
      in (enclave_size + (PAGE_SIZE - 1)) div PAGE_SIZE)"

section \<open>Numeric form\<close>

lemma unat_region_id: "unat (addr_to_region_id a) = unat (a - RAM_BASE) div 2 ^ 25"
proof -
  have m: "REGION_MASK = NOT (mask 25)" by (simp add: sm_const mask_eq_exp_minus_1)
  have "addr_to_region_id a = drop_bit 25 (a - RAM_BASE)"
    unfolding addr_to_region_id_def REGION_SHIFT_def m
    by (intro bit_word_eqI) (auto simp: bit_simps dest: bit_imp_le_length)
  then show ?thesis by (simp only: unat_drop_bit)
qed

lemma unat_region_page_id: "unat (addr_to_region_page_id a) = unat (a - RAM_BASE) mod 2 ^ 25 div 2 ^ 12"
proof -
  have "NOT REGION_MASK = mask 25" by (simp add: sm_const mask_eq_exp_minus_1)
  then have "addr_to_region_page_id a = drop_bit 12 (take_bit 25 (a - RAM_BASE))"
    by (simp add: addr_to_region_page_id_def PAGE_SHIFT_def take_bit_eq_mask)
  then show ?thesis by (simp only: unat_drop_bit unat_take_bit)
qed

lemma valid_region_id_iff [simp]: "is_valid_region_id r \<longleftrightarrow> unat r < NUM_REGIONS"
  by (simp add: is_valid_region_id_def word_less_nat_alt sm_const)

lemma valid_page_id_iff [simp]: "is_valid_page_id_in_region p \<longleftrightarrow> unat p < NUM_REGION_PAGES"
  by (simp add: is_valid_page_id_in_region_def word_less_nat_alt sm_const)

lemma page_aligned_iff: "is_page_aligned a \<longleftrightarrow> unat a mod 2 ^ 12 = 0"
proof -
  have "PAGE_MASK = mask 12" by (simp add: sm_const mask_eq_exp_minus_1)
  then have "is_page_aligned a \<longleftrightarrow> take_bit 12 a = 0"
    by (simp add: is_page_aligned_def take_bit_eq_mask)
  also have "\<dots> \<longleftrightarrow> unat (take_bit 12 a) = 0" by (simp only: unat_eq_0)
  finally show ?thesis by (simp only: unat_take_bit)
qed

lemma page_id_in_region: "unat (addr_to_region_page_id a) < NUM_REGION_PAGES"
proof -
  have "unat (a - RAM_BASE) mod 2 ^ 25 < 2 ^ 25" by simp
  then have "unat (a - RAM_BASE) mod 2 ^ 25 div 2 ^ 12 < 2 ^ 13"
    by (subst less_mult_imp_div_less) auto
  then show ?thesis by (simp add: unat_region_page_id sm_const)
qed

lemma unat_region_base:
  assumes "unat r < NUM_REGIONS"
  shows "unat (region_id_to_addr r - RAM_BASE) = unat r * 2 ^ 25"
proof -
  have "region_id_to_addr r - RAM_BASE = r * 2 ^ 25"
    by (simp add: region_id_to_addr_def REGION_SHIFT_def push_bit_eq_mult)
  then show ?thesis using assms unat_mult_small[of r "2 ^ 25"] by (simp add: sm_const)
qed

text \<open>A region id survives the trip through the base address of its region.\<close>

lemma region_addr_roundtrip:
  assumes "unat r < NUM_REGIONS"
  shows "addr_to_region_id (region_id_to_addr r) = r"
proof -
  have "unat (addr_to_region_id (region_id_to_addr r)) = unat r"
    using unat_region_base[OF assms] by (simp add: unat_region_id)
  then show ?thesis by (simp only: word_unat_eq_iff)
qed

text \<open>A page-aligned address is determined by its region and page.\<close>

lemma page_aligned_offset: "is_page_aligned (a - RAM_BASE) \<longleftrightarrow> is_page_aligned a"
proof -
  have "unat a = unat ((a - RAM_BASE) + 0x80000000)" by (simp add: RAM_BASE_def)
  also have "\<dots> mod 2 ^ 12 = (unat (a - RAM_BASE) + 2 ^ 31) mod 2 ^ 12"
    by (simp only: unat_word_ariths) (simp add: mod_mod_cancel)
  also have "\<dots> = unat (a - RAM_BASE) mod 2 ^ 12"
    using mod_mult_self1[of "unat (a - RAM_BASE)" "2 ^ 19" "2 ^ 12"] by simp
  finally show ?thesis by (simp only: page_aligned_iff)
qed

lemma page_addr_decompose:
  assumes "is_page_aligned a"
  shows "a = region_id_to_addr (addr_to_region_id a) + push_bit PAGE_SHIFT (addr_to_region_page_id a)"
proof -
  let ?x = "unat (a - RAM_BASE)"
  have "?x mod 2 ^ 12 = 0" using assms by (simp only: page_aligned_iff[symmetric] page_aligned_offset)
  moreover have "?x mod 2 ^ 25 mod 2 ^ 12 = ?x mod 2 ^ 12"
    by (rule mod_mod_cancel) (simp add: le_imp_power_dvd)
  ultimately have p: "?x mod 2 ^ 25 div 2 ^ 12 * 2 ^ 12 = ?x mod 2 ^ 25"
    using div_mult_mod_eq[of "?x mod 2 ^ 25" "2 ^ 12"] by linarith
  have "push_bit 25 (addr_to_region_id a) + push_bit 12 (addr_to_region_page_id a) =
      of_nat (unat (addr_to_region_id a) * 2 ^ 25 + unat (addr_to_region_page_id a) * 2 ^ 12)"
    by (simp add: push_bit_eq_mult)
  also have "\<dots> = of_nat ?x"
    unfolding unat_region_id unat_region_page_id p by (simp only: div_mult_mod_eq)
  finally show ?thesis
    by (simp add: region_id_to_addr_def REGION_SHIFT_def PAGE_SHIFT_def algebra_simps)
qed

lemma page_addr_inject:
  assumes "is_page_aligned a" "is_page_aligned b"
    "addr_to_region_id a = addr_to_region_id b" "addr_to_region_page_id a = addr_to_region_page_id b"
  shows "a = b"
  using page_addr_decompose[OF assms(1)] page_addr_decompose[OF assms(2)] assms(3,4) by simp

section \<open>Metadata sizes\<close>

lemma start_page_value: "get_metadata_start_page = 3"
  by (simp add: get_metadata_start_page_def sm_const)

lemma thread_pages_value: "thread_metadata_pages = 1"
  by (simp add: thread_metadata_pages_def sm_const)

text \<open>
  As long as the byte size does not wrap, the page count covers the structure and wastes less than
  a page; \<open>2 ^ 55\<close> mailboxes are far from wrapping.
\<close>

lemma enclave_pages_cover:
  assumes "unat n < 2 ^ 55"
  shows "592 + unat n * 336 \<le> unat (enclave_metadata_pages n) * 4096 \<and>
    unat (enclave_metadata_pages n) * 4096 < 592 + unat n * 336 + 4096"
proof -
  have "unat (n * 336) = unat n * 336" using assms unat_mult_small[of n 336] by simp
  then have "unat (592 + n * 336 + 4095) = 592 + unat n * 336 + 4095"
    using assms by (subst unat_add_small; (subst unat_add_small)?; simp)
  then have "unat (enclave_metadata_pages n) = (592 + unat n * 336 + 4095) div 4096"
    by (simp add: enclave_metadata_pages_def sm_const unat_div)
  then show ?thesis using div_mult_mod_eq[of "592 + unat n * 336 + 4095" 4096]
      mod_less_divisor[of 4096 "592 + unat n * 336 + 4095"] by linarith
qed

section \<open>Properties\<close>

text \<open>C10. Region index and page index determine a page: a page-aligned address is recovered from the two,
  so no two pages share both.\<close>
theorem page_address_roundtrip:
  assumes "is_page_aligned a"
  shows "region_id_to_addr (addr_to_region_id a) + push_bit PAGE_SHIFT (addr_to_region_page_id a) = a \<and>
    is_valid_page_id_in_region (addr_to_region_page_id a)"
  using page_addr_decompose[OF assms] page_id_in_region[of a] by simp

theorem page_address_roundtrip_witness:
  "region_id_to_addr (addr_to_region_id 0x82003000) + push_bit PAGE_SHIFT (addr_to_region_page_id 0x82003000) = 0x82003000"
proof -
  have "is_page_aligned 0x82003000" by (simp add: is_page_aligned_def PAGE_MASK_def)
  from page_address_roundtrip[OF this] show ?thesis by simp
qed

text \<open>C11. The number of metadata pages of an enclave covers its structure and its mailboxes, with less than a
  page to spare, below $2^{55}$ mailboxes; the product wraps above, and $2^{60}$ mailboxes are given
  a single page.\<close>
theorem enclave_metadata_pages_bounds:
  "(\<forall>n. unat n < 2 ^ 55 \<longrightarrow>
      unat sizeof_enclave_metadata_t + unat n * unat sizeof_mailbox_t \<le> unat (enclave_metadata_pages n) * unat PAGE_SIZE \<and>
      unat (enclave_metadata_pages n) * unat PAGE_SIZE <
        unat sizeof_enclave_metadata_t + unat n * unat sizeof_mailbox_t + unat PAGE_SIZE) \<and>
   enclave_metadata_pages (2 ^ 60) = 1"
  using enclave_pages_cover by (simp add: enclave_metadata_pages_def sm_const)

theorem enclave_metadata_pages_bounds_witness:
  "unat sizeof_enclave_metadata_t + 8 * unat sizeof_mailbox_t \<le> unat (enclave_metadata_pages 8) * unat PAGE_SIZE \<and>
   enclave_metadata_pages (2 ^ 60) = 1"
  using enclave_metadata_pages_bounds by (auto dest: spec[of _ 8])

end
