(* ===== verification/Locks.thy ===== *)
theory Locks
  imports Address
begin

text \<open>
  The lock primitives of \<^verbatim>\<open>platform/platform_lock.h\<close> and the helpers of \<^verbatim>\<open>src/sm.h\<close> that the
  transactions of the API are built from.  An acquisition never blocks: it returns whether the
  lock was free, and leaves it held in both cases.
\<close>

section \<open>Primitives\<close>

definition platform_lock_acquire :: "platform_lock_t \<Rightarrow> bool \<times> platform_lock_t" where
  "platform_lock_acquire l = (\<not> l, True)"

definition platform_lock_release :: "platform_lock_t \<Rightarrow> platform_lock_t" where
  "platform_lock_release l = False"

definition platform_lock_state :: "platform_lock_t \<Rightarrow> bool" where
  "platform_lock_state l = l"

definition upd_locks :: "(sm_locks_t \<Rightarrow> sm_locks_t) \<Rightarrow> machine \<Rightarrow> machine" where
  "upd_locks f s = s\<lparr>locks := f (locks s)\<rparr>"

definition lock_untrusted_state :: "machine \<Rightarrow> bool \<times> machine" where
  "lock_untrusted_state s =
     (let (ok, l) = platform_lock_acquire (untrusted_state_lock (locks s))
      in (ok, upd_locks (\<lambda>k. k\<lparr>untrusted_state_lock := l\<rparr>) s))"

definition unlock_untrusted_state :: "machine \<Rightarrow> machine" where
  "unlock_untrusted_state s =
     upd_locks (\<lambda>k. k\<lparr>untrusted_state_lock := platform_lock_release (untrusted_state_lock k)\<rparr>) s"

definition lock_core :: "u64 \<Rightarrow> machine \<Rightarrow> (bool \<times> machine) option" where
  "lock_core core_id s = do {
     c \<leftarrow> c_index NUM_CORES core_id;
     let (ok, l) = platform_lock_acquire (core_locks (locks s) c);
     Some (ok, upd_locks (\<lambda>k. k\<lparr>core_locks := (core_locks k)(c := l)\<rparr>) s) }"

definition unlock_core :: "u64 \<Rightarrow> machine \<Rightarrow> machine option" where
  "unlock_core core_id s = do {
     c \<leftarrow> c_index NUM_CORES core_id;
     Some (upd_locks (\<lambda>k. k\<lparr>core_locks := (core_locks k)(c := platform_lock_release (core_locks k c))\<rparr>) s) }"

definition lock_region :: "region_id_t \<Rightarrow> machine \<Rightarrow> (bool \<times> machine) option" where
  "lock_region region_id s = do {
     i \<leftarrow> c_index NUM_REGIONS region_id;
     let (ok, l) = platform_lock_acquire (region_locks (locks s) i);
     Some (ok, upd_locks (\<lambda>k. k\<lparr>region_locks := (region_locks k)(i := l)\<rparr>) s) }"

definition unlock_region :: "region_id_t \<Rightarrow> machine \<Rightarrow> machine option" where
  "unlock_region region_id s = do {
     i \<leftarrow> c_index NUM_REGIONS region_id;
     Some (upd_locks (\<lambda>k. k\<lparr>region_locks := (region_locks k)(i := platform_lock_release (region_locks k i))\<rparr>) s) }"

definition no_regions :: region_map_t where
  "no_regions = (\<lambda>_. False)"

definition unlock_regions :: "region_map_t \<Rightarrow> machine \<Rightarrow> machine" where
  "unlock_regions locked_regions s =
     fold (\<lambda>i s. if locked_regions i
                 then upd_locks (\<lambda>k. k\<lparr>region_locks := (region_locks k)(i := platform_lock_release (region_locks k i))\<rparr>) s
                 else s) [0..<NUM_REGIONS] s"

definition add_lock_region ::
  "region_id_t \<Rightarrow> region_map_t \<Rightarrow> machine \<Rightarrow> (bool \<times> region_map_t \<times> machine) option" where
  "add_lock_region region_id locked_regions s = do {
     i \<leftarrow> c_index NUM_REGIONS region_id;
     if locked_regions i then Some (True, locked_regions, s)
     else do {
       (ok, s) \<leftarrow> lock_region region_id s;
       if ok then Some (True, locked_regions(i := True), s)
       else Some (False, locked_regions, s) } }"

section \<open>Closed forms\<close>

lemma upd_locks_same [simp]: "upd_locks id s = s" "upd_locks (\<lambda>k. k) s = s"
  by (auto simp: upd_locks_def)

lemma upd_locks_twice [simp]: "upd_locks f (upd_locks g s) = upd_locks (\<lambda>k. f (g k)) s"
  by (simp add: upd_locks_def)

definition release_map :: "region_map_t \<Rightarrow> sm_locks_t \<Rightarrow> sm_locks_t" where
  "release_map L k = k\<lparr>region_locks := (\<lambda>i. region_locks k i \<and> \<not> (i < NUM_REGIONS \<and> L i))\<rparr>"

lemma release_fold:
  "fold (\<lambda>i s. if L i then upd_locks (\<lambda>k. k\<lparr>region_locks := (region_locks k)(i := False)\<rparr>) s else s) [0..<n] s
   = upd_locks (\<lambda>k. k\<lparr>region_locks := (\<lambda>i. region_locks k i \<and> \<not> (i < n \<and> L i))\<rparr>) s"
proof (induction n)
  case (Suc n)
  show ?case
    by (simp add: Suc) (auto simp: upd_locks_def fun_eq_iff less_Suc_eq intro!: arg_cong[where f="\<lambda>x. s\<lparr>locks := locks s\<lparr>region_locks := x\<rparr>\<rparr>"])
qed simp

lemma unlock_regions_eq: "unlock_regions L s = upd_locks (release_map L) s"
  unfolding unlock_regions_def platform_lock_release_def release_fold
  by (simp add: release_map_def[abs_def])

definition hold_region :: "nat \<Rightarrow> sm_locks_t \<Rightarrow> sm_locks_t" where
  "hold_region i k = k\<lparr>region_locks := (region_locks k)(i := True)\<rparr>"

definition drop_region :: "nat \<Rightarrow> sm_locks_t \<Rightarrow> sm_locks_t" where
  "drop_region i k = k\<lparr>region_locks := (region_locks k)(i := False)\<rparr>"

lemma hold_sel [simp]:
  "core_locks (hold_region i k) = core_locks k"
  "untrusted_state_lock (hold_region i k) = untrusted_state_lock k"
  "region_locks (hold_region i k) = (region_locks k)(i := True)"
  by (auto simp: hold_region_def)

lemma lock_region_eq [lock_unfold]:
  "lock_region r s = (if unat r < NUM_REGIONS
     then Some (\<not> region_locks (locks s) (unat r), upd_locks (hold_region (unat r)) s) else None)"
  by (simp add: lock_region_def c_index_def platform_lock_acquire_def hold_region_def[abs_def])

lemma unlock_region_eq [lock_unfold]:
  "unlock_region r s = (if unat r < NUM_REGIONS
     then Some (upd_locks (\<lambda>k. k\<lparr>region_locks := (region_locks k)(unat r := False)\<rparr>) s) else None)"
  by (simp add: unlock_region_def c_index_def platform_lock_release_def)

lemma lock_core_eq [lock_unfold]:
  "lock_core c s = (if unat c < NUM_CORES
     then Some (\<not> core_locks (locks s) (unat c),
                upd_locks (\<lambda>k. k\<lparr>core_locks := (core_locks k)(unat c := True)\<rparr>) s) else None)"
  by (simp add: lock_core_def c_index_def platform_lock_acquire_def)

lemma unlock_core_eq [lock_unfold]:
  "unlock_core c s = (if unat c < NUM_CORES
     then Some (upd_locks (\<lambda>k. k\<lparr>core_locks := (core_locks k)(unat c := False)\<rparr>) s) else None)"
  by (simp add: unlock_core_def c_index_def platform_lock_release_def)

lemma lock_untrusted_eq [lock_unfold]:
  "lock_untrusted_state s =
     (\<not> untrusted_state_lock (locks s), upd_locks (\<lambda>k. k\<lparr>untrusted_state_lock := True\<rparr>) s)"
  by (simp add: lock_untrusted_state_def platform_lock_acquire_def)

lemma unlock_untrusted_eq [lock_unfold]:
  "unlock_untrusted_state s = upd_locks (\<lambda>k. k\<lparr>untrusted_state_lock := False\<rparr>) s"
  by (simp add: unlock_untrusted_state_def platform_lock_release_def)

lemma add_lock_region_eq [lock_unfold]:
  "add_lock_region r L s =
     (if NUM_REGIONS \<le> unat r then None
      else if L (unat r) then Some (True, L, s)
      else if region_locks (locks s) (unat r) then Some (False, L, upd_locks (hold_region (unat r)) s)
      else Some (True, L(unat r := True), upd_locks (hold_region (unat r)) s))"
  by (simp add: add_lock_region_def c_index_def lock_region_eq)

text \<open>The same facts as equivalences on returning runs, the form the transaction proofs use.\<close>

lemma add_lock_fresh [step_iff]:
  "add_lock_region r no_regions s = Some (ok, L, s') \<longleftrightarrow>
   unat r < NUM_REGIONS \<and> ok = (\<not> region_locks (locks s) (unat r)) \<and>
   L = no_regions(unat r := ok) \<and> s' = upd_locks (hold_region (unat r)) s"
  by (auto simp: add_lock_region_eq no_regions_def)

lemma lock_region_Some [step_iff]:
  "lock_region r s = Some (ok, s') \<longleftrightarrow> unat r < NUM_REGIONS \<and>
   ok = (\<not> region_locks (locks s) (unat r)) \<and> s' = upd_locks (hold_region (unat r)) s"
  by (auto simp: lock_region_eq)

lemma unlock_region_Some [step_iff]:
  "unlock_region r s = Some s' \<longleftrightarrow> unat r < NUM_REGIONS \<and> s' = upd_locks (drop_region (unat r)) s"
  by (auto simp: unlock_region_eq drop_region_def[abs_def])

lemma lock_core_Some [step_iff]:
  "lock_core c s = Some (ok, s') \<longleftrightarrow> unat c < NUM_CORES \<and> ok = (\<not> core_locks (locks s) (unat c)) \<and>
   s' = upd_locks (\<lambda>k. k\<lparr>core_locks := (core_locks k)(unat c := True)\<rparr>) s"
  by (auto simp: lock_core_eq)

lemma unlock_core_Some [step_iff]:
  "unlock_core c s = Some s' \<longleftrightarrow> unat c < NUM_CORES \<and>
   s' = upd_locks (\<lambda>k. k\<lparr>core_locks := (core_locks k)(unat c := False)\<rparr>) s"
  by (auto simp: unlock_core_eq)

lemmas [step_iff] = lock_untrusted_eq unlock_untrusted_eq unlock_regions_eq if_Some

lemmas [lock_algebra] = release_map_def no_regions_def hold_region_def drop_region_def

section \<open>Erasing the locks\<close>

text \<open>
  \<open>erase\<close> forgets who holds what.  Everything a call promises about the data of the monitor is
  stated on erased states, everything it promises about locks is stated separately.
\<close>

definition free_locks :: sm_locks_t where
  "free_locks = \<lparr>region_locks = (\<lambda>_. False), core_locks = (\<lambda>_. False), untrusted_state_lock = False\<rparr>"

definition erase :: "machine \<Rightarrow> machine" where
  "erase s = s\<lparr>locks := free_locks\<rparr>"

lemma free_locks_sel [simp]:
  "\<not> region_locks free_locks i" "\<not> core_locks free_locks i" "\<not> untrusted_state_lock free_locks"
  by (auto simp: free_locks_def)

lemma erase_erase [simp]: "erase (erase s) = erase s"
  by (simp add: erase_def)

lemma erase_upd_locks [simp]: "erase (upd_locks f s) = erase s"
  by (simp add: erase_def upd_locks_def)

lemma erase_eq_iff: "erase s = erase t \<longleftrightarrow> (\<exists>k. t = s\<lparr>locks := k\<rparr>)"
proof
  assume e: "erase s = erase t"
  have "t = (erase t)\<lparr>locks := locks t\<rparr>" by (simp add: erase_def)
  also have "\<dots> = s\<lparr>locks := locks t\<rparr>" unfolding e[symmetric] by (simp add: erase_def)
  finally show "\<exists>k. t = s\<lparr>locks := k\<rparr>" by blast
qed (auto simp: erase_def)

lemma erase_eq_sel:
  assumes "erase s = erase t"
  shows "keys s = keys t" "cores s = cores t" "regions s = regions t" "untrusted_regions s = untrusted_regions t"
    "untrusted_mailboxes s = untrusted_mailboxes t" "llc_partitions s = llc_partitions t" "llc_sync s = llc_sync t"
    "console_lock s = console_lock t" "csrs s = csrs t" "gpr s = gpr t" "trap_frame s = trap_frame t" "pc s = pc t"
    "mem s = mem t" "page_info s = page_info t" "enclaves s = enclaves t" "threads s = threads t"
    "timecmp s = timecmp t" "mtime s = mtime t" "bus s = bus t"
  using assms by (auto simp: erase_eq_iff)

lemma upd_locks_sel [simp, frame]:
  "keys (upd_locks f s) = keys s" "cores (upd_locks f s) = cores s"
  "regions (upd_locks f s) = regions s" "untrusted_regions (upd_locks f s) = untrusted_regions s"
  "untrusted_mailboxes (upd_locks f s) = untrusted_mailboxes s"
  "llc_partitions (upd_locks f s) = llc_partitions s" "llc_sync (upd_locks f s) = llc_sync s"
  "console_lock (upd_locks f s) = console_lock s" "locks (upd_locks f s) = f (locks s)"
  "csrs (upd_locks f s) = csrs s" "gpr (upd_locks f s) = gpr s"
  "trap_frame (upd_locks f s) = trap_frame s" "pc (upd_locks f s) = pc s"
  "mem (upd_locks f s) = mem s" "page_info (upd_locks f s) = page_info s"
  "enclaves (upd_locks f s) = enclaves s" "threads (upd_locks f s) = threads s"
  "timecmp (upd_locks f s) = timecmp s" "mtime (upd_locks f s) = mtime s"
  "bus (upd_locks f s) = bus s"
  by (auto simp: upd_locks_def)

text \<open>Locks commute with every update of the data.\<close>

lemma upd_locks_data [simp]:
  "upd_locks f (upd_core c g s) = upd_core c g (upd_locks f s)"
  "upd_locks f (upd_region i h s) = upd_region i h (upd_locks f s)"
  "upd_locks f (upd_enclave e v s) = upd_enclave e v (upd_locks f s)"
  "upd_locks f (upd_thread t w s) = upd_thread t w (upd_locks f s)"
  "upd_locks f (upd_csr c x s) = upd_csr c x (upd_locks f s)"
  by (auto simp: upd_locks_def upd_defs)

lemma erase_data [simp]:
  "erase (upd_core c g s) = upd_core c g (erase s)"
  "erase (upd_region i h s) = upd_region i h (erase s)"
  "erase (upd_enclave e v s) = upd_enclave e v (erase s)"
  "erase (upd_thread t w s) = upd_thread t w (erase s)"
  "erase (upd_csr c x s) = upd_csr c x (erase s)"
  by (auto simp: erase_def upd_defs)

lemma erase_fields [simp]:
  "erase (s\<lparr>untrusted_regions := a\<rparr>) = (erase s)\<lparr>untrusted_regions := a\<rparr>"
  "erase (s\<lparr>untrusted_mailboxes := b\<rparr>) = (erase s)\<lparr>untrusted_mailboxes := b\<rparr>"
  "erase (s\<lparr>page_info := d\<rparr>) = (erase s)\<lparr>page_info := d\<rparr>"
  "erase (s\<lparr>mem := m\<rparr>) = (erase s)\<lparr>mem := m\<rparr>"
  "erase (s\<lparr>bus := n\<rparr>) = (erase s)\<lparr>bus := n\<rparr>"
  "erase (s\<lparr>gpr := g\<rparr>) = (erase s)\<lparr>gpr := g\<rparr>"
  "erase (s\<lparr>trap_frame := h\<rparr>) = (erase s)\<lparr>trap_frame := h\<rparr>"
  "erase (s\<lparr>pc := i\<rparr>) = (erase s)\<lparr>pc := i\<rparr>"
  "erase (s\<lparr>timecmp := j\<rparr>) = (erase s)\<lparr>timecmp := j\<rparr>"
  by (auto simp: erase_def)

lemma erase_sel [simp]:
  "keys (erase s) = keys s" "cores (erase s) = cores s" "regions (erase s) = regions s"
  "untrusted_regions (erase s) = untrusted_regions s"
  "untrusted_mailboxes (erase s) = untrusted_mailboxes s"
  "llc_partitions (erase s) = llc_partitions s" "llc_sync (erase s) = llc_sync s"
  "csrs (erase s) = csrs s" "gpr (erase s) = gpr s" "trap_frame (erase s) = trap_frame s"
  "pc (erase s) = pc s" "mem (erase s) = mem s" "page_info (erase s) = page_info s"
  "enclaves (erase s) = enclaves s" "threads (erase s) = threads s"
  "timecmp (erase s) = timecmp s" "mtime (erase s) = mtime s" "bus (erase s) = bus s"
  by (auto simp: erase_def)

lemma locks_data [simp, frame]:
  "locks (upd_core c g s) = locks s" "locks (upd_region i h s) = locks s"
  "locks (upd_enclave e v s) = locks s" "locks (upd_thread t w s) = locks s"
  "locks (upd_csr c x s) = locks s"
  by (auto simp: upd_defs)

text \<open>Updates of different components commute; updates of the same one compose.\<close>

lemma upd_region_outward [simp]:
  "upd_core c g (upd_region i h s) = upd_region i h (upd_core c g s)"
  "upd_csr c x (upd_region i h s) = upd_region i h (upd_csr c x s)"
  "upd_enclave e v (upd_region i h s) = upd_region i h (upd_enclave e v s)"
  "upd_thread t w (upd_region i h s) = upd_region i h (upd_thread t w s)"
  "upd_region i h (upd_region i h' s) = upd_region i (\<lambda>m. h (h' m)) s"
  "(upd_region i h s)\<lparr>untrusted_regions := a\<rparr> = upd_region i h (s\<lparr>untrusted_regions := a\<rparr>)"
  "(upd_region i h s)\<lparr>bus := b\<rparr> = upd_region i h (s\<lparr>bus := b\<rparr>)"
  by (auto simp: upd_defs)

lemma upd_sel [simp]:
  "cores (upd_region i h s) = cores s" "cores (upd_enclave e v s) = cores s"
  "cores (upd_thread t w s) = cores s" "cores (upd_csr c x s) = cores s"
  "regions (upd_core c g s) = regions s" "regions (upd_enclave e v s) = regions s"
  "regions (upd_thread t w s) = regions s" "regions (upd_csr c x s) = regions s"
  "enclaves (upd_core c g s) = enclaves s" "enclaves (upd_region i h s) = enclaves s"
  "enclaves (upd_thread t w s) = enclaves s" "enclaves (upd_csr c x s) = enclaves s"
  "threads (upd_core c g s) = threads s" "threads (upd_region i h s) = threads s"
  "threads (upd_enclave e v s) = threads s" "threads (upd_csr c x s) = threads s"
  "csrs (upd_core c g s) = csrs s" "csrs (upd_region i h s) = csrs s"
  "csrs (upd_enclave e v s) = csrs s" "csrs (upd_thread t w s) = csrs s"
  "untrusted_regions (upd_core c g s) = untrusted_regions s"
  "untrusted_regions (upd_region i h s) = untrusted_regions s"
  "untrusted_regions (upd_enclave e v s) = untrusted_regions s"
  "untrusted_regions (upd_thread t w s) = untrusted_regions s"
  "untrusted_regions (upd_csr c x s) = untrusted_regions s"
  "page_info (upd_core c g s) = page_info s" "page_info (upd_region i h s) = page_info s"
  "page_info (upd_enclave e v s) = page_info s" "page_info (upd_thread t w s) = page_info s"
  "page_info (upd_csr c x s) = page_info s"
  "mem (upd_core c g s) = mem s" "mem (upd_region i h s) = mem s"
  "mem (upd_enclave e v s) = mem s" "mem (upd_thread t w s) = mem s" "mem (upd_csr c x s) = mem s"
  "llc_partitions (upd_core c g s) = llc_partitions s" "llc_partitions (upd_region i h s) = llc_partitions s"
  "llc_partitions (upd_csr c x s) = llc_partitions s"
  "bus (upd_core c g s) = bus s" "bus (upd_region i h s) = bus s" "bus (upd_enclave e v s) = bus s"
  "bus (upd_thread t w s) = bus s" "bus (upd_csr c x s) = bus s"
  by (auto simp: upd_defs)

lemma upd_compose [simp]:
  "upd_enclave e v (upd_enclave e v' s) = upd_enclave e (\<lambda>m. v (v' m)) s"
  "upd_thread t w (upd_thread t w' s) = upd_thread t (\<lambda>m. w (w' m)) s"
  "upd_core c g (upd_core c g' s) = upd_core c (\<lambda>m. g (g' m)) s"
  "upd_csr c x (upd_csr c x' s) = upd_csr c (\<lambda>m. x (x' m)) s"
  by (auto simp: upd_defs)

lemma upd_cong:
  "v (enclaves s e) = v' (enclaves s e) \<Longrightarrow> upd_enclave e v s = upd_enclave e v' s"
  "w (threads s t) = w' (threads s t) \<Longrightarrow> upd_thread t w s = upd_thread t w' s"
  "g (cores s c) = g' (cores s c) \<Longrightarrow> upd_core c g s = upd_core c g' s"
  "x (csrs s c) = x' (csrs s c) \<Longrightarrow> upd_csr c x s = upd_csr c x' s"
  by (auto simp: upd_defs)

lemma upd_same [simp]:
  "cores (upd_core c g s) = (cores s)(c := g (cores s c))"
  "regions (upd_region i h s) = (regions s)(i := h (regions s i))"
  "enclaves (upd_enclave e v s) = (enclaves s)(e := v (enclaves s e))"
  "threads (upd_thread t w s) = (threads s)(t := w (threads s t))"
  "csrs (upd_csr c x s) = (csrs s)(c := x (csrs s c))"
  by (auto simp: upd_defs)

lemma memset_locks [simp]:
  "memset_zero a n (upd_locks f s) = upd_locks f (memset_zero a n s)"
  "erase (memset_zero a n s) = memset_zero a n (erase s)"
  "locks (memset_zero a n s) = locks s"
  by (auto simp: memset_zero_def upd_locks_def erase_def cong: if_cong)

lemma memset_erase_sel [simp]:
  "page_info (memset_zero a n (erase s)) = page_info (memset_zero a n s)"
  by (simp add: memset_zero_def cong: if_cong)

lemma memcpy_u2m_locks [simp]:
  "memcpy_u2m env c (upd_locks f s) n a = memcpy_u2m env c s n a"
  by (rule memcpy_u2m_cong) simp_all

end
