(* ===== verification/Platform.thy ===== *)
theory Platform
  imports Locks "HOL-Library.Signed_Division"
begin

unbundle bit_operations_syntax

text \<open>
  The platform layer (\<^verbatim>\<open>platform/*.c\<close>, \<^verbatim>\<open>platform_clean_core.S\<close>): region bitmaps, the region
  protection registers, the registers saved and restored around an enclave, the page table root,
  interrupt delegation and core initialisation.  A core is named by its index, already checked
  against the number of cores; enclave and thread objects by their address.
\<close>

section \<open>Region bitmaps\<close>

definition region_is_accessible :: "u64 \<Rightarrow> nat \<Rightarrow> bool" where
  "region_is_accessible mrbm region_id \<longleftrightarrow> mrbm AND push_bit region_id 1 \<noteq> 0"

definition regions_to_bitmap :: "region_map_t \<Rightarrow> u64" where
  "regions_to_bitmap flags =
     fold (\<lambda>i bitmap. if flags i then bitmap OR push_bit i 1 else bitmap) [0..<NUM_REGIONS] 0"

definition bitmap_to_regions :: "u64 \<Rightarrow> region_map_t" where
  "bitmap_to_regions bitmap = (\<lambda>i. i < NUM_REGIONS \<and> region_is_accessible bitmap i)"

section \<open>Region protection registers\<close>

definition platform_update_memory_protection :: "nat \<Rightarrow> machine \<Rightarrow> machine" where
  "platform_update_memory_protection c s =
     (let mmrbm = regions_to_bitmap (untrusted_regions s);
          memrbm = (if core_owner (cores s c) \<noteq> OWNER_UNTRUSTED
                    then regions_to_bitmap (e_regions (enclaves s (core_owner (cores s c)))) else 0);
          s = upd_core c (\<lambda>k. k\<lparr>core_memrbm := memrbm\<rparr>) s;
          s = upd_core c (\<lambda>k. k\<lparr>core_mmrbm := mmrbm\<rparr>) s;
          s = upd_csr c (\<lambda>r. r\<lparr>csr_mmrbm := mmrbm\<rparr>) s
      in upd_csr c (\<lambda>r. r\<lparr>csr_memrbm := memrbm\<rparr>) s)"

definition platform_update_untrusted_regions :: "nat \<Rightarrow> u64 \<Rightarrow> bool \<Rightarrow> machine \<Rightarrow> machine option" where
  "platform_update_untrusted_regions c index_id flag s = do {
     i \<leftarrow> c_index NUM_REGIONS index_id;
     Some (platform_update_memory_protection c
             (s\<lparr>untrusted_regions := (untrusted_regions s)(i := flag)\<rparr>)) }"

definition platform_update_enclave_regions ::
  "nat \<Rightarrow> u64 \<Rightarrow> u64 \<Rightarrow> bool \<Rightarrow> machine \<Rightarrow> machine option" where
  "platform_update_enclave_regions c enclave index_id flag s = do {
     i \<leftarrow> c_index NUM_REGIONS index_id;
     Some (platform_update_memory_protection c
             (upd_enclave enclave (\<lambda>e. e\<lparr>e_regions := (e_regions e)(i := flag)\<rparr>) s)) }"

definition platform_initialize_memory_protection :: "nat \<Rightarrow> machine \<Rightarrow> machine" where
  "platform_initialize_memory_protection c s =
     (let satp = drop_bit PAGE_SHIFT IDPT_BASE OR push_bit SATP_MODE SATP_MODE_SV39;
          s = upd_csr c (\<lambda>r. r\<lparr>csr_satp := satp\<rparr>) s;
          s = upd_csr c (\<lambda>r. r\<lparr>csr_mevbase := MVBASE_DEFAULT\<rparr>) s;
          s = upd_csr c (\<lambda>r. r\<lparr>csr_mevmask := MVMASK_DEFAULT\<rparr>) s;
          s = platform_update_memory_protection c s;
          s = upd_csr c (\<lambda>r. r\<lparr>csr_mparbase := SM_ADDR\<rparr>) s
      in upd_csr c (\<lambda>r. r\<lparr>csr_mparmask := REGION_MASK\<rparr>) s)"

text \<open>
  The mask is an \<^verbatim>\<open>int\<close> expression: complement, then the truncating remainder of C, then
  complement again, converted to 64 bits.
\<close>

definition handler_mask :: u64 where
  "handler_mask = of_int (NOT ((NOT HANDLER_LEN) smod HANDLER_LEN))"

definition upd_ecsr ::
  "u64 \<Rightarrow> (enclave_platform_csr_t \<Rightarrow> enclave_platform_csr_t) \<Rightarrow> machine \<Rightarrow> machine" where
  "upd_ecsr e f = upd_enclave e (\<lambda>m. m\<lparr>e_platform_csr := f (e_platform_csr m)\<rparr>)"

definition upd_tcsr ::
  "u64 \<Rightarrow> (thread_platform_csr_t \<Rightarrow> thread_platform_csr_t) \<Rightarrow> machine \<Rightarrow> machine" where
  "upd_tcsr t f = upd_thread t (\<lambda>m. m\<lparr>t_platform_csr := f (t_platform_csr m)\<rparr>)"

definition platform_protect_enclave_sm_handler :: "u64 \<Rightarrow> u64 \<Rightarrow> machine \<Rightarrow> machine" where
  "platform_protect_enclave_sm_handler e phys_addr s =
     (let s = upd_ecsr e (\<lambda>p. p\<lparr>ep_meparbase := phys_addr\<rparr>) s
      in upd_ecsr e (\<lambda>p. p\<lparr>ep_meparmask := handler_mask\<rparr>) s)"

text \<open>\<^verbatim>\<open>while(platform_lock_acquire(&core->lock) != 0) {}\<close>: it spins as long as it gets the lock.\<close>

function core_lock_spin :: "platform_lock_t \<Rightarrow> platform_lock_t" where
  "core_lock_spin l =
     (let (ok, l') = platform_lock_acquire l in if ok then core_lock_spin l' else l')"
  by pat_completeness auto
termination
  by (relation "measure (\<lambda>l. if l then 0 else 1)") (auto simp: platform_lock_acquire_def)

declare core_lock_spin.simps [simp del]

definition platform_memory_protection_enter_enclave :: "nat \<Rightarrow> u64 \<Rightarrow> u64 \<Rightarrow> machine \<Rightarrow> machine" where
  "platform_memory_protection_enter_enclave c e t s =
     (let old = csr_mevbase (csrs s c);
          s = upd_csr c (\<lambda>r. r\<lparr>csr_mevbase := ep_ev_base (e_platform_csr (enclaves s e))\<rparr>) s;
          s = upd_tcsr t (\<lambda>p. p\<lparr>tp_ev_base := old\<rparr>) s;
          old = csr_mevmask (csrs s c);
          s = upd_csr c (\<lambda>r. r\<lparr>csr_mevmask := ep_ev_mask (e_platform_csr (enclaves s e))\<rparr>) s;
          s = upd_tcsr t (\<lambda>p. p\<lparr>tp_ev_mask := old\<rparr>) s;
          memrbm = regions_to_bitmap (e_regions (enclaves s e));
          s = upd_locks (\<lambda>k. k\<lparr>core_locks := (core_locks k)(c := core_lock_spin (core_locks k c))\<rparr>) s;
          s = upd_core c (\<lambda>k. k\<lparr>core_memrbm := memrbm\<rparr>) s;
          old = csr_memrbm (csrs s c);
          s = upd_csr c (\<lambda>r. r\<lparr>csr_memrbm := memrbm\<rparr>) s;
          s = upd_tcsr t (\<lambda>p. p\<lparr>tp_memrbm := old\<rparr>) s;
          s = upd_locks (\<lambda>k. k\<lparr>core_locks := (core_locks k)(c := platform_lock_release (core_locks k c))\<rparr>) s;
          old = csr_meparbase (csrs s c);
          s = upd_csr c (\<lambda>r. r\<lparr>csr_meparbase := ep_meparbase (e_platform_csr (enclaves s e))\<rparr>) s;
          s = upd_tcsr t (\<lambda>p. p\<lparr>tp_meparbase := old\<rparr>) s;
          old = csr_meparmask (csrs s c);
          s = upd_csr c (\<lambda>r. r\<lparr>csr_meparmask := ep_meparmask (e_platform_csr (enclaves s e))\<rparr>) s
      in upd_tcsr t (\<lambda>p. p\<lparr>tp_meparmask := old\<rparr>) s)"

definition platform_memory_protection_exit_enclave :: "nat \<Rightarrow> u64 \<Rightarrow> machine \<Rightarrow> machine" where
  "platform_memory_protection_exit_enclave c t s =
     (let p = t_platform_csr (threads s t);
          s = upd_csr c (\<lambda>r. r\<lparr>csr_mevbase := tp_ev_base p\<rparr>) s;
          s = upd_csr c (\<lambda>r. r\<lparr>csr_mevmask := tp_ev_mask p\<rparr>) s;
          s = upd_csr c (\<lambda>r. r\<lparr>csr_memrbm := tp_memrbm p\<rparr>) s;
          s = upd_core c (\<lambda>k. k\<lparr>core_memrbm := tp_memrbm p\<rparr>) s;
          s = upd_csr c (\<lambda>r. r\<lparr>csr_meparbase := tp_meparbase p\<rparr>) s
      in upd_csr c (\<lambda>r. r\<lparr>csr_meparmask := tp_meparmask p\<rparr>) s)"

section \<open>Page table root and interrupts\<close>

definition platform_set_enclave_page_table :: "nat \<Rightarrow> u64 \<Rightarrow> u64 \<Rightarrow> machine \<Rightarrow> machine" where
  "platform_set_enclave_page_table c e t s =
     (let old = csr_meatp (csrs s c);
          s = upd_csr c (\<lambda>r. r\<lparr>csr_meatp := ep_eptbr (e_platform_csr (enclaves s e))\<rparr>) s
      in upd_tcsr t (\<lambda>p. p\<lparr>tp_eptbr := old\<rparr>) s)"

definition platform_restore_untrusted_page_table :: "nat \<Rightarrow> u64 \<Rightarrow> machine \<Rightarrow> machine" where
  "platform_restore_untrusted_page_table c t s =
     upd_csr c (\<lambda>r. r\<lparr>csr_meatp := tp_eptbr (t_platform_csr (threads s t))\<rparr>) s"

definition platform_interrupts_enter_enclave :: "nat \<Rightarrow> u64 \<Rightarrow> machine \<Rightarrow> machine" where
  "platform_interrupts_enter_enclave c t s =
     (let old = csr_mie (csrs s c);
          s = upd_csr c (\<lambda>r. r\<lparr>csr_mie := MIP_MTIP\<rparr>) s;
          s = upd_tcsr t (\<lambda>p. p\<lparr>tp_mie := old\<rparr>) s;
          old = csr_mideleg (csrs s c);
          s = upd_csr c (\<lambda>r. r\<lparr>csr_mideleg := 0\<rparr>) s;
          s = upd_tcsr t (\<lambda>p. p\<lparr>tp_mideleg := old\<rparr>) s;
          old = csr_medeleg (csrs s c);
          s = upd_csr c (\<lambda>r. r\<lparr>csr_medeleg := 0\<rparr>) s
      in upd_tcsr t (\<lambda>p. p\<lparr>tp_medeleg := old\<rparr>) s)"

definition platform_interrupts_exit_enclave :: "nat \<Rightarrow> u64 \<Rightarrow> machine \<Rightarrow> machine" where
  "platform_interrupts_exit_enclave c t s =
     (let p = t_platform_csr (threads s t);
          s = upd_csr c (\<lambda>r. r\<lparr>csr_mie := tp_mie p\<rparr>) s;
          s = upd_csr c (\<lambda>r. r\<lparr>csr_mideleg := tp_mideleg p\<rparr>) s
      in upd_csr c (\<lambda>r. r\<lparr>csr_medeleg := tp_medeleg p\<rparr>) s)"

section \<open>Core state\<close>

definition platform_core_init :: "platform_env \<Rightarrow> nat \<Rightarrow> machine \<Rightarrow> machine" where
  "platform_core_init env c s =
     (let s = upd_csr c (\<lambda>r. r\<lparr>csr_mtvec := trap_vector_from_untrusted env AND NOT 3\<rparr>) s;
          s = upd_csr c (\<lambda>r. r\<lparr>csr_mstatus := 0\<rparr>) s;
          s = upd_csr c (\<lambda>r. r\<lparr>csr_scounteren := - 1\<rparr>) s;
          s = upd_csr c (\<lambda>r. r\<lparr>csr_mcounteren := - 1\<rparr>) s;
          s = upd_csr c (\<lambda>r. r\<lparr>csr_satp := 0\<rparr>) s
      in upd_csr c (\<lambda>r. r\<lparr>csr_mie := MIP_MSIP\<rparr>) s)"

definition platform_disable_speculation :: "nat \<Rightarrow> machine \<Rightarrow> machine" where
  "platform_disable_speculation c = upd_csr c (\<lambda>r. r\<lparr>csr_mspec := csr_mspec r OR MSPEC_NONE\<rparr>)"

definition platform_enable_speculation :: "nat \<Rightarrow> machine \<Rightarrow> machine" where
  "platform_enable_speculation c = upd_csr c (\<lambda>r. r\<lparr>csr_mspec := csr_mspec r AND NOT MSPEC_NONE\<rparr>)"

definition platform_disable_predictors :: "nat \<Rightarrow> machine \<Rightarrow> machine" where
  "platform_disable_predictors c s =
     upd_csr c (\<lambda>r. r\<lparr>csr_mspec := csr_mspec r OR MSPEC_NOUSEPRED\<rparr>)
       (upd_csr c (\<lambda>r. r\<lparr>csr_mspec := csr_mspec r OR MSPEC_NOTRAINPRED\<rparr>) s)"

definition platform_enable_predictors :: "nat \<Rightarrow> machine \<Rightarrow> machine" where
  "platform_enable_predictors c s =
     upd_csr c (\<lambda>r. r\<lparr>csr_mspec := csr_mspec r AND NOT MSPEC_NOUSEPRED\<rparr>)
       (upd_csr c (\<lambda>r. r\<lparr>csr_mspec := csr_mspec r AND NOT MSPEC_NOTRAINPRED\<rparr>) s)"

definition platform_disable_L1 :: "nat \<Rightarrow> machine \<Rightarrow> machine" where
  "platform_disable_L1 c = upd_csr c (\<lambda>r. r\<lparr>csr_mspec := csr_mspec r OR MSPEC_NOUSEL1\<rparr>)"

definition platform_enable_L1 :: "nat \<Rightarrow> machine \<Rightarrow> machine" where
  "platform_enable_L1 c = upd_csr c (\<lambda>r. r\<lparr>csr_mspec := csr_mspec r AND NOT MSPEC_NOUSEL1\<rparr>)"

text \<open>\<^verbatim>\<open>platform_clean_core\<close> zeroes x3 to x31; the second entry point leaves a0 and a1 (x10, x11).\<close>

definition platform_clean_core :: "nat \<Rightarrow> machine \<Rightarrow> machine" where
  "platform_clean_core c s =
     s\<lparr>gpr := (gpr s)(c := (\<lambda>i. if 3 \<le> i \<and> i < NUM_REGISTERS then 0 else gpr s c i))\<rparr>"

definition platform_clean_core_leave_args :: "nat \<Rightarrow> machine \<Rightarrow> machine" where
  "platform_clean_core_leave_args c s =
     s\<lparr>gpr := (gpr s)(c := (\<lambda>i. if 3 \<le> i \<and> i < NUM_REGISTERS \<and> i \<noteq> 10 \<and> i \<noteq> 11 then 0 else gpr s c i))\<rparr>"

definition platform_purge_core :: "nat \<Rightarrow> machine \<Rightarrow> machine" where
  "platform_purge_core c s = s\<lparr>bus := bus s @ [PurgeCore c]\<rparr>"

definition set_reg :: "nat \<Rightarrow> nat \<Rightarrow> u64 \<Rightarrow> machine \<Rightarrow> machine" where
  "set_reg c r v s = s\<lparr>gpr := (gpr s)(c := (gpr s c)(r := v))\<rparr>"

text \<open>The privilege stack for a return to S mode, as written by every path that leaves the monitor.\<close>

definition mstatus_for_s_mode :: "u64 \<Rightarrow> u64" where
  "mstatus_for_s_mode m =
     (let m = m OR MSTATUS_TVM_MASK;
          m = m AND NOT MSTATUS_MPP_MASK;
          m = m OR push_bit 11 1;
          m = m AND NOT MSTATUS_MPIE_MASK;
          m = m OR MSTATUS_SIE_MASK
      in m AND NOT MSTATUS_UIE_MASK)"

definition platform_jump_to_untrusted ::
  "platform_env \<Rightarrow> u64 \<Rightarrow> u64 \<Rightarrow> nat \<Rightarrow> u64 \<Rightarrow> machine \<Rightarrow> machine" where
  "platform_jump_to_untrusted env virtual_pc virtual_sp c fdt_addr s =
     (let s = upd_csr c (\<lambda>r. r\<lparr>csr_mstatus := mstatus_for_s_mode (csr_mstatus r)\<rparr>) s;
          t0 = of_nat c * STACK_SIZE + MENTRY_FRAME_SIZE;
          s = set_reg c 10 (of_nat c) s;
          s = set_reg c 11 fdt_addr s;
          s = upd_csr c (\<lambda>r. r\<lparr>csr_mepc := virtual_pc\<rparr>) s;
          s = set_reg c 2 (stack_ptr env - t0) s;
          s = upd_csr c (\<lambda>r. r\<lparr>csr_mscratch := virtual_sp\<rparr>) s;
          s = platform_clean_core_leave_args c s;
          s = platform_purge_core c s;
          sp = gpr s c 2;
          s = set_reg c 2 (csr_mscratch (csrs s c)) s;
          s = upd_csr c (\<lambda>r. r\<lparr>csr_mscratch := sp\<rparr>) s;
          s = set_reg c 1 0 s;
          s = upd_csr c (\<lambda>r. r\<lparr>csr_mspec := 0\<rparr>) s
      in s\<lparr>pc := (pc s)(c := csr_mepc (csrs s c))\<rparr>)"

section \<open>Bitmaps and maps\<close>

lemma bit_bitmap_fold:
  "n \<le> 64 \<Longrightarrow>
   bit (fold (\<lambda>i b. if f i then b OR push_bit i 1 else b) [0..<n] (0::u64)) j \<longleftrightarrow> j < n \<and> f j"
  by (induction n) (auto simp: bit_simps less_Suc_eq)

lemma bit_regions_to_bitmap [simp]: "bit (regions_to_bitmap f) i \<longleftrightarrow> i < NUM_REGIONS \<and> f i"
  unfolding regions_to_bitmap_def by (subst bit_bitmap_fold) (auto simp: sm_const)

lemma region_is_accessible_bit: "region_is_accessible m i \<longleftrightarrow> bit m i"
proof
  have "\<not> bit m i \<Longrightarrow> m AND push_bit i 1 = 0"
    by (rule bit_word_eqI) (auto simp: bit_simps)
  then show "region_is_accessible m i \<Longrightarrow> bit m i" unfolding region_is_accessible_def by blast
next
  assume b: "bit m i"
  then have "bit (m AND push_bit i 1) i" by (auto simp: bit_simps dest: bit_imp_le_length)
  then show "region_is_accessible m i" unfolding region_is_accessible_def by auto
qed

text \<open>
  An encoding of one type in another: every code decodes to what it encodes, and every value the
  code type has is reached.
\<close>

locale codec =
  fixes encode :: "'a \<Rightarrow> 'b" and decode :: "'b \<Rightarrow> 'a" and valid :: "'a \<Rightarrow> bool"
  assumes decode_encode: "valid x \<Longrightarrow> decode (encode x) = x"
    and encode_decode: "encode (decode y) = y"
    and decode_valid: "valid (decode y)"
begin

lemma encode_inject: "valid x \<Longrightarrow> valid y \<Longrightarrow> encode x = encode y \<longleftrightarrow> x = y"
  using decode_encode by metis

lemma encode_surj: "\<exists>x. valid x \<and> encode x = y"
  using decode_valid encode_decode by blast

end

definition region_map_ok :: "region_map_t \<Rightarrow> bool" where
  "region_map_ok f \<longleftrightarrow> (\<forall>i. f i \<longrightarrow> i < NUM_REGIONS)"

interpretation bitmap: codec regions_to_bitmap bitmap_to_regions region_map_ok
proof unfold_locales
  fix f :: region_map_t and b :: u64
  show "region_map_ok f \<Longrightarrow> bitmap_to_regions (regions_to_bitmap f) = f"
    by (auto simp: bitmap_to_regions_def region_is_accessible_bit region_map_ok_def fun_eq_iff)
  show "regions_to_bitmap (bitmap_to_regions b) = b"
    by (rule bit_word_eqI) (auto simp: bitmap_to_regions_def region_is_accessible_bit sm_const)
  show "region_map_ok (bitmap_to_regions b)"
    by (auto simp: bitmap_to_regions_def region_map_ok_def)
qed

section \<open>What the platform operations leave alone\<close>

lemma core_lock_spin_held [simp]: "core_lock_spin l = True"
  by (cases l) (simp_all add: core_lock_spin.simps platform_lock_acquire_def)

lemma handler_mask_value: "handler_mask = 0"
  by (simp add: handler_mask_def HANDLER_LEN_def)

lemma update_protection_upd [simp]:
  "locks (platform_update_memory_protection c s) = locks s"
  "upd_locks f (platform_update_memory_protection c s) = platform_update_memory_protection c (upd_locks f s)"
  "erase (platform_update_memory_protection c s) = platform_update_memory_protection c (erase s)"
  "platform_update_memory_protection c (upd_region i h s) = upd_region i h (platform_update_memory_protection c s)"
  by (auto simp: platform_update_memory_protection_def Let_def)

lemma update_enclave_regions_Some [step_iff]:
  "platform_update_enclave_regions c e r b s = Some s' \<longleftrightarrow> unat r < NUM_REGIONS \<and>
   s' = platform_update_memory_protection c
          (upd_enclave e (\<lambda>m. m\<lparr>e_regions := (e_regions m)(unat r := b)\<rparr>) s)"
  by (auto simp: platform_update_enclave_regions_def c_index_def)

lemma update_untrusted_regions_Some [step_iff]:
  "platform_update_untrusted_regions c r b s = Some s' \<longleftrightarrow> unat r < NUM_REGIONS \<and>
   s' = platform_update_memory_protection c (s\<lparr>untrusted_regions := (untrusted_regions s)(unat r := b)\<rparr>)"
  by (auto simp: platform_update_untrusted_regions_def c_index_def)

section \<open>Properties\<close>

text \<open>C8. The two encodings of a set of regions, the flags of a region map and the bits of a CSR bitmap,
  are inverse to each other on the 64 regions.\<close>
theorem region_bitmap_roundtrip:
  "regions_to_bitmap (bitmap_to_regions b) = b \<and>
   (\<forall>i. bitmap_to_regions (regions_to_bitmap f) i = (if i < NUM_REGIONS then f i else False))"
  by (auto simp: bitmap_to_regions_def region_is_accessible_bit NUM_REGIONS_def intro!: bit_word_eqI)


end
