(* ===== verification/Metadata.thy ===== *)
theory Metadata
  imports Platform
begin

text \<open>
  The two gatekeepers of metadata regions (\<^verbatim>\<open>src/common/lock_region_iff_*.c\<close>): both lock the region
  a pointer lies in and check that the pointer names metadata pages of the wanted kind.
\<close>

section \<open>Code\<close>

definition unlock_if :: "bool \<Rightarrow> region_id_t \<Rightarrow> machine \<Rightarrow> machine option" where
  "unlock_if b region_id s = (if b then unlock_region region_id s else Some s)"

definition add_lock_region_iff_valid_metadata ::
  "u64 \<Rightarrow> u8 \<Rightarrow> region_map_t \<Rightarrow> machine \<Rightarrow> (api_result_t \<times> region_map_t \<times> machine) option" where
  "add_lock_region_iff_valid_metadata ptr metadata_type locked_regions s =
     (if \<not> is_page_aligned ptr then Some (MONITOR_INVALID_VALUE, locked_regions, s)
      else let region_id = addr_to_region_id ptr in
      if \<not> is_valid_region_id region_id then Some (MONITOR_INVALID_VALUE, locked_regions, s)
      else let page_id = addr_to_region_page_id ptr;
               not_previously_locked = locked_regions (unat region_id)
      in do {
        (ok, L, s) \<leftarrow> add_lock_region region_id locked_regions s;
        if \<not> ok then Some (MONITOR_CONCURRENT_CALL, L, s)
        else if region_type (regions s (unat region_id)) \<noteq> REGION_TYPE_METADATA then do {
          s \<leftarrow> unlock_if not_previously_locked region_id s;
          Some (MONITOR_INVALID_STATE, L, s) }
        else if region_st (regions s (unat region_id)) \<noteq> REGION_STATE_OWNED then do {
          s \<leftarrow> unlock_if not_previously_locked region_id s;
          Some (MONITOR_INVALID_STATE, L, s) }
        else do {
          p \<leftarrow> c_index NUM_REGION_PAGES page_id;
          if page_info s (unat region_id) p \<noteq> metadata_type then do {
            s \<leftarrow> unlock_if not_previously_locked region_id s;
            Some (MONITOR_INVALID_STATE, L, s) }
          else Some (MONITOR_OK, L, s) } })"

definition add_lock_region_iff_valid_enclave where
  "add_lock_region_iff_valid_enclave ptr = add_lock_region_iff_valid_metadata ptr METADATA_PAGE_ENCLAVE"

definition add_lock_region_iff_valid_thread where
  "add_lock_region_iff_valid_thread ptr = add_lock_region_iff_valid_metadata ptr METADATA_PAGE_THREAD"

text \<open>The loop over the requested pages; an index past the page map is undefined behaviour.\<close>

primrec pages_are_free :: "machine \<Rightarrow> nat \<Rightarrow> nat \<Rightarrow> nat \<Rightarrow> bool option" where
  "pages_are_free s r p 0 = Some True"
| "pages_are_free s r p (Suc n) =
     (if NUM_REGION_PAGES \<le> p then None
      else if page_info s r p \<noteq> METADATA_PAGE_FREE then Some False
      else pages_are_free s r (Suc p) n)"

definition add_lock_region_iff_free_metadata_pages ::
  "u64 \<Rightarrow> u64 \<Rightarrow> region_map_t \<Rightarrow> machine \<Rightarrow> (api_result_t \<times> region_map_t \<times> machine) option" where
  "add_lock_region_iff_free_metadata_pages ptr num_pages locked_regions s =
     (if \<not> is_page_aligned ptr then Some (MONITOR_INVALID_VALUE, locked_regions, s)
      else let region_id = addr_to_region_id ptr in
      if \<not> is_valid_region_id region_id then Some (MONITOR_INVALID_VALUE, locked_regions, s)
      else let page_id = addr_to_region_page_id ptr in
      if \<not> is_valid_page_id_in_region (page_id + num_pages - 1)
      then Some (MONITOR_INVALID_VALUE, locked_regions, s)
      else let not_previously_locked = locked_regions (unat region_id)
      in do {
        (ok, L, s) \<leftarrow> add_lock_region region_id locked_regions s;
        if \<not> ok then Some (MONITOR_CONCURRENT_CALL, L, s)
        else if region_type (regions s (unat region_id)) \<noteq> REGION_TYPE_METADATA then do {
          s \<leftarrow> unlock_if not_previously_locked region_id s;
          Some (MONITOR_INVALID_STATE, L, s) }
        else if region_st (regions s (unat region_id)) \<noteq> REGION_STATE_OWNED then do {
          s \<leftarrow> unlock_if not_previously_locked region_id s;
          Some (MONITOR_INVALID_STATE, L, s) }
        else do {
          free \<leftarrow> pages_are_free s (unat region_id) (unat page_id) (unat num_pages);
          if \<not> free then do {
            s \<leftarrow> unlock_if not_previously_locked region_id s;
            Some (MONITOR_INVALID_STATE, L, s) }
          else Some (MONITOR_OK, L, s) } })"

text \<open>The loops that write the page map of a metadata region.\<close>

primrec set_pages :: "nat \<Rightarrow> nat \<Rightarrow> nat \<Rightarrow> u8 \<Rightarrow> machine \<Rightarrow> machine option" where
  "set_pages r p 0 v s = Some s"
| "set_pages r p (Suc n) v s =
     (if NUM_REGION_PAGES \<le> p then None
      else set_pages r (Suc p) n v (s\<lparr>page_info := (page_info s)(r := (page_info s r)(p := v))\<rparr>))"

section \<open>Behaviour\<close>

definition metadata_region :: "u64 \<Rightarrow> machine \<Rightarrow> bool" where
  "metadata_region ptr s \<longleftrightarrow> is_page_aligned ptr \<and> is_valid_region_id (addr_to_region_id ptr) \<and>
     region_type (regions s (unat (addr_to_region_id ptr))) = REGION_TYPE_METADATA \<and>
     region_st (regions s (unat (addr_to_region_id ptr))) = REGION_STATE_OWNED"

definition valid_metadata :: "u64 \<Rightarrow> u8 \<Rightarrow> machine \<Rightarrow> bool" where
  "valid_metadata ptr ty s \<longleftrightarrow> metadata_region ptr s \<and>
     page_info s (unat (addr_to_region_id ptr)) (unat (addr_to_region_page_id ptr)) = ty"

definition free_metadata :: "u64 \<Rightarrow> u64 \<Rightarrow> machine \<Rightarrow> bool" where
  "free_metadata ptr n s \<longleftrightarrow> metadata_region ptr s \<and>
     unat (addr_to_region_page_id ptr + n - 1) < NUM_REGION_PAGES \<and>
     (\<forall>i < unat n. page_info s (unat (addr_to_region_id ptr))
        (unat (addr_to_region_page_id ptr) + i) = METADATA_PAGE_FREE)"

lemma unlock_if_eq: "unat r < NUM_REGIONS \<Longrightarrow>
  unlock_if b r s = Some (if b then upd_locks (drop_region (unat r)) s else s)"
  by (simp add: unlock_if_def unlock_region_eq drop_region_def[abs_def])

lemma hold_region_held: "region_locks (locks s) i \<Longrightarrow> upd_locks (hold_region i) s = s"
  by (simp add: upd_locks_def hold_region_def fun_upd_idem)

text \<open>
  All outcomes of the check.  On the last branch the region has been locked by the call when it
  was not locked before, and it has been released when it was: the flag the source calls
  \<^verbatim>\<open>not_previously_locked\<close> holds the opposite.
\<close>

lemma valid_metadata_cases:
  "add_lock_region_iff_valid_metadata ptr ty L s =
    (let i = unat (addr_to_region_id ptr) in
     if \<not> (is_page_aligned ptr \<and> i < NUM_REGIONS) then Some (MONITOR_INVALID_VALUE, L, s)
     else if \<not> L i \<and> region_locks (locks s) i then Some (MONITOR_CONCURRENT_CALL, L, s)
     else if valid_metadata ptr ty s
     then Some (MONITOR_OK, L(i := True), if L i then s else upd_locks (hold_region i) s)
     else Some (MONITOR_INVALID_STATE, L(i := True),
            upd_locks (if L i then drop_region i else hold_region i) s))"
  using page_id_in_region[of ptr]
  by (simp add: add_lock_region_iff_valid_metadata_def add_lock_region_eq unlock_if_eq Let_def
      valid_metadata_def metadata_region_def c_index_def hold_region_held fun_upd_idem)

lemma valid_metadata_region:
  "valid_metadata p ty s \<Longrightarrow> is_page_aligned p \<and> unat (addr_to_region_id p) < NUM_REGIONS"
  by (auto simp: valid_metadata_def metadata_region_def)

lemma metadata_locks [simp]:
  "metadata_region p (upd_locks f s) = metadata_region p s" "metadata_region p (erase s) = metadata_region p s"
  "valid_metadata p ty (upd_locks f s) = valid_metadata p ty s" "valid_metadata p ty (erase s) = valid_metadata p ty s"
  "free_metadata p n (upd_locks f s) = free_metadata p n s" "free_metadata p n (erase s) = free_metadata p n s"
  by (auto simp: valid_metadata_def metadata_region_def free_metadata_def)

lemmas [step_iff] = add_lock_region_iff_valid_enclave_def add_lock_region_iff_valid_thread_def
  valid_metadata_cases Let_def

lemma pages_are_free_iff:
  "pages_are_free s r p n = Some b \<Longrightarrow> b \<longleftrightarrow> (\<forall>i < n. page_info s r (p + i) = METADATA_PAGE_FREE)"
proof (induction n arbitrary: p)
  case (Suc n)
  show ?case
  proof (cases "page_info s r p = METADATA_PAGE_FREE")
    case True
    with Suc.prems have "pages_are_free s r (Suc p) n = Some b" by (auto split: if_splits)
    from Suc.IH[OF this] True show ?thesis by (auto simp: less_Suc_eq_0_disj)
  next
    case False
    with Suc.prems show ?thesis by (auto split: if_splits intro!: exI[of _ 0])
  qed
qed simp

lemma pages_are_free_total:
  "p + n \<le> NUM_REGION_PAGES \<Longrightarrow> \<exists>b. pages_are_free s r p n = Some b"
  by (induction n arbitrary: p) auto

lemma enclave_pages_bound: "unat (enclave_metadata_pages n) < 2 ^ 52"
proof -
  have "unat (sizeof_enclave_metadata_t + n * sizeof_mailbox_t + (PAGE_SIZE - 1)) < 2 ^ 64"
    by (rule unat_less_64)
  then have "unat (sizeof_enclave_metadata_t + n * sizeof_mailbox_t + (PAGE_SIZE - 1)) div 4096 < 2 ^ 52"
    by (subst less_mult_imp_div_less) auto
  then show ?thesis by (simp add: enclave_metadata_pages_def unat_div PAGE_SIZE_def)
qed

lemma last_page_bound:
  assumes n: "unat n \<le> 2 ^ 52" "n \<noteq> 0"
    and last: "unat (addr_to_region_page_id a + n - 1) < NUM_REGION_PAGES"
  shows "unat (addr_to_region_page_id a) + unat n \<le> NUM_REGION_PAGES"
proof -
  let ?p = "addr_to_region_page_id a"
  have "unat ?p + unat n < 2 ^ 64" using n page_id_in_region[of a] by (simp add: sm_const)
  then have "unat (?p + n) = unat ?p + unat n" by (intro unat_add_small) simp
  moreover have "0 < unat n" using n by (simp add: unat_gt_0)
  ultimately have "unat (?p + n - 1) = unat ?p + unat n - 1"
    using unat_minus_one[of "?p + n"] by (metis add_gr_0 neq0_conv unat_0)
  with last \<open>0 < unat n\<close> show ?thesis by linarith
qed

lemma pages_are_free_run:
  assumes n: "unat n \<le> 2 ^ 52" and last: "unat (addr_to_region_page_id a + n - 1) < NUM_REGION_PAGES"
  shows "pages_are_free s r (unat (addr_to_region_page_id a)) (unat n) =
    Some (\<forall>i < unat n. page_info s r (unat (addr_to_region_page_id a) + i) = METADATA_PAGE_FREE)"
proof (cases "n = 0")
  case False
  from pages_are_free_total[OF last_page_bound[OF n False last], of s r]
  show ?thesis using pages_are_free_iff by fastforce
qed simp

lemma free_metadata_cases:
  assumes "unat n \<le> 2 ^ 52"
  shows "add_lock_region_iff_free_metadata_pages ptr n L s =
    (let i = unat (addr_to_region_id ptr) in
     if \<not> (is_page_aligned ptr \<and> i < NUM_REGIONS \<and>
            unat (addr_to_region_page_id ptr + n - 1) < NUM_REGION_PAGES)
     then Some (MONITOR_INVALID_VALUE, L, s)
     else if \<not> L i \<and> region_locks (locks s) i then Some (MONITOR_CONCURRENT_CALL, L, s)
     else if free_metadata ptr n s
     then Some (MONITOR_OK, L(i := True), if L i then s else upd_locks (hold_region i) s)
     else Some (MONITOR_INVALID_STATE, L(i := True),
            upd_locks (if L i then drop_region i else hold_region i) s))"
  using pages_are_free_run[OF assms, of ptr]
  by (simp add: add_lock_region_iff_free_metadata_pages_def add_lock_region_eq unlock_if_eq Let_def
      free_metadata_def metadata_region_def hold_region_held fun_upd_idem)

lemmas free_cases_enclave [step_iff] =
  free_metadata_cases[OF order.strict_implies_order[OF enclave_pages_bound]]

lemma free_cases_thread [step_iff]:
  "add_lock_region_iff_free_metadata_pages ptr thread_metadata_pages L s =
    (let i = unat (addr_to_region_id ptr) in
     if \<not> (is_page_aligned ptr \<and> i < NUM_REGIONS) then Some (MONITOR_INVALID_VALUE, L, s)
     else if \<not> L i \<and> region_locks (locks s) i then Some (MONITOR_CONCURRENT_CALL, L, s)
     else if free_metadata ptr thread_metadata_pages s
     then Some (MONITOR_OK, L(i := True), if L i then s else upd_locks (hold_region i) s)
     else Some (MONITOR_INVALID_STATE, L(i := True),
            upd_locks (if L i then drop_region i else hold_region i) s))"
  using page_id_in_region[of ptr]
  by (subst free_metadata_cases) (simp_all add: thread_pages_value)

section \<open>Page map updates\<close>

definition fill_pages :: "nat \<Rightarrow> nat \<Rightarrow> nat \<Rightarrow> u8 \<Rightarrow> machine \<Rightarrow> machine" where
  "fill_pages r p n v s =
     s\<lparr>page_info := (page_info s)(r := (\<lambda>q. if p \<le> q \<and> q < p + n then v else page_info s r q))\<rparr>"

lemma fill_pages_0 [simp]: "fill_pages r p 0 v s = s"
proof -
  have "(\<lambda>q. if p \<le> q \<and> q < p + 0 then v else page_info s r q) = page_info s r"
    by (rule ext) (auto dest: leD)
  then show ?thesis unfolding fill_pages_def by simp
qed

lemma fill_pages_step:
  "fill_pages r (Suc p) n v (s\<lparr>page_info := (page_info s)(r := (page_info s r)(p := v))\<rparr>) =
   fill_pages r p (Suc n) v s"
  by (auto simp: fill_pages_def fun_eq_iff intro!: machine.equality)

lemma set_pages_eq:
  "set_pages r p n v s = (if n = 0 \<or> p + n \<le> NUM_REGION_PAGES then Some (fill_pages r p n v s) else None)"
proof (induction n arbitrary: p s)
  case (Suc n)
  show ?case by (auto simp: Suc.IH fill_pages_step)
qed simp

lemma set_pages_Some [step_iff]:
  "set_pages r p n v s = Some s' \<longleftrightarrow> (n = 0 \<or> p + n \<le> NUM_REGION_PAGES) \<and> s' = fill_pages r p n v s"
  by (auto simp: set_pages_eq)

declare set_pages.simps [simp del]

lemma fill_pages_locks [simp]:
  "locks (fill_pages r p n v s) = locks s"
  "fill_pages r p n v (upd_locks f s) = upd_locks f (fill_pages r p n v s)"
  "erase (fill_pages r p n v s) = fill_pages r p n v (erase s)"
  by (auto simp: fill_pages_def upd_locks_def erase_def cong: if_cong)

lemma fill_pages_sel [simp]:
  "cores (fill_pages r p n v s) = cores s" "regions (fill_pages r p n v s) = regions s"
  "enclaves (fill_pages r p n v s) = enclaves s" "threads (fill_pages r p n v s) = threads s"
  "csrs (fill_pages r p n v s) = csrs s" "mem (fill_pages r p n v s) = mem s"
  "untrusted_regions (fill_pages r p n v s) = untrusted_regions s"
  by (auto simp: fill_pages_def)

section \<open>Runs that return\<close>

lemma returns_locks [simp, intro]:
  "unat r < NUM_REGIONS \<Longrightarrow> returns (add_lock_region r L s)"
  "unat r < NUM_REGIONS \<Longrightarrow> returns (lock_region r s)"
  "unat r < NUM_REGIONS \<Longrightarrow> returns (unlock_region r s)"
  "unat c < NUM_CORES \<Longrightarrow> returns (lock_core c s)"
  "unat c < NUM_CORES \<Longrightarrow> returns (unlock_core c s)"
  "unat c < n \<Longrightarrow> returns (c_index n c)"
  by (auto simp: returns_def lock_unfold c_index_def)

lemma returns_metadata [simp, intro]:
  "returns (add_lock_region_iff_valid_metadata p ty L s)"
  "returns (add_lock_region_iff_valid_enclave p L s)"
  "returns (add_lock_region_iff_valid_thread p L s)"
  "returns (add_lock_region_iff_free_metadata_pages p (enclave_metadata_pages n) L s)"
  using enclave_pages_bound[of n]
  by (auto simp: returns_def valid_metadata_cases free_metadata_cases Let_def
      add_lock_region_iff_valid_enclave_def add_lock_region_iff_valid_thread_def)

lemma returns_platform [simp, intro]:
  "unat r < NUM_REGIONS \<Longrightarrow> returns (platform_update_enclave_regions c e r b s)"
  "unat r < NUM_REGIONS \<Longrightarrow> returns (platform_update_untrusted_regions c r b s)"
  by (auto simp: returns_def platform_update_enclave_regions_def platform_update_untrusted_regions_def c_index_def)

end
