(* ===== verification/Contract.thy ===== *)
theory Contract
  imports Metadata
begin

text \<open>
  What an API call promises.  A call is a transaction: it succeeds only when its guard holds and
  then has exactly its effect, or it fails and leaves the data of the monitor as it was.  The
  guard and the effect say nothing of locks; what a call does to the locks, and whether it can
  leave the defined part of the machine, are contracts of their own.
\<close>

type_synonym call = "machine \<Rightarrow> (api_result_t \<times> machine) option"

locale monitor_call =
  fixes call :: call
    and guard :: "machine \<Rightarrow> bool"
    and effect :: "machine \<Rightarrow> machine"
  assumes call_ok: "call s = Some (MONITOR_OK, s') \<Longrightarrow> guard s \<and> erase s' = erase (effect s)"
    and call_error: "call s = Some (r, s') \<Longrightarrow> r \<noteq> MONITOR_OK \<Longrightarrow> erase s' = erase s"
    and call_free: "locks s = free_locks \<Longrightarrow> guard s \<Longrightarrow> \<exists>s'. call s = Some (MONITOR_OK, s')"
begin

lemma call_refines:
  assumes "call s = Some (r, s')"
  shows "erase s' = erase (if r = MONITOR_OK then effect s else s)"
  using assms call_ok call_error by (cases "r = MONITOR_OK") auto

lemma call_uncontended:
  assumes "locks s = free_locks"
  shows "guard s \<longleftrightarrow> (\<exists>s'. call s = Some (MONITOR_OK, s'))"
  using assms call_ok call_free by blast

lemma call_preserves:
  assumes lock_blind: "\<And>s t. erase s = erase t \<Longrightarrow> P s \<Longrightarrow> P t"
    and keeps: "\<And>s. guard s \<Longrightarrow> P s \<Longrightarrow> P (effect s)"
    and P: "P s" and call: "call s = Some (r, s')"
  shows "P s'"
proof (cases "r = MONITOR_OK")
  case True
  with call call_ok have "guard s" "erase (effect s) = erase s'" by auto
  then show ?thesis using keeps P lock_blind by blast
next
  case False
  with call call_error have "erase s = erase s'" by auto
  then show ?thesis using P lock_blind by blast
qed

end

text \<open>The contract as one property of all runs, in the form the transaction rules prove it.\<close>

definition transacts :: "(machine \<Rightarrow> bool) \<Rightarrow> (machine \<Rightarrow> machine) \<Rightarrow> machine \<Rightarrow> api_result_t \<times> machine \<Rightarrow> bool" where
  "transacts guard effect s = (\<lambda>(r, s'). if r = MONITOR_OK
     then guard s \<and> erase s' = erase (effect s) else erase s' = erase s)"

lemma monitor_callI:
  assumes "\<And>s. yields (call s) (transacts guard effect s)"
    and "\<And>s. locks s = free_locks \<Longrightarrow> guard s \<Longrightarrow> \<exists>s'. call s = Some (MONITOR_OK, s')"
  shows "monitor_call call guard effect"
proof
  fix s s' r
  show "call s = Some (MONITOR_OK, s') \<Longrightarrow> guard s \<and> erase s' = erase (effect s)"
    using yieldsD[OF assms(1)] by (fastforce simp: transacts_def)
  show "call s = Some (r, s') \<Longrightarrow> r \<noteq> MONITOR_OK \<Longrightarrow> erase s' = erase s"
    using yieldsD[OF assms(1)] by (fastforce simp: transacts_def)
qed (rule assms(2))

text \<open>A call that gives back every lock it took, on every path.\<close>

locale balanced_call = monitor_call +
  assumes call_locks: "call s = Some (r, s') \<Longrightarrow> locks s' = locks s"
begin

lemma call_exact:
  assumes "call s = Some (r, s')"
  shows "s' = (if r = MONITOR_OK then (effect s)\<lparr>locks := locks s\<rparr> else s)"
proof -
  have "s' = (erase s')\<lparr>locks := locks s\<rparr>"
    using call_locks[OF assms] by (simp add: erase_def)
  then show ?thesis unfolding call_refines[OF assms] by (simp add: erase_def)
qed

lemma call_failure_is_identity:
  "call s = Some (r, s') \<Longrightarrow> r \<noteq> MONITOR_OK \<Longrightarrow> s' = s"
  using call_exact by fastforce

end

text \<open>A call that returns, without undefined behaviour or panic, on every state of some class.\<close>

locale total_call = monitor_call +
  fixes defined :: "machine \<Rightarrow> bool"
  assumes call_returns: "defined s \<Longrightarrow> \<exists>r s'. call s = Some (r, s')"
begin

lemma call_outcome:
  assumes "defined s"
  shows "\<exists>r s'. call s = Some (r, s') \<and> erase s' = erase (if r = MONITOR_OK then effect s else s)"
  using call_returns[OF assms] call_refines by blast

end

lemma balanced_callI:
  assumes "monitor_call call guard effect"
    and "\<And>s. yields (call s) (\<lambda>(r, s'). locks s' = locks s)"
  shows "balanced_call call guard effect"
proof -
  have "balanced_call_axioms call"
    by unfold_locales (use yieldsD[OF assms(2)] in fastforce)
  with assms(1) show ?thesis by (rule balanced_call.intro)
qed

lemma total_callI:
  assumes "monitor_call call guard effect" and "\<And>s. defined s \<Longrightarrow> returns (call s)"
  shows "total_call call guard effect defined"
proof -
  have "total_call_axioms call defined"
    by unfold_locales (use returnsD[OF assms(2)] in fastforce)
  with assms(1) show ?thesis by (rule total_call.intro)
qed

end
