(* ===== verification/Sample.thy ===== *)
theory Sample
  imports Contract
begin

text \<open>
  A concrete machine, the one on which properties with hypotheses are shown not to be vacuous:
  region 0 is the monitor's, region 1 is a metadata region, region 2 is free, region 3 is
  blocked, the others belong to untrusted software, which runs on both cores.
\<close>

definition sample_keys :: sm_keys_t where
  "sample_keys = \<lparr>manufacturer_public_key = replicate 32 1, device_public_key_present = 1,
     device_public_key = replicate 32 2, device_signature = replicate 64 3,
     software_public_key_present = 1, software_measurement = replicate 64 4,
     software_public_key = replicate 32 5, software_secret_key = replicate 64 6,
     software_signature = replicate 64 7, software_measured_bytes = 0\<rparr>"

definition sample_region :: "nat \<Rightarrow> sm_region_t" where
  "sample_region i =
     (if i = 0 then \<lparr>region_owned_by = OWNER_SM, region_type = REGION_TYPE_SM, region_st = REGION_STATE_OWNED\<rparr>
      else if i = 1 then \<lparr>region_owned_by = OWNER_SM, region_type = REGION_TYPE_METADATA, region_st = REGION_STATE_OWNED\<rparr>
      else if i = 2 then \<lparr>region_owned_by = OWNER_SM, region_type = REGION_TYPE_UNTRUSTED, region_st = REGION_STATE_FREE\<rparr>
      else if i = 3 then \<lparr>region_owned_by = OWNER_SM, region_type = REGION_TYPE_UNTRUSTED, region_st = REGION_STATE_BLOCKED\<rparr>
      else \<lparr>region_owned_by = OWNER_UNTRUSTED, region_type = REGION_TYPE_UNTRUSTED, region_st = REGION_STATE_OWNED\<rparr>)"

definition sample_csrs :: csr_file where
  "sample_csrs = \<lparr>csr_mstatus = 0, csr_mepc = 0, csr_mtvec = 0, csr_mscratch = 0, csr_mie = 0, csr_mip = 0,
     csr_mideleg = 0, csr_medeleg = 0, csr_satp = 0, csr_scounteren = 0, csr_mcounteren = 0, csr_mevbase = 0,
     csr_mevmask = 0, csr_meatp = 0, csr_mmrbm = 0xFFFFFFFFFFFFFFF0, csr_memrbm = 0, csr_mparbase = 0,
     csr_mparmask = 0, csr_meparbase = 0, csr_meparmask = 0, csr_mspec = 0\<rparr>"

definition sample :: machine where
  "sample = \<lparr>keys = sample_keys,
     cores = (\<lambda>_. \<lparr>core_owner = OWNER_UNTRUSTED, core_thread = 0, core_hls_ptr = 0,
                   core_mmrbm = 0xFFFFFFFFFFFFFFF0, core_memrbm = 0\<rparr>),
     regions = sample_region, untrusted_regions = (\<lambda>i. 4 \<le> i), untrusted_mailboxes = (\<lambda>_. zero_mailbox),
     llc_partitions = (\<lambda>_. 3),
     llc_sync = \<lparr>llc_waiting = 0, llc_wait = False, llc_left = 0, llc_busy = False, llc_lock = False\<rparr>,
     console_lock = False, locks = free_locks,
     csrs = (\<lambda>_. sample_csrs), gpr = (\<lambda>_ _. 0), trap_frame = (\<lambda>_ _. 0), pc = (\<lambda>_. 0), mem = (\<lambda>_. 0),
     page_info = (\<lambda>r p. if r = 1 then if p < 3 then METADATA_PAGE_INVALID else METADATA_PAGE_FREE else 0),
     enclaves = (\<lambda>_. zero_enclave), threads = (\<lambda>_. zero_thread),
     timecmp = (\<lambda>_. 0), mtime = 0, bus = []\<rparr>"

lemma sample_sel [simp]:
  "keys sample = sample_keys" "regions sample = sample_region" "untrusted_regions sample = (\<lambda>i. 4 \<le> i)"
  "cores sample = (\<lambda>_. \<lparr>core_owner = OWNER_UNTRUSTED, core_thread = 0, core_hls_ptr = 0,
                   core_mmrbm = 0xFFFFFFFFFFFFFFF0, core_memrbm = 0\<rparr>)"
  "locks sample = free_locks" "llc_partitions sample = (\<lambda>_. 3)"
  "csrs sample = (\<lambda>_. sample_csrs)" "mem sample = (\<lambda>_. 0)" "bus sample = []"
  "untrusted_mailboxes sample = (\<lambda>_. zero_mailbox)"
  "page_info sample = (\<lambda>r p. if r = 1 then if p < 3 then METADATA_PAGE_INVALID else METADATA_PAGE_FREE else 0)"
  "enclaves sample = (\<lambda>_. zero_enclave)" "threads sample = (\<lambda>_. zero_thread)"
  by (simp_all add: sample_def)

text \<open>The sample machine with an initialised enclave and one of its threads in the metadata region.\<close>

definition sample_enclave :: machine where
  "sample_enclave = sample\<lparr>
     page_info := (page_info sample)(1 := (page_info sample 1)(3 := METADATA_PAGE_ENCLAVE, 4 := METADATA_PAGE_THREAD)),
     enclaves := (enclaves sample)(0x82003000 := zero_enclave\<lparr>e_init_state := ENCLAVE_STATE_INITIALIZED, e_num_threads := 1\<rparr>),
     threads := (threads sample)(0x82004000 := zero_thread\<lparr>t_owner := 0x82003000, t_entry_pc := 0x1000, t_entry_sp := 0x2000\<rparr>),
     trap_frame := (\<lambda>_ i. of_nat i)\<rparr>"

lemma sample_ids:
  "addr_to_region_id 0x82003000 = 1" "addr_to_region_id 0x82004000 = 1"
  "addr_to_region_page_id 0x82003000 = 3" "addr_to_region_page_id 0x82004000 = 4"
  "is_page_aligned 0x82003000" "is_page_aligned 0x82004000"
  by (simp_all add: addr_to_region_id_def addr_to_region_page_id_def is_page_aligned_def sm_const)

definition sample_env :: platform_env where
  "sample_env = \<lparr>trap_vector_from_untrusted = 0x80001000, stack_ptr = 0x80030000, enclave_handler_start = 0x80010000,
     enclave_handler_end = 0x80011000, compute_public_signing_key = (\<lambda>_. replicate 32 0),
     create_secret_signing_key = (\<lambda>_. replicate 64 0), sign = (\<lambda>_ _ _. replicate 64 0), u_translate = (\<lambda>_ _ a. Some a)\<rparr>"

lemma sample_translate [simp]: "u_translate sample_env r m a = Some a"
  by (simp add: sample_env_def)

lemma sample_u2m_eq: "memcpy_u2m sample_env c s n a = Some (map (\<lambda>i. mem s (a + of_nat i)) [0..<n])"
proof (induction n arbitrary: a)
  case (Suc n)
  have "map (\<lambda>i. mem s (a + of_nat i)) [0..<Suc n] = mem s a # map (\<lambda>i. mem s (a + 1 + of_nat i)) [0..<n]"
    by (simp add: upt_conv_Cons map_Suc_upt[symmetric] o_def algebra_simps del: upt_Suc)
  with Suc show ?case by simp
qed simp

lemma sample_u2m: "\<exists>bs. memcpy_u2m sample_env c s n a = Some bs"
  by (simp add: sample_u2m_eq)

end
