(* ===== verification/Region_API.thy ===== *)
theory Region_API
  imports Sample
begin

unbundle bit_operations_syntax

text \<open>
  The calls that manage DRAM regions (\<^verbatim>\<open>src/api/region_*.c\<close>) and the LLC flush they use
  (\<^verbatim>\<open>src/common/flush_llc_region.c\<close>).  The two calls that stop the other cores, cache partitioning
  and the explicit flush, are in the theory of the LLC protocol.
\<close>

section \<open>LLC flush\<close>

text \<open>One load from the zero device, with the use of the L1 switched around it.\<close>

definition flush_line :: "nat \<Rightarrow> u64 \<Rightarrow> machine \<Rightarrow> machine" where
  "flush_line c addr s =
     (let s = upd_csr c (\<lambda>r. r\<lparr>csr_mspec := csr_mspec r OR 16\<rparr>) s;
          s = s\<lparr>bus := bus s @ [ZeroLoad addr]\<rparr>
      in upd_csr c (\<lambda>r. r\<lparr>csr_mspec := csr_mspec r AND NOT 16\<rparr>) s)"

definition flush_addr :: "nat \<Rightarrow> nat \<Rightarrow> u64" where
  "flush_addr region_id index =
     ZERO_DEVICE_OFFSET OR region_id_to_addr (of_nat region_id) OR push_bit LLC_INDEX_OFFSET (of_nat index)"

definition flush_lines :: "nat \<Rightarrow> nat \<Rightarrow> nat \<Rightarrow> machine \<Rightarrow> machine" where
  "flush_lines c region_id size_index_range s =
     fold (\<lambda>stride s.
        let s = fold (\<lambda>i. flush_line c (flush_addr region_id (size_index_range * stride + i)))
                  [0..<size_index_range] s
        in s\<lparr>bus := bus s @ [Fence]\<rparr>)
       [0..<LLC_NUM_WAYS] s"

text \<open>
  \<^verbatim>\<open>1 << lgsizes\<close> and the line index are \<^verbatim>\<open>int\<close> arithmetic: from 28 on it overflows.
\<close>

definition flush_llc_region :: "nat \<Rightarrow> region_id_t \<Rightarrow> machine \<Rightarrow> machine option" where
  "flush_llc_region c region_id s = do {
     i \<leftarrow> c_index NUM_REGIONS region_id;
     let lg = unat (llc_partitions s i);
     if 27 < lg then None else Some (flush_lines c i (2 ^ lg) s) }"

section \<open>Calls\<close>

definition sm_internal_region_assign :: "u64 \<Rightarrow> region_id_t \<Rightarrow> enclave_id_t \<Rightarrow> call" where
  "sm_internal_region_assign core_id region_id new_owner s =
     (if \<not> is_valid_region_id region_id then Some (MONITOR_INVALID_VALUE, s)
      else do {
        c \<leftarrow> c_index NUM_CORES core_id;
        (ok, L, s) \<leftarrow> add_lock_region region_id no_regions s;
        if \<not> ok then Some (MONITOR_CONCURRENT_CALL, s)
        else if region_st (regions s (unat region_id)) \<noteq> REGION_STATE_FREE
        then Some (MONITOR_INVALID_STATE, unlock_regions L s)
        else do {
          let (ok, s) = lock_untrusted_state s;
          if \<not> ok then Some (MONITOR_CONCURRENT_CALL, unlock_regions L s)
          else do {
            (ok, s) \<leftarrow> lock_core core_id s;
            if \<not> ok then Some (MONITOR_CONCURRENT_CALL, unlock_regions L (unlock_untrusted_state s))
            else do {
              (result, L, s) \<leftarrow>
                (if new_owner \<noteq> OWNER_UNTRUSTED then add_lock_region_iff_valid_enclave new_owner L s
                 else Some (MONITOR_OK, L, s));
              if result \<noteq> MONITOR_OK then Some (result, unlock_regions L s)
              else do {
                let s = upd_region (unat region_id) (\<lambda>m. m\<lparr>
                    region_owned_by := new_owner,
                    region_type := (if new_owner = OWNER_UNTRUSTED then REGION_TYPE_UNTRUSTED
                                    else REGION_TYPE_ENCLAVE),
                    region_st := REGION_STATE_OWNED\<rparr>) s;
                s \<leftarrow> (if new_owner = OWNER_UNTRUSTED
                     then platform_update_untrusted_regions c region_id True s
                     else platform_update_enclave_regions c new_owner region_id True s);
                s \<leftarrow> unlock_core core_id s;
                Some (MONITOR_OK, unlock_regions L (unlock_untrusted_state s)) } } } } })"

definition sm_internal_region_block :: "u64 \<Rightarrow> region_id_t \<Rightarrow> call" where
  "sm_internal_region_block core_id region_id s =
     (if \<not> is_valid_region_id region_id then Some (MONITOR_INVALID_VALUE, s)
      else do {
        c \<leftarrow> c_index NUM_CORES core_id;
        let caller = core_owner (cores s c);
        (ok, L, s) \<leftarrow> add_lock_region region_id no_regions s;
        let region_metadata = regions s (unat region_id);
        if \<not> ok then Some (MONITOR_CONCURRENT_CALL, s)
        else if region_st region_metadata \<noteq> REGION_STATE_OWNED
        then Some (MONITOR_INVALID_STATE, unlock_regions L s)
        else if region_type region_metadata = REGION_TYPE_SM
        then Some (MONITOR_ACCESS_DENIED, unlock_regions L s)
        else if region_owned_by region_metadata \<noteq> caller
        then Some (MONITOR_ACCESS_DENIED, unlock_regions L s)
        else do {
          let (ok, s) = lock_untrusted_state s;
          if \<not> ok then Some (MONITOR_CONCURRENT_CALL, unlock_regions L s)
          else do {
            (ok, s) \<leftarrow> lock_core core_id s;
            if \<not> ok then Some (MONITOR_CONCURRENT_CALL, unlock_regions L (unlock_untrusted_state s))
            else if region_owned_by region_metadata = OWNER_SM then do {
              s \<leftarrow> unlock_core core_id s;
              Some (MONITOR_ACCESS_DENIED, unlock_regions L (unlock_untrusted_state s)) }
            else do {
              (result, L, s) \<leftarrow>
                (if region_owned_by region_metadata \<noteq> OWNER_UNTRUSTED
                 then add_lock_region_iff_valid_enclave (region_owned_by region_metadata) L s
                 else Some (MONITOR_OK, L, s));
              if result \<noteq> MONITOR_OK then do {
                s \<leftarrow> unlock_core core_id s;
                Some (MONITOR_CONCURRENT_CALL, unlock_regions L (unlock_untrusted_state s)) }
              else do {
                let former_owner = region_owned_by region_metadata;
                let s = upd_region (unat region_id) (\<lambda>m. m\<lparr>region_owned_by := OWNER_SM\<rparr>) s;
                s \<leftarrow> (if former_owner \<noteq> OWNER_UNTRUSTED \<and> former_owner \<noteq> OWNER_SM
                     then platform_update_enclave_regions c former_owner region_id False s
                     else if former_owner = OWNER_UNTRUSTED
                     then platform_update_untrusted_regions c region_id False s
                     else Some s);
                let s = upd_region (unat region_id) (\<lambda>m. m\<lparr>region_st := REGION_STATE_BLOCKED\<rparr>) s;
                s \<leftarrow> unlock_core core_id s;
                Some (MONITOR_OK, unlock_regions L (unlock_untrusted_state s)) } } } } })"

definition sm_internal_region_check_owned :: "u64 \<Rightarrow> region_id_t \<Rightarrow> call" where
  "sm_internal_region_check_owned core_id region_id s =
     (if \<not> is_valid_region_id region_id then Some (MONITOR_INVALID_VALUE, s)
      else do {
        c \<leftarrow> c_index NUM_CORES core_id;
        let caller = core_owner (cores s c);
        (ok, s) \<leftarrow> lock_region region_id s;
        if \<not> ok then Some (MONITOR_CONCURRENT_CALL, s)
        else if region_st (regions s (unat region_id)) \<noteq> REGION_STATE_OWNED then do {
          s \<leftarrow> unlock_region region_id s; Some (MONITOR_INVALID_STATE, s) }
        else if region_owned_by (regions s (unat region_id)) \<noteq> caller then do {
          s \<leftarrow> unlock_region region_id s; Some (MONITOR_ACCESS_DENIED, s) }
        else do { s \<leftarrow> unlock_region region_id s; Some (MONITOR_OK, s) } })"

text \<open>The loop of \<^verbatim>\<open>region_free\<close> over the cores; \<^const>\<open>MONITOR_OK\<close> is the normal end of the loop.\<close>

primrec region_free_cores ::
  "nat list \<Rightarrow> region_id_t \<Rightarrow> region_map_t \<Rightarrow> machine \<Rightarrow> (api_result_t \<times> machine) option" where
  "region_free_cores [] region_id L s = Some (MONITOR_OK, s)"
| "region_free_cores (i # is) region_id L s = do {
     (ok, s) \<leftarrow> lock_core (of_nat i) s;
     if \<not> ok then Some (MONITOR_CONCURRENT_CALL, unlock_regions L s)
     else if region_is_accessible (core_mmrbm (cores s i)) (unat region_id)
           \<or> region_is_accessible (core_memrbm (cores s i)) (unat region_id) then do {
       s \<leftarrow> unlock_core (of_nat i) s;
       Some (MONITOR_INVALID_STATE, unlock_regions L s) }
     else do { s \<leftarrow> unlock_core (of_nat i) s; region_free_cores is region_id L s } }"

definition sm_internal_region_free :: "u64 \<Rightarrow> region_id_t \<Rightarrow> call" where
  "sm_internal_region_free core_id region_id s =
     (if \<not> is_valid_region_id region_id then Some (MONITOR_INVALID_VALUE, s)
      else do {
        (ok, L, s) \<leftarrow> add_lock_region region_id no_regions s;
        if \<not> ok then Some (MONITOR_CONCURRENT_CALL, s)
        else if region_st (regions s (unat region_id)) \<noteq> REGION_STATE_BLOCKED
        then Some (MONITOR_INVALID_STATE, unlock_regions L s)
        else do {
          (r, s) \<leftarrow> region_free_cores [0..<NUM_CORES] region_id L s;
          if r \<noteq> MONITOR_OK then Some (r, s)
          else do {
            s \<leftarrow> flush_llc_region (unat core_id) region_id s;
            let s = upd_region (unat region_id) (\<lambda>m. m\<lparr>region_st := REGION_STATE_FREE\<rparr>) s;
            Some (MONITOR_OK, unlock_regions L s) } } })"

definition sm_internal_region_metadata_create :: "region_id_t \<Rightarrow> call" where
  "sm_internal_region_metadata_create region_id s =
     (if \<not> is_valid_region_id region_id then Some (MONITOR_INVALID_VALUE, s)
      else do {
        (ok, s) \<leftarrow> lock_region region_id s;
        if \<not> ok then Some (MONITOR_CONCURRENT_CALL, s)
        else if region_st (regions s (unat region_id)) \<noteq> REGION_STATE_FREE then do {
          s \<leftarrow> unlock_region region_id s; Some (MONITOR_INVALID_STATE, s) }
        else do {
          let s = memset_zero (region_id_to_addr region_id) (unat REGION_SIZE) s;
          let s = s\<lparr>page_info := (page_info s)(unat region_id :=
                (\<lambda>i. if i < NUM_REGION_PAGES
                     then if i < unat get_metadata_start_page then METADATA_PAGE_INVALID else METADATA_PAGE_FREE
                     else page_info s (unat region_id) i))\<rparr>;
          let s = upd_region (unat region_id) (\<lambda>m. m\<lparr>region_owned_by := OWNER_SM,
                region_type := REGION_TYPE_METADATA, region_st := REGION_STATE_OWNED\<rparr>) s;
          s \<leftarrow> unlock_region region_id s;
          Some (MONITOR_OK, s) } })"

definition sm_internal_region_metadata_pages :: u64 where
  "sm_internal_region_metadata_pages = of_nat NUM_REGION_PAGES"

definition sm_internal_region_metadata_start :: u64 where
  "sm_internal_region_metadata_start = get_metadata_start_page"

text \<open>
  \<^verbatim>\<open>region_owner\<close> and \<^verbatim>\<open>region_state\<close> return error codes through the type of their result.
\<close>

definition region_owner :: "region_id_t \<Rightarrow> machine \<Rightarrow> (u64 \<times> machine) option" where
  "region_owner region_id s =
     (if \<not> is_valid_region_id region_id then Some (result_code MONITOR_INVALID_VALUE, s)
      else do {
        (ok, s) \<leftarrow> lock_region region_id s;
        if \<not> ok then Some (result_code MONITOR_CONCURRENT_CALL, s)
        else do {
          let owner = region_owned_by (regions s (unat region_id));
          s \<leftarrow> unlock_region region_id s;
          Some (owner, s) } })"

definition region_owner_lock_free :: "region_id_t \<Rightarrow> machine \<Rightarrow> u64" where
  "region_owner_lock_free region_id s =
     (if \<not> is_valid_region_id region_id then result_code MONITOR_INVALID_VALUE
      else region_owned_by (regions s (unat region_id)))"

definition sm_internal_region_owner :: "region_id_t \<Rightarrow> machine \<Rightarrow> (u64 \<times> machine) option" where
  "sm_internal_region_owner = region_owner"

definition sm_internal_region_state :: "region_id_t \<Rightarrow> machine \<Rightarrow> (u64 \<times> machine) option" where
  "sm_internal_region_state region_id s =
     (if \<not> is_valid_region_id region_id then Some (result_code MONITOR_INVALID_VALUE, s)
      else do {
        (ok, s) \<leftarrow> lock_region region_id s;
        if \<not> ok then Some (result_code MONITOR_CONCURRENT_CALL, s)
        else do {
          let st = state_code (region_st (regions s (unat region_id)));
          s \<leftarrow> unlock_region region_id s;
          Some (st, s) } })"

definition sm_internal_region_update :: "u64 \<Rightarrow> call" where
  "sm_internal_region_update core_id s = do {
     c \<leftarrow> c_index NUM_CORES core_id;
     let (ok, s) = lock_untrusted_state s;
     if \<not> ok then Some (MONITOR_CONCURRENT_CALL, s)
     else do {
       (ok, s) \<leftarrow> lock_core core_id s;
       if \<not> ok then Some (MONITOR_CONCURRENT_CALL, unlock_untrusted_state s)
       else do {
         let s = platform_update_memory_protection c s;
         s \<leftarrow> unlock_core core_id s;
         Some (MONITOR_OK, unlock_untrusted_state s) } } }"

section \<open>Specification\<close>

text \<open>The entry of a region in the region map of its owner.\<close>

definition set_flag :: "enclave_id_t \<Rightarrow> nat \<Rightarrow> bool \<Rightarrow> machine \<Rightarrow> machine" where
  "set_flag owner i flag s =
     (if owner = OWNER_UNTRUSTED then s\<lparr>untrusted_regions := (untrusted_regions s)(i := flag)\<rparr>
      else upd_enclave owner (\<lambda>e. e\<lparr>e_regions := (e_regions e)(i := flag)\<rparr>) s)"

definition assign_guard :: "u64 \<Rightarrow> region_id_t \<Rightarrow> enclave_id_t \<Rightarrow> machine \<Rightarrow> bool" where
  "assign_guard core_id region_id new_owner s \<longleftrightarrow>
     unat core_id < NUM_CORES \<and> unat region_id < NUM_REGIONS \<and>
     region_st (regions s (unat region_id)) = REGION_STATE_FREE \<and>
     (new_owner = OWNER_UNTRUSTED \<or> valid_metadata new_owner METADATA_PAGE_ENCLAVE s)"

definition assign_effect :: "u64 \<Rightarrow> region_id_t \<Rightarrow> enclave_id_t \<Rightarrow> machine \<Rightarrow> machine" where
  "assign_effect core_id region_id new_owner s =
     upd_region (unat region_id) (\<lambda>m. m\<lparr>region_owned_by := new_owner,
         region_type := (if new_owner = OWNER_UNTRUSTED then REGION_TYPE_UNTRUSTED else REGION_TYPE_ENCLAVE),
         region_st := REGION_STATE_OWNED\<rparr>)
       (platform_update_memory_protection (unat core_id) (set_flag new_owner (unat region_id) True s))"

definition block_guard :: "u64 \<Rightarrow> region_id_t \<Rightarrow> machine \<Rightarrow> bool" where
  "block_guard core_id region_id s \<longleftrightarrow> unat core_id < NUM_CORES \<and> unat region_id < NUM_REGIONS \<and>
     (let m = regions s (unat region_id) in
      region_st m = REGION_STATE_OWNED \<and> region_type m \<noteq> REGION_TYPE_SM \<and>
      region_owned_by m = core_owner (cores s (unat core_id)) \<and> region_owned_by m \<noteq> OWNER_SM \<and>
      (region_owned_by m \<noteq> OWNER_UNTRUSTED \<longrightarrow>
         valid_metadata (region_owned_by m) METADATA_PAGE_ENCLAVE s))"

definition block_effect :: "u64 \<Rightarrow> region_id_t \<Rightarrow> machine \<Rightarrow> machine" where
  "block_effect core_id region_id s =
     (let i = unat region_id in
      upd_region i (\<lambda>m. m\<lparr>region_owned_by := OWNER_SM, region_st := REGION_STATE_BLOCKED\<rparr>)
        (platform_update_memory_protection (unat core_id)
          (set_flag (region_owned_by (regions s i)) i False s)))"

definition check_guard :: "u64 \<Rightarrow> region_id_t \<Rightarrow> machine \<Rightarrow> bool" where
  "check_guard core_id region_id s \<longleftrightarrow> unat core_id < NUM_CORES \<and> unat region_id < NUM_REGIONS \<and>
     region_st (regions s (unat region_id)) = REGION_STATE_OWNED \<and>
     region_owned_by (regions s (unat region_id)) = core_owner (cores s (unat core_id))"

text \<open>No core has the region in either of its bitmaps.\<close>

definition no_core_access :: "nat \<Rightarrow> machine \<Rightarrow> bool" where
  "no_core_access i s \<longleftrightarrow> (\<forall>c < NUM_CORES. \<not> bit (core_mmrbm (cores s c)) i \<and> \<not> bit (core_memrbm (cores s c)) i)"

definition free_guard :: "region_id_t \<Rightarrow> machine \<Rightarrow> bool" where
  "free_guard region_id s \<longleftrightarrow> unat region_id < NUM_REGIONS \<and>
     region_st (regions s (unat region_id)) = REGION_STATE_BLOCKED \<and> no_core_access (unat region_id) s \<and>
     unat (llc_partitions s (unat region_id)) \<le> 27"

definition free_effect :: "u64 \<Rightarrow> region_id_t \<Rightarrow> machine \<Rightarrow> machine" where
  "free_effect core_id region_id s =
     upd_region (unat region_id) (\<lambda>m. m\<lparr>region_st := REGION_STATE_FREE\<rparr>)
       (flush_lines (unat core_id) (unat region_id) (2 ^ unat (llc_partitions s (unat region_id))) s)"

definition fresh_page_map :: "nat \<Rightarrow> u8" where
  "fresh_page_map i = (if i < unat get_metadata_start_page then METADATA_PAGE_INVALID else METADATA_PAGE_FREE)"

definition metadata_create_guard :: "region_id_t \<Rightarrow> machine \<Rightarrow> bool" where
  "metadata_create_guard region_id s \<longleftrightarrow> unat region_id < NUM_REGIONS \<and>
     region_st (regions s (unat region_id)) = REGION_STATE_FREE"

definition metadata_create_effect :: "region_id_t \<Rightarrow> machine \<Rightarrow> machine" where
  "metadata_create_effect region_id s =
     (let i = unat region_id; s = memset_zero (region_id_to_addr region_id) (unat REGION_SIZE) s in
      upd_region i (\<lambda>m. m\<lparr>region_owned_by := OWNER_SM, region_type := REGION_TYPE_METADATA,
                          region_st := REGION_STATE_OWNED\<rparr>)
        (s\<lparr>page_info := (page_info s)(i := (\<lambda>p. if p < NUM_REGION_PAGES then fresh_page_map p
                                              else page_info s i p))\<rparr>))"

definition update_guard :: "u64 \<Rightarrow> machine \<Rightarrow> bool" where
  "update_guard core_id s \<longleftrightarrow> unat core_id < NUM_CORES"

section \<open>The calls keep their contracts\<close>

lemma set_flag_locks [simp]:
  "locks (set_flag o' i b s) = locks s" "erase (set_flag o' i b s) = set_flag o' i b (erase s)"
  "set_flag o' i b (upd_region j h s) = upd_region j h (set_flag o' i b s)"
  by (auto simp: set_flag_def)

lemma assign_transacts:
  "yields (sm_internal_region_assign c r e s) (transacts (assign_guard c r e) (assign_effect c r e) s)"
  unfolding sm_internal_region_assign_def
  by (intro yields_rules, simp_all only: prod.case, simp_all add: step_iff split del: if_split)
    (auto simp: transacts_def assign_guard_def assign_effect_def set_flag_def split: if_splits)

lemma assign_succeeds:
  "locks s = free_locks \<Longrightarrow> assign_guard c r e s \<Longrightarrow>
   \<exists>s'. sm_internal_region_assign c r e s = Some (MONITOR_OK, s')"
  by (auto simp: assign_guard_def sm_internal_region_assign_def Let_def lock_unfold valid_metadata_cases
      c_index_def no_regions_def platform_update_enclave_regions_def platform_update_untrusted_regions_def
      add_lock_region_iff_valid_enclave_def dest: valid_metadata_region)

lemma block_transacts:
  "yields (sm_internal_region_block c r s) (transacts (block_guard c r) (block_effect c r) s)"
  unfolding sm_internal_region_block_def
  by (intro yields_rules, simp_all only: prod.case, simp_all add: step_iff split del: if_split)
    (auto simp: transacts_def block_guard_def block_effect_def set_flag_def Let_def split: if_splits)

lemma block_locks: "yields (sm_internal_region_block c r s) (\<lambda>(x, s'). locks s' = locks s)"
  unfolding sm_internal_region_block_def
  by (intro yields_rules, simp_all only: prod.case, simp_all add: step_iff split del: if_split)
    (auto simp: lock_algebra intro!: sm_locks_t.equality ext split: if_splits)

lemma block_succeeds:
  "locks s = free_locks \<Longrightarrow> block_guard c r s \<Longrightarrow>
   \<exists>s'. sm_internal_region_block c r s = Some (MONITOR_OK, s')"
  by (auto simp: block_guard_def sm_internal_region_block_def Let_def lock_unfold valid_metadata_cases
      c_index_def no_regions_def platform_update_enclave_regions_def platform_update_untrusted_regions_def
      add_lock_region_iff_valid_enclave_def dest: valid_metadata_region)

lemma check_transacts:
  "yields (sm_internal_region_check_owned c r s) (transacts (check_guard c r) id s)"
  unfolding sm_internal_region_check_owned_def
  by (intro yields_rules, simp_all only: prod.case)
    (simp_all add: step_iff transacts_def check_guard_def)

lemma check_locks: "yields (sm_internal_region_check_owned c r s) (\<lambda>(x, s'). locks s' = locks s)"
  unfolding sm_internal_region_check_owned_def
  by (intro yields_rules, simp_all only: prod.case, simp_all add: step_iff)
    (auto simp: lock_algebra intro!: sm_locks_t.equality ext split: if_splits)

lemma metadata_create_transacts:
  "yields (sm_internal_region_metadata_create r s)
     (transacts (metadata_create_guard r) (metadata_create_effect r) s)"
  unfolding sm_internal_region_metadata_create_def
  by (intro yields_rules, simp_all only: prod.case)
    (simp_all add: step_iff transacts_def metadata_create_guard_def metadata_create_effect_def
      fresh_page_map_def cong: if_cong)

lemma metadata_create_locks:
  "yields (sm_internal_region_metadata_create r s) (\<lambda>(x, s'). locks s' = locks s)"
  unfolding sm_internal_region_metadata_create_def
  by (intro yields_rules, simp_all only: prod.case, simp_all add: step_iff)
    (auto simp: lock_algebra intro!: sm_locks_t.equality ext split: if_splits)

lemma update_transacts:
  "yields (sm_internal_region_update c s)
     (transacts (update_guard c) (platform_update_memory_protection (unat c)) s)"
  unfolding sm_internal_region_update_def
  by (intro yields_rules, simp_all only: prod.case)
    (simp_all add: step_iff transacts_def update_guard_def)

lemma update_locks: "yields (sm_internal_region_update c s) (\<lambda>(x, s'). locks s' = locks s)"
  unfolding sm_internal_region_update_def
  by (intro yields_rules, simp_all only: prod.case, simp_all add: step_iff)
    (auto intro!: sm_locks_t.equality ext split: if_splits)

section \<open>What a flush does\<close>

text \<open>The accesses of one flush, in order, and the only register it changes.\<close>

definition flush_events :: "nat \<Rightarrow> nat \<Rightarrow> bus_event list" where
  "flush_events r n = concat (map (\<lambda>stride. map (\<lambda>i. ZeroLoad (flush_addr r (n * stride + i))) [0..<n] @ [Fence])
     [0..<LLC_NUM_WAYS])"

definition clear_L1_bypass :: "nat \<Rightarrow> machine \<Rightarrow> machine" where
  "clear_L1_bypass c = upd_csr c (\<lambda>r. r\<lparr>csr_mspec := csr_mspec r AND NOT 16\<rparr>)"

lemma mspec_set_clear: "(x OR 16) AND - 17 = x AND (- 17 :: u64)"
proof -
  have "(x OR 16) AND NOT 16 = x AND (NOT 16 :: u64)" by (rule bit_word_eqI) (auto simp: bit_simps)
  then show ?thesis by simp
qed

lemma flush_line_eq: "flush_line c a s = clear_L1_bypass c (s\<lparr>bus := bus s @ [ZeroLoad a]\<rparr>)"
  by (simp add: flush_line_def clear_L1_bypass_def Let_def upd_csr_def mspec_set_clear)

lemma clear_idem [simp]: "clear_L1_bypass c (clear_L1_bypass c s) = clear_L1_bypass c s"
  by (simp add: clear_L1_bypass_def upd_csr_def)

lemma bus_clear [simp]: "bus (clear_L1_bypass c s) = bus s"
  by (simp add: clear_L1_bypass_def)

lemma clear_bus: "(clear_L1_bypass c s)\<lparr>bus := b\<rparr> = clear_L1_bypass c (s\<lparr>bus := b\<rparr>)"
  by (simp add: clear_L1_bypass_def upd_csr_def)

lemma flush_inner:
  "xs \<noteq> [] \<Longrightarrow> fold (\<lambda>i. flush_line c (f i)) xs s = clear_L1_bypass c (s\<lparr>bus := bus s @ map (\<lambda>i. ZeroLoad (f i)) xs\<rparr>)"
proof (induction xs arbitrary: s)
  case (Cons x xs)
  show ?case
    using Cons.IH[of "flush_line c (f x) s"] by (cases "xs = []") (simp_all add: flush_line_eq clear_bus)
qed simp

lemma flush_outer:
  assumes "0 < n"
  shows "xs \<noteq> [] \<Longrightarrow> fold (\<lambda>stride s. let s = fold (\<lambda>i. flush_line c (g stride i)) [0..<n] s in s\<lparr>bus := bus s @ [Fence]\<rparr>) xs s
    = clear_L1_bypass c (s\<lparr>bus := bus s @ concat (map (\<lambda>stride. map (\<lambda>i. ZeroLoad (g stride i)) [0..<n] @ [Fence]) xs)\<rparr>)"
proof (induction xs arbitrary: s)
  case (Cons x xs)
  have ne: "[0..<n] \<noteq> []" using assms by simp
  show ?case using Cons.IH[of "clear_L1_bypass c (s\<lparr>bus := bus s @ map (\<lambda>i. ZeroLoad (g x i)) [0..<n] @ [Fence]\<rparr>)"]
    by (cases "xs = []") (simp_all add: flush_inner[OF ne] clear_bus)
qed simp

lemma flush_lines_eq:
  "0 < n \<Longrightarrow> flush_lines c r n s = clear_L1_bypass c (s\<lparr>bus := bus s @ flush_events r n\<rparr>)"
  unfolding flush_lines_def flush_events_def by (rule flush_outer) (simp_all add: LLC_NUM_WAYS_def)

lemma flush_Some [step_iff]: "flush_llc_region c r s = Some s' \<longleftrightarrow> unat r < NUM_REGIONS \<and> unat (llc_partitions s (unat r)) \<le> 27 \<and>
  s' = flush_lines c (unat r) (2 ^ unat (llc_partitions s (unat r))) s"
  by (auto simp: flush_llc_region_def c_index_def Let_def)

lemma flush_lines_locks [simp]:
  assumes "0 < n"
  shows "locks (flush_lines c r n s) = locks s"
    "erase (flush_lines c r n s) = flush_lines c r n (erase s)"
    "flush_lines c r n (upd_locks f s) = upd_locks f (flush_lines c r n s)"
  using assms by (auto simp: flush_lines_eq clear_L1_bypass_def) (auto simp: upd_locks_def upd_csr_def)

section \<open>Freeing a region\<close>

lemma lock_core_again:
  "core_locks (locks s) c \<Longrightarrow> upd_locks (\<lambda>k. k\<lparr>core_locks := (core_locks k)(c := True)\<rparr>) s = s"
  "\<not> core_locks (locks s) c \<Longrightarrow> upd_locks (\<lambda>k. k\<lparr>core_locks := (core_locks k)(c := False)\<rparr>) s = s"
  by (auto simp: upd_locks_def fun_upd_idem)

definition core_objects :: "nat \<Rightarrow> machine \<Rightarrow> nat \<Rightarrow> bool" where
  "core_objects i s c \<longleftrightarrow> core_locks (locks s) c \<or> bit (core_mmrbm (cores s c)) i \<or> bit (core_memrbm (cores s c)) i"

lemma region_free_cores_eq [step_iff]:
  "set cs \<subseteq> {..<NUM_CORES} \<Longrightarrow> region_free_cores cs r L s =
    (case find (core_objects (unat r) s) cs of
       None \<Rightarrow> Some (MONITOR_OK, s)
     | Some c \<Rightarrow> Some (if core_locks (locks s) c then MONITOR_CONCURRENT_CALL else MONITOR_INVALID_STATE,
                       unlock_regions L s))"
  by (induction cs) (auto simp: lock_unfold lock_core_again core_objects_def region_is_accessible_bit NUM_CORES_def)

lemma all_cores: "set [0..<NUM_CORES] \<subseteq> {..<NUM_CORES}"
  by auto

lemma no_core_objects:
  "find (core_objects i s) [0..<NUM_CORES] = None \<longleftrightarrow> no_core_access i s \<and> (\<forall>c < NUM_CORES. \<not> core_locks (locks s) c)"
  by (auto simp: find_None_iff core_objects_def no_core_access_def)

lemma core_objects_locks [simp]:
  "core_objects i (upd_locks (hold_region j) s) = core_objects i s"
  by (simp add: core_objects_def fun_eq_iff)

lemma free_transacts:
  "yields (sm_internal_region_free c r s) (transacts (free_guard r) (free_effect c r) s)"
  unfolding sm_internal_region_free_def region_free_cores_eq[OF all_cores]
  by (intro yields_rules, simp_all only: prod.case, simp_all add: step_iff split: option.splits)
    (auto simp: transacts_def free_guard_def free_effect_def no_core_objects split: if_splits)

lemma free_locks_kept: "yields (sm_internal_region_free c r s) (\<lambda>(x, s'). locks s' = locks s)"
  unfolding sm_internal_region_free_def region_free_cores_eq[OF all_cores]
  by (intro yields_rules, simp_all only: prod.case, simp_all add: step_iff split: option.splits)
    (auto simp: lock_algebra intro!: sm_locks_t.equality ext split: if_splits)

lemma free_succeeds:
  "locks s = free_locks \<Longrightarrow> free_guard r s \<Longrightarrow> \<exists>s'. sm_internal_region_free c r s = Some (MONITOR_OK, s')"
  using no_core_objects[of "unat r" s]
  by (auto simp: free_guard_def sm_internal_region_free_def region_free_cores_eq[OF all_cores] Let_def lock_unfold
      c_index_def no_regions_def flush_llc_region_def)
section \<open>Contracts\<close>

lemma check_succeeds:
  "locks s = free_locks \<Longrightarrow> check_guard c r s \<Longrightarrow>
   \<exists>s'. sm_internal_region_check_owned c r s = Some (MONITOR_OK, s')"
  by (auto simp: check_guard_def sm_internal_region_check_owned_def lock_unfold c_index_def)

lemma metadata_create_succeeds:
  "locks s = free_locks \<Longrightarrow> metadata_create_guard r s \<Longrightarrow>
   \<exists>s'. sm_internal_region_metadata_create r s = Some (MONITOR_OK, s')"
  by (auto simp: metadata_create_guard_def sm_internal_region_metadata_create_def lock_unfold Let_def)

lemma update_succeeds:
  "locks s = free_locks \<Longrightarrow> update_guard c s \<Longrightarrow>
   \<exists>s'. sm_internal_region_update c s = Some (MONITOR_OK, s')"
  by (auto simp: update_guard_def sm_internal_region_update_def lock_unfold Let_def c_index_def)

interpretation assign: monitor_call "sm_internal_region_assign c r e" "assign_guard c r e" "assign_effect c r e"
  for c r e
  by (rule monitor_callI[OF assign_transacts assign_succeeds])

interpretation block: balanced_call "sm_internal_region_block c r" "block_guard c r" "block_effect c r"
  for c r
  by (rule balanced_callI[OF monitor_callI[OF block_transacts block_succeeds] block_locks])

interpretation check_owned: balanced_call "sm_internal_region_check_owned c r" "check_guard c r" id
  for c r
  by (rule balanced_callI[OF monitor_callI[OF check_transacts check_succeeds] check_locks])

interpretation free: balanced_call "sm_internal_region_free c r" "free_guard r" "free_effect c r"
  for c r
  by (rule balanced_callI[OF monitor_callI[OF free_transacts free_succeeds] free_locks_kept])

interpretation metadata_create: balanced_call "sm_internal_region_metadata_create r"
    "metadata_create_guard r" "metadata_create_effect r"
  for r
  by (rule balanced_callI[OF monitor_callI[OF metadata_create_transacts metadata_create_succeeds]
        metadata_create_locks])

interpretation update: balanced_call "sm_internal_region_update c" "update_guard c"
    "platform_update_memory_protection (unat c)"
  for c
  by (rule balanced_callI[OF monitor_callI[OF update_transacts update_succeeds] update_locks])

section \<open>Totality\<close>

text \<open>On a core of the platform these calls have no undefined behaviour.\<close>

lemma assign_returns: "unat c < NUM_CORES \<Longrightarrow> returns (sm_internal_region_assign c r e s)"
  unfolding sm_internal_region_assign_def by (intro returns_rules) simp_all

lemma block_returns: "unat c < NUM_CORES \<Longrightarrow> returns (sm_internal_region_block c r s)"
  unfolding sm_internal_region_block_def by (intro returns_rules) simp_all

lemma check_returns: "unat c < NUM_CORES \<Longrightarrow> returns (sm_internal_region_check_owned c r s)"
  unfolding sm_internal_region_check_owned_def by (intro returns_rules) simp_all

lemma metadata_create_returns: "returns (sm_internal_region_metadata_create r s)"
  unfolding sm_internal_region_metadata_create_def by (intro returns_rules) simp_all

lemma update_returns: "unat c < NUM_CORES \<Longrightarrow> returns (sm_internal_region_update c s)"
  unfolding sm_internal_region_update_def by (intro returns_rules) simp_all

lemma free_returns: "unat (llc_partitions s (unat r)) \<le> 27 \<Longrightarrow> returns (sm_internal_region_free c r s)"
  unfolding sm_internal_region_free_def region_free_cores_eq[OF all_cores] 
  by (intro returns_rules) (auto simp: step_iff returns_def flush_llc_region_def c_index_def split: option.splits)

lemma owner_spec: "region_owner r s = Some (if unat r < NUM_REGIONS then if region_locks (locks s) (unat r) then 3 else region_owned_by (regions s (unat r)) else 1, s)"
  by (auto simp: region_owner_def lock_unfold Let_def upd_locks_def lock_algebra fun_upd_idem)

lemma state_spec: "sm_internal_region_state r s = Some (if unat r < NUM_REGIONS then if region_locks (locks s) (unat r) then 3 else state_code (region_st (regions s (unat r))) else 1, s)"
  by (auto simp: sm_internal_region_state_def lock_unfold Let_def upd_locks_def lock_algebra fun_upd_idem)

interpretation block_total: total_call "sm_internal_region_block c r" "block_guard c r" "block_effect c r"
    "\<lambda>_. unat c < NUM_CORES"
  for c r
  by (rule total_callI[OF block.monitor_call_axioms block_returns])

interpretation assign_total: total_call "sm_internal_region_assign c r e" "assign_guard c r e"
    "assign_effect c r e" "\<lambda>_. unat c < NUM_CORES"
  for c r e
  by (rule total_callI[OF assign.monitor_call_axioms assign_returns])

interpretation free_total: total_call "sm_internal_region_free c r" "free_guard r" "free_effect c r"
    "\<lambda>s. unat (llc_partitions s (unat r)) \<le> 27"
  for c r
  by (rule total_callI[OF free.monitor_call_axioms free_returns])

section \<open>Lines a flush reaches\<close>

lemma region_base_shift: "region_id_to_addr x = push_bit 25 (64 + x)"
  by (simp add: region_id_to_addr_def sm_const push_bit_eq_mult algebra_simps)

lemma bit_flush_addr:
  assumes "k < 19" shows "bit (flush_addr r i) (k + 6) \<longleftrightarrow> bit i k"
proof -
  have z: "ZERO_DEVICE_OFFSET = push_bit 32 (1 :: u64)" by (simp add: sm_const)
  show ?thesis using assms unfolding flush_addr_def region_base_shift LLC_INDEX_OFFSET_def z
    by (simp only: bit_or_iff bit_push_bit_iff) (auto simp: bit_simps)
qed

lemma flush_addr_inj: "inj_on (flush_addr r) {..<2 ^ 19}"
proof (rule inj_onI)
  fix i j assume ij: "i \<in> {..<2 ^ 19}" "j \<in> {..<2 ^ 19}" "flush_addr r i = flush_addr r j"
  show "i = j"
  proof (rule bit_eqI)
    fix k
    show "bit i k \<longleftrightarrow> bit j k"
    proof (cases "k < 19")
      case True
      then show ?thesis using bit_flush_addr[of k r i] bit_flush_addr[of k r j] ij(3) by simp
    next
      case False
      then have "take_bit 19 i = i" "take_bit 19 j = j" using ij by (auto simp: take_bit_nat_eq_self_iff)
      then show ?thesis using False by (metis bit_take_bit_iff)
    qed
  qed
qed

lemma flush_events_lines:
  assumes "0 < n"
  shows "{a. ZeroLoad a \<in> set (flush_events r n)} = flush_addr r ` {..<16 * n}"
proof -
  have "(\<exists>stride < 16. \<exists>i < n. x = n * stride + i) \<longleftrightarrow> x < 16 * n" for x
  proof
    assume "\<exists>stride < 16. \<exists>i < n. x = n * stride + i"
    then obtain t i where "t < 16" "i < n" "x = n * t + i" by blast
    moreover have "n * t \<le> n * 15" using \<open>t < 16\<close> by (intro mult_le_mono2) simp
    ultimately show "x < 16 * n" by linarith
  next
    assume "x < 16 * n"
    then have "x div n < 16" "x mod n < n" "x = n * (x div n) + x mod n"
      using assms by (simp_all add: less_mult_imp_div_less)
    then show "\<exists>stride < 16. \<exists>i < n. x = n * stride + i" by blast
  qed
  then have "{..<16 * n} = (\<Union>t\<in>{..<16}. (\<lambda>i. n * t + i) ` {..<n})"
    by (auto simp: set_eq_iff image_iff) blast+
  then show ?thesis
    by (auto simp: flush_events_def LLC_NUM_WAYS_def image_UN image_image intro!: bexI imageI)
qed

section \<open>Properties\<close>

text \<open>C3. \<^verbatim>\<open>region_block\<close> is a transaction: if it returns \<^const>\<open>MONITOR_OK\<close>, the region was owned by the
  caller and not by the monitor, it is now blocked, gone from its owner's region map and from the
  bitmaps of this core, and nothing else changed; on any other result the machine, its locks
  included, is exactly as before.\<close>
theorem region_block_transaction:
  assumes "sm_internal_region_block c r s = Some (rc, s')"
  shows "if rc = MONITOR_OK then block_guard c r s \<and> s' = (block_effect c r s)\<lparr>locks := locks s\<rparr> else s' = s"
  using block.call_exact[OF assms] block.call_ok assms by auto

lemma sample_block: "block_guard 0 5 sample"
  by (simp add: block_guard_def sample_region_def sm_const)

theorem region_block_transaction_witness:
  "\<exists>s'. sm_internal_region_block 0 5 sample = Some (MONITOR_OK, s') \<and>
        s' = (block_effect 0 5 sample)\<lparr>locks := free_locks\<rparr>"
proof -
  obtain s' where "sm_internal_region_block 0 5 sample = Some (MONITOR_OK, s')"
    using block.call_free[OF _ sample_block] by auto
  with region_block_transaction[OF this] show ?thesis by simp
qed


lemma sample_free: "free_guard 3 sample"
  by (simp add: free_guard_def sample_region_def sm_const no_core_access_def)




text \<open>C6. \<^verbatim>\<open>region_assign\<close> hands out only free regions, only to untrusted software or to an existing enclave,
  and records the new owner both in the region and in the owner's region map.\<close>
theorem region_assign_grants:
  assumes "sm_internal_region_assign c r e s = Some (MONITOR_OK, s')"
  shows "region_st (regions s (unat r)) = REGION_STATE_FREE \<and> (e = OWNER_UNTRUSTED \<or> valid_metadata e METADATA_PAGE_ENCLAVE s) \<and>
    regions s' = (regions s)(unat r := \<lparr>region_owned_by = e,
       region_type = (if e = OWNER_UNTRUSTED then REGION_TYPE_UNTRUSTED else REGION_TYPE_ENCLAVE), region_st = REGION_STATE_OWNED\<rparr>) \<and>
    (if e = OWNER_UNTRUSTED then untrusted_regions s' = (untrusted_regions s)(unat r := True) \<and> enclaves s' = enclaves s
     else e_regions (enclaves s' e) = (e_regions (enclaves s e))(unat r := True) \<and> untrusted_regions s' = untrusted_regions s)"
proof -
  have "regions s' = regions (assign_effect c r e s)" "untrusted_regions s' = untrusted_regions (assign_effect c r e s)"
     "enclaves s' = enclaves (assign_effect c r e s)"
    using assign.call_ok[OF assms] by (metis erase_sel)+
  with assign.call_ok[OF assms] show ?thesis
    by (auto simp: assign_guard_def assign_effect_def set_flag_def platform_update_memory_protection_def Let_def)
qed

lemma sample_assign: "assign_guard 0 2 OWNER_UNTRUSTED sample"
  by (simp add: assign_guard_def sample_region_def sm_const)

theorem region_assign_grants_witness:
  "\<exists>s'. sm_internal_region_assign 0 2 OWNER_UNTRUSTED sample = Some (MONITOR_OK, s') \<and>
        region_owned_by (regions s' 2) = OWNER_UNTRUSTED \<and> untrusted_regions s' 2"
proof -
  obtain s' where s: "sm_internal_region_assign 0 2 OWNER_UNTRUSTED sample = Some (MONITOR_OK, s')"
    using assign.call_free[OF _ sample_assign] by auto
  from region_assign_grants[OF s] show ?thesis using s by simp
qed

end
