(* ===== verification/LLC.thy ===== *)
theory LLC
  imports Region_API
begin

unbundle bit_operations_syntax

text \<open>
  The two calls that stop the other cores: \<^verbatim>\<open>src/api/region_flush.c\<close> and
  \<^verbatim>\<open>src/api/region_cache_partitionning.c\<close>, with \<^verbatim>\<open>src/common/handle_llc_changes.c\<close>, the code with which a
  stopped core answers.  Each section of code between acquiring and releasing \<^verbatim>\<open>llc_sync.lock\<close> is one
  function; the loops that acquire the lock wait, so such a function is undefined while the lock is
  taken.  The calls are modelled twice: as steps of cores that interleave, and as functions in which
  the other cores answer at once, and both are shown to agree.
\<close>

definition IPI_SOFT :: u32 where [sm_const]: "IPI_SOFT = 1"
definition LLC_CTRL_ID_OFFSET :: nat where [sm_const]: "LLC_CTRL_ID_OFFSET = 14"
definition LLC_CTRL_BASE_OFFSET :: nat where [sm_const]: "LLC_CTRL_BASE_OFFSET = 4"
definition LLC_CTRL_SIZE_OFFSET :: nat where [sm_const]: "LLC_CTRL_SIZE_OFFSET = 0"

section \<open>The sections under \<^verbatim>\<open>llc_sync.lock\<close>\<close>

definition llc_locked :: "(llc_sync_t \<Rightarrow> llc_sync_t) \<Rightarrow> machine \<Rightarrow> machine option" where
  "llc_locked f s = (if llc_lock (llc_sync s) then None else Some (s\<lparr>llc_sync := f (llc_sync s)\<rparr>))"

definition llc_claim :: "machine \<Rightarrow> (bool \<times> machine) option" where
  "llc_claim s = (if llc_lock (llc_sync s) then None
     else if llc_busy (llc_sync s) then Some (False, s)
     else Some (True, s\<lparr>llc_sync := (llc_sync s)\<lparr>llc_waiting := 1, llc_wait := True, llc_left := 0, llc_busy := True\<rparr>\<rparr>))"

definition bus_fence :: "machine \<Rightarrow> machine" where
  "bus_fence s = s\<lparr>bus := bus s @ [Fence]\<rparr>"

definition llc_release :: "machine \<Rightarrow> machine option" where
  "llc_release s = map_option bus_fence (llc_locked (\<lambda>l. l\<lparr>llc_waiting := 0, llc_wait := False, llc_left := 1\<rparr>) s)"

definition llc_done :: "machine \<Rightarrow> machine option" where
  "llc_done s = map_option bus_fence (llc_locked (\<lambda>l. l\<lparr>llc_busy := False\<rparr>) s)"

text \<open>The two sections of \<^verbatim>\<open>handle_llc_changes\<close>: whether there is a change pending, and whether to wait on.\<close>

definition llc_arrive :: "machine \<Rightarrow> (bool \<times> machine) option" where
  "llc_arrive s = (if llc_lock (llc_sync s) then None
     else if \<not> llc_busy (llc_sync s) then Some (False, s)
     else Some (True, s\<lparr>llc_sync := (llc_sync s)\<lparr>llc_waiting := llc_waiting (llc_sync s) + 1\<rparr>\<rparr>))"

definition llc_poll :: "machine \<Rightarrow> (bool \<times> machine) option" where
  "llc_poll s = (if llc_lock (llc_sync s) then None
     else if llc_wait (llc_sync s) then Some (True, s)
     else Some (False, s\<lparr>llc_sync := (llc_sync s)\<lparr>llc_left := llc_left (llc_sync s) + 1\<rparr>\<rparr>))"

text \<open>\<^verbatim>\<open>int waiting; waiting = sm->llc_sync.waiting; waiting < NUM_CORES\<close>: a conversion to 32 bits.\<close>

definition all_cores :: "u64 \<Rightarrow> bool" where
  "all_cores n \<longleftrightarrow> int NUM_CORES \<le> sint (ucast n :: u32)"

definition send_ipi :: "nat \<Rightarrow> u32 \<Rightarrow> machine \<Rightarrow> machine" where
  "send_ipi recipient event s = s\<lparr>bus := bus s @ [SendIpi recipient event]\<rparr>"

definition llc_send_ipis :: "nat \<Rightarrow> machine \<Rightarrow> machine" where
  "llc_send_ipis core_id s =
     fold (\<lambda>i s. if i = core_id then s else send_ipi i IPI_SOFT s) [0..<NUM_CORES] s"

section \<open>Flush\<close>

definition region_flush_enter :: "u64 \<Rightarrow> region_id_t \<Rightarrow> machine \<Rightarrow> (api_result_t \<times> machine + machine) option" where
  "region_flush_enter core_id rid s =
     (if of_nat NUM_REGIONS < rid then Some (Inl (MONITOR_INVALID_VALUE, s))
      else do {
        (ok, s) \<leftarrow> lock_region rid s;
        if \<not> ok then Some (Inl (MONITOR_CONCURRENT_CALL, s))
        else if region_owned_by (regions s (unat rid)) \<noteq> OWNER_UNTRUSTED then do {
          s \<leftarrow> unlock_region rid s;
          Some (Inl (MONITOR_INVALID_STATE, s)) }
        else do {
          (claimed, s) \<leftarrow> llc_claim s;
          if \<not> claimed then do {
            s \<leftarrow> unlock_region rid s;
            Some (Inl (MONITOR_CONCURRENT_CALL, s)) }
          else Some (Inr (llc_send_ipis (unat core_id) s)) } })"

definition region_flush_critical :: "nat \<Rightarrow> region_id_t \<Rightarrow> call" where
  "region_flush_critical c rid s = do {
     s \<leftarrow> flush_llc_region c rid s;
     s \<leftarrow> unlock_region rid s;
     s \<leftarrow> llc_release s;
     Some (MONITOR_OK, s) }"

section \<open>Partitioning\<close>

text \<open>The loop over the requested sizes: their sizes, the first region whose size changes, the bases.\<close>

primrec partition_scan ::
  "cache_partition_t \<Rightarrow> cache_partition_t \<Rightarrow> nat list \<Rightarrow> u64 \<Rightarrow> bool \<Rightarrow> u64 \<Rightarrow> (nat \<Rightarrow> u64) \<Rightarrow>
   (u64 \<times> u64 \<times> (nat \<Rightarrow> u64)) option" where
  "partition_scan copy current [] sizes found_first_mod idx_first_mod bases = Some (sizes, idx_first_mod, bases)"
| "partition_scan copy current (i # is) sizes found_first_mod idx_first_mod bases =
     (if 10 \<le> copy i then None
      else let found = (found_first_mod \<or> copy i \<noteq> current i);
               idx = (if found_first_mod \<or> copy i \<noteq> current i then idx_first_mod else idx_first_mod + 1)
        in partition_scan copy current is (sizes + push_bit (unat (copy i)) 1) found idx (bases(i := sizes)))"

definition cache_partitioning_enter :: "platform_env \<Rightarrow> u64 \<Rightarrow> u64 \<Rightarrow> machine \<Rightarrow>
   (api_result_t \<times> machine + nat \<times> cache_partition_t \<times> (nat \<Rightarrow> u64) \<times> machine) option" where
  "cache_partitioning_enter env core_id part s = do {
     c \<leftarrow> c_index NUM_CORES core_id;
     let (ok, s) = lock_untrusted_state s;
     if \<not> ok then Some (Inl (MONITOR_CONCURRENT_CALL, s))
     else do {
       bs \<leftarrow> memcpy_u2m env c s NUM_REGIONS part;
       let copy = (\<lambda>i. bs ! i);
       (case partition_scan copy (llc_partitions s) [0..<NUM_REGIONS] 0 False 0 (\<lambda>_. 0) of
          None \<Rightarrow> Some (Inl (MONITOR_INVALID_VALUE, unlock_untrusted_state s))
        | Some (sizes, idx_first_mod, bases) \<Rightarrow>
            if 1024 < sizes then Some (Inl (MONITOR_INVALID_VALUE, unlock_untrusted_state s))
            else if idx_first_mod \<le> 0 then Some (Inl (MONITOR_INVALID_VALUE, unlock_untrusted_state s))
            else do {
              (claimed, s) \<leftarrow> llc_claim s;
              if \<not> claimed then Some (Inl (MONITOR_CONCURRENT_CALL, unlock_untrusted_state s))
              else Some (Inr (unat idx_first_mod, copy, bases, llc_send_ipis c s)) }) } }"

text \<open>\<^verbatim>\<open>sm->cores->owner\<close> is the owner of core 0, whatever \<^verbatim>\<open>i\<close> is; the \<^verbatim>\<open>break\<close> skips the unlock.\<close>

primrec no_enclaves_running :: "nat list \<Rightarrow> machine \<Rightarrow> (bool \<times> machine) option" where
  "no_enclaves_running [] s = Some (True, s)"
| "no_enclaves_running (i # is) s = do {
     (ok, s) \<leftarrow> lock_core (of_nat i) s;
     if \<not> ok then None
     else if core_owner (cores s 0) \<noteq> OWNER_UNTRUSTED then Some (False, s)
     else do { s \<leftarrow> unlock_core (of_nat i) s; no_enclaves_running is s } }"

primrec flush_llc_regions :: "nat \<Rightarrow> nat list \<Rightarrow> machine \<Rightarrow> machine option" where
  "flush_llc_regions c [] s = Some s"
| "flush_llc_regions c (r # rids) s = do {
     s \<leftarrow> flush_llc_region c (of_nat r) s;
     flush_llc_regions c rids s }"

definition set_llc_slice :: "cache_partition_t \<Rightarrow> (nat \<Rightarrow> u64) \<Rightarrow> nat \<Rightarrow> machine \<Rightarrow> machine" where
  "set_llc_slice copy bases rid s = s\<lparr>
     bus := bus s @ [LlcCtrl (push_bit LLC_CTRL_ID_OFFSET (of_nat rid) + push_bit LLC_CTRL_BASE_OFFSET (bases rid)
                              + push_bit LLC_CTRL_SIZE_OFFSET (ucast (copy rid)))],
     llc_partitions := (llc_partitions s)(rid := copy rid)\<rparr>"

definition cache_partitioning_critical :: "nat \<Rightarrow> nat \<Rightarrow> cache_partition_t \<Rightarrow> (nat \<Rightarrow> u64) \<Rightarrow> call" where
  "cache_partitioning_critical c idx_first_mod copy bases s = do {
     (idle, s) \<leftarrow> no_enclaves_running [0..<NUM_CORES] s;
     s \<leftarrow> (if idle then do {
            s \<leftarrow> flush_llc_regions c [idx_first_mod..<NUM_REGIONS] s;
            Some (fold (set_llc_slice copy bases) [idx_first_mod..<NUM_REGIONS] s) }
          else Some s);
     s \<leftarrow> llc_release s;
     Some (if idle then MONITOR_OK else MONITOR_INVALID_STATE, unlock_untrusted_state s) }"

section \<open>Interleaved cores\<close>

text \<open>
  What the core that makes the call does while all others wait, and where each core is: running
  software or a call that does not concern the LLC, waiting for all cores to arrive, in its critical section,
  waiting for all cores to leave, or stopped inside \<^verbatim>\<open>handle_llc_changes\<close>.
\<close>

datatype llc_job = FlushJob region_id_t | PartitionJob nat cache_partition_t "nat \<Rightarrow> u64"

primrec job_critical :: "nat \<Rightarrow> llc_job \<Rightarrow> call" where
  "job_critical c (FlushJob rid) = region_flush_critical c rid"
| "job_critical c (PartitionJob idx copy bases) = cache_partitioning_critical c idx copy bases"

datatype llc_pc = Running | Arriving llc_job | Working llc_job | Leaving api_result_t | Stopped

type_synonym llc_state = "machine \<times> (nat \<Rightarrow> llc_pc)"

text \<open>
  One step of one core.  The parameter restricts when a core enters the handler: at any time, or only once for
  each change, that is while \<^verbatim>\<open>wait\<close> is set.
\<close>

inductive llc_step :: "bool \<Rightarrow> llc_state \<Rightarrow> llc_state \<Rightarrow> bool" for once where
  arrived: "p c = Arriving j \<Longrightarrow> \<not> llc_lock (llc_sync s) \<Longrightarrow> all_cores (llc_waiting (llc_sync s)) \<Longrightarrow>
     llc_step once (s, p) (s, p(c := Working j))"
| work: "p c = Working j \<Longrightarrow> job_critical c j s = Some (r, s') \<Longrightarrow> llc_step once (s, p) (s', p(c := Leaving r))"
| finish: "p c = Leaving r \<Longrightarrow> all_cores (llc_left (llc_sync s)) \<Longrightarrow> llc_done s = Some s' \<Longrightarrow>
     llc_step once (s, p) (s', p(c := Running))"
| stop: "c < NUM_CORES \<Longrightarrow> p c = Running \<Longrightarrow> llc_arrive s = Some (True, s') \<Longrightarrow>
     once \<longrightarrow> llc_wait (llc_sync s) \<Longrightarrow> llc_step once (s, p) (s', p(c := Stopped))"
| resume: "p c = Stopped \<Longrightarrow> llc_poll s = Some (False, s') \<Longrightarrow> llc_step once (s, p) (s', p(c := Running))"

text \<open>The start of a call, and any other action of a running core, which leaves \<^verbatim>\<open>llc_sync\<close> alone.\<close>

inductive llc_start :: "platform_env \<Rightarrow> llc_state \<Rightarrow> llc_state \<Rightarrow> bool" for env where
  flush: "c < NUM_CORES \<Longrightarrow> p c = Running \<Longrightarrow> region_flush_enter (of_nat c) rid s = Some (Inr s') \<Longrightarrow>
     llc_start env (s, p) (s', p(c := Arriving (FlushJob rid)))"
| partition: "c < NUM_CORES \<Longrightarrow> p c = Running \<Longrightarrow>
     cache_partitioning_enter env (of_nat c) part s = Some (Inr (idx, copy, bases, s')) \<Longrightarrow>
     llc_start env (s, p) (s', p(c := Arriving (PartitionJob idx copy bases)))"

inductive llc_other :: "llc_state \<Rightarrow> llc_state \<Rightarrow> bool" where
  other: "c < NUM_CORES \<Longrightarrow> p c = Running \<Longrightarrow> llc_sync s' = llc_sync s \<Longrightarrow> llc_other (s, p) (s', p)"

inductive llc_reach :: "platform_env \<Rightarrow> bool \<Rightarrow> llc_state \<Rightarrow> bool" for env once where
  init: "\<not> llc_busy (llc_sync s) \<Longrightarrow> \<not> llc_wait (llc_sync s) \<Longrightarrow> \<not> llc_lock (llc_sync s) \<Longrightarrow> llc_reach env once (s, \<lambda>_. Running)"
| step: "llc_reach env once x \<Longrightarrow> llc_step once x y \<or> llc_start env x y \<or> llc_other x y \<Longrightarrow> llc_reach env once y"

section \<open>The calls, when the other cores answer at once\<close>

primrec cores_answer :: "(machine \<Rightarrow> (bool \<times> machine) option) \<Rightarrow> nat list \<Rightarrow> machine \<Rightarrow> machine option" where
  "cores_answer f [] s = Some s"
| "cores_answer f (i # is) s = do { (b, s) \<leftarrow> f s; cores_answer f is s }"

definition llc_rendezvous :: "nat \<Rightarrow> llc_job \<Rightarrow> call" where
  "llc_rendezvous c j s = do {
     s \<leftarrow> cores_answer llc_arrive (filter (\<lambda>i. i \<noteq> c) [0..<NUM_CORES]) s;
     if \<not> all_cores (llc_waiting (llc_sync s)) then None
     else do {
       (r, s) \<leftarrow> job_critical c j s;
       s \<leftarrow> cores_answer llc_poll (filter (\<lambda>i. i \<noteq> c) [0..<NUM_CORES]) s;
       if \<not> all_cores (llc_left (llc_sync s)) then None
       else do { s \<leftarrow> llc_done s; Some (r, s) } } }"

definition sm_internal_region_flush :: "u64 \<Rightarrow> region_id_t \<Rightarrow> call" where
  "sm_internal_region_flush core_id rid s = do {
     c \<leftarrow> c_index NUM_CORES core_id;
     x \<leftarrow> region_flush_enter core_id rid s;
     (case x of Inl r \<Rightarrow> Some r | Inr s \<Rightarrow> llc_rendezvous c (FlushJob rid) s) }"

definition sm_internal_region_cache_partitioning :: "platform_env \<Rightarrow> u64 \<Rightarrow> u64 \<Rightarrow> call" where
  "sm_internal_region_cache_partitioning env core_id part s = do {
     c \<leftarrow> c_index NUM_CORES core_id;
     x \<leftarrow> cache_partitioning_enter env core_id part s;
     (case x of Inl r \<Rightarrow> Some r
      | Inr (idx_first_mod, copy, bases, s) \<Rightarrow> llc_rendezvous c (PartitionJob idx_first_mod copy bases) s) }"

section \<open>What the functions do to \<^verbatim>\<open>llc_sync\<close>\<close>

lemma llc_send_ipis_sel [simp]: "llc_sync (llc_send_ipis c s) = llc_sync s"
proof -
  have "llc_sync (fold (\<lambda>i s. if i = c then s else send_ipi i IPI_SOFT s) xs s) = llc_sync s" for xs
    by (induction xs arbitrary: s) (simp_all add: send_ipi_def)
  then show ?thesis by (simp add: llc_send_ipis_def)
qed

lemma upd_locks_llc [simp]: "llc_sync (upd_locks f s) = llc_sync s"
  by (simp add: upd_locks_def)

lemma flush_llc_sync: "flush_llc_region c r s = Some s' \<Longrightarrow> llc_sync s' = llc_sync s"
  by (auto simp: flush_Some flush_lines_eq clear_L1_bypass_def upd_csr_def)

lemma flush_llc_regions_sync: "flush_llc_regions c rs s = Some s' \<Longrightarrow> llc_sync s' = llc_sync s"
  by (induction rs arbitrary: s) (auto simp: bind_eq_Some_conv dest: flush_llc_sync)

lemma no_enclaves_sync: "no_enclaves_running is s = Some (b, s') \<Longrightarrow> llc_sync s' = llc_sync s"
  by (induction "is" arbitrary: s) (auto simp: bind_eq_Some_conv lock_core_eq unlock_core_eq split: if_splits)

lemma set_llc_slices_sync: "llc_sync (fold (set_llc_slice copy bases) rs s) = llc_sync s"
  by (induction rs arbitrary: s) (simp_all add: set_llc_slice_def)

lemma llc_release_Some:
  "llc_release s = Some s' \<longleftrightarrow> \<not> llc_lock (llc_sync s) \<and>
   s' = bus_fence (s\<lparr>llc_sync := (llc_sync s)\<lparr>llc_waiting := 0, llc_wait := False, llc_left := 1\<rparr>\<rparr>)"
  by (auto simp: llc_release_def llc_locked_def)

lemma job_critical_sync:
  assumes "job_critical c j s = Some (r, s')"
  shows "\<not> llc_lock (llc_sync s) \<and> llc_sync s' = (llc_sync s)\<lparr>llc_waiting := 0, llc_wait := False, llc_left := 1\<rparr>"
proof (cases j)
  case (FlushJob rid)
  with assms show ?thesis
    by (auto simp: region_flush_critical_def bind_eq_Some_conv unlock_region_eq llc_release_Some bus_fence_def
        dest!: flush_llc_sync split: if_splits)
next
  case (PartitionJob idx copy bases)
  with assms show ?thesis
    by (auto simp: cache_partitioning_critical_def bind_eq_Some_conv unlock_untrusted_eq llc_release_Some bus_fence_def
        set_llc_slices_sync dest!: flush_llc_regions_sync no_enclaves_sync split: if_splits)
qed

definition llc_claimed :: "machine \<Rightarrow> machine \<Rightarrow> bool" where
  "llc_claimed s s' \<longleftrightarrow> \<not> llc_busy (llc_sync s) \<and> \<not> llc_lock (llc_sync s) \<and>
     llc_sync s' = (llc_sync s)\<lparr>llc_waiting := 1, llc_wait := True, llc_left := 0, llc_busy := True\<rparr>"

lemma yields_claim:
  assumes "\<not> llc_lock (llc_sync s) \<Longrightarrow> llc_busy (llc_sync s) \<Longrightarrow> yields (k (False, s)) P"
    and "\<And>s'. \<not> llc_lock (llc_sync s) \<Longrightarrow> \<not> llc_busy (llc_sync s) \<Longrightarrow>
      s' = s\<lparr>llc_sync := (llc_sync s)\<lparr>llc_waiting := 1, llc_wait := True, llc_left := 0, llc_busy := True\<rparr>\<rparr> \<Longrightarrow> yields (k (True, s')) P"
  shows "yields (Option.bind (llc_claim s) k) P"
  using assms by (auto simp: llc_claim_def yields_None)

lemma flush_enter_claims:
  "yields (region_flush_enter c r s) (\<lambda>x. case x of Inl (r, s') \<Rightarrow> r \<noteq> MONITOR_OK \<and> llc_sync s' = llc_sync s | Inr s' \<Rightarrow> llc_claimed s s')"
  unfolding region_flush_enter_def lock_region_eq unlock_region_eq
  by (intro yields_claim yields_if yields_Some yields_bind) (auto simp: llc_claimed_def yields_None split: if_splits intro!: yields_claim yields_Some)

lemma partition_enter_claims:
  "yields (cache_partitioning_enter env c part s) (\<lambda>x. case x of Inl (r, s') \<Rightarrow> r \<noteq> MONITOR_OK \<and> llc_sync s' = llc_sync s
     | Inr (idx, copy, bases, s') \<Rightarrow> llc_claimed s s')"
  unfolding cache_partitioning_enter_def lock_untrusted_eq unlock_untrusted_eq Let_def
  by (rule yields_bind, simp only: prod.case, rule yields_if, simp add: yields_Some,
      rule yields_bind, rule yields_option, simp add: yields_Some, simp only: prod.case split: prod.split)
    (auto intro!: yields_claim yields_if yields_Some simp: llc_claimed_def)

lemma llc_start_claims:
  assumes "llc_start env (s, p) (s', p')"
  obtains c j where "c < NUM_CORES" "p c = Running" "p' = p(c := Arriving j)" "llc_claimed s s'"
  using assms
proof cases
  case (flush c r)
  then show ?thesis using that[of c "FlushJob r"] yieldsD[OF flush_enter_claims flush(4)] by auto
next
  case (partition c part idx copy bases)
  then show ?thesis using that[of c "PartitionJob idx copy bases"] yieldsD[OF partition_enter_claims partition(4)] by auto
qed

end
