(* ===== verification/Enclave_Life.thy ===== *)
theory Enclave_Life
  imports Sample
begin

text \<open>
  The life of an enclave object: creation, finalisation and deletion
  (\<^verbatim>\<open>src/api/enclave_create.c\<close>, \<^verbatim>\<open>enclave_init.c\<close>, \<^verbatim>\<open>enclave_delete.c\<close>, \<^verbatim>\<open>enclave_metadata_pages.c\<close>).
\<close>

section \<open>Creation\<close>

text \<open>\<^verbatim>\<open>hash_extend(&enclave_metadata->hash_context, ...)\<close>.\<close>

definition hash_enclave :: "enclave_id_t \<Rightarrow> bytes \<Rightarrow> machine \<Rightarrow> machine option" where
  "hash_enclave e x s = do {
     ctx \<leftarrow> hash_extend (e_hash_context (enclaves s e)) x;
     Some (upd_enclave e (\<lambda>m. m\<lparr>e_hash_context := ctx\<rparr>) s) }"

definition sm_internal_enclave_create ::
  "enclave_id_t \<Rightarrow> u64 \<Rightarrow> u64 \<Rightarrow> u64 \<Rightarrow> bool \<Rightarrow> call" where
  "sm_internal_enclave_create enclave_id ev_base ev_mask num_mailboxes debug s = do {
     let enclave_pages = enclave_metadata_pages num_mailboxes;
     (result, L, s) \<leftarrow> add_lock_region_iff_free_metadata_pages enclave_id enclave_pages no_regions s;
     if result \<noteq> MONITOR_OK then Some (result, s)
     else do {
       let page_id = addr_to_region_page_id enclave_id;
       let region_id = addr_to_region_id enclave_id;
       s \<leftarrow> set_pages (unat region_id) (unat page_id) 1 METADATA_PAGE_ENCLAVE s;
       s \<leftarrow> set_pages (unat region_id) (Suc (unat page_id)) (unat enclave_pages - 1) METADATA_PAGE_INVALID s;
       let s = upd_enclave enclave_id (\<lambda>m. m\<lparr>e_init_state := ENCLAVE_STATE_CREATED\<rparr>) s;
       let s = upd_enclave enclave_id (\<lambda>m. m\<lparr>e_last_phys_addr_loaded := 0\<rparr>) s;
       let s = upd_enclave enclave_id (\<lambda>m. m\<lparr>e_hash_context := hash_init (e_hash_context m)\<rparr>) s;
       let s = upd_ecsr enclave_id (\<lambda>p. p\<lparr>ep_ev_base := ev_base\<rparr>) s;
       s \<leftarrow> hash_enclave enclave_id (le_bytes 8 ev_base) s;
       let s = upd_ecsr enclave_id (\<lambda>p. p\<lparr>ep_ev_mask := ev_mask\<rparr>) s;
       s \<leftarrow> hash_enclave enclave_id (le_bytes 8 ev_mask) s;
       let s = upd_enclave enclave_id (\<lambda>m. m\<lparr>e_num_mailboxes := num_mailboxes\<rparr>) s;
       s \<leftarrow> hash_enclave enclave_id (le_bytes 8 num_mailboxes) s;
       let s = upd_enclave enclave_id (\<lambda>m. m\<lparr>e_debug := debug\<rparr>) s;
       s \<leftarrow> hash_enclave enclave_id [if debug then 1 else 0] s;
       Some (MONITOR_OK, unlock_regions L s) } }"

definition sm_internal_enclave_metadata_pages :: "u64 \<Rightarrow> u64" where
  "sm_internal_enclave_metadata_pages num_mailboxes = enclave_metadata_pages num_mailboxes"

section \<open>Finalisation\<close>

text \<open>
  A hash of two pieces with a local context and a local digest; the contents of the stack before
  \<^verbatim>\<open>hash_init\<close> do not reach the digest.
\<close>

definition hash2 :: "bytes \<Rightarrow> bytes \<Rightarrow> bytes option" where
  "hash2 a b = do {
     h \<leftarrow> hash_extend (hash_init zero_context) a;
     h \<leftarrow> hash_extend h b;
     fst (hash_finalize h) }"

definition sm_internal_enclave_init :: "platform_env \<Rightarrow> enclave_id_t \<Rightarrow> call" where
  "sm_internal_enclave_init env enclave_id s = do {
     (result, L, s) \<leftarrow> add_lock_region_iff_valid_enclave enclave_id no_regions s;
     if result \<noteq> MONITOR_OK then Some (result, s)
     else if e_init_state (enclaves s enclave_id) \<noteq> ENCLAVE_STATE_PAGE_DATA_LOADED
     then Some (MONITOR_INVALID_STATE, unlock_regions L s)
     else do {
       let pk = software_public_key (keys s);
       let sk = software_secret_key (keys s);
       let (digest, ctx) = hash_finalize (e_hash_context (enclaves s enclave_id));
       let s = upd_enclave enclave_id (\<lambda>m. m\<lparr>e_hash_context := ctx,
             e_measurement := (case digest of Some d \<Rightarrow> d | None \<Rightarrow> e_measurement m)\<rparr>) s;
       key_seed \<leftarrow> hash2 sk (e_measurement (enclaves s enclave_id));
       let s = upd_enclave enclave_id (\<lambda>m. m\<lparr>e_secret_key := create_secret_signing_key env (take 32 key_seed)\<rparr>) s;
       let s = upd_enclave enclave_id (\<lambda>m. m\<lparr>e_public_key := compute_public_signing_key env (e_secret_key m)\<rparr>) s;
       attestation \<leftarrow> hash2 (e_measurement (enclaves s enclave_id)) (e_public_key (enclaves s enclave_id));
       let s = upd_enclave enclave_id (\<lambda>m. m\<lparr>e_attestation := sign env attestation pk sk\<rparr>) s;
       let s = upd_enclave enclave_id (\<lambda>m. m\<lparr>e_init_state := ENCLAVE_STATE_INITIALIZED\<rparr>) s;
       Some (MONITOR_OK, unlock_regions L s) } }"

section \<open>Deletion\<close>

text \<open>The loop that locks the regions of the enclave.\<close>

primrec lock_enclave_regions ::
  "enclave_id_t \<Rightarrow> nat list \<Rightarrow> region_map_t \<Rightarrow> machine \<Rightarrow> (bool \<times> region_map_t \<times> machine) option" where
  "lock_enclave_regions e [] L s = Some (True, L, s)"
| "lock_enclave_regions e (i # is) L s =
     (if e_regions (enclaves s e) i then do {
        (ok, s) \<leftarrow> lock_region (of_nat i) s;
        if \<not> ok then Some (False, L, s)
        else lock_enclave_regions e is (L(i := True)) s }
      else lock_enclave_regions e is L s)"

text \<open>
  The loop that blocks and cleans them.  The address cleaned is that of \<^verbatim>\<open>region_id\<close>, the region of
  the enclave's metadata.
\<close>

definition block_enclave_regions :: "enclave_id_t \<Rightarrow> machine \<Rightarrow> machine" where
  "block_enclave_regions e s =
     fold (\<lambda>i s. if e_regions (enclaves s e) i
                 then let s = upd_region i (\<lambda>m. m\<lparr>region_st := REGION_STATE_BLOCKED\<rparr>) s;
                          s = upd_region i (\<lambda>m. m\<lparr>region_owned_by := OWNER_SM\<rparr>) s
                      in memset_zero (region_id_to_addr (addr_to_region_id e)) (unat REGION_SIZE) s
                 else s) [0..<NUM_REGIONS] s"

definition sm_internal_enclave_delete :: "u64 \<Rightarrow> enclave_id_t \<Rightarrow> call" where
  "sm_internal_enclave_delete core_id enclave_id s = do {
     (result, L, s) \<leftarrow> add_lock_region_iff_valid_enclave enclave_id no_regions s;
     if result \<noteq> MONITOR_OK then Some (result, s)
     else do {
       let page_id = addr_to_region_page_id enclave_id;
       let region_id = addr_to_region_id enclave_id;
       if 0 <s e_num_threads (enclaves s enclave_id)
       then Some (MONITOR_INVALID_STATE, unlock_regions L s)
       else do {
         (ok, L, s) \<leftarrow> lock_enclave_regions enclave_id [0..<NUM_REGIONS] L s;
         if \<not> ok then Some (MONITOR_CONCURRENT_CALL, unlock_regions L s)
         else do {
           let (ok, s) = lock_untrusted_state s;
           if \<not> ok then Some (MONITOR_INVALID_STATE, unlock_regions L s)
           else do {
             (ok, s) \<leftarrow> lock_core core_id s;
             if \<not> ok then Some (MONITOR_INVALID_STATE, unlock_regions L (unlock_untrusted_state s))
             else do {
               let s = block_enclave_regions enclave_id s;
               let enclave_pages = enclave_metadata_pages (e_num_mailboxes (enclaves s enclave_id));
               s \<leftarrow> set_pages (unat region_id) (unat page_id) (unat enclave_pages) METADATA_PAGE_FREE s;
               let s = memset_zero enclave_id (unat (enclave_pages * PAGE_SIZE)) s;
               s \<leftarrow> unlock_core core_id s;
               Some (MONITOR_OK, unlock_regions L (unlock_untrusted_state s)) } } } } } }"

section \<open>Contracts\<close>

lemma hash_enclave_eq:
  "hash_enclave e x s = (if x = [] \<or> ctx_curlen (e_hash_context (enclaves s e)) \<noteq> 128
     then Some (upd_enclave e (\<lambda>m. m\<lparr>e_hash_context := extend_ctx (e_hash_context m) x\<rparr>) s) else None)"
  by (auto simp: hash_enclave_def hash_extend_eq upd_enclave_def)

lemma hash_enclave_Some [step_iff]:
  "hash_enclave e x s = Some s' \<longleftrightarrow> (x = [] \<or> ctx_curlen (e_hash_context (enclaves s e)) \<noteq> 128) \<and>
   s' = upd_enclave e (\<lambda>m. m\<lparr>e_hash_context := extend_ctx (e_hash_context m) x\<rparr>) s"
  by (auto simp: hash_enclave_eq)

definition create_guard :: "enclave_id_t \<Rightarrow> u64 \<Rightarrow> machine \<Rightarrow> bool" where
  "create_guard e n s \<longleftrightarrow> free_metadata e (enclave_metadata_pages n) s"

definition create_effect :: "enclave_id_t \<Rightarrow> u64 \<Rightarrow> u64 \<Rightarrow> u64 \<Rightarrow> bool \<Rightarrow> machine \<Rightarrow> machine" where
  "create_effect e ev_base ev_mask n debug s =
     (let r = unat (addr_to_region_id e); p = unat (addr_to_region_page_id e);
          s = fill_pages r p 1 METADATA_PAGE_ENCLAVE s;
          s = fill_pages r (Suc p) (unat (enclave_metadata_pages n) - 1) METADATA_PAGE_INVALID s
      in upd_enclave e (\<lambda>m. m\<lparr>
           e_init_state := ENCLAVE_STATE_CREATED, e_last_phys_addr_loaded := 0,
           e_hash_context := foldl extend_ctx (hash_init (e_hash_context m))
             [le_bytes 8 ev_base, le_bytes 8 ev_mask, le_bytes 8 n, [if debug then 1 else 0]],
           e_platform_csr := (e_platform_csr m)\<lparr>ep_ev_base := ev_base, ep_ev_mask := ev_mask\<rparr>,
           e_num_mailboxes := n, e_debug := debug\<rparr>) s)"

lemma create_transacts:
  "yields (sm_internal_enclave_create e b k n d s) (transacts (create_guard e n) (create_effect e b k n d) s)"
  unfolding sm_internal_enclave_create_def
  by (intro yields_rules, simp_all only: prod.case, simp_all add: step_iff upd_ecsr_def split del: if_split)
    (auto simp: transacts_def create_guard_def create_effect_def Let_def
      intro!: upd_cong enclave_metadata_t.equality split: if_splits)

lemma free_metadata_fits:
  assumes "free_metadata e (enclave_metadata_pages n) s"
  shows "enclave_metadata_pages n = 0 \<or>
    unat (addr_to_region_page_id e) + unat (enclave_metadata_pages n) \<le> NUM_REGION_PAGES"
    "is_page_aligned e" "unat (addr_to_region_id e) < NUM_REGIONS"
    "unat (addr_to_region_page_id e + enclave_metadata_pages n - 1) < NUM_REGION_PAGES"
  using assms last_page_bound[OF order.strict_implies_order[OF enclave_pages_bound], of n e]
  by (auto simp: free_metadata_def metadata_region_def)

lemma create_succeeds:
  assumes "locks s = free_locks" "create_guard e n s"
  shows "\<exists>s'. sm_internal_enclave_create e b k n d s = Some (MONITOR_OK, s')"
  using assms free_metadata_fits[of e n s] page_id_in_region[of e]
  by (simp add: sm_internal_enclave_create_def create_guard_def free_cases_enclave Let_def no_regions_def
      set_pages_eq hash_enclave_eq upd_ecsr_def) auto

text \<open>The derived keys and the certificate, over the two-piece digests.\<close>

definition digest2 :: "bytes \<Rightarrow> bytes \<Rightarrow> bytes" where
  "digest2 a b = the (hash2 a b)"

lemma hash2_eq [step_iff]: "hash2 a b = Some (digest2 a b)"
proof -
  let ?h = "extend_ctx (extend_ctx (hash_init zero_context) a) b"
  have "hash2 a b = fst (hash_finalize ?h)" by (simp add: hash2_def hash_extend_eq)
  moreover have "ctx_holds ?h (a @ b)"
    using holds_extend_ctx[OF holds_extend_ctx[OF measure.holds_start, of zero_context a], of b] by simp
  from ctx_holds_curlen[OF this] have "ctx_curlen ?h < 128" by simp
  then have "\<exists>d. fst (hash_finalize ?h) = Some d" by (simp add: hash_finalize_def sha512_final_def Let_def)
  ultimately show ?thesis by (auto simp: digest2_def)
qed

lemma digest2_spec: "length (a @ b) < 2 ^ 61 \<Longrightarrow> digest2 a b = sha512_spec (a @ b)"
  using measure.stream_digest[of "[a, b]" zero_context] hash2_eq[of a b]
  by (auto simp: hash2_def bind_eq_Some_conv)

definition init_guard :: "enclave_id_t \<Rightarrow> machine \<Rightarrow> bool" where
  "init_guard e s \<longleftrightarrow> valid_metadata e METADATA_PAGE_ENCLAVE s \<and>
     e_init_state (enclaves s e) = ENCLAVE_STATE_PAGE_DATA_LOADED"

definition init_effect :: "platform_env \<Rightarrow> enclave_id_t \<Rightarrow> machine \<Rightarrow> machine" where
  "init_effect env e s =
     (let m = enclaves s e; pk = software_public_key (keys s); sk = software_secret_key (keys s);
          (digest, ctx) = hash_finalize (e_hash_context m);
          meas = (case digest of Some d \<Rightarrow> d | None \<Rightarrow> e_measurement m);
          secret = create_secret_signing_key env (take 32 (digest2 sk meas));
          public = compute_public_signing_key env secret
      in upd_enclave e (\<lambda>m. m\<lparr>e_hash_context := ctx, e_measurement := meas, e_secret_key := secret,
           e_public_key := public, e_attestation := sign env (digest2 meas public) pk sk,
           e_init_state := ENCLAVE_STATE_INITIALIZED\<rparr>) s)"

lemma init_transacts:
  "yields (sm_internal_enclave_init env e s) (transacts (init_guard e) (init_effect env e) s)"
  unfolding sm_internal_enclave_init_def
  by (intro yields_rules, simp_all only: prod.case, simp_all add: step_iff cong: option.case_cong split del: if_split)
    (auto simp: transacts_def init_guard_def init_effect_def Let_def cong: option.case_cong
      intro!: upd_cong enclave_metadata_t.equality split: if_splits prod.splits)

lemma init_succeeds:
  assumes "locks s = free_locks" "init_guard e s"
  shows "\<exists>s'. sm_internal_enclave_init env e s = Some (MONITOR_OK, s')"
  using assms
  by (auto simp: sm_internal_enclave_init_def init_guard_def valid_metadata_cases Let_def no_regions_def
      hash2_eq add_lock_region_iff_valid_enclave_def dest: valid_metadata_region split: prod.splits)


subsection \<open>The two loops of deletion\<close>

lemma lock_enclave_regions_run:
  assumes "distinct is" "set is \<subseteq> {..<NUM_REGIONS}"
  shows "\<exists>ok L' f. lock_enclave_regions e is L s = Some (ok, L', upd_locks f s) \<and>
    (ok \<longleftrightarrow> (\<forall>i \<in> set is. e_regions (enclaves s e) i \<longrightarrow> \<not> region_locks (locks s) i)) \<and>
    core_locks (f (locks s)) = core_locks (locks s) \<and>
    untrusted_state_lock (f (locks s)) = untrusted_state_lock (locks s)"
  using assms
proof (induction "is" arbitrary: L s)
  case Nil
  show ?case by (intro exI[of _ True] exI[of _ L] exI[of _ id]) simp
next
  case (Cons i "is")
  show ?case
  proof (cases "e_regions (enclaves s e) i \<and> \<not> region_locks (locks s) i")
    case True
    let ?s = "upd_locks (hold_region i) s"
    have i: "i < 64" using Cons.prems by (simp add: NUM_REGIONS_def)
    have "distinct is" "set is \<subseteq> {..<NUM_REGIONS}" using Cons.prems by auto
    from Cons.IH[OF this, of "L(i := True)" ?s] obtain ok L' f where
      r: "lock_enclave_regions e is (L(i := True)) ?s = Some (ok, L', upd_locks f ?s)"
        "ok \<longleftrightarrow> (\<forall>j \<in> set is. e_regions (enclaves ?s e) j \<longrightarrow> \<not> region_locks (locks ?s) j)"
        "core_locks (f (locks ?s)) = core_locks (locks ?s)"
        "untrusted_state_lock (f (locks ?s)) = untrusted_state_lock (locks ?s)"
      by blast
    then have "lock_enclave_regions e (i # is) L s = Some (ok, L', upd_locks (\<lambda>k. f (hold_region i k)) s)"
      using True i by (simp add: lock_region_eq NUM_REGIONS_def)
    moreover have "ok \<longleftrightarrow> (\<forall>j \<in> set (i # is). e_regions (enclaves s e) j \<longrightarrow> \<not> region_locks (locks s) j)"
      using r(2) True Cons.prems by auto
    ultimately show ?thesis using r(3,4)
      by (intro exI[of _ ok] exI[of _ L'] exI[of _ "\<lambda>k. f (hold_region i k)"]) simp
  next
    case False
    have i: "i < 64" using Cons.prems by (simp add: NUM_REGIONS_def)
    show ?thesis
    proof (cases "e_regions (enclaves s e) i")
      case True
      with False i show ?thesis
        by (intro exI[of _ False] exI[of _ L] exI[of _ "hold_region i"])
          (simp add: lock_region_eq NUM_REGIONS_def)
    next
      case False
      with Cons.IH[of L s] Cons.prems show ?thesis by auto
    qed
  qed
qed

definition wipe :: "enclave_id_t \<Rightarrow> machine \<Rightarrow> machine" where
  "wipe e s = memset_zero (region_id_to_addr (addr_to_region_id e)) (unat REGION_SIZE) s"

lemma in_own_region:
  assumes "is_page_aligned e"
  shows "in_range (region_id_to_addr (addr_to_region_id e)) (unat REGION_SIZE) e"
proof -
  let ?p = "addr_to_region_page_id e"
  have "e - region_id_to_addr (addr_to_region_id e) = push_bit 12 ?p"
    using page_addr_decompose[OF assms] by (simp add: PAGE_SHIFT_def algebra_simps)
  moreover have "unat (push_bit 12 ?p) = unat ?p * 4096"
    using page_id_in_region[of e] unat_mult_small[of ?p "2 ^ 12"]
    by (simp add: push_bit_eq_mult sm_const)
  ultimately show ?thesis
    using page_id_in_region[of e] by (simp add: in_range_def sm_const)
qed

text \<open>
  Once one region has been cleaned the region map of the enclave is gone: the loop blocks the
  first region of the map and no other.
\<close>

lemma block_loop_wiped:
  "\<not> (\<exists>i. e_regions (enclaves s e) i) \<Longrightarrow>
   fold (\<lambda>i s. if e_regions (enclaves s e) i then F i s else s) xs s = s"
  by (induction xs) auto

lemma block_loop_first:
  assumes "\<And>i s. \<not> (\<exists>j. e_regions (enclaves (F i s) e) j)"
  shows "fold (\<lambda>i s. if e_regions (enclaves s e) i then F i s else s) xs s =
    (case find (e_regions (enclaves s e)) xs of None \<Rightarrow> s | Some i \<Rightarrow> F i s)"
proof (induction xs)
  case (Cons x xs)
  then show ?case using block_loop_wiped[of "F x s" e F xs] assms[of x s] by simp
qed simp

lemma block_enclave_regions_eq:
  assumes "is_page_aligned e"
  shows "block_enclave_regions e s =
    (case find (e_regions (enclaves s e)) [0..<NUM_REGIONS] of None \<Rightarrow> s
     | Some i \<Rightarrow> wipe e (upd_region i (\<lambda>m. m\<lparr>region_st := REGION_STATE_BLOCKED, region_owned_by := OWNER_SM\<rparr>) s))"
  unfolding block_enclave_regions_def Let_def wipe_def
  by (subst block_loop_first) (use in_own_region[OF assms] in \<open>auto simp: memset_zero_def zero_enclave_def split: option.split\<close>)

lemma block_enclave_regions_locks [simp]:
  "block_enclave_regions e (upd_locks f s) = upd_locks f (block_enclave_regions e s)"
  "erase (block_enclave_regions e s) = block_enclave_regions e (erase s)"
  unfolding block_enclave_regions_def Let_def
  by (rule fold_commutes[symmetric], simp del: memset_locks add: memset_locks(1)[symmetric])
    (rule fold_commutes, simp)

lemma block_enclave_regions_sel [simp]:
  "enclaves (block_enclave_regions e (erase s)) = enclaves (block_enclave_regions e s)"
  using erase_sel(14)[of "block_enclave_regions e s"] by simp

definition delete_guard :: "u64 \<Rightarrow> enclave_id_t \<Rightarrow> machine \<Rightarrow> bool" where
  "delete_guard core_id e s \<longleftrightarrow> valid_metadata e METADATA_PAGE_ENCLAVE s \<and>
     \<not> 0 <s e_num_threads (enclaves s e) \<and> unat core_id < NUM_CORES \<and>
     \<not> e_regions (enclaves s e) (unat (addr_to_region_id e)) \<and>
     (let n = enclave_metadata_pages (e_num_mailboxes (enclaves (block_enclave_regions e s) e)) in
      unat n = 0 \<or> unat (addr_to_region_page_id e) + unat n \<le> NUM_REGION_PAGES)"

definition delete_effect :: "enclave_id_t \<Rightarrow> machine \<Rightarrow> machine" where
  "delete_effect e s =
     (let s = block_enclave_regions e s;
          n = enclave_metadata_pages (e_num_mailboxes (enclaves s e));
          s = fill_pages (unat (addr_to_region_id e)) (unat (addr_to_region_page_id e)) (unat n)
                METADATA_PAGE_FREE s
      in memset_zero e (unat (n * PAGE_SIZE)) s)"

lemmas lock_all_regions = lock_enclave_regions_run[of "[0..<NUM_REGIONS]"]

lemma lock_all_Some:
  assumes "lock_enclave_regions e [0..<NUM_REGIONS] L s = Some (ok, L', s')"
  shows "\<exists>f. s' = upd_locks f s \<and> (ok \<longleftrightarrow> (\<forall>i < NUM_REGIONS. e_regions (enclaves s e) i \<longrightarrow> \<not> region_locks (locks s) i))"
  using lock_all_regions[of e L s] assms by (auto simp: atLeast0LessThan)

lemma delete_transacts:
  "yields (sm_internal_enclave_delete c e s) (transacts (delete_guard c e) (delete_effect e) s)"
  unfolding sm_internal_enclave_delete_def
  by (intro yields_rules, simp_all only: prod.case, simp_all add: step_iff split del: if_split)
    (auto simp: transacts_def delete_guard_def delete_effect_def no_regions_def Let_def
      dest!: lock_all_Some split: if_splits)

lemma delete_succeeds:
  assumes "locks s = free_locks" "delete_guard c e s"
  shows "\<exists>s'. sm_internal_enclave_delete c e s = Some (MONITOR_OK, s')"
proof -
  let ?i = "unat (addr_to_region_id e)"
  let ?s = "upd_locks (hold_region ?i) s"
  from lock_all_regions[of e "no_regions(?i := True)" ?s] assms(2) obtain L f where
    r: "lock_enclave_regions e [0..<NUM_REGIONS] (no_regions(?i := True)) ?s = Some (True, L, upd_locks f ?s)"
      "core_locks (f (locks ?s)) = core_locks free_locks" "\<not> untrusted_state_lock (f (locks ?s))"
    using assms(1) by (auto simp: delete_guard_def atLeast0LessThan)
  show ?thesis using assms r valid_metadata_region[of e METADATA_PAGE_ENCLAVE s]
    by (auto simp: sm_internal_enclave_delete_def delete_guard_def valid_metadata_cases Let_def no_regions_def
      lock_core_eq unlock_core_eq lock_untrusted_eq unlock_untrusted_eq set_pages_eq
      add_lock_region_iff_valid_enclave_def)
qed

interpretation create: monitor_call "sm_internal_enclave_create e b k n d" "create_guard e n"
    "create_effect e b k n d"
  for e b k n d
  by (rule monitor_callI[OF create_transacts create_succeeds])

interpretation init: monitor_call "sm_internal_enclave_init env e" "init_guard e" "init_effect env e"
  for env e
  by (rule monitor_callI[OF init_transacts init_succeeds])

interpretation delete: monitor_call "sm_internal_enclave_delete c e" "delete_guard c e" "delete_effect e"
  for c e
  by (rule monitor_callI[OF delete_transacts delete_succeeds])

end
