(* ===== verification/Thread_API.thy ===== *)
theory Thread_API
  imports Enclave_Life
begin

text \<open>
  Threads of an enclave: \<^verbatim>\<open>src/api/thread_load.c\<close>, \<^verbatim>\<open>thread_delete.c\<close>, \<^verbatim>\<open>thread_metadata_pages.c\<close>.
\<close>

section \<open>Calls\<close>

definition sm_internal_thread_load ::
  "enclave_id_t \<Rightarrow> thread_id_t \<Rightarrow> u64 \<Rightarrow> u64 \<Rightarrow> u64 \<Rightarrow> call" where
  "sm_internal_thread_load enclave_id thread_id entry_pc entry_stack timer_limit s = do {
     let region_id_thread = addr_to_region_id thread_id;
     let num_metadata_pages = thread_metadata_pages;
     (result, L, s) \<leftarrow> add_lock_region_iff_valid_enclave enclave_id no_regions s;
     if result \<noteq> MONITOR_OK then Some (result, s)
     else if e_init_state (enclaves s enclave_id) \<noteq> ENCLAVE_STATE_PAGE_DATA_LOADED
     then Some (MONITOR_INVALID_STATE, unlock_regions L s)
     else do {
       (result, L, s) \<leftarrow> add_lock_region_iff_free_metadata_pages thread_id num_metadata_pages L s;
       if result \<noteq> MONITOR_OK then Some (result, unlock_regions L s)
       else do {
         let page_id = addr_to_region_page_id thread_id;
         s \<leftarrow> set_pages (unat region_id_thread) (unat page_id) 1 METADATA_PAGE_THREAD s;
         s \<leftarrow> set_pages (unat region_id_thread) (Suc (unat page_id)) (unat num_metadata_pages - 1)
               METADATA_PAGE_INVALID s;
         let s = upd_thread thread_id (\<lambda>t. t\<lparr>t_owner := enclave_id, t_entry_pc := entry_pc,
               t_entry_sp := entry_stack, t_timer_limit := timer_limit\<rparr>) s;
         let s = upd_enclave enclave_id (\<lambda>m. m\<lparr>e_num_threads := e_num_threads m + 1\<rparr>) s;
         s \<leftarrow> hash_enclave enclave_id (le_bytes 8 entry_pc) s;
         s \<leftarrow> hash_enclave enclave_id (le_bytes 8 entry_stack) s;
         s \<leftarrow> hash_enclave enclave_id (le_bytes 8 timer_limit) s;
         Some (MONITOR_OK, unlock_regions L s) } } }"

definition sm_internal_thread_delete :: "thread_id_t \<Rightarrow> call" where
  "sm_internal_thread_delete thread_id s = do {
     (result, L, s) \<leftarrow> add_lock_region_iff_valid_thread thread_id no_regions s;
     if result \<noteq> MONITOR_OK then Some (result, s)
     else do {
       let region_id_thread = addr_to_region_id thread_id;
       let enclave_id = t_owner (threads s thread_id);
       let region_id_enclave = addr_to_region_id enclave_id;
       (ok, L, s) \<leftarrow> add_lock_region region_id_enclave L s;
       if \<not> ok then Some (MONITOR_CONCURRENT_CALL, unlock_regions L s)
       else if t_is_scheduled (threads s thread_id)
       then Some (MONITOR_INVALID_STATE, unlock_regions L s)
       else do {
         let s = upd_enclave enclave_id (\<lambda>m. m\<lparr>e_num_threads := e_num_threads m - 1\<rparr>) s;
         let s = memset_zero thread_id (unat sizeof_thread_metadata_t) s;
         let page_id = addr_to_region_page_id thread_id;
         s \<leftarrow> set_pages (unat region_id_thread) (unat page_id) (unat thread_metadata_pages)
               METADATA_PAGE_FREE s;
         Some (MONITOR_OK, unlock_regions L s) } } }"

definition sm_internal_thread_metadata_pages :: u64 where
  "sm_internal_thread_metadata_pages = thread_metadata_pages"

section \<open>Contracts\<close>

definition thread_load_guard :: "enclave_id_t \<Rightarrow> thread_id_t \<Rightarrow> machine \<Rightarrow> bool" where
  "thread_load_guard e t s \<longleftrightarrow> valid_metadata e METADATA_PAGE_ENCLAVE s \<and>
     e_init_state (enclaves s e) = ENCLAVE_STATE_PAGE_DATA_LOADED \<and>
     free_metadata t thread_metadata_pages s \<and> ctx_curlen (e_hash_context (enclaves s e)) \<noteq> 128"

definition thread_load_effect ::
  "enclave_id_t \<Rightarrow> thread_id_t \<Rightarrow> u64 \<Rightarrow> u64 \<Rightarrow> u64 \<Rightarrow> machine \<Rightarrow> machine" where
  "thread_load_effect e t entry_pc entry_stack timer_limit s =
     upd_enclave e (\<lambda>m. m\<lparr>e_num_threads := e_num_threads m + 1,
         e_hash_context := foldl extend_ctx (e_hash_context m)
           [le_bytes 8 entry_pc, le_bytes 8 entry_stack, le_bytes 8 timer_limit]\<rparr>)
       (upd_thread t (\<lambda>t. t\<lparr>t_owner := e, t_entry_pc := entry_pc, t_entry_sp := entry_stack,
           t_timer_limit := timer_limit\<rparr>)
         (fill_pages (unat (addr_to_region_id t)) (unat (addr_to_region_page_id t)) 1
            METADATA_PAGE_THREAD s))"

definition thread_delete_guard :: "thread_id_t \<Rightarrow> machine \<Rightarrow> bool" where
  "thread_delete_guard t s \<longleftrightarrow> valid_metadata t METADATA_PAGE_THREAD s \<and>
     unat (addr_to_region_id (t_owner (threads s t))) < NUM_REGIONS \<and> \<not> t_is_scheduled (threads s t)"

definition thread_delete_effect :: "thread_id_t \<Rightarrow> machine \<Rightarrow> machine" where
  "thread_delete_effect t s =
     fill_pages (unat (addr_to_region_id t)) (unat (addr_to_region_page_id t)) 1 METADATA_PAGE_FREE
       (memset_zero t (unat sizeof_thread_metadata_t)
         (upd_enclave (t_owner (threads s t)) (\<lambda>m. m\<lparr>e_num_threads := e_num_threads m - 1\<rparr>) s))"

lemma thread_load_transacts:
  "yields (sm_internal_thread_load e t a b d s)
     (transacts (thread_load_guard e t) (thread_load_effect e t a b d) s)"
  unfolding sm_internal_thread_load_def
  by (intro yields_rules, simp_all only: prod.case, simp_all add: step_iff split del: if_split)
    (auto simp: transacts_def thread_load_guard_def thread_load_effect_def Let_def thread_pages_value
      intro!: upd_cong enclave_metadata_t.equality split: if_splits)

lemma thread_load_succeeds:
  assumes "locks s = free_locks" "thread_load_guard e t s"
  shows "\<exists>s'. sm_internal_thread_load e t a b d s = Some (MONITOR_OK, s')"
  using assms page_id_in_region[of t] valid_metadata_region[of e METADATA_PAGE_ENCLAVE s]
  by (auto simp: sm_internal_thread_load_def thread_load_guard_def valid_metadata_cases Let_def no_regions_def
      add_lock_region_iff_valid_enclave_def free_cases_thread[unfolded thread_pages_value] set_pages_eq hash_enclave_eq
      thread_pages_value free_metadata_def metadata_region_def)

lemma thread_delete_transacts:
  "yields (sm_internal_thread_delete t s) (transacts (thread_delete_guard t) (thread_delete_effect t) s)"
  unfolding sm_internal_thread_delete_def
  by (intro yields_rules, simp_all only: prod.case, simp_all add: step_iff split del: if_split)
    (auto simp: transacts_def thread_delete_guard_def thread_delete_effect_def Let_def
      thread_pages_value add_lock_region_eq split: if_splits)

lemma thread_delete_succeeds:
  assumes "locks s = free_locks" "thread_delete_guard t s"
  shows "\<exists>s'. sm_internal_thread_delete t s = Some (MONITOR_OK, s')"
  using assms page_id_in_region[of t] valid_metadata_region[of t METADATA_PAGE_THREAD s]
  by (auto simp: sm_internal_thread_delete_def thread_delete_guard_def valid_metadata_cases Let_def no_regions_def
      add_lock_region_iff_valid_thread_def add_lock_region_eq set_pages_eq thread_pages_value)

interpretation thread_load: monitor_call "sm_internal_thread_load e t a b d" "thread_load_guard e t"
    "thread_load_effect e t a b d"
  for e t a b d
  by (rule monitor_callI[OF thread_load_transacts thread_load_succeeds])

interpretation thread_delete: monitor_call "sm_internal_thread_delete t" "thread_delete_guard t"
    "thread_delete_effect t"
  for t
  by (rule monitor_callI[OF thread_delete_transacts thread_delete_succeeds])

end
