(* ===== verification/Enclave_Load.thy ===== *)
theory Enclave_Load
  imports Region_API Thread_API
begin

unbundle bit_operations_syntax

text \<open>
  Loading an enclave: the page table helper \<^verbatim>\<open>src/common/load_page_table_entry.c\<close> and the calls
  \<^verbatim>\<open>src/api/enclave_load_handler.c\<close>, \<^verbatim>\<open>enclave_load_page_table.c\<close>, \<^verbatim>\<open>enclave_load_page.c\<close>.
\<close>

section \<open>Page table entries\<close>

text \<open>
  The ownership test of a page table page.  The region id is stored in an \<^verbatim>\<open>int\<close> and used as an
  array index: the truncation to 32 bits and the sign extension are written out.
\<close>

definition pte_region_id :: "u64 \<Rightarrow> u64" where
  "pte_region_id pte_base = scast (ucast (addr_to_region_id pte_base) :: 32 word)"

definition pte_region_ok ::
  "enclave_id_t \<Rightarrow> region_map_t \<Rightarrow> u64 \<Rightarrow> machine \<Rightarrow> (bool \<times> machine) option" where
  "pte_region_ok enclave_id locked_regions pte_base s = do {
     i \<leftarrow> c_index NUM_REGIONS (pte_region_id pte_base);
     if locked_regions i then Some (region_owner_lock_free (pte_region_id pte_base) s = enclave_id, s)
     else do {
       (owner, s) \<leftarrow> region_owner (pte_region_id pte_base) s;
       Some (owner = enclave_id, s) } }"

definition pte_slot_addr :: "u64 \<Rightarrow> u64 \<Rightarrow> nat \<Rightarrow> u64" where
  "pte_slot_addr pte_base virtual_addr i =
     pte_base + (drop_bit (PAGE_SHIFT + PN_OFFSET * i) virtual_addr AND PN_MASK) * PTE_SIZE"

definition pte_not_node :: "u64 \<Rightarrow> bool" where
  "pte_not_node pte = (let pte_acl = pte AND ACL_MASK in
     pte_acl AND PTE_V = 0 \<or> (pte_acl AND PTE_R = 0 \<and> pte_acl AND PTE_W = PTE_W) \<or>
     pte_acl AND PTE_R = PTE_R \<or> pte_acl AND PTE_X = PTE_X)"

definition pte_next_base :: "u64 \<Rightarrow> u64" where
  "pte_next_base pte = push_bit PAGE_SHIFT (drop_bit PAGE_ENTRY_ACL_OFFSET (pte AND PPNs_MASK))"

definition make_pte :: "u64 \<Rightarrow> u64 \<Rightarrow> u64" where
  "make_pte phys_addr acl =
     (push_bit PAGE_ENTRY_ACL_OFFSET (drop_bit PAGE_SHIFT phys_addr) AND PPNs_MASK) OR (acl AND ACL_MASK)"

text \<open>The loop \<^verbatim>\<open>for(int i = 2; i >= level; i--)\<close>.\<close>

fun pte_walk ::
  "enclave_id_t \<Rightarrow> u64 \<Rightarrow> u64 \<Rightarrow> nat \<Rightarrow> u64 \<Rightarrow> region_map_t \<Rightarrow> nat \<Rightarrow> u64 \<Rightarrow> call" where
  "pte_walk enclave_id phys_addr virtual_addr level acl L i pte_base s =
     (let pte_addr = pte_slot_addr pte_base virtual_addr i in
      if i \<noteq> level then
        let pte = load64 (mem s) pte_addr in
        if pte_not_node pte then Some (MONITOR_INVALID_STATE, s)
        else do {
          let pte_base = pte_next_base pte;
          (ok, s) \<leftarrow> pte_region_ok enclave_id L pte_base s;
          if \<not> ok then Some (MONITOR_INVALID_STATE, s)
          else case i of 0 \<Rightarrow> Some (MONITOR_OK, s)
               | Suc j \<Rightarrow> pte_walk enclave_id phys_addr virtual_addr level acl L j pte_base s }
      else Some (MONITOR_OK, s\<lparr>mem := store64 pte_addr (make_pte phys_addr acl) (mem s)\<rparr>))"

declare pte_walk.simps [simp del]

definition root_pte_base :: "u64 \<Rightarrow> u64" where
  "root_pte_base eptbr = push_bit PAGE_SHIFT (eptbr AND SATP_PPN_MASK)"

definition make_eptbr :: "u64 \<Rightarrow> u64" where
  "make_eptbr phys_addr = drop_bit PAGE_SHIFT phys_addr OR push_bit SATP_MODE SATP_MODE_SV39"

text \<open>Both callers have checked that \<^verbatim>\<open>level\<close> is at most 3.\<close>

definition load_page_table_entry ::
  "enclave_id_t \<Rightarrow> u64 \<Rightarrow> u64 \<Rightarrow> u64 \<Rightarrow> u64 \<Rightarrow> region_map_t \<Rightarrow> call" where
  "load_page_table_entry enclave_id phys_addr virtual_addr level acl L s =
     (if level = 3
      then Some (MONITOR_OK, upd_ecsr enclave_id (\<lambda>p. p\<lparr>ep_eptbr := make_eptbr phys_addr\<rparr>) s)
      else if 3 < level then None
      else do {
        let pte_base = root_pte_base (ep_eptbr (e_platform_csr (enclaves s enclave_id)));
        (ok, s) \<leftarrow> pte_region_ok enclave_id L pte_base s;
        if \<not> ok then Some (MONITOR_INVALID_STATE, s)
        else pte_walk enclave_id phys_addr virtual_addr (unat level) acl L 2 pte_base s })"

section \<open>Calls\<close>

definition sm_internal_enclave_load_handler :: "platform_env \<Rightarrow> enclave_id_t \<Rightarrow> u64 \<Rightarrow> call" where
  "sm_internal_enclave_load_handler env enclave_id phys_addr s = do {
     (result, L, s) \<leftarrow> add_lock_region_iff_valid_enclave enclave_id no_regions s;
     if result \<noteq> MONITOR_OK then Some (result, s)
     else if e_init_state (enclaves s enclave_id) > ENCLAVE_STATE_CREATED
     then Some (MONITOR_INVALID_VALUE, unlock_regions L s)
     else if phys_addr mod of_int HANDLER_LEN \<noteq> 0
     then Some (MONITOR_INVALID_VALUE, unlock_regions L s)
     else if e_last_phys_addr_loaded (enclaves s enclave_id) > phys_addr
     then Some (MONITOR_INVALID_VALUE, unlock_regions L s)
     else do {
       let size_handler = enclave_handler_end env - enclave_handler_start env;
       let size_stacks = of_nat NUM_CORES * STACK_SIZE;
       let end_phys_addr = phys_addr + size_stacks + size_handler;
       if addr_to_region_id phys_addr \<noteq> addr_to_region_id end_phys_addr
       then Some (MONITOR_INVALID_VALUE, unlock_regions L s)
       else do {
         (owner, s) \<leftarrow> region_owner (addr_to_region_id phys_addr) s;
         if owner \<noteq> enclave_id then Some (MONITOR_INVALID_STATE, unlock_regions L s)
         else do {
           (ok, L, s) \<leftarrow> add_lock_region (addr_to_region_id phys_addr) L s;
           if \<not> ok then Some (MONITOR_CONCURRENT_CALL, unlock_regions L s)
           else do {
             let s = upd_enclave enclave_id (\<lambda>m. m\<lparr>e_fault_sp_base := phys_addr + size_stacks\<rparr>) s;
             let s = memset_zero phys_addr (unat size_stacks) s;
             let phys_addr = phys_addr + size_stacks;
             let s = platform_protect_enclave_sm_handler enclave_id phys_addr s;
             let s = s\<lparr>mem := memcpy (unat size_handler) phys_addr (enclave_handler_start env) (mem s)\<rparr>;
             s \<leftarrow> hash_enclave enclave_id (read_bytes (mem s) phys_addr (unat size_handler)) s;
             let s = upd_enclave enclave_id (\<lambda>m. m\<lparr>e_init_state := ENCLAVE_STATE_HANDLER_LOADED\<rparr>) s;
             let s = upd_enclave enclave_id (\<lambda>m. m\<lparr>e_fault_pc := phys_addr\<rparr>) s;
             let s = upd_enclave enclave_id (\<lambda>m. m\<lparr>e_last_phys_addr_loaded := end_phys_addr\<rparr>) s;
             Some (MONITOR_OK, unlock_regions L s) } } } } }"

text \<open>\<^verbatim>\<open>virtual_addr\<close> and \<^verbatim>\<open>virtual_addr + PAGE_SIZE\<close> lie in the virtual range of the enclave.\<close>

definition in_evrange :: "enclave_metadata_t \<Rightarrow> u64 \<Rightarrow> bool" where
  "in_evrange m virtual_addr \<longleftrightarrow>
     virtual_addr AND ep_ev_mask (e_platform_csr m) = ep_ev_base (e_platform_csr m) \<and>
     (virtual_addr + PAGE_SIZE) AND ep_ev_mask (e_platform_csr m) = ep_ev_base (e_platform_csr m)"

definition acl_invalid :: "u64 \<Rightarrow> bool" where
  "acl_invalid acl \<longleftrightarrow> acl AND PTE_V = 0 \<or> (acl AND PTE_R = 0 \<and> acl AND PTE_W = PTE_W)"

definition sm_internal_enclave_load_page_table ::
  "enclave_id_t \<Rightarrow> u64 \<Rightarrow> u64 \<Rightarrow> u64 \<Rightarrow> u64 \<Rightarrow> call" where
  "sm_internal_enclave_load_page_table enclave_id phys_addr virtual_addr level acl s = do {
     (result, L, s) \<leftarrow> add_lock_region_iff_valid_enclave enclave_id no_regions s;
     if result \<noteq> MONITOR_OK then Some (result, s)
     else if e_init_state (enclaves s enclave_id) \<noteq> ENCLAVE_STATE_HANDLER_LOADED \<and>
             e_init_state (enclaves s enclave_id) \<noteq> ENCLAVE_STATE_PAGE_TABLES_LOADED
     then Some (MONITOR_INVALID_STATE, unlock_regions L s)
     else if phys_addr mod PAGE_SIZE \<noteq> 0 then Some (MONITOR_INVALID_VALUE, unlock_regions L s)
     else if e_last_phys_addr_loaded (enclaves s enclave_id) > phys_addr
     then Some (MONITOR_INVALID_VALUE, unlock_regions L s)
     else do {
       (owner, s) \<leftarrow> region_owner (addr_to_region_id phys_addr) s;
       if owner \<noteq> enclave_id then Some (MONITOR_INVALID_STATE, unlock_regions L s)
       else if \<not> in_evrange (enclaves s enclave_id) virtual_addr
       then Some (MONITOR_INVALID_VALUE, unlock_regions L s)
       else if level > 3 then Some (MONITOR_INVALID_VALUE, unlock_regions L s)
       else if acl_invalid acl then Some (MONITOR_INVALID_VALUE, s)
       else if (acl AND PTE_R \<noteq> 0 \<or> acl AND PTE_X \<noteq> 0) \<and> level \<noteq> 0 then Some (MONITOR_INVALID_VALUE, s)
       else do {
         (ok, L, s) \<leftarrow> add_lock_region (addr_to_region_id phys_addr) L s;
         if \<not> ok then Some (MONITOR_INVALID_VALUE, unlock_regions L s)
         else do {
           (result, s) \<leftarrow> load_page_table_entry enclave_id phys_addr virtual_addr level acl L s;
           if result \<noteq> MONITOR_OK then Some (result, unlock_regions L s)
           else do {
             let s = upd_enclave enclave_id (\<lambda>m. m\<lparr>e_last_phys_addr_loaded := phys_addr\<rparr>) s;
             let s = upd_enclave enclave_id (\<lambda>m. m\<lparr>e_init_state := ENCLAVE_STATE_PAGE_TABLES_LOADED\<rparr>) s;
             s \<leftarrow> hash_enclave enclave_id (le_bytes 8 virtual_addr) s;
             s \<leftarrow> hash_enclave enclave_id (le_bytes 8 level) s;
             s \<leftarrow> hash_enclave enclave_id (le_bytes 8 acl) s;
             Some (MONITOR_OK, unlock_regions L s) } } } } }"

definition sm_internal_enclave_load_page ::
  "enclave_id_t \<Rightarrow> u64 \<Rightarrow> u64 \<Rightarrow> u64 \<Rightarrow> u64 \<Rightarrow> call" where
  "sm_internal_enclave_load_page enclave_id phys_addr virtual_addr os_addr acl s = do {
     (result, L, s) \<leftarrow> add_lock_region_iff_valid_enclave enclave_id no_regions s;
     if result \<noteq> MONITOR_OK then Some (result, s)
     else if e_init_state (enclaves s enclave_id) \<noteq> ENCLAVE_STATE_PAGE_TABLES_LOADED \<and>
             e_init_state (enclaves s enclave_id) \<noteq> ENCLAVE_STATE_PAGE_DATA_LOADED
     then Some (MONITOR_INVALID_STATE, unlock_regions L s)
     else if phys_addr mod PAGE_SIZE \<noteq> 0 then Some (MONITOR_INVALID_VALUE, unlock_regions L s)
     else if e_last_phys_addr_loaded (enclaves s enclave_id) > phys_addr
     then Some (MONITOR_INVALID_VALUE, unlock_regions L s)
     else do {
       (owner, s) \<leftarrow> region_owner (addr_to_region_id phys_addr) s;
       if owner \<noteq> enclave_id then Some (MONITOR_INVALID_STATE, unlock_regions L s)
       else if \<not> in_evrange (enclaves s enclave_id) virtual_addr
       then Some (MONITOR_INVALID_VALUE, unlock_regions L s)
       else if os_addr mod PAGE_SIZE \<noteq> 0 then Some (MONITOR_INVALID_VALUE, unlock_regions L s)
       else do {
         (owner, s) \<leftarrow> region_owner (addr_to_region_id os_addr) s;
         if owner \<noteq> OWNER_UNTRUSTED then Some (MONITOR_INVALID_STATE, unlock_regions L s)
         else if acl_invalid acl \<or> (acl AND PTE_R = 0 \<and> acl AND PTE_X = 0)
         then Some (MONITOR_INVALID_VALUE, s)
         else do {
           (ok, L, s) \<leftarrow> add_lock_region (addr_to_region_id phys_addr) L s;
           if \<not> ok then Some (MONITOR_INVALID_VALUE, unlock_regions L s)
           else do {
             (ok, L, s) \<leftarrow> add_lock_region (addr_to_region_id os_addr) L s;
             if \<not> ok then Some (MONITOR_INVALID_VALUE, unlock_regions L s)
             else do {
               (result, s) \<leftarrow> load_page_table_entry enclave_id phys_addr virtual_addr 0 acl L s;
               if result \<noteq> MONITOR_OK then Some (result, unlock_regions L s)
               else do {
                 let s = upd_enclave enclave_id (\<lambda>m. m\<lparr>e_last_phys_addr_loaded := phys_addr + PAGE_SIZE\<rparr>) s;
                 let s = upd_enclave enclave_id (\<lambda>m. m\<lparr>e_init_state := ENCLAVE_STATE_PAGE_DATA_LOADED\<rparr>) s;
                 let s = s\<lparr>mem := memcpy (unat PAGE_SIZE) phys_addr os_addr (mem s)\<rparr>;
                 s \<leftarrow> hash_enclave enclave_id (le_bytes 8 virtual_addr) s;
                 s \<leftarrow> hash_enclave enclave_id (le_bytes 8 acl) s;
                 s \<leftarrow> hash_enclave enclave_id (read_bytes (mem s) os_addr (unat PAGE_SIZE)) s;
                 Some (MONITOR_OK, unlock_regions L s) } } } } } } }"

section \<open>What a page table walk does\<close>

text \<open>The region an address lies in is a region of DRAM and belongs to \<open>e\<close>.\<close>

definition owned_addr :: "u64 \<Rightarrow> enclave_id_t \<Rightarrow> machine \<Rightarrow> bool" where
  "owned_addr a e s \<longleftrightarrow> unat (addr_to_region_id a) < NUM_REGIONS \<and>
     region_owned_by (regions s (unat (addr_to_region_id a))) = e"

lemma owned_addr_locks [simp]: "owned_addr a e (upd_locks f s) = owned_addr a e s" "owned_addr a e (erase s) = owned_addr a e s"
  by (auto simp: owned_addr_def)

text \<open>Ids of enclaves are page-aligned, so no error code of \<^const>\<open>region_owner\<close> is one.\<close>

lemma aligned_id:
  assumes "is_page_aligned e" shows "e \<noteq> 1 \<and> e \<noteq> 2 \<and> e \<noteq> 3"
  using assms by (auto simp: is_page_aligned_def PAGE_MASK_def)

definition pte_owned :: "enclave_id_t \<Rightarrow> u64 \<Rightarrow> machine \<Rightarrow> bool" where
  "pte_owned e b s \<longleftrightarrow> unat (pte_region_id b) < NUM_REGIONS \<and>
     region_owned_by (regions s (unat (pte_region_id b))) = e"

lemma pte_region_ok_Some:
  assumes "is_page_aligned e" "pte_region_ok e L b s = Some (ok, s')"
  shows "s' = s \<and> (ok \<longrightarrow> pte_owned e b s)"
  using assms aligned_id[OF assms(1)]
  by (auto simp: pte_region_ok_def owner_spec region_owner_lock_free_def pte_owned_def c_index_def split: if_splits)

lemma pte_region_ok_free:
  assumes "\<And>i. region_locks (locks s) i \<Longrightarrow> L i" "pte_owned e b s"
  shows "pte_region_ok e L b s = Some (True, s)"
  using assms
  by (auto simp: pte_region_ok_def owner_spec region_owner_lock_free_def pte_owned_def c_index_def)

fun pte_slot :: "enclave_id_t \<Rightarrow> u64 \<Rightarrow> nat \<Rightarrow> nat \<Rightarrow> u64 \<Rightarrow> machine \<Rightarrow> u64 option" where
  "pte_slot e va level i b s =
     (if i = level then Some (pte_slot_addr b va i)
      else let pte = load64 (mem s) (pte_slot_addr b va i) in
        if pte_not_node pte \<or> \<not> pte_owned e (pte_next_base pte) s then None
        else case i of 0 \<Rightarrow> None | Suc j \<Rightarrow> pte_slot e va level j (pte_next_base pte) s)"

declare pte_slot.simps [simp del]

lemma pte_walk_sound:
  assumes "is_page_aligned e"
  shows "level \<le> i \<Longrightarrow> pte_walk e pa va level acl L i b s = Some (r, s') \<Longrightarrow>
    (r = MONITOR_OK \<and> (\<exists>a. pte_slot e va level i b s = Some a \<and>
        s' = s\<lparr>mem := store64 a (make_pte pa acl) (mem s)\<rparr>)) \<or> (r = MONITOR_INVALID_STATE \<and> s' = s)"
proof (induction i arbitrary: b)
  case 0
  then show ?case by (subst (asm) pte_walk.simps) (auto simp: pte_slot.simps)
next
  case (Suc j)
  show ?case
  proof (cases "Suc j = level")
    case True
    then show ?thesis using Suc.prems by (subst (asm) pte_walk.simps) (auto simp: pte_slot.simps)
  next
    case False
    with Suc.prems have "level \<le> j" by simp
    with False show ?thesis using Suc.prems(2) Suc.IH[OF \<open>level \<le> j\<close>, of "pte_next_base (load64 (mem s) (pte_slot_addr b va (Suc j)))"]
      by (subst (asm) pte_walk.simps, subst pte_slot.simps)
        (auto simp: Let_def bind_eq_Some_conv dest!: pte_region_ok_Some[OF assms] split: if_splits)
  qed
qed

lemma pte_walk_complete:
  assumes "\<And>i. region_locks (locks s) i \<Longrightarrow> L i"
  shows "pte_slot e va level i b s = Some a \<Longrightarrow>
    pte_walk e pa va level acl L i b s = Some (MONITOR_OK, s\<lparr>mem := store64 a (make_pte pa acl) (mem s)\<rparr>)"
proof (induction i arbitrary: b)
  case 0
  then show ?case by (subst pte_walk.simps) (auto simp: pte_slot.simps Let_def split: if_splits)
next
  case (Suc j)
  then show ?case
    by (subst pte_walk.simps, subst (asm) (2) pte_slot.simps)
      (auto simp: Let_def pte_region_ok_free[OF assms] split: if_splits)
qed

definition root_base :: "enclave_id_t \<Rightarrow> machine \<Rightarrow> u64" where
  "root_base e s = root_pte_base (ep_eptbr (e_platform_csr (enclaves s e)))"

definition entry_slot :: "enclave_id_t \<Rightarrow> u64 \<Rightarrow> u64 \<Rightarrow> machine \<Rightarrow> u64 option" where
  "entry_slot e va level s =
     (if pte_owned e (root_base e s) s then pte_slot e va (unat level) 2 (root_base e s) s else None)"

definition entry_guard :: "enclave_id_t \<Rightarrow> u64 \<Rightarrow> u64 \<Rightarrow> machine \<Rightarrow> bool" where
  "entry_guard e va level s \<longleftrightarrow> level = 3 \<or> level < 3 \<and> entry_slot e va level s \<noteq> None"

definition entry_effect :: "enclave_id_t \<Rightarrow> u64 \<Rightarrow> u64 \<Rightarrow> u64 \<Rightarrow> u64 \<Rightarrow> machine \<Rightarrow> machine" where
  "entry_effect e pa va level acl s =
     (if level = 3 then upd_ecsr e (\<lambda>p. p\<lparr>ep_eptbr := make_eptbr pa\<rparr>) s
      else case entry_slot e va level s of
        Some a \<Rightarrow> s\<lparr>mem := store64 a (make_pte pa acl) (mem s)\<rparr> | None \<Rightarrow> s)"

lemma load_page_table_entry_sound:
  assumes "is_page_aligned e" "load_page_table_entry e pa va level acl L s = Some (r, s')"
  shows "r = MONITOR_OK \<and> entry_guard e va level s \<and> s' = entry_effect e pa va level acl s \<or>
         r = MONITOR_INVALID_STATE \<and> s' = s"
proof (cases "level = 3")
  case True
  then show ?thesis using assms(2) by (auto simp: load_page_table_entry_def entry_guard_def entry_effect_def)
next
  case False
  with assms(2) have l: "level < 3" by (auto simp: load_page_table_entry_def split: if_splits)
  then have "unat level \<le> 2" by (simp add: word_less_nat_alt)
  have "\<not> 3 < level" using l by simp
  with False assms(2) have "Option.bind (pte_region_ok e L (root_base e s) s) (\<lambda>(ok, s1).
      if \<not> ok then Some (MONITOR_INVALID_STATE, s1)
      else pte_walk e pa va (unat level) acl L 2 (root_base e s) s1) = Some (r, s')"
    by (simp add: load_page_table_entry_def Let_def root_base_def cong: if_cong)
  then obtain ok s1 where ok1: "pte_region_ok e L (root_base e s) s = Some (ok, s1)"
    and rest1: "(if \<not> ok then Some (MONITOR_INVALID_STATE, s1)
      else pte_walk e pa va (unat level) acl L 2 (root_base e s) s1) = Some (r, s')"
    by (auto elim!: bind_SomeE)
  from pte_region_ok_Some[OF assms(1) ok1] have s1: "s1 = s" and ok: "ok \<longrightarrow> pte_owned e (root_base e s) s"
    by auto
  note rest = rest1[unfolded s1]
  show ?thesis
  proof (cases ok)
    case True
    from pte_walk_sound[OF assms(1) \<open>unat level \<le> 2\<close>, of pa va acl L "root_base e s" s r s'] rest True ok l False
    show ?thesis by (auto simp: entry_guard_def entry_effect_def entry_slot_def)
  next
    case False
    then show ?thesis using rest by simp
  qed
qed

lemma load_page_table_entry_complete:
  assumes "\<And>i. region_locks (locks s) i \<Longrightarrow> L i" "entry_guard e va level s"
  shows "load_page_table_entry e pa va level acl L s = Some (MONITOR_OK, entry_effect e pa va level acl s)"
proof (cases "level = 3")
  case True
  then show ?thesis by (simp add: load_page_table_entry_def entry_effect_def)
next
  case False
  with assms(2) obtain a where "level < 3" and a: "entry_slot e va level s = Some a"
    by (auto simp: entry_guard_def)
  moreover have "pte_owned e (root_base e s) s" "pte_slot e va (unat level) 2 (root_base e s) s = Some a"
    using a by (auto simp: entry_slot_def split: if_splits)
  ultimately show ?thesis
    using False pte_region_ok_free[OF assms(1)] pte_walk_complete[OF assms(1)]
    by (auto simp: load_page_table_entry_def entry_effect_def Let_def root_base_def)
qed

section \<open>What the loading calls promise\<close>

lemma pte_slot_cong:
  "mem s = mem t \<Longrightarrow> regions s = regions t \<Longrightarrow> pte_slot e va level i b s = pte_slot e va level i b t"
proof (induction i arbitrary: b)
  case 0
  then show ?case by (simp add: pte_slot.simps pte_owned_def Let_def)
next
  case (Suc j)
  show ?case
    by (subst (1 2) pte_slot.simps) (simp add: Suc pte_owned_def Let_def)
qed

lemma entry_slot_cong:
  "mem s = mem t \<Longrightarrow> regions s = regions t \<Longrightarrow> enclaves s = enclaves t \<Longrightarrow> entry_slot e va level s = entry_slot e va level t"
  using pte_slot_cong[of s t] by (simp add: entry_slot_def root_base_def pte_owned_def)

lemma entry_locks [simp]:
  "entry_guard e va level (upd_locks f s) = entry_guard e va level s"
  "entry_guard e va level (erase s) = entry_guard e va level s"
  "entry_effect e pa va level acl (upd_locks f s) = upd_locks f (entry_effect e pa va level acl s)"
  "erase (entry_effect e pa va level acl s) = entry_effect e pa va level acl (erase s)"
  using entry_slot_cong[of "upd_locks f s" s e va level] entry_slot_cong[of "erase s" s e va level]
  by (auto simp: entry_guard_def entry_effect_def upd_ecsr_def upd_locks_def erase_def upd_enclave_def split: option.splits)

lemma entry_effect_hash [simp]:
  "e_hash_context (enclaves (entry_effect e pa va level acl s) d) = e_hash_context (enclaves s d)"
  by (auto simp: entry_effect_def upd_ecsr_def upd_enclave_def split: option.splits)

lemma upd_enclave_mem [simp]: "(upd_enclave e v s)\<lparr>mem := M\<rparr> = upd_enclave e v (s\<lparr>mem := M\<rparr>)"
  by (simp add: upd_enclave_def)

lemma entry_effect_mem [simp]: "mem (entry_effect e pa va level acl (erase s)) = mem (entry_effect e pa va level acl s)"
  by (simp only: entry_locks(4)[symmetric] erase_sel)

lemma step_region_owner [step_iff]:
  "region_owner r s = Some (o', s') \<longleftrightarrow> s' = s \<and> o' = (if unat r < NUM_REGIONS
     then if region_locks (locks s) (unat r) then 3 else region_owned_by (regions s (unat r)) else 1)"
  by (auto simp: owner_spec)

definition load_page_table_guard :: "enclave_id_t \<Rightarrow> u64 \<Rightarrow> u64 \<Rightarrow> u64 \<Rightarrow> u64 \<Rightarrow> machine \<Rightarrow> bool" where
  "load_page_table_guard e pa va level acl s \<longleftrightarrow> valid_metadata e METADATA_PAGE_ENCLAVE s \<and>
     (let m = enclaves s e in
      (e_init_state m = ENCLAVE_STATE_HANDLER_LOADED \<or> e_init_state m = ENCLAVE_STATE_PAGE_TABLES_LOADED) \<and>
      e_last_phys_addr_loaded m \<le> pa \<and> in_evrange m va \<and> ctx_curlen (e_hash_context m) \<noteq> 128) \<and>
     pa mod PAGE_SIZE = 0 \<and> owned_addr pa e s \<and> addr_to_region_id pa \<noteq> addr_to_region_id e \<and>
     \<not> acl_invalid acl \<and> (acl AND PTE_R = 0 \<and> acl AND PTE_X = 0 \<or> level = 0) \<and>
     entry_guard e va level s"

definition load_page_table_effect :: "enclave_id_t \<Rightarrow> u64 \<Rightarrow> u64 \<Rightarrow> u64 \<Rightarrow> u64 \<Rightarrow> machine \<Rightarrow> machine" where
  "load_page_table_effect e pa va level acl s =
     upd_enclave e (\<lambda>m. m\<lparr>e_last_phys_addr_loaded := pa, e_init_state := ENCLAVE_STATE_PAGE_TABLES_LOADED,
         e_hash_context := foldl extend_ctx (e_hash_context m) [le_bytes 8 va, le_bytes 8 level, le_bytes 8 acl]\<rparr>)
       (entry_effect e pa va level acl s)"


text \<open>
  Transaction rules for the steps these calls are made of: one premise per outcome, the state of the
  failing branch known up to its locks.
\<close>

lemma yields_pair: "yields (f a b) P \<Longrightarrow> yields (case (a, b) of (x, y) \<Rightarrow> f x y) P"
  by simp

lemma valid_metadata_id: "valid_metadata p ty s \<Longrightarrow> is_page_aligned p \<and> p \<noteq> 1 \<and> p \<noteq> 3"
  using aligned_id[of p] by (auto simp: valid_metadata_def metadata_region_def)

lemma no_regions_app [simp]: "\<not> no_regions i"
  by (simp add: no_regions_def)

lemma txn_valid_metadata:
  assumes "\<And>r L' f. r \<noteq> MONITOR_OK \<Longrightarrow> yields (k (r, L', upd_locks f s)) P"
    and "\<And>L'. valid_metadata p ty s \<Longrightarrow> is_page_aligned p \<Longrightarrow> p \<noteq> 1 \<Longrightarrow> p \<noteq> 3 \<Longrightarrow>
      yields (k (MONITOR_OK, L', upd_locks (hold_region (unat (addr_to_region_id p))) s)) P"
  shows "yields (Option.bind (add_lock_region_iff_valid_metadata p ty no_regions s) k) P"
  using assms(1)[of MONITOR_INVALID_VALUE no_regions id] assms(1)[of MONITOR_CONCURRENT_CALL no_regions id]
    assms(1)[of MONITOR_INVALID_STATE "no_regions(unat (addr_to_region_id p) := True)" "hold_region (unat (addr_to_region_id p))"]
    assms(2) valid_metadata_id[of p ty s]
  by (auto simp: valid_metadata_cases Let_def)

lemma txn_region_owner:
  assumes "\<And>ow. (ow \<noteq> 1 \<and> ow \<noteq> 3 \<longrightarrow> unat r < NUM_REGIONS \<and> region_owned_by (regions s (unat r)) = ow \<and> \<not> region_locks (locks s) (unat r)) \<Longrightarrow>
      (ow = 1 \<longrightarrow> unat r < NUM_REGIONS \<longrightarrow> region_owned_by (regions s (unat r)) = 1 \<and> \<not> region_locks (locks s) (unat r)) \<Longrightarrow>
      yields (k (ow, s)) P"
  shows "yields (Option.bind (region_owner r s) k) P"
  using assms by (auto simp: owner_spec)

lemma txn_add_lock:
  assumes "\<And>L' f. unat r < NUM_REGIONS \<Longrightarrow> yields (k (False, L', upd_locks f s)) P"
    and "\<And>L' f. unat r < NUM_REGIONS \<Longrightarrow> yields (k (True, L', upd_locks f s)) P"
  shows "yields (Option.bind (add_lock_region r L s) k) P"
  using assms(1)[of L "hold_region (unat r)"] assms(2)[of L id] assms(2)[of "L(unat r := True)" "hold_region (unat r)"]
  by (auto simp: add_lock_region_eq yields_None)

lemma txn_hash_enclave:
  assumes "\<And>s'. x = [] \<or> ctx_curlen (e_hash_context (enclaves s e)) \<noteq> 128 \<Longrightarrow>
     s' = upd_enclave e (\<lambda>m. m\<lparr>e_hash_context := extend_ctx (e_hash_context m) x\<rparr>) s \<Longrightarrow> yields (k s') P"
  shows "yields (Option.bind (hash_enclave e x s) k) P"
  using assms by (auto simp: hash_enclave_eq yields_def)

lemma txn_load_entry:
  assumes "is_page_aligned e"
    and "yields (k (MONITOR_INVALID_STATE, s)) P"
    and "entry_guard e va level s \<Longrightarrow> yields (k (MONITOR_OK, entry_effect e pa va level acl s)) P"
  shows "yields (Option.bind (load_page_table_entry e pa va level acl L s) k) P"
  by (rule yields_bind) (use assms load_page_table_entry_sound[OF assms(1), of pa va level acl L s] in fastforce)

lemmas txn_rules = yields_if yields_Some yields_None yields_let yields_pair txn_valid_metadata txn_region_owner
  txn_add_lock txn_hash_enclave txn_load_entry

lemma load_page_table_transacts:
  "yields (sm_internal_enclave_load_page_table e pa va level acl s)
     (transacts (load_page_table_guard e pa va level acl) (load_page_table_effect e pa va level acl) s)"
  unfolding sm_internal_enclave_load_page_table_def add_lock_region_iff_valid_enclave_def
  by (intro txn_rules, simp_all add: transacts_def unlock_regions_eq)
    (auto simp: load_page_table_guard_def load_page_table_effect_def owned_addr_def Let_def)

lemma free_step_valid:
  assumes "locks s = free_locks" "valid_metadata p ty s"
  shows "add_lock_region_iff_valid_metadata p ty no_regions s = Some (MONITOR_OK,
     no_regions(unat (addr_to_region_id p) := True), upd_locks (hold_region (unat (addr_to_region_id p))) s)"
  using assms valid_metadata_region[OF assms(2)] by (simp add: valid_metadata_cases no_regions_def Let_def)

lemma load_entry_held:
  assumes "region_locks (locks s) = L" "entry_guard e va level s"
  shows "load_page_table_entry e pa va level acl L s = Some (MONITOR_OK, entry_effect e pa va level acl s)"
  using assms by (intro load_page_table_entry_complete) auto

lemma region_locks_free: "region_locks free_locks = no_regions"
  by (simp add: free_locks_def no_regions_def)

lemma owner_free:
  assumes "owned_addr a e s" "\<not> region_locks (locks s) (unat (addr_to_region_id a))"
  shows "region_owner (addr_to_region_id a) s = Some (e, s)"
  using assms by (simp add: owner_spec owned_addr_def)

lemma add_lock_free:
  assumes "owned_addr a e s" "\<not> region_locks (locks s) (unat (addr_to_region_id a))" "\<not> L (unat (addr_to_region_id a))"
  shows "add_lock_region (addr_to_region_id a) L s = Some (True, L(unat (addr_to_region_id a) := True),
     upd_locks (hold_region (unat (addr_to_region_id a))) s)"
  using assms by (simp add: add_lock_region_eq owned_addr_def)

lemma load_page_table_succeeds:
  assumes "locks s = free_locks" "load_page_table_guard e pa va level acl s"
  shows "\<exists>s'. sm_internal_enclave_load_page_table e pa va level acl s = Some (MONITOR_OK, s')"
proof -
  have v: "valid_metadata e METADATA_PAGE_ENCLAVE s" and ne: "unat (addr_to_region_id pa) \<noteq> unat (addr_to_region_id e)"
    and lv: "\<not> 3 < level" and en: "entry_guard e va level s" and pa: "owned_addr pa e s"
    using assms(2) by (auto simp: load_page_table_guard_def entry_guard_def dest: unsigned_word_eqI)
  show ?thesis using assms ne lv en pa
    by (auto simp: load_page_table_guard_def Let_def sm_internal_enclave_load_page_table_def add_lock_region_iff_valid_enclave_def
      free_step_valid[OF assms(1) v] owner_free add_lock_free load_entry_held region_locks_free
      hash_enclave_eq not_less)
qed

definition load_page_guard :: "enclave_id_t \<Rightarrow> u64 \<Rightarrow> u64 \<Rightarrow> u64 \<Rightarrow> u64 \<Rightarrow> machine \<Rightarrow> bool" where
  "load_page_guard e pa va os acl s \<longleftrightarrow> valid_metadata e METADATA_PAGE_ENCLAVE s \<and>
     (let m = enclaves s e in
      (e_init_state m = ENCLAVE_STATE_PAGE_TABLES_LOADED \<or> e_init_state m = ENCLAVE_STATE_PAGE_DATA_LOADED) \<and>
      e_last_phys_addr_loaded m \<le> pa \<and> in_evrange m va \<and> ctx_curlen (e_hash_context m) \<noteq> 128) \<and>
     pa mod PAGE_SIZE = 0 \<and> owned_addr pa e s \<and> addr_to_region_id pa \<noteq> addr_to_region_id e \<and>
     os mod PAGE_SIZE = 0 \<and> owned_addr os OWNER_UNTRUSTED s \<and> addr_to_region_id os \<noteq> addr_to_region_id e \<and>
     \<not> acl_invalid acl \<and> \<not> (acl AND PTE_R = 0 \<and> acl AND PTE_X = 0) \<and> entry_guard e va 0 s"

definition load_page_effect :: "enclave_id_t \<Rightarrow> u64 \<Rightarrow> u64 \<Rightarrow> u64 \<Rightarrow> u64 \<Rightarrow> machine \<Rightarrow> machine" where
  "load_page_effect e pa va os acl s =
     (let t = entry_effect e pa va 0 acl s; M = memcpy (unat PAGE_SIZE) pa os (mem t) in
      upd_enclave e (\<lambda>m. m\<lparr>e_last_phys_addr_loaded := pa + PAGE_SIZE, e_init_state := ENCLAVE_STATE_PAGE_DATA_LOADED,
         e_hash_context := foldl extend_ctx (e_hash_context m)
           [le_bytes 8 va, le_bytes 8 acl, read_bytes M os (unat PAGE_SIZE)]\<rparr>) (t\<lparr>mem := M\<rparr>))"

lemma load_page_transacts:
  "yields (sm_internal_enclave_load_page e pa va os acl s)
     (transacts (load_page_guard e pa va os acl) (load_page_effect e pa va os acl) s)"
  unfolding sm_internal_enclave_load_page_def add_lock_region_iff_valid_enclave_def
  by (intro txn_rules, simp_all add: transacts_def unlock_regions_eq,
      simp_all add: load_page_guard_def load_page_effect_def owned_addr_def Let_def not_less)
    (auto simp: OWNER_UNTRUSTED_def)

lemma load_page_succeeds:
  assumes "locks s = free_locks" "load_page_guard e pa va os acl s"
  shows "\<exists>s'. sm_internal_enclave_load_page e pa va os acl s = Some (MONITOR_OK, s')"
proof -
  have v: "valid_metadata e METADATA_PAGE_ENCLAVE s" and pa: "owned_addr pa e s" and os: "owned_addr os OWNER_UNTRUSTED s"
    and ne: "unat (addr_to_region_id pa) \<noteq> unat (addr_to_region_id e)" "unat (addr_to_region_id os) \<noteq> unat (addr_to_region_id e)"
    and en: "entry_guard e va 0 s"
    using assms(2) by (auto simp: load_page_guard_def dest: unsigned_word_eqI)
  have ne': "unat (addr_to_region_id os) \<noteq> unat (addr_to_region_id pa)"
    using valid_metadata_id[OF v] pa os by (auto simp: owned_addr_def OWNER_UNTRUSTED_def)
  show ?thesis using assms ne ne' en pa os
    by (auto simp: load_page_guard_def Let_def sm_internal_enclave_load_page_def add_lock_region_iff_valid_enclave_def
      free_step_valid[OF assms(1) v] owner_free add_lock_free load_entry_held region_locks_free hash_enclave_eq not_less)
qed

lemma protect_handler [simp]:
  "platform_protect_enclave_sm_handler e h (upd_locks f s) = upd_locks f (platform_protect_enclave_sm_handler e h s)"
  "erase (platform_protect_enclave_sm_handler e h s) = platform_protect_enclave_sm_handler e h (erase s)"
  "locks (platform_protect_enclave_sm_handler e h s) = locks s"
  "mem (platform_protect_enclave_sm_handler e h s) = mem s"
  "e_hash_context (enclaves (platform_protect_enclave_sm_handler e h s) d) = e_hash_context (enclaves s d)"
  by (auto simp: platform_protect_enclave_sm_handler_def upd_ecsr_def Let_def)

text \<open>The stacks of the handler: \<open>NUM_CORES\<close> of them, zeroed, below the code.\<close>

definition handler_stacks :: u64 where
  "handler_stacks = of_nat NUM_CORES * STACK_SIZE"

definition handler_size :: "platform_env \<Rightarrow> u64" where
  "handler_size env = enclave_handler_end env - enclave_handler_start env"

definition stacks_cleared :: "enclave_id_t \<Rightarrow> u64 \<Rightarrow> machine \<Rightarrow> machine" where
  "stacks_cleared e pa s = memset_zero pa (unat handler_stacks)
     (upd_enclave e (\<lambda>m. m\<lparr>e_fault_sp_base := pa + handler_stacks\<rparr>) s)"

lemma stacks_cleared_locks [simp]:
  "stacks_cleared e pa (upd_locks f s) = upd_locks f (stacks_cleared e pa s)"
  "erase (stacks_cleared e pa s) = stacks_cleared e pa (erase s)"
  "locks (stacks_cleared e pa s) = locks s"
  by (simp_all add: stacks_cleared_def flip: upd_locks_data)

lemma stacks_cleared_mem [simp]: "mem (stacks_cleared e pa (erase s)) = mem (stacks_cleared e pa s)"
  by (simp only: stacks_cleared_locks(2)[symmetric] erase_sel)

definition load_handler_guard :: "platform_env \<Rightarrow> enclave_id_t \<Rightarrow> u64 \<Rightarrow> machine \<Rightarrow> bool" where
  "load_handler_guard env e pa s \<longleftrightarrow> valid_metadata e METADATA_PAGE_ENCLAVE s \<and>
     e_init_state (enclaves s e) \<le> ENCLAVE_STATE_CREATED \<and> e_last_phys_addr_loaded (enclaves s e) \<le> pa \<and>
     (read_bytes (mem s) pa (unat (handler_size env)) = [] \<or> ctx_curlen (e_hash_context (enclaves (stacks_cleared e pa s) e)) \<noteq> 128) \<and>
     pa mod of_int HANDLER_LEN = 0 \<and> owned_addr pa e s \<and> addr_to_region_id pa \<noteq> addr_to_region_id e \<and>
     addr_to_region_id (pa + handler_stacks + handler_size env) = addr_to_region_id pa"

definition load_handler_effect :: "platform_env \<Rightarrow> enclave_id_t \<Rightarrow> u64 \<Rightarrow> machine \<Rightarrow> machine" where
  "load_handler_effect env e pa s =
     (let n = unat (handler_size env); h = pa + handler_stacks; t = stacks_cleared e pa s;
          M = memcpy n h (enclave_handler_start env) (mem t) in
      upd_enclave e (\<lambda>m. m\<lparr>e_init_state := ENCLAVE_STATE_HANDLER_LOADED, e_fault_pc := h,
          e_last_phys_addr_loaded := h + handler_size env,
          e_hash_context := extend_ctx (e_hash_context m) (read_bytes M h n)\<rparr>)
        ((platform_protect_enclave_sm_handler e h t)\<lparr>mem := M\<rparr>))"

lemma load_handler_unfold:
  "sm_internal_enclave_load_handler env e pa s = do {
     (result, L, s) \<leftarrow> add_lock_region_iff_valid_metadata e METADATA_PAGE_ENCLAVE no_regions s;
     if result \<noteq> MONITOR_OK then Some (result, s)
     else if e_init_state (enclaves s e) > ENCLAVE_STATE_CREATED
     then Some (MONITOR_INVALID_VALUE, unlock_regions L s)
     else if pa mod of_int HANDLER_LEN \<noteq> 0
     then Some (MONITOR_INVALID_VALUE, unlock_regions L s)
     else if e_last_phys_addr_loaded (enclaves s e) > pa
     then Some (MONITOR_INVALID_VALUE, unlock_regions L s)
     else if addr_to_region_id pa \<noteq> addr_to_region_id (pa + handler_stacks + handler_size env)
     then Some (MONITOR_INVALID_VALUE, unlock_regions L s)
     else do {
         (owner, s) \<leftarrow> region_owner (addr_to_region_id pa) s;
         if owner \<noteq> e then Some (MONITOR_INVALID_STATE, unlock_regions L s)
         else do {
           (ok, L, s) \<leftarrow> add_lock_region (addr_to_region_id pa) L s;
           if \<not> ok then Some (MONITOR_CONCURRENT_CALL, unlock_regions L s)
           else do {
             let s = platform_protect_enclave_sm_handler e (pa + handler_stacks) (stacks_cleared e pa s);
             let s = s\<lparr>mem := memcpy (unat (handler_size env)) (pa + handler_stacks) (enclave_handler_start env) (mem s)\<rparr>;
             s \<leftarrow> hash_enclave e (read_bytes (mem s) (pa + handler_stacks) (unat (handler_size env))) s;
             Some (MONITOR_OK, unlock_regions L (upd_enclave e (\<lambda>m. m\<lparr>e_init_state := ENCLAVE_STATE_HANDLER_LOADED,
               e_fault_pc := pa + handler_stacks, e_last_phys_addr_loaded := pa + handler_stacks + handler_size env\<rparr>) s)) } } } }"
  by (simp add: sm_internal_enclave_load_handler_def add_lock_region_iff_valid_enclave_def Let_def handler_stacks_def
    handler_size_def stacks_cleared_def upd_compose cong: if_cong)

lemma read_bytes_Nil: "read_bytes M a n = [] \<longleftrightarrow> n = 0"
  by (simp add: read_bytes_def)

lemma load_handler_transacts:
  "yields (sm_internal_enclave_load_handler env e pa s)
     (transacts (load_handler_guard env e pa) (load_handler_effect env e pa) s)"
  unfolding load_handler_unfold
  by (intro txn_rules, simp_all add: transacts_def unlock_regions_eq,
      simp_all add: load_handler_guard_def load_handler_effect_def owned_addr_def Let_def not_less read_bytes_Nil)
    (auto intro!: upd_cong enclave_metadata_t.equality)

lemma load_handler_succeeds:
  assumes "locks s = free_locks" "load_handler_guard env e pa s"
  shows "\<exists>s'. sm_internal_enclave_load_handler env e pa s = Some (MONITOR_OK, s')"
proof -
  have v: "valid_metadata e METADATA_PAGE_ENCLAVE s" and ne: "unat (addr_to_region_id pa) \<noteq> unat (addr_to_region_id e)"
    and pa: "owned_addr pa e s"
    using assms(2) by (auto simp: load_handler_guard_def dest: unsigned_word_eqI)
  show ?thesis using assms ne pa
    by (auto simp: load_handler_guard_def Let_def load_handler_unfold free_step_valid[OF assms(1) v]
      owner_free add_lock_free hash_enclave_eq not_less read_bytes_Nil)
qed

interpretation load_handler: monitor_call "sm_internal_enclave_load_handler env e pa"
    "load_handler_guard env e pa" "load_handler_effect env e pa" for env e pa
  by (rule monitor_callI) (fact load_handler_transacts load_handler_succeeds)+

interpretation load_page_table: monitor_call "sm_internal_enclave_load_page_table e pa va level acl"
    "load_page_table_guard e pa va level acl" "load_page_table_effect e pa va level acl" for e pa va level acl
  by (rule monitor_callI) (fact load_page_table_transacts load_page_table_succeeds)+

interpretation load_page: monitor_call "sm_internal_enclave_load_page e pa va os acl"
    "load_page_guard e pa va os acl" "load_page_effect e pa va os acl" for e pa va os acl
  by (rule monitor_callI) (fact load_page_transacts load_page_succeeds)+

end
