(* ===== verification/Enclave_Run.thy ===== *)
theory Enclave_Run
  imports Enclave_Load
begin

unbundle bit_operations_syntax

text \<open>
  Entering and leaving an enclave: \<^verbatim>\<open>src/api/enclave_enter.c\<close>, \<^verbatim>\<open>src/api/enclave_exit.c\<close>,
  \<^verbatim>\<open>src/handle_enclave/enclave_aex.c\<close> and the assembly they end in
  (\<^verbatim>\<open>src/common/syscall_helpers.S\<close>).

  These calls return only on failure.  Their result is a sum: \<^term>\<open>Inl (r, s)\<close> is a return to the
  trap handler with code \<open>r\<close>, \<^term>\<open>Inr s\<close> a core that has left the monitor by \<^verbatim>\<open>mret\<close>.
  \<open>trap_frame s c\<close> is the array \<^verbatim>\<open>regs\<close> of the trap that core \<open>c\<close> handles.  The effect of \<^verbatim>\<open>mret\<close> on the
  privilege stack of \<^verbatim>\<open>mstatus\<close> is not part of the model.
\<close>

type_synonym leaving_call = "machine \<Rightarrow> (api_result_t \<times> machine + machine) option"

definition INTEGER_CONTEXT_SIZE :: u64 where [sm_const]: "INTEGER_CONTEXT_SIZE = 0x100"

section \<open>Leaving the monitor\<close>

definition mret :: "nat \<Rightarrow> machine \<Rightarrow> machine" where
  "mret c s = s\<lparr>pc := (pc s)(c := csr_mepc (csrs s c))\<rparr>"

text \<open>The registers \<^verbatim>\<open>.restore_regs\<close> loads: all but x0, ra, sp and t0.\<close>

definition restore_regs :: "nat \<Rightarrow> platform_core_state_t \<Rightarrow> machine \<Rightarrow> machine" where
  "restore_regs c frame s =
     s\<lparr>gpr := (gpr s)(c := (\<lambda>i. if i \<in> {3, 4} \<union> {6..<NUM_REGISTERS} then frame i else gpr s c i))\<rparr>"

definition perform_mret :: "nat \<Rightarrow> platform_core_state_t \<Rightarrow> machine \<Rightarrow> machine" where
  "perform_mret c frame s =
     (let s = upd_csr c (\<lambda>r. r\<lparr>csr_mscratch := frame 2\<rparr>) s;
          s = set_reg c 1 (frame 1) s;
          s = set_reg c 5 (frame 5) s;
          sp = gpr s c 2;
          s = set_reg c 2 (csr_mscratch (csrs s c)) s;
          s = upd_csr c (\<lambda>r. r\<lparr>csr_mscratch := sp\<rparr>) s;
          s = platform_purge_core c s;
          s = upd_csr c (\<lambda>r. r\<lparr>csr_mspec := 0\<rparr>) s
      in mret c s)"

definition perform_mret_ecall :: "nat \<Rightarrow> platform_core_state_t \<Rightarrow> machine \<Rightarrow> machine" where
  "perform_mret_ecall c frame s =
     perform_mret c frame (upd_csr c (\<lambda>r. r\<lparr>csr_mepc := csr_mepc r + 4\<rparr>) s)"

section \<open>Enter\<close>

text \<open>The state transition of \<^verbatim>\<open>enclave_enter\<close>, between the checks and the release of the locks.\<close>

definition enclave_enter_switch :: "platform_env \<Rightarrow> nat \<Rightarrow> enclave_id_t \<Rightarrow> thread_id_t \<Rightarrow> machine \<Rightarrow> machine" where
  "enclave_enter_switch env c enclave_id thread_id s =
     (let aex = t_aex_present (threads s thread_id);
          regs = trap_frame s c;
          s = upd_thread thread_id (\<lambda>t. t\<lparr>t_untrusted_state :=
                (\<lambda>i. if i < NUM_REGISTERS then regs i else t_untrusted_state t i)\<rparr>) s;
          s = s\<lparr>trap_frame := (trap_frame s)(c :=
                (\<lambda>i. if i < NUM_REGISTERS then if aex then t_aex_state (threads s thread_id) i else 0 else regs i))\<rparr>;
          s = upd_thread thread_id (\<lambda>t. t\<lparr>t_untrusted_pc := csr_mepc (csrs s c)\<rparr>) s;
          s = upd_thread thread_id (\<lambda>t. t\<lparr>t_untrusted_fault_pc := trap_vector_from_untrusted env AND NOT 3\<rparr>) s;
          s = upd_thread thread_id (\<lambda>t. t\<lparr>t_untrusted_fault_sp :=
                stack_ptr env - of_nat c * STACK_SIZE - MENTRY_FRAME_SIZE\<rparr>) s;
          s = (if aex then upd_thread thread_id (\<lambda>t. t\<lparr>t_aex_present := False\<rparr>) s else s);
          s = upd_core c (\<lambda>k. k\<lparr>core_owner := enclave_id\<rparr>) s;
          s = upd_core c (\<lambda>k. k\<lparr>core_thread := thread_id\<rparr>) s;
          s = upd_csr c (\<lambda>r. r\<lparr>csr_mstatus := mstatus_for_s_mode (csr_mstatus r)\<rparr>) s;
          s = platform_set_enclave_page_table c enclave_id thread_id s;
          s = platform_memory_protection_enter_enclave c enclave_id thread_id s;
          s = platform_interrupts_enter_enclave c thread_id s;
          s = upd_csr c (\<lambda>r. r\<lparr>csr_mtvec := e_fault_pc (enclaves s enclave_id)\<rparr>) s;
          s = upd_csr c (\<lambda>r. r\<lparr>csr_mepc := t_entry_pc (threads s thread_id)\<rparr>) s;
          s = upd_csr c (\<lambda>r. r\<lparr>csr_mscratch :=
                e_fault_sp_base (enclaves s enclave_id) - of_nat c * STACK_SIZE - INTEGER_CONTEXT_SIZE\<rparr>) s
      in s\<lparr>timecmp := (timecmp s)(c := mtime s + t_timer_limit (threads s thread_id))\<rparr>)"

text \<open>The assembly at the end of \<^verbatim>\<open>enclave_enter\<close>.\<close>

definition enclave_launch :: "nat \<Rightarrow> thread_id_t \<Rightarrow> machine \<Rightarrow> machine" where
  "enclave_launch c thread_id s =
     (let s = set_reg c 2 (t_entry_sp (threads s thread_id)) s;
          s = platform_clean_core c s;
          s = platform_purge_core c s;
          s = set_reg c 1 0 s;
          s = upd_csr c (\<lambda>r. r\<lparr>csr_mspec := 0\<rparr>) s
      in mret c s)"

definition sm_internal_enclave_enter :: "platform_env \<Rightarrow> u64 \<Rightarrow> enclave_id_t \<Rightarrow> thread_id_t \<Rightarrow> leaving_call" where
  "sm_internal_enclave_enter env core_id enclave_id thread_id s = do {
     c \<leftarrow> c_index NUM_CORES core_id;
     (result, L, s) \<leftarrow> add_lock_region_iff_valid_enclave enclave_id no_regions s;
     if result \<noteq> MONITOR_OK then Some (Inl (result, s))
     else if e_init_state (enclaves s enclave_id) \<noteq> ENCLAVE_STATE_INITIALIZED
     then Some (Inl (MONITOR_INVALID_STATE, unlock_regions L s))
     else do {
       (result, L, s) \<leftarrow> add_lock_region_iff_valid_thread thread_id L s;
       if result \<noteq> MONITOR_OK then Some (Inl (result, s))
       else if t_is_scheduled (threads s thread_id)
       then Some (Inl (MONITOR_INVALID_STATE, unlock_regions L s))
       else if t_owner (threads s thread_id) \<noteq> enclave_id
       then Some (Inl (MONITOR_INVALID_STATE, unlock_regions L s))
       else do {
         (ok, s) \<leftarrow> lock_core core_id s;
         if \<not> ok then Some (Inl (MONITOR_CONCURRENT_CALL, unlock_regions L s))
         else do {
           let s = enclave_enter_switch env c enclave_id thread_id s;
           let s = unlock_regions L s;
           s \<leftarrow> unlock_core core_id s;
           Some (Inr (enclave_launch c thread_id s)) } } } }"

section \<open>Exit\<close>

text \<open>The core whose trap frame lies at an address of the monitor's stack area.\<close>

definition frame_base :: "platform_env \<Rightarrow> nat \<Rightarrow> u64" where
  "frame_base env c = stack_ptr env - of_nat c * STACK_SIZE - MENTRY_FRAME_SIZE"

definition frame_core :: "platform_env \<Rightarrow> u64 \<Rightarrow> nat option" where
  "frame_core env sp = find (\<lambda>c. frame_base env c = sp) [0..<NUM_CORES]"

definition enclave_exit_switch :: "nat \<Rightarrow> bool \<Rightarrow> thread_id_t \<Rightarrow> machine \<Rightarrow> machine" where
  "enclave_exit_switch c aex_present thread_id s =
     (let s = upd_core c (\<lambda>k. k\<lparr>core_owner := OWNER_UNTRUSTED\<rparr>) s;
          s = upd_core c (\<lambda>k. k\<lparr>core_thread := 0\<rparr>) s;
          s = upd_thread thread_id (\<lambda>t. t\<lparr>t_aex_present := aex_present\<rparr>) s;
          s = upd_csr c (\<lambda>r. r\<lparr>csr_mstatus := mstatus_for_s_mode (csr_mstatus r)\<rparr>) s;
          s = platform_memory_protection_exit_enclave c thread_id s;
          s = platform_restore_untrusted_page_table c thread_id s;
          s = platform_interrupts_exit_enclave c thread_id s;
          s = upd_csr c (\<lambda>r. r\<lparr>csr_mepc := t_untrusted_pc (threads s thread_id)\<rparr>) s
      in upd_csr c (\<lambda>r. r\<lparr>csr_mtvec := t_untrusted_fault_pc (threads s thread_id)\<rparr>) s)"

text \<open>
  The registers are written to the stack of the monitor and loaded back from there.  An address that
  is no trap frame is undefined behaviour.
\<close>

definition sm_internal_perform_enclave_exit :: "platform_env \<Rightarrow> u64 \<Rightarrow> bool \<Rightarrow> leaving_call" where
  "sm_internal_perform_enclave_exit env core_id aex_present s = do {
     c \<leftarrow> c_index NUM_CORES core_id;
     (ok, s) \<leftarrow> lock_core core_id s;
     if \<not> ok then Some (Inl (MONITOR_CONCURRENT_CALL, s))
     else do {
       let thread_id = core_thread (cores s c);
       (ok, L, s) \<leftarrow> add_lock_region (addr_to_region_id thread_id) no_regions s;
       if \<not> ok then do {
         s \<leftarrow> unlock_core core_id (unlock_regions L s);
         Some (Inl (MONITOR_CONCURRENT_CALL, s)) }
       else do {
         let s = enclave_exit_switch c aex_present thread_id s;
         let SM_sp = t_untrusted_fault_sp (threads s thread_id);
         k \<leftarrow> frame_core env SM_sp;
         let s = s\<lparr>trap_frame := (trap_frame s)(k := (\<lambda>i. if i < NUM_REGISTERS
               then t_untrusted_state (threads s thread_id) i else trap_frame s k i))\<rparr>;
         s \<leftarrow> unlock_core core_id (unlock_regions L s);
         let s = set_reg c 2 SM_sp s;
         let s = platform_clean_core c s;
         let s = platform_purge_core c s;
         let s = restore_regs c (trap_frame s k) s;
         Some (Inr (perform_mret_ecall c (trap_frame s k) s)) } } }"

definition sm_internal_enclave_exit :: "platform_env \<Rightarrow> u64 \<Rightarrow> leaving_call" where
  "sm_internal_enclave_exit env core_id = sm_internal_perform_enclave_exit env core_id False"

section \<open>Asynchronous exit\<close>

text \<open>\<^verbatim>\<open>force_exit_enclave\<close> panics: \<^term>\<open>None\<close>.\<close>

definition sm_internal_enclave_aex :: "platform_env \<Rightarrow> u64 \<Rightarrow> machine \<Rightarrow> machine option" where
  "sm_internal_enclave_aex env core_id s = do {
     c \<leftarrow> c_index NUM_CORES core_id;
     let thread_id = core_thread (cores s c);
     (ok, L, s) \<leftarrow> add_lock_region (addr_to_region_id thread_id) no_regions s;
     if \<not> ok then None
     else do {
       let s = upd_thread thread_id (\<lambda>t. t\<lparr>t_aex_state :=
             (\<lambda>i. if i < NUM_REGISTERS then trap_frame s c i else t_aex_state t i)\<rparr>) s;
       let s = unlock_regions L s;
       x \<leftarrow> sm_internal_perform_enclave_exit env core_id True s;
       (case x of Inl _ \<Rightarrow> None | Inr s \<Rightarrow> Some s) } }"


section \<open>What the two switches do\<close>

lemmas switch_defs = Let_def upd_ecsr_def upd_tcsr_def upd_defs upd_locks_def platform_set_enclave_page_table_def
  platform_memory_protection_enter_enclave_def platform_interrupts_enter_enclave_def
  platform_memory_protection_exit_enclave_def platform_restore_untrusted_page_table_def platform_interrupts_exit_enclave_def

lemma enter_switch_thread:
  "threads (enclave_enter_switch env c e t s) = (threads s)(t := (threads s t)\<lparr>
      t_untrusted_pc := csr_mepc (csrs s c),
      t_untrusted_state := (\<lambda>i. if i < NUM_REGISTERS then trap_frame s c i else t_untrusted_state (threads s t) i),
      t_untrusted_fault_pc := trap_vector_from_untrusted env AND NOT 3,
      t_untrusted_fault_sp := frame_base env c,
      t_aex_present := False,
      t_platform_csr := \<lparr>tp_ev_base = csr_mevbase (csrs s c), tp_ev_mask = csr_mevmask (csrs s c),
        tp_memrbm = csr_memrbm (csrs s c), tp_meparbase = csr_meparbase (csrs s c), tp_meparmask = csr_meparmask (csrs s c),
        tp_eptbr = csr_meatp (csrs s c), tp_mie = csr_mie (csrs s c), tp_mideleg = csr_mideleg (csrs s c),
        tp_medeleg = csr_medeleg (csrs s c)\<rparr>\<rparr>)"
  by (auto simp: enclave_enter_switch_def switch_defs frame_base_def)

lemma enter_switch_core:
  "cores (enclave_enter_switch env c e t s) = (cores s)(c := (cores s c)\<lparr>core_owner := e, core_thread := t,
      core_memrbm := regions_to_bitmap (e_regions (enclaves s e))\<rparr>)"
  by (auto simp: enclave_enter_switch_def switch_defs)

lemma enter_switch_csrs:
  "csrs (enclave_enter_switch env c e t s) = (csrs s)(c := (csrs s c)\<lparr>
      csr_mstatus := mstatus_for_s_mode (csr_mstatus (csrs s c)),
      csr_mepc := t_entry_pc (threads s t), csr_mtvec := e_fault_pc (enclaves s e),
      csr_mscratch := e_fault_sp_base (enclaves s e) - of_nat c * STACK_SIZE - INTEGER_CONTEXT_SIZE,
      csr_mie := MIP_MTIP, csr_mideleg := 0, csr_medeleg := 0,
      csr_mevbase := ep_ev_base (e_platform_csr (enclaves s e)), csr_mevmask := ep_ev_mask (e_platform_csr (enclaves s e)),
      csr_meatp := ep_eptbr (e_platform_csr (enclaves s e)),
      csr_memrbm := regions_to_bitmap (e_regions (enclaves s e)),
      csr_meparbase := ep_meparbase (e_platform_csr (enclaves s e)),
      csr_meparmask := ep_meparmask (e_platform_csr (enclaves s e))\<rparr>)"
  by (auto simp: enclave_enter_switch_def switch_defs)

lemma enter_switch_frame:
  "regions (enclave_enter_switch env c e t s) = regions s" "enclaves (enclave_enter_switch env c e t s) = enclaves s"
  "untrusted_regions (enclave_enter_switch env c e t s) = untrusted_regions s"
  "page_info (enclave_enter_switch env c e t s) = page_info s" "mem (enclave_enter_switch env c e t s) = mem s"
  "gpr (enclave_enter_switch env c e t s) = gpr s" "pc (enclave_enter_switch env c e t s) = pc s"
  "region_locks (locks (enclave_enter_switch env c e t s)) = region_locks (locks s)"
  "untrusted_state_lock (locks (enclave_enter_switch env c e t s)) = untrusted_state_lock (locks s)"
  "core_locks (locks (enclave_enter_switch env c e t s)) = (core_locks (locks s))(c := False)"
  by (simp_all add: enclave_enter_switch_def switch_defs platform_lock_release_def)

lemma enter_switch_rest:
  "trap_frame (enclave_enter_switch env c e t s) = (trap_frame s)(c := (\<lambda>i. if i < NUM_REGISTERS
      then if t_aex_present (threads s t) then t_aex_state (threads s t) i else 0 else trap_frame s c i))"
  "timecmp (enclave_enter_switch env c e t s) = (timecmp s)(c := mtime s + t_timer_limit (threads s t))"
  "keys (enclave_enter_switch env c e t s) = keys s" "untrusted_mailboxes (enclave_enter_switch env c e t s) = untrusted_mailboxes s"
  "llc_partitions (enclave_enter_switch env c e t s) = llc_partitions s" "llc_sync (enclave_enter_switch env c e t s) = llc_sync s"
  "console_lock (enclave_enter_switch env c e t s) = console_lock s"
  "mtime (enclave_enter_switch env c e t s) = mtime s" "bus (enclave_enter_switch env c e t s) = bus s"
  "machine.more (enclave_enter_switch env c e t s) = machine.more s"
  by (simp_all add: enclave_enter_switch_def switch_defs cong: if_cong)

lemmas enter_switch_sel = enter_switch_thread enter_switch_core enter_switch_csrs enter_switch_frame enter_switch_rest

lemma enter_switch_erase [simp]:
  "erase (enclave_enter_switch env c e t (upd_locks f s)) = erase (enclave_enter_switch env c e t s)"
  by (rule machine.equality) (simp_all add: erase_def enter_switch_sel upd_locks_def cong: if_cong)

lemma launch_erase [simp]:
  "enclave_launch c t (upd_locks f s) = upd_locks f (enclave_launch c t s)"
  "erase (enclave_launch c t s) = enclave_launch c t (erase s)"
  by (simp_all add: enclave_launch_def switch_defs set_reg_def platform_clean_core_def platform_purge_core_def mret_def erase_def cong: if_cong)

lemma enter_switch_erased: "erase (enclave_enter_switch env c e t (erase s)) = erase (enclave_enter_switch env c e t s)"
proof -
  have "erase s = upd_locks (\<lambda>_. free_locks) s" by (simp add: erase_def upd_locks_def)
  then show ?thesis by simp
qed

definition enter_guard :: "u64 \<Rightarrow> enclave_id_t \<Rightarrow> thread_id_t \<Rightarrow> machine \<Rightarrow> bool" where
  "enter_guard c e t s \<longleftrightarrow> unat c < NUM_CORES \<and> valid_metadata e METADATA_PAGE_ENCLAVE s \<and>
     e_init_state (enclaves s e) = ENCLAVE_STATE_INITIALIZED \<and> valid_metadata t METADATA_PAGE_THREAD s \<and>
     \<not> t_is_scheduled (threads s t) \<and> t_owner (threads s t) = e"

definition enter_effect :: "platform_env \<Rightarrow> u64 \<Rightarrow> enclave_id_t \<Rightarrow> thread_id_t \<Rightarrow> machine \<Rightarrow> machine" where
  "enter_effect env c e t s = enclave_launch (unat c) t (enclave_enter_switch env (unat c) e t s)"

lemma enter_sound:
  "yields (sm_internal_enclave_enter env c e t s) (\<lambda>x. case x of
     Inl (r, s') \<Rightarrow> r \<noteq> MONITOR_OK \<and> erase s' = erase s
   | Inr s' \<Rightarrow> enter_guard c e t s \<and> erase s' = erase (enter_effect env c e t s))"
  unfolding sm_internal_enclave_enter_def
  by (intro yields_rules, simp_all only: prod.case sum.case, simp_all add: step_iff c_index_def split del: if_split)
    (auto simp: enter_guard_def enter_effect_def split: if_splits)

lemma exit_switch_csrs:
  "csrs (enclave_exit_switch c x t s) = (csrs s)(c := (csrs s c)\<lparr>
      csr_mstatus := mstatus_for_s_mode (csr_mstatus (csrs s c)),
      csr_mepc := t_untrusted_pc (threads s t), csr_mtvec := t_untrusted_fault_pc (threads s t),
      csr_mie := tp_mie (t_platform_csr (threads s t)), csr_mideleg := tp_mideleg (t_platform_csr (threads s t)),
      csr_medeleg := tp_medeleg (t_platform_csr (threads s t)),
      csr_mevbase := tp_ev_base (t_platform_csr (threads s t)), csr_mevmask := tp_ev_mask (t_platform_csr (threads s t)),
      csr_meatp := tp_eptbr (t_platform_csr (threads s t)), csr_memrbm := tp_memrbm (t_platform_csr (threads s t)),
      csr_meparbase := tp_meparbase (t_platform_csr (threads s t)),
      csr_meparmask := tp_meparmask (t_platform_csr (threads s t))\<rparr>)"
  by (auto simp: enclave_exit_switch_def switch_defs)

lemma exit_switch_sel:
  "cores (enclave_exit_switch c x t s) = (cores s)(c := (cores s c)\<lparr>core_owner := OWNER_UNTRUSTED, core_thread := 0,
      core_memrbm := tp_memrbm (t_platform_csr (threads s t))\<rparr>)"
  "threads (enclave_exit_switch c x t s) = (threads s)(t := (threads s t)\<lparr>t_aex_present := x\<rparr>)"
  "regions (enclave_exit_switch c x t s) = regions s" "enclaves (enclave_exit_switch c x t s) = enclaves s"
  "untrusted_regions (enclave_exit_switch c x t s) = untrusted_regions s"
  "page_info (enclave_exit_switch c x t s) = page_info s" "mem (enclave_exit_switch c x t s) = mem s"
  "gpr (enclave_exit_switch c x t s) = gpr s" "pc (enclave_exit_switch c x t s) = pc s"
  "locks (enclave_exit_switch c x t s) = locks s" "trap_frame (enclave_exit_switch c x t s) = trap_frame s"
  "timecmp (enclave_exit_switch c x t s) = timecmp s" "keys (enclave_exit_switch c x t s) = keys s"
  "untrusted_mailboxes (enclave_exit_switch c x t s) = untrusted_mailboxes s"
  "llc_partitions (enclave_exit_switch c x t s) = llc_partitions s" "llc_sync (enclave_exit_switch c x t s) = llc_sync s"
  "console_lock (enclave_exit_switch c x t s) = console_lock s"
  "mtime (enclave_exit_switch c x t s) = mtime s" "bus (enclave_exit_switch c x t s) = bus s"
  "machine.more (enclave_exit_switch c x t s) = machine.more s"
  by (simp_all add: enclave_exit_switch_def switch_defs)

text \<open>The state in which the untrusted caller resumes, once the locks are released.\<close>

definition exit_resume :: "nat \<Rightarrow> nat \<Rightarrow> bool \<Rightarrow> machine \<Rightarrow> machine" where
  "exit_resume c k x s =
     (let t = core_thread (cores s c); s1 = enclave_exit_switch c x t s;
          frame = (\<lambda>i. if i < NUM_REGISTERS then t_untrusted_state (threads s t) i else trap_frame s k i);
          s2 = set_reg c 2 (t_untrusted_fault_sp (threads s t)) (s1\<lparr>trap_frame := (trap_frame s1)(k := frame)\<rparr>)
      in perform_mret_ecall c frame (restore_regs c frame (platform_purge_core c (platform_clean_core c s2))))"

lemmas leave_defs = perform_mret_ecall_def perform_mret_def restore_regs_def platform_purge_core_def platform_clean_core_def
  set_reg_def mret_def

text \<open>None of these steps looks at the locks.\<close>

lemma leave_locks [simp]:
  "upd_locks f (set_reg c r v s) = set_reg c r v (upd_locks f s)"
  "upd_locks f (platform_clean_core c s) = platform_clean_core c (upd_locks f s)"
  "upd_locks f (platform_purge_core c s) = platform_purge_core c (upd_locks f s)"
  "upd_locks f (restore_regs c frame s) = restore_regs c frame (upd_locks f s)"
  "upd_locks f (mret c s) = mret c (upd_locks f s)"
  "upd_locks f (s\<lparr>trap_frame := fr\<rparr>) = (upd_locks f s)\<lparr>trap_frame := fr\<rparr>"
  by (simp_all add: upd_locks_def set_reg_def platform_clean_core_def platform_purge_core_def restore_regs_def mret_def cong: if_cong)

lemma leave_sel [simp]:
  "csrs (set_reg c r v s) = csrs s" "csrs (platform_purge_core c s) = csrs s" "gpr (upd_csr c g s) = gpr s"
  "gpr (set_reg c r v s) = (gpr s)(c := (gpr s c)(r := v))"
  "trap_frame (set_reg c r v s) = trap_frame s" "trap_frame (platform_purge_core c s) = trap_frame s"
  "trap_frame (platform_clean_core c s) = trap_frame s" "trap_frame (restore_regs c fr s) = trap_frame s"
  by (simp_all add: set_reg_def platform_purge_core_def platform_clean_core_def restore_regs_def upd_csr_def)

lemma perform_mret_locks [simp]:
  "upd_locks f (perform_mret c frame s) = perform_mret c frame (upd_locks f s)"
  "upd_locks f (perform_mret_ecall c frame s) = perform_mret_ecall c frame (upd_locks f s)"
  by (simp_all add: perform_mret_ecall_def perform_mret_def Let_def)

lemma exit_switch_locks [simp]:
  "upd_locks f (enclave_exit_switch c x t s) = enclave_exit_switch c x t (upd_locks f s)"
  by (rule machine.equality) (simp_all add: exit_switch_csrs exit_switch_sel)

lemma exit_resume_locks [simp]:
  "upd_locks f (exit_resume c k x s) = exit_resume c k x (upd_locks f s)"
  by (simp add: exit_resume_def Let_def exit_switch_sel cong: if_cong)

lemma exit_run:
  assumes "unat core < NUM_CORES" "\<not> core_locks (locks s) (unat core)"
    "t = core_thread (cores s (unat core))"
    "unat (addr_to_region_id t) < NUM_REGIONS" "\<not> region_locks (locks s) (unat (addr_to_region_id t))"
    "frame_core env (t_untrusted_fault_sp (threads s t)) = Some k"
  shows "sm_internal_perform_enclave_exit env core x s = Some (Inr (exit_resume (unat core) k x s))"
proof -
  let ?f = "\<lambda>l. hold_region (unat (addr_to_region_id t)) (l\<lparr>core_locks := (core_locks l)(unat core := True)\<rparr>)"
  let ?g = "\<lambda>l. (release_map (no_regions(unat (addr_to_region_id t) := True)) (?f l))\<lparr>core_locks := (core_locks (release_map (no_regions(unat (addr_to_region_id t) := True)) (?f l)))(unat core := False)\<rparr>"
  have g: "upd_locks ?g s = s"
    using assms(2,4,5) by (auto simp: upd_locks_def lock_algebra fun_upd_idem intro!: machine.equality sm_locks_t.equality ext)
  have "sm_internal_perform_enclave_exit env core x s = Some (Inr (exit_resume (unat core) k x (upd_locks ?g s)))"
    using assms
    apply (simp add: sm_internal_perform_enclave_exit_def c_index_def lock_core_eq unlock_core_eq add_lock_region_eq Let_def
      exit_switch_sel unlock_regions_eq exit_resume_def cong: if_cong)
    done
  then show ?thesis by (simp add: g)
qed

lemma exit_sound:
  "yields (sm_internal_perform_enclave_exit env core x s) (\<lambda>y. case y of
     Inl (r, s') \<Rightarrow> r = MONITOR_CONCURRENT_CALL \<and> erase s' = erase s
   | Inr s' \<Rightarrow> (\<exists>k. frame_core env (t_untrusted_fault_sp (threads s (core_thread (cores s (unat core))))) = Some k \<and>
       unat core < NUM_CORES \<and> erase s' = erase (exit_resume (unat core) k x s)))"
proof -
  have e: "erase (exit_resume c k x (upd_locks f s)) = erase (exit_resume c k x s)" for c k f
    by (simp only: exit_resume_locks[symmetric] erase_upd_locks)
  note e' = e[unfolded exit_resume_def[of _ _ _ "upd_locks f s" for f] Let_def, simplified exit_switch_sel upd_locks_sel]
  show ?thesis
    unfolding sm_internal_perform_enclave_exit_def
    by (intro yields_rules, simp_all only: prod.case sum.case, simp_all add: step_iff c_index_def split del: if_split)
      (auto simp: exit_switch_sel e' cong: if_cong)
qed

lemma exit_resume_regs:
  assumes "0 < i" "i < NUM_REGISTERS"
  shows "gpr (exit_resume c k x s) c i = t_untrusted_state (threads s (core_thread (cores s c))) i"
  using assms by (auto simp: exit_resume_def Let_def leave_defs upd_defs exit_switch_sel NUM_REGISTERS_def)

lemma exit_resume_pc: "pc (exit_resume c k x s) c = t_untrusted_pc (threads s (core_thread (cores s c))) + 4"
  by (simp add: exit_resume_def Let_def leave_defs upd_defs exit_switch_csrs)

lemma exit_resume_csrs:
  "csrs (exit_resume c k x s) = (let t = core_thread (cores s c); r = csrs (enclave_exit_switch c x t s) in
     r(c := (r c)\<lparr>csr_mepc := t_untrusted_pc (threads s t) + 4,
                  csr_mscratch := t_untrusted_fault_sp (threads s t), csr_mspec := 0\<rparr>))"
  by (simp add: exit_resume_def Let_def leave_defs upd_defs exit_switch_csrs)

lemma exit_resume_sel:
  "cores (exit_resume c k x s) = cores (enclave_exit_switch c x (core_thread (cores s c)) s)"
  "threads (exit_resume c k x s) = threads (enclave_exit_switch c x (core_thread (cores s c)) s)"
  "regions (exit_resume c k x s) = regions s" "enclaves (exit_resume c k x s) = enclaves s"
  "untrusted_regions (exit_resume c k x s) = untrusted_regions s" "page_info (exit_resume c k x s) = page_info s"
  "mem (exit_resume c k x s) = mem s" "keys (exit_resume c k x s) = keys s" "locks (exit_resume c k x s) = locks s"
  by (simp_all add: exit_resume_def Let_def leave_defs upd_defs exit_switch_sel)

lemma core_list: "[0..<NUM_CORES] = [0, 1]"
  by (simp add: NUM_CORES_def numeral_2_eq_2)

lemma frame_core_base:
  assumes "c < NUM_CORES" shows "frame_core env (frame_base env c) = Some c"
proof -
  have "c = 0 \<or> c = 1" using assms by (auto simp: NUM_CORES_def)
  then show ?thesis by (auto simp: frame_core_def frame_base_def core_list STACK_SIZE_def)
qed

lemma enter_returns: "unat c < NUM_CORES \<Longrightarrow> returns (sm_internal_enclave_enter env c e t s)"
  unfolding sm_internal_enclave_enter_def by (intro returns_rules) (simp_all add: c_index_def returns_Some)

lemma enter_succeeds:
  assumes "locks s = free_locks" "enter_guard c e t s"
  shows "\<exists>s'. sm_internal_enclave_enter env c e t s = Some (Inr s')"
  using assms valid_metadata_region[of e METADATA_PAGE_ENCLAVE s] valid_metadata_region[of t METADATA_PAGE_THREAD s]
  by (auto simp: enter_guard_def sm_internal_enclave_enter_def Let_def c_index_def lock_unfold valid_metadata_cases
      add_lock_region_iff_valid_enclave_def add_lock_region_iff_valid_thread_def)

section \<open>Properties\<close>

lemma sample_enter: "enter_guard 0 0x82003000 0x82004000 sample_enclave"
  by (simp add: enter_guard_def valid_metadata_def metadata_region_def sample_enclave_def sample_ids sample_region_def
      zero_thread_def NUM_CORES_def NUM_REGIONS_def)

text \<open>C12. Entering an enclave and leaving it again gives the caller back its core: whatever the enclave did, as long
  as its thread object is untouched, \<^verbatim>\<open>enclave_exit\<close> restores every register, resumes behind the \<^verbatim>\<open>ecall\<close>, and
  the CSRs for memory protection, paging and interrupts hold what they held before.  In particular
  \<^verbatim>\<open>a0\<close> holds the first argument of the call and not a result code.\<close>
theorem enter_exit_roundtrip:
  assumes enter: "sm_internal_enclave_enter env core e t s = Some (Inr s1)" and c: "c = unat core"
    and kept: "threads s2 t = threads s1 t" "core_thread (cores s2 c) = core_thread (cores s1 c)"
    and free: "\<not> core_locks (locks s2) c" "\<not> region_locks (locks s2) (unat (addr_to_region_id t))"
  shows "\<exists>s3. sm_internal_enclave_exit env core s2 = Some (Inr s3) \<and>
     (\<forall>i. 0 < i \<and> i < NUM_REGISTERS \<longrightarrow> gpr s3 c i = trap_frame s c i) \<and> pc s3 c = csr_mepc (csrs s c) + 4 \<and>
     core_owner (cores s3 c) = OWNER_UNTRUSTED \<and> core_memrbm (cores s3 c) = csr_memrbm (csrs s c) \<and>
     (let r = csrs s c; r' = csrs s3 c in
       csr_mevbase r' = csr_mevbase r \<and> csr_mevmask r' = csr_mevmask r \<and> csr_memrbm r' = csr_memrbm r \<and>
       csr_meparbase r' = csr_meparbase r \<and> csr_meparmask r' = csr_meparmask r \<and> csr_meatp r' = csr_meatp r \<and>
       csr_mie r' = csr_mie r \<and> csr_mideleg r' = csr_mideleg r \<and> csr_medeleg r' = csr_medeleg r \<and>
       csr_mscratch r' = frame_base env c \<and> csr_mtvec r' = trap_vector_from_untrusted env AND NOT 3)"
proof -
  from yieldsD[OF enter_sound enter] have g: "enter_guard core e t s"
    and e: "erase s1 = erase (enter_effect env core e t s)" by auto
  have th: "threads s1 t = threads (enclave_enter_switch env c e t s) t"
    and co: "core_thread (cores s1 c) = t"
  proof -
    have "threads s1 = threads (enter_effect env core e t s)" "cores s1 = cores (enter_effect env core e t s)"
      using e by (metis erase_sel)+
    then show "threads s1 t = threads (enclave_enter_switch env c e t s) t" "core_thread (cores s1 c) = t"
      by (simp_all add: enter_effect_def enclave_launch_def Let_def leave_defs upd_defs c enter_switch_core)
  qed
  have cc: "c < NUM_CORES" and rt: "unat (addr_to_region_id t) < NUM_REGIONS"
    using g valid_metadata_region by (auto simp: enter_guard_def c)
  have run: "sm_internal_enclave_exit env core s2 = Some (Inr (exit_resume c c False s2))"
    unfolding sm_internal_enclave_exit_def c
    by (rule exit_run[where t = t]) (use kept co cc free rt frame_core_base[OF cc, of env] th in \<open>auto simp: c enter_switch_thread\<close>)
  show ?thesis
    using kept co th
    by (intro exI[of _ "exit_resume c c False s2"] conjI run)
      (auto simp: Let_def exit_resume_regs exit_resume_pc exit_resume_sel exit_resume_csrs exit_switch_csrs exit_switch_sel enter_switch_thread)
qed

theorem enter_exit_roundtrip_witness:
  "\<exists>s1 s3. sm_internal_enclave_enter sample_env 0 0x82003000 0x82004000 sample_enclave = Some (Inr s1) \<and>
     sm_internal_enclave_exit sample_env 0 (erase s1) = Some (Inr s3) \<and> gpr s3 0 10 = 10 \<and> pc s3 0 = 4"
proof -
  obtain s1 where s1: "sm_internal_enclave_enter sample_env 0 0x82003000 0x82004000 sample_enclave = Some (Inr s1)"
    using enter_succeeds[OF _ sample_enter] by (auto simp: sample_enclave_def)
  from enter_exit_roundtrip[OF s1 refl, of "erase s1"] obtain s3 where
    s3: "sm_internal_enclave_exit sample_env 0 (erase s1) = Some (Inr s3)"
    and r: "\<forall>i. 0 < i \<and> i < NUM_REGISTERS \<longrightarrow> gpr s3 0 i = trap_frame sample_enclave 0 i"
    and p: "pc s3 0 = csr_mepc (csrs sample_enclave 0) + 4"
    by (auto simp: erase_def)
  from r have "gpr s3 0 10 = 10" by (simp add: NUM_REGISTERS_def sample_enclave_def)
  moreover from p have "pc s3 0 = 4" by (simp add: sample_enclave_def sample_csrs_def)
  ultimately show ?thesis using s1 s3 by blast
qed

text \<open>C13. An enclave starts on a clean core: no register but the stack pointer carries a value of the caller, not
  even the state saved by an earlier asynchronous exit, the program counter is the thread's entry
  point, the core gets the regions of the enclave and its page table, and only the timer can
  interrupt it.\<close>
theorem enclave_enter_clean:
  assumes "sm_internal_enclave_enter env core e t s = Some (Inr s1)" "c = unat core"
  shows "enter_guard core e t s \<and> pc s1 c = t_entry_pc (threads s t) \<and> gpr s1 c 2 = t_entry_sp (threads s t) \<and>
     (\<forall>i. i \<in> {1} \<union> {3..<NUM_REGISTERS} \<longrightarrow> gpr s1 c i = 0) \<and>
     core_owner (cores s1 c) = e \<and> core_thread (cores s1 c) = t \<and>
     core_memrbm (cores s1 c) = regions_to_bitmap (e_regions (enclaves s e)) \<and>
     csr_memrbm (csrs s1 c) = core_memrbm (cores s1 c) \<and> csr_mmrbm (csrs s1 c) = csr_mmrbm (csrs s c) \<and>
     csr_meatp (csrs s1 c) = ep_eptbr (e_platform_csr (enclaves s e)) \<and> csr_mtvec (csrs s1 c) = e_fault_pc (enclaves s e) \<and>
     csr_mie (csrs s1 c) = MIP_MTIP \<and> csr_mie (csrs s1 c) AND MIP_MSIP = 0 \<and>
     timecmp s1 c = mtime s + t_timer_limit (threads s t) \<and> \<not> t_aex_present (threads s1 t)"
proof -
  from yieldsD[OF enter_sound assms(1)] have g: "enter_guard core e t s"
    and e: "erase s1 = erase (enter_effect env core e t s)" by auto
  have eq: "threads s1 = threads (enter_effect env core e t s)" "cores s1 = cores (enter_effect env core e t s)"
    "csrs s1 = csrs (enter_effect env core e t s)" "gpr s1 = gpr (enter_effect env core e t s)"
    "pc s1 = pc (enter_effect env core e t s)" "timecmp s1 = timecmp (enter_effect env core e t s)"
    using erase_eq_sel[OF e] by simp_all
  show ?thesis unfolding eq using g
    by (simp add: enter_effect_def enclave_launch_def Let_def leave_defs upd_defs assms(2) enter_switch_sel MIP_MTIP_def MIP_MSIP_def)
qed

theorem enclave_enter_clean_witness:
  "\<exists>s1. sm_internal_enclave_enter sample_env 0 0x82003000 0x82004000 sample_enclave = Some (Inr s1) \<and>
     pc s1 0 = 0x1000 \<and> gpr s1 0 10 = 0 \<and> core_owner (cores s1 0) = 0x82003000"
proof -
  obtain s1 where s1: "sm_internal_enclave_enter sample_env 0 0x82003000 0x82004000 sample_enclave = Some (Inr s1)"
    using enter_succeeds[OF _ sample_enter] by (auto simp: sample_enclave_def)
  from enclave_enter_clean[OF s1 refl] show ?thesis using s1 by (auto simp: sample_enclave_def NUM_REGISTERS_def)
qed

text \<open>C14. An asynchronous exit keeps all registers of the enclave in the thread object, marks it, and resumes
  the caller with the caller's own registers: no register of the enclave is visible to it.\<close>
theorem enclave_aex_saves:
  assumes "sm_internal_enclave_aex env core s = Some s'" "c = unat core" "t = core_thread (cores s c)"
  shows "c < NUM_CORES \<and> core_owner (cores s' c) = OWNER_UNTRUSTED \<and> t_aex_present (threads s' t) \<and>
    (\<forall>i < NUM_REGISTERS. t_aex_state (threads s' t) i = trap_frame s c i) \<and>
    (\<forall>i. 0 < i \<and> i < NUM_REGISTERS \<longrightarrow> gpr s' c i = t_untrusted_state (threads s t) i) \<and>
    pc s' c = t_untrusted_pc (threads s t) + 4 \<and> core_memrbm (cores s' c) = tp_memrbm (t_platform_csr (threads s t))"
proof -
  let ?u = "upd_thread t (\<lambda>x. x\<lparr>t_aex_state := \<lambda>i. if i < NUM_REGISTERS then trap_frame s c i else t_aex_state x i\<rparr>) s"
  from assms obtain f y where y: "sm_internal_perform_enclave_exit env core True (upd_locks f ?u) = Some y"
    "(case y of Inl _ \<Rightarrow> None | Inr s \<Rightarrow> Some s) = Some s'"
    by (auto simp: sm_internal_enclave_aex_def bind_eq_Some_conv c_index_def Let_def step_iff cong: if_cong)
  then have ex: "sm_internal_perform_enclave_exit env core True (upd_locks f ?u) = Some (Inr s')"
    by (cases y) auto
  from yieldsD[OF exit_sound ex] obtain k where cc: "c < NUM_CORES"
    and e: "erase s' = erase (exit_resume c k True (upd_locks f ?u))" by (auto simp: assms(2))
  have eq: "threads s' = threads (exit_resume c k True (upd_locks f ?u))" "cores s' = cores (exit_resume c k True (upd_locks f ?u))"
    "gpr s' = gpr (exit_resume c k True (upd_locks f ?u))" "pc s' = pc (exit_resume c k True (upd_locks f ?u))"
    using erase_eq_sel[OF e] by simp_all
  show ?thesis unfolding eq using cc assms(3)
    by (auto simp: exit_resume_regs exit_resume_pc exit_resume_sel exit_switch_sel)
qed

lemma aex_succeeds:
  assumes "unat core < NUM_CORES" "locks s = free_locks" "t = core_thread (cores s (unat core))"
    "unat (addr_to_region_id t) < NUM_REGIONS" "frame_core env (t_untrusted_fault_sp (threads s t)) = Some k"
  shows "\<exists>s'. sm_internal_enclave_aex env core s = Some s'"
proof -
  let ?i = "unat (addr_to_region_id t)"
  let ?u = "upd_locks (\<lambda>l. release_map (no_regions(?i := True)) (hold_region ?i l))
     (upd_thread t (\<lambda>x. x\<lparr>t_aex_state := \<lambda>i. if i < NUM_REGISTERS then trap_frame s (unat core) i else t_aex_state x i\<rparr>) s)"
  have "sm_internal_perform_enclave_exit env core True ?u = Some (Inr (exit_resume (unat core) k True ?u))"
    by (rule exit_run[where t = t]) (use assms in \<open>auto simp: lock_algebra\<close>)
  then show ?thesis using assms
    by (simp add: sm_internal_enclave_aex_def c_index_def Let_def add_lock_region_eq unlock_regions_eq cong: if_cong)
qed

theorem enclave_aex_saves_witness:
  "\<exists>s1 s'. sm_internal_enclave_enter sample_env 0 0x82003000 0x82004000 sample_enclave = Some (Inr s1) \<and>
     sm_internal_enclave_aex sample_env 0 (erase s1) = Some s' \<and> t_aex_present (threads s' 0x82004000) \<and>
     core_owner (cores s' 0) = OWNER_UNTRUSTED"
proof -
  obtain s1 where s1: "sm_internal_enclave_enter sample_env 0 0x82003000 0x82004000 sample_enclave = Some (Inr s1)"
    using enter_succeeds[OF _ sample_enter] by (auto simp: sample_enclave_def)
  from yieldsD[OF enter_sound s1] have e: "erase s1 = erase (enter_effect sample_env 0 0x82003000 0x82004000 sample_enclave)" by auto
  have t: "core_thread (cores (erase s1) (unat 0)) = 0x82004000"
    and sp: "t_untrusted_fault_sp (threads (erase s1) 0x82004000) = frame_base sample_env 0"
    unfolding e by (simp_all add: enter_effect_def enclave_launch_def Let_def leave_defs upd_defs enter_switch_sel)
  have "frame_core sample_env (frame_base sample_env 0) = Some 0" by (simp add: frame_core_base NUM_CORES_def)
  then obtain s' where s': "sm_internal_enclave_aex sample_env 0 (erase s1) = Some s'"
    using aex_succeeds[of 0 "erase s1" "0x82004000" sample_env 0] t sp
    by (auto simp: erase_def NUM_CORES_def NUM_REGIONS_def sample_ids)
  from enclave_aex_saves[OF s' refl t[symmetric]] show ?thesis using s1 s' by auto
qed

end
