(* ===== verification/Kernel.thy ===== *)
theory Kernel
  imports LLC Enclave_Run Sample
begin

unbundle bit_operations_syntax

text \<open>
  The services the monitor gives the untrusted kernel: the SBI calls of \<^verbatim>\<open>src/kernel/mcall.c\<close> and, for enclaves,
  of \<^verbatim>\<open>src/kernel/mcall_enclave.c\<close>; the console on the host interface (\<^verbatim>\<open>src/kernel/console.c\<close>,
  \<^verbatim>\<open>platform/htif/htif_util.c\<close>); and the emulation of CSR instructions (\<^verbatim>\<open>src/kernel/handler_illegal_insn.c\<close>).
  Their state, that no monitor call touches, is a record of its own.  A loop that waits for the
  host or for a console lock to be released does not return while the condition holds: \<^term>\<open>None\<close>.
\<close>

record kernel_t =
  clint_ipi :: "nat \<Rightarrow> u32"
  mipi_pending :: "nat \<Rightarrow> u32"
  hart_mask :: u64
  tohost :: u64
  fromhost :: u64
  htif_console_buf :: u32
  mcycle :: "nat \<Rightarrow> u64"
  minstret :: "nat \<Rightarrow> u64"
  mhpmcounter3 :: "nat \<Rightarrow> u64"
  mhpmcounter4 :: "nat \<Rightarrow> u64"
  mhpmevent3 :: "nat \<Rightarrow> u64"
  mhpmevent4 :: "nat \<Rightarrow> u64"
  mtval :: "nat \<Rightarrow> u64"
  mcause :: "nat \<Rightarrow> u64"
  sepc :: "nat \<Rightarrow> u64"
  scause :: "nat \<Rightarrow> u64"
  sbadaddr :: "nat \<Rightarrow> u64"
  stvec :: "nat \<Rightarrow> u64"

type_synonym system = "machine \<times> kernel_t"

definition IPI_FENCE_I :: u32 where [sm_const]: "IPI_FENCE_I = 2"
definition IPI_SFENCE_VMA :: u32 where [sm_const]: "IPI_SFENCE_VMA = 4"
definition IPI_HALT :: u32 where [sm_const]: "IPI_HALT = 8"
definition MIP_SSIP :: u64 where [sm_const]: "MIP_SSIP = 0x2"
definition MIP_STIP :: u64 where [sm_const]: "MIP_STIP = 0x20"
definition KERNEL_ECALL_CODE_MIN :: u64 where [sm_const]: "KERNEL_ECALL_CODE_MIN = 0"
definition KERNEL_ECALL_CODE_MAX :: u64 where [sm_const]: "KERNEL_ECALL_CODE_MAX = 9"

section \<open>Host interface and console\<close>

definition TOHOST_CMD :: "u64 \<Rightarrow> u64 \<Rightarrow> u64 \<Rightarrow> u64" where
  "TOHOST_CMD dev cmd payload = push_bit 56 dev OR push_bit 48 cmd OR payload"

definition FROMHOST_DEV :: "u64 \<Rightarrow> u64" where
  "FROMHOST_DEV v = drop_bit 56 v"

definition FROMHOST_CMD :: "u64 \<Rightarrow> u64" where
  "FROMHOST_CMD v = drop_bit 56 (push_bit 8 v)"

definition FROMHOST_DATA :: "u64 \<Rightarrow> u64" where
  "FROMHOST_DATA v = drop_bit 16 (push_bit 16 v)"

definition check_fromhost :: "kernel_t \<Rightarrow> kernel_t option" where
  "check_fromhost k =
     (let fh = fromhost k in
      if fh = 0 then Some k
      else if FROMHOST_DEV fh \<noteq> 1 then None
      else let k = k\<lparr>fromhost := 0\<rparr> in
        Some (if FROMHOST_CMD fh = 0 then k\<lparr>htif_console_buf := 1 + ucast (ucast (FROMHOST_DATA fh) :: u8)\<rparr> else k))"

definition set_tohost :: "u64 \<Rightarrow> u64 \<Rightarrow> u64 \<Rightarrow> kernel_t \<Rightarrow> kernel_t option" where
  "set_tohost dev cmd data k = (if tohost k \<noteq> 0 then None else Some (k\<lparr>tohost := TOHOST_CMD dev cmd data\<rparr>))"

definition htif_getchar :: "kernel_t \<Rightarrow> (u64 \<times> kernel_t) option" where
  "htif_getchar k = do {
     k \<leftarrow> check_fromhost k;
     let ch = htif_console_buf k;
     k \<leftarrow> (if 0 \<le> sint ch then set_tohost 1 0 0 (k\<lparr>htif_console_buf := - 1\<rparr>) else Some k);
     Some (scast (ch - 1), k) }"

definition htif_putchar :: "u8 \<Rightarrow> kernel_t \<Rightarrow> kernel_t option" where
  "htif_putchar c = set_tohost 1 1 (ucast c)"

text \<open>Both take \<^verbatim>\<open>console_lock\<close> and give it back.\<close>

definition console_putchar :: "u8 \<Rightarrow> system \<Rightarrow> system option" where
  "console_putchar c x = (case x of (s, k) \<Rightarrow>
     if console_lock s then None else do { k \<leftarrow> htif_putchar c k; Some (s\<lparr>console_lock := False\<rparr>, k) })"

definition console_getchar :: "system \<Rightarrow> (u64 \<times> system) option" where
  "console_getchar x = (case x of (s, k) \<Rightarrow>
     if console_lock s then None else do { (r, k) \<leftarrow> htif_getchar k; Some (r, s\<lparr>console_lock := False\<rparr>, k) })"

definition send_exit_cmd :: "u32 \<Rightarrow> kernel_t \<Rightarrow> kernel_t" where
  "send_exit_cmd c k = k\<lparr>tohost := (if c = 0 then TOHOST_CMD 0 0 1 else TOHOST_CMD 0 0 3)\<rparr>"

section \<open>Timer and inter-processor interrupts\<close>

definition mcall_clear_ipi :: "nat \<Rightarrow> machine \<Rightarrow> u64 \<times> machine" where
  "mcall_clear_ipi c s =
     (csr_mip (csrs s c) AND MIP_SSIP, upd_csr c (\<lambda>r. r\<lparr>csr_mip := csr_mip r AND NOT MIP_SSIP\<rparr>) s)"

definition mcall_set_timer :: "nat \<Rightarrow> u64 \<Rightarrow> machine \<Rightarrow> u64 \<times> machine" where
  "mcall_set_timer c when s =
     (let s = s\<lparr>timecmp := (timecmp s)(c := when)\<rparr>;
          s = upd_csr c (\<lambda>r. r\<lparr>csr_mip := csr_mip r AND NOT MIP_STIP\<rparr>) s;
          s = upd_csr c (\<lambda>r. r\<lparr>csr_mie := csr_mie r OR MIP_MTIP\<rparr>) s
      in (0, s))"

definition hls_send_ipi :: "nat \<Rightarrow> u32 \<Rightarrow> system \<Rightarrow> system option" where
  "hls_send_ipi recipient event x = (case x of (s, k) \<Rightarrow>
     if NUM_CORES \<le> recipient then None
     else Some (send_ipi recipient event s,
       k\<lparr>mipi_pending := (mipi_pending k)(recipient := mipi_pending k recipient OR event),
         clint_ipi := (clint_ipi k)(recipient := 1)\<rparr>))"

primrec send_ipi_loop :: "nat list \<Rightarrow> u64 \<Rightarrow> u32 \<Rightarrow> system \<Rightarrow> system option" where
  "send_ipi_loop [] harts event x = Some x"
| "send_ipi_loop (i # is) harts event x = do {
     x \<leftarrow> (if bit harts i then hls_send_ipi i event x else Some x);
     send_ipi_loop is harts event x }"

text \<open>
  The wait for all recipients of a fence, seen from the caller at the moment it ends: the loop leaves only when the
  interrupt word of every recipient reads 0, which each of them writes on its own core.  The caller collects its own interrupts
  meanwhile and raises them again at the end.  That the recipients answer is not a result of this definition.
\<close>

definition wait_handled :: "nat \<Rightarrow> u64 \<Rightarrow> kernel_t \<Rightarrow> kernel_t" where
  "wait_handled c harts k = k\<lparr>clint_ipi := (\<lambda>i. if bit harts i \<and> i \<noteq> c then 0 else clint_ipi k i)\<rparr>"

definition load_uintptr_t :: "platform_env \<Rightarrow> nat \<Rightarrow> u64 \<Rightarrow> machine \<Rightarrow> u64 option" where
  "load_uintptr_t env c a s = map_option of_le_bytes (memcpy_u2m env c s 8 a)"

definition send_ipi_many :: "platform_env \<Rightarrow> nat \<Rightarrow> u64 \<Rightarrow> u32 \<Rightarrow> system \<Rightarrow> system option" where
  "send_ipi_many env c pmask event x = (case x of (s, k) \<Rightarrow> do {
     m \<leftarrow> (if pmask \<noteq> 0 then load_uintptr_t env c pmask s else Some (- 1));
     let harts = hart_mask k AND m;
     (s, k) \<leftarrow> send_ipi_loop [0..<64] harts event (s, k);
     if event = IPI_SOFT then Some (s, k) else Some (s, wait_handled c harts k) })"

section \<open>SBI calls\<close>

definition set_frame :: "nat \<Rightarrow> nat \<Rightarrow> u64 \<Rightarrow> machine \<Rightarrow> machine" where
  "set_frame c i v s = s\<lparr>trap_frame := (trap_frame s)(c := (trap_frame s c)(i := v))\<rparr>"

definition delegate_ecall_to_kernel :: "platform_env \<Rightarrow> nat \<Rightarrow> system \<Rightarrow> system option" where
  "delegate_ecall_to_kernel env c x = (case x of (s, k) \<Rightarrow> do {
     let code = trap_frame s c 17;
     let arg0 = trap_frame s c 10;
     (retval, s, k) \<leftarrow>
       (if code = 1 then do { (s, k) \<leftarrow> console_putchar (ucast arg0) (s, k); Some (0, s, k) }
        else if code = 2 then console_getchar (s, k)
        else if code = 4 then do { (s, k) \<leftarrow> send_ipi_many env c arg0 IPI_SOFT (s, k); Some (0, s, k) }
        else if code = 6 \<or> code = 7 then do { (s, k) \<leftarrow> send_ipi_many env c arg0 IPI_SFENCE_VMA (s, k); Some (0, s, k) }
        else if code = 5 then do { (s, k) \<leftarrow> send_ipi_many env c arg0 IPI_FENCE_I (s, k); Some (0, s, k) }
        else if code = 3 then (case mcall_clear_ipi c s of (r, s) \<Rightarrow> Some (r, s, k))
        else if code = 9 then Some (0, s, send_exit_cmd (ucast arg0) k)
        else if code = 0 then (case mcall_set_timer c arg0 s of (r, s) \<Rightarrow> Some (r, s, k))
        else None);
     Some (set_frame c 10 retval s, k) })"

definition delegate_ecall_to_kernel_enclave :: "nat \<Rightarrow> system \<Rightarrow> system option" where
  "delegate_ecall_to_kernel_enclave c x = (case x of (s, k) \<Rightarrow> do {
     let code = trap_frame s c 17;
     let arg0 = trap_frame s c 10;
     (retval, s, k) \<leftarrow>
       (if code = 1 then do { (s, k) \<leftarrow> console_putchar (ucast arg0) (s, k); Some (0, s, k) }
        else if code = 2 then console_getchar (s, k)
        else if code = 3 then (case mcall_clear_ipi c s of (r, s) \<Rightarrow> Some (r, s, k))
        else None);
     Some (set_frame c 10 retval s, k) })"

section \<open>Emulated instructions\<close>

definition MSTATUS_MPP_FIELD :: "u64 \<Rightarrow> u64" where
  "MSTATUS_MPP_FIELD mstatus = (mstatus AND 0x1800) div 0x800"

text \<open>\<^verbatim>\<open>counteren >> i & 1\<close>; only user mode is subject to \<^verbatim>\<open>scounteren\<close>.\<close>

definition counter_enabled :: "u64 \<Rightarrow> u64 \<Rightarrow> nat \<Rightarrow> bool" where
  "counter_enabled mstatus scounteren i =
     bit (if MSTATUS_MPP_FIELD mstatus = 0 then scounteren else - 1) i"

definition emulate_read_csr :: "nat \<Rightarrow> u64 \<Rightarrow> u64 \<Rightarrow> system \<Rightarrow> u64 option" where
  "emulate_read_csr c num mstatus x = (case x of (s, k) \<Rightarrow>
     let en = counter_enabled mstatus (csr_scounteren (csrs s c)) in
     if num = 0x180 then Some (csr_satp (csrs s c))
     else if num = 0xc00 then if en 0 then Some (mcycle k c) else None
     else if num = 0xc01 then if en 1 then Some (mtime s) else None
     else if num = 0xc02 then if en 2 then Some (minstret k c) else None
     else if num = 0xb03 then if en 3 then Some (mhpmcounter3 k c) else None
     else if num = 0xb04 then if en 4 then Some (mhpmcounter4 k c) else None
     else if num = 0x323 then Some (mhpmevent3 k c)
     else if num = 0x324 then Some (mhpmevent4 k c)
     else None)"

text \<open>The outer option is a failed assertion, the inner one the result -1.\<close>

definition emulate_write_csr :: "nat \<Rightarrow> u64 \<Rightarrow> u64 \<Rightarrow> u64 \<Rightarrow> system \<Rightarrow> system option option" where
  "emulate_write_csr c num value mstatus x = (case x of (s, k) \<Rightarrow>
     if num = 0x180 then
       if MSTATUS_MPP_FIELD mstatus \<noteq> 1 then None
       else Some (Some (if drop_bit 60 value = SATP_MODE_SV39 then (upd_csr c (\<lambda>r. r\<lparr>csr_satp := value\<rparr>) s, k) else (s, k)))
     else if num = 0xc00 then Some (Some (s, k\<lparr>mcycle := (mcycle k)(c := value)\<rparr>))
     else if num = 0xc02 then Some (Some (s, k\<lparr>minstret := (minstret k)(c := value)\<rparr>))
     else if num = 0xb03 then Some (Some (s, k\<lparr>mhpmcounter3 := (mhpmcounter3 k)(c := value)\<rparr>))
     else if num = 0xb04 then Some (Some (s, k\<lparr>mhpmcounter4 := (mhpmcounter4 k)(c := value)\<rparr>))
     else if num = 0x323 then Some (Some (s, k\<lparr>mhpmevent3 := (mhpmevent3 k)(c := value)\<rparr>))
     else if num = 0x324 then Some (Some (s, k\<lparr>mhpmevent4 := (mhpmevent4 k)(c := value)\<rparr>))
     else Some None)"

text \<open>
  The variable \<^verbatim>\<open>rd\<close> of the source is \<^verbatim>\<open>GET_RM(insn)\<close>, the field \<^verbatim>\<open>funct3\<close>.  An instruction that is not emulated ends in
  \<^verbatim>\<open>bad_trap\<close>.  \<^verbatim>\<open>SET_RD\<close> writes slot 0 of the frame when the destination is \<^verbatim>\<open>x0\<close>.
\<close>

definition emulate_system_opcode :: "nat \<Rightarrow> u64 \<Rightarrow> u64 \<Rightarrow> system \<Rightarrow> system option" where
  "emulate_system_opcode c mstatus insn x = (case x of (s, k) \<Rightarrow> do {
     let rs1_num = drop_bit 15 insn AND 0x1f;
     let rs1_val = trap_frame s c (unat rs1_num);
     let rd = drop_bit 12 insn AND 7;
     let csr_num = ucast (drop_bit 20 (ucast insn :: u32));
     let funct3 = drop_bit 12 insn AND 7;
     let funct7 = drop_bit 25 insn AND 0x7f;
     if funct3 = 0 \<and> rd = 0 \<and> funct7 = 9 then
       if MSTATUS_MPP_FIELD mstatus = 1 then Some (s, k) else None
     else do {
       csr_val \<leftarrow> emulate_read_csr c csr_num mstatus (s, k);
       (new_csr_val, do_write) \<leftarrow>
         (if rd = 1 then Some (rs1_val, True)
          else if rd = 2 then Some (csr_val OR rs1_val, rs1_num \<noteq> 0)
          else if rd = 3 then Some (csr_val AND NOT rs1_val, rs1_num \<noteq> 0)
          else if rd = 5 then Some (rs1_num, True)
          else if rd = 6 then Some (csr_val OR rs1_num, rs1_num \<noteq> 0)
          else if rd = 7 then Some (csr_val AND NOT rs1_num, rs1_num \<noteq> 0)
          else None);
       w \<leftarrow> (if do_write then emulate_write_csr c csr_num new_csr_val mstatus (s, k) else Some (Some (s, k)));
       (s, k) \<leftarrow> w;
       Some (set_frame c (unat (drop_bit 7 insn AND 0x1f)) csr_val s, k) } })"

definition get_insn :: "platform_env \<Rightarrow> nat \<Rightarrow> u64 \<Rightarrow> machine \<Rightarrow> u64 option" where
  "get_insn env c mepc s = map_option of_le_bytes (memcpy_u2m env c s 4 mepc)"

definition illegal_instruction_trap_handler :: "platform_env \<Rightarrow> nat \<Rightarrow> system \<Rightarrow> system option" where
  "illegal_instruction_trap_handler env c x = (case x of (s, k) \<Rightarrow> do {
     let mstatus = csr_mstatus (csrs s c);
     insn \<leftarrow> (if mtval k c = 0 then get_insn env c (csr_mepc (csrs s c)) s else Some (mtval k c));
     if ((insn AND 0x7F) XOR 0x73) = 0 then emulate_system_opcode c mstatus insn (s, k) else None })"

section \<open>A machine about to trap\<close>

text \<open>The registers of the kernel with a given cause, and a machine whose caller runs in S mode.\<close>

definition sample_kernel :: "u64 \<Rightarrow> u64 \<Rightarrow> kernel_t" where
  "sample_kernel cause tval = \<lparr>clint_ipi = (\<lambda>_. 0), mipi_pending = (\<lambda>_. 0), hart_mask = 3, tohost = 0, fromhost = 0,
     htif_console_buf = 0, mcycle = (\<lambda>_. 7), minstret = (\<lambda>_. 0), mhpmcounter3 = (\<lambda>_. 0), mhpmcounter4 = (\<lambda>_. 0),
     mhpmevent3 = (\<lambda>_. 0), mhpmevent4 = (\<lambda>_. 0), mtval = (\<lambda>_. tval), mcause = (\<lambda>_. cause), sepc = (\<lambda>_. 0),
     scause = (\<lambda>_. 0), sbadaddr = (\<lambda>_. 0), stvec = (\<lambda>_. 0x84000000)\<rparr>"

definition sample_trap :: "u64 \<Rightarrow> machine" where
  "sample_trap a7 = sample\<lparr>csrs := (\<lambda>_. sample_csrs\<lparr>csr_mscratch := 0x80010000, csr_mstatus := 0x800\<rparr>),
     gpr := (\<lambda>_. (\<lambda>_. 0)(17 := a7))\<rparr>"

lemma sample_trap_sel [simp]:
  "csr_mscratch (csrs (sample_trap a) c) = 0x80010000" "csr_mstatus (csrs (sample_trap a) c) = 0x800"
  "gpr (sample_trap a) c = (\<lambda>_. 0)(17 := a)" "mcause (sample_kernel m v) c = m" "mtval (sample_kernel m v) c = v"
  "mcycle (sample_kernel m v) c = 7" "trap_frame (sample_trap a) c = (\<lambda>_. 0)"
  by (simp_all add: sample_trap_def sample_kernel_def sample_def)

section \<open>What the emulation may change\<close>

text \<open>The kernel registers with the counters of one core cleared.\<close>

definition without_counters :: "nat \<Rightarrow> kernel_t \<Rightarrow> kernel_t" where
  "without_counters c k = k\<lparr>mcycle := (mcycle k)(c := 0), minstret := (minstret k)(c := 0),
     mhpmcounter3 := (mhpmcounter3 k)(c := 0), mhpmcounter4 := (mhpmcounter4 k)(c := 0),
     mhpmevent3 := (mhpmevent3 k)(c := 0), mhpmevent4 := (mhpmevent4 k)(c := 0)\<rparr>"

definition satp_only :: "nat \<Rightarrow> u64 \<Rightarrow> machine \<Rightarrow> machine \<Rightarrow> bool" where
  "satp_only c mstatus s s' \<longleftrightarrow> s' = s \<or>
     (\<exists>v. s' = upd_csr c (\<lambda>r. r\<lparr>csr_satp := v\<rparr>) s \<and> drop_bit 60 v = SATP_MODE_SV39 \<and> MSTATUS_MPP_FIELD mstatus = 1)"

lemma write_csr_confined:
  "emulate_write_csr c num v mstatus (s, k) = Some (Some (s', k')) \<Longrightarrow> satp_only c mstatus s s' \<and> without_counters c k' = without_counters c k"
  by (auto simp: emulate_write_csr_def satp_only_def without_counters_def split: if_splits)

lemma satp_only_refl [simp]: "satp_only c m s s" by (simp add: satp_only_def)

lemma satp_only_frame: "satp_only c m s s' \<Longrightarrow> trap_frame s' = trap_frame s"
  by (auto simp: satp_only_def upd_csr_def)

lemma emulate_confined:
  assumes "emulate_system_opcode c m insn (s, k) = Some (s', k')"
  shows "\<exists>s1. satp_only c m s s1 \<and> without_counters c k' = without_counters c k \<and>
     (s' = s1 \<or> (\<exists>i v. i < NUM_REGISTERS \<and> s' = set_frame c i v s1))"
proof -
  have rd: "unat (drop_bit 7 insn AND 0x1f) < NUM_REGISTERS"
    using word_and_le1[of "drop_bit 7 insn" "0x1f :: u64"] by (simp add: NUM_REGISTERS_def word_le_nat_alt)
  show ?thesis
  proof (cases "drop_bit 12 insn AND 7 = 0 \<and> drop_bit 25 insn AND 0x7f = 9")
    case True
    then have "s' = s" "k' = k" using assms by (auto simp: emulate_system_opcode_def Let_def split: if_splits)
    then show ?thesis using satp_only_refl by blast
  next
    case False
    then obtain s1 v where "s' = set_frame c (unat (drop_bit 7 insn AND 0x1f)) v s1"
      "s1 = s \<and> k' = k \<or> (\<exists>num w. emulate_write_csr c num w m (s, k) = Some (Some (s1, k')))"
      using assms unfolding emulate_system_opcode_def Let_def
      by (auto simp: bind_eq_Some_conv split: if_splits)
    then show ?thesis using rd write_csr_confined by (metis satp_only_refl)
  qed
qed

text \<open>
  C27. The emulation of an illegal instruction writes one register of the trapping core, its counters, and its
  satp, the last only for an instruction of the supervisor and with an Sv39 root; nothing else of the machine changes.
\<close>

theorem emulation_confined:
  assumes "illegal_instruction_trap_handler env c (s, k) = Some (s', k')"
  shows "\<exists>s1. satp_only c (csr_mstatus (csrs s c)) s s1 \<and> without_counters c k' = without_counters c k \<and>
     (s' = s1 \<or> (\<exists>i v. i < NUM_REGISTERS \<and> s' = set_frame c i v s1))"
proof -
  obtain insn where "emulate_system_opcode c (csr_mstatus (csrs s c)) insn (s, k) = Some (s', k')"
    using assms by (auto simp: illegal_instruction_trap_handler_def Let_def split: if_splits simp: bind_eq_Some_conv)
  then show ?thesis by (rule emulate_confined)
qed

theorem emulation_confined_witness:
  "\<exists>s' k'. illegal_instruction_trap_handler sample_env 0 (sample_trap 0, sample_kernel 2 0xC0002573) = Some (s', k') \<and>
     trap_frame s' 0 10 = 7 \<and> csrs s' = csrs (sample_trap 0) \<and>
     (\<exists>s1. satp_only 0 0x800 (sample_trap 0) s1 \<and>
       without_counters 0 k' = without_counters 0 (sample_kernel 2 0xC0002573) \<and>
       (s' = s1 \<or> (\<exists>i v. i < NUM_REGISTERS \<and> s' = set_frame 0 i v s1)))"
proof -
  have run: "illegal_instruction_trap_handler sample_env 0 (sample_trap 0, sample_kernel 2 0xC0002573) =
      Some (set_frame 0 10 7 (sample_trap 0), sample_kernel 2 0xC0002573)"
    by (simp add: illegal_instruction_trap_handler_def emulate_system_opcode_def emulate_read_csr_def
        counter_enabled_def MSTATUS_MPP_FIELD_def Let_def)
  with emulation_confined[OF run] show ?thesis by (simp add: set_frame_def)
qed

end
