(* ===== verification/Mail_API.thy ===== *)
theory Mail_API
  imports Enclave_Load
begin

unbundle bit_operations_syntax

text \<open>
  The calls that move data between the monitor and its callers: mail
  (\<^verbatim>\<open>src/api/mail_accept.c\<close>, \<^verbatim>\<open>mail_send.c\<close>, \<^verbatim>\<open>mail_receive.c\<close>), attestation and keys
  (\<^verbatim>\<open>enclave_get_attest.c\<close>, \<^verbatim>\<open>enclave_get_keys.c\<close>) and public fields (\<^verbatim>\<open>get_public_field.c\<close>).
\<close>

section \<open>Mailboxes\<close>

text \<open>The pointer \<^verbatim>\<open>mailbox\<close>: an element of one of the two kinds of mailbox arrays.\<close>

datatype mailbox_ptr = UntrustedBox nat | EnclaveBox enclave_id_t nat

primrec get_mailbox :: "mailbox_ptr \<Rightarrow> machine \<Rightarrow> mailbox_t" where
  "get_mailbox (UntrustedBox i) s = untrusted_mailboxes s i"
| "get_mailbox (EnclaveBox e i) s = e_mailboxes (enclaves s e) i"

primrec upd_mailbox :: "mailbox_ptr \<Rightarrow> (mailbox_t \<Rightarrow> mailbox_t) \<Rightarrow> machine \<Rightarrow> machine" where
  "upd_mailbox (UntrustedBox i) f s = s\<lparr>untrusted_mailboxes := (untrusted_mailboxes s)(i := f (untrusted_mailboxes s i))\<rparr>"
| "upd_mailbox (EnclaveBox e i) f s = upd_enclave e (\<lambda>m. m\<lparr>e_mailboxes := (e_mailboxes m)(i := f (e_mailboxes m i))\<rparr>) s"

section \<open>Mail\<close>

definition sm_internal_mail_accept :: "u64 \<Rightarrow> mailbox_id_t \<Rightarrow> enclave_id_t \<Rightarrow> call" where
  "sm_internal_mail_accept core_id mailbox_id expected_sender s = do {
     c \<leftarrow> c_index NUM_CORES core_id;
     let caller = core_owner (cores s c);
     if caller = OWNER_UNTRUSTED then
       if of_nat NUM_UNTRUSTED_MAILBOXES \<le> mailbox_id then Some (MONITOR_INVALID_VALUE, s)
       else do {
         let (ok, s) = lock_untrusted_state s;
         if \<not> ok then Some (MONITOR_CONCURRENT_CALL, s)
         else do {
           let s = upd_mailbox (UntrustedBox (unat mailbox_id))
                 (\<lambda>m. m\<lparr>mb_state := ENCLAVE_MAILBOX_STATE_EMPTY, mb_expected_sender := expected_sender\<rparr>) s;
           Some (MONITOR_OK, unlock_untrusted_state s) } }
     else do {
       (ok, s) \<leftarrow> lock_region (addr_to_region_id caller) s;
       if \<not> ok then Some (MONITOR_CONCURRENT_CALL, s)
       else if e_num_mailboxes (enclaves s caller) \<le> mailbox_id then Some (MONITOR_INVALID_VALUE, s)
       else do {
         let s = upd_mailbox (EnclaveBox caller (unat mailbox_id))
               (\<lambda>m. m\<lparr>mb_state := ENCLAVE_MAILBOX_STATE_EMPTY, mb_expected_sender := expected_sender\<rparr>) s;
         s \<leftarrow> unlock_region (addr_to_region_id caller) s;
         Some (MONITOR_OK, s) } } }"

text \<open>\<^verbatim>\<open>if (untrusted_locked) unlock_untrusted_state(); unlock_regions(&locked_regions);\<close>\<close>

definition mail_unlock :: "bool \<Rightarrow> region_map_t \<Rightarrow> machine \<Rightarrow> machine" where
  "mail_unlock untrusted_locked L s =
     unlock_regions L (if untrusted_locked then unlock_untrusted_state s else s)"

text \<open>Both remaining calls first find and lock a mailbox; an early return carries its result code.\<close>

type_synonym mailbox_lookup = "(api_result_t \<times> machine + mailbox_ptr \<times> bool \<times> region_map_t \<times> machine) option"

definition mail_receive_lookup :: "enclave_id_t \<Rightarrow> mailbox_id_t \<Rightarrow> machine \<Rightarrow> mailbox_lookup" where
  "mail_receive_lookup caller mailbox_id s =
     (if caller = OWNER_UNTRUSTED then
        if of_nat NUM_UNTRUSTED_MAILBOXES \<le> mailbox_id then Some (Inl (MONITOR_INVALID_VALUE, s))
        else let (ok, s) = lock_untrusted_state s in
          if \<not> ok then Some (Inl (MONITOR_CONCURRENT_CALL, s))
          else Some (Inr (UntrustedBox (unat mailbox_id), True, no_regions, s))
      else do {
        (ok, L, s) \<leftarrow> add_lock_region (addr_to_region_id caller) no_regions s;
        if \<not> ok then Some (Inl (MONITOR_CONCURRENT_CALL, s))
        else if e_num_mailboxes (enclaves s caller) \<le> mailbox_id
        then Some (Inl (MONITOR_INVALID_VALUE, unlock_regions L s))
        else Some (Inr (EnclaveBox caller (unat mailbox_id), False, L, s)) })"

text \<open>What is done with the mailbox found: lines 63 to 92.\<close>

definition mail_receive_finish ::
  "platform_env \<Rightarrow> nat \<Rightarrow> u64 \<Rightarrow> u64 \<Rightarrow> mailbox_ptr \<Rightarrow> bool \<Rightarrow> region_map_t \<Rightarrow> call" where
  "mail_receive_finish env c out_message out_sender_measurement mailbox untrusted_locked L s =
     (if mb_state (get_mailbox mailbox s) \<noteq> ENCLAVE_MAILBOX_STATE_FULL
      then Some (MONITOR_INVALID_STATE, mail_unlock untrusted_locked L s)
      else do {
        s \<leftarrow> memcpy_m2u env c out_sender_measurement (mb_sender_measurement (get_mailbox mailbox s)) s;
        s \<leftarrow> memcpy_m2u env c out_message (mb_message (get_mailbox mailbox s)) s;
        let s = upd_mailbox mailbox (\<lambda>m. m\<lparr>mb_state := ENCLAVE_MAILBOX_STATE_FULL\<rparr>) s;
        Some (MONITOR_OK, mail_unlock untrusted_locked L s) })"

definition sm_internal_mail_receive :: "platform_env \<Rightarrow> u64 \<Rightarrow> mailbox_id_t \<Rightarrow> u64 \<Rightarrow> u64 \<Rightarrow> call" where
  "sm_internal_mail_receive env core_id mailbox_id out_message out_sender_measurement s = do {
     c \<leftarrow> c_index NUM_CORES core_id;
     x \<leftarrow> mail_receive_lookup (core_owner (cores s c)) mailbox_id s;
     (case x of Inl r \<Rightarrow> Some r
      | Inr (mailbox, untrusted_locked, L, s) \<Rightarrow>
          mail_receive_finish env c out_message out_sender_measurement mailbox untrusted_locked L s) }"

definition mail_send_lookup :: "enclave_id_t \<Rightarrow> mailbox_id_t \<Rightarrow> machine \<Rightarrow> mailbox_lookup" where
  "mail_send_lookup recipient mailbox_id s =
     (if recipient = OWNER_UNTRUSTED then
        if of_nat NUM_UNTRUSTED_MAILBOXES \<le> mailbox_id then Some (Inl (MONITOR_INVALID_VALUE, s))
        else let (ok, s) = lock_untrusted_state s in
          if \<not> ok then Some (Inl (MONITOR_CONCURRENT_CALL, s))
          else Some (Inr (UntrustedBox (unat mailbox_id), True, no_regions, s))
      else do {
        (result, L, s) \<leftarrow> add_lock_region_iff_valid_enclave recipient no_regions s;
        if result \<noteq> MONITOR_OK then Some (Inl (result, s))
        else if e_num_mailboxes (enclaves s recipient) \<le> mailbox_id
        then Some (Inl (MONITOR_INVALID_VALUE, unlock_regions L s))
        else if e_init_state (enclaves s recipient) \<noteq> ENCLAVE_STATE_INITIALIZED
        then Some (Inl (MONITOR_INVALID_STATE, unlock_regions L s))
        else Some (Inr (EnclaveBox recipient (unat mailbox_id), False, L, s)) })"

text \<open>The lock of the caller, when it is not the recipient's.\<close>

definition mail_send_lock_caller ::
  "enclave_id_t \<Rightarrow> enclave_id_t \<Rightarrow> bool \<Rightarrow> region_map_t \<Rightarrow> machine \<Rightarrow>
   (api_result_t \<times> machine + bool \<times> region_map_t \<times> machine) option" where
  "mail_send_lock_caller caller recipient untrusted_locked L s =
     (if caller \<noteq> recipient \<and> addr_to_region_id caller \<noteq> addr_to_region_id recipient then
        if caller = OWNER_UNTRUSTED then
          let (ok, s) = lock_untrusted_state s in
          if \<not> ok then Some (Inl (MONITOR_CONCURRENT_CALL, unlock_regions L s))
          else Some (Inr (True, L, s))
        else do {
          (ok, L, s) \<leftarrow> add_lock_region (addr_to_region_id caller) L s;
          if \<not> ok then Some (Inl (MONITOR_CONCURRENT_CALL, mail_unlock untrusted_locked L s))
          else Some (Inr (untrusted_locked, L, s)) }
      else Some (Inr (untrusted_locked, L, s)))"

text \<open>What is done with the mailbox found: lines 92 to 131.\<close>

definition mail_send_finish ::
  "platform_env \<Rightarrow> nat \<Rightarrow> enclave_id_t \<Rightarrow> u64 \<Rightarrow> mailbox_ptr \<Rightarrow> bool \<Rightarrow> region_map_t \<Rightarrow> call" where
  "mail_send_finish env c caller in_message mailbox untrusted_locked L s =
     (if mb_expected_sender (get_mailbox mailbox s) \<noteq> caller \<or>
         mb_state (get_mailbox mailbox s) \<noteq> ENCLAVE_MAILBOX_STATE_EMPTY
      then Some (MONITOR_INVALID_STATE, mail_unlock untrusted_locked L s)
      else do {
        let measurement = (if caller = OWNER_UNTRUSTED then replicate 64 0 else e_measurement (enclaves s caller));
        let s = upd_mailbox mailbox (\<lambda>m. m\<lparr>mb_sender_measurement := measurement\<rparr>) s;
        message \<leftarrow> memcpy_u2m env c s MAILBOX_SIZE in_message;
        let s = upd_mailbox mailbox (\<lambda>m. m\<lparr>mb_message := message\<rparr>) s;
        let s = upd_mailbox mailbox (\<lambda>m. m\<lparr>mb_state := ENCLAVE_MAILBOX_STATE_FULL\<rparr>) s;
        Some (MONITOR_OK, mail_unlock untrusted_locked L s) })"

definition sm_internal_mail_send :: "platform_env \<Rightarrow> u64 \<Rightarrow> enclave_id_t \<Rightarrow> mailbox_id_t \<Rightarrow> u64 \<Rightarrow> call" where
  "sm_internal_mail_send env core_id recipient mailbox_id in_message s = do {
     c \<leftarrow> c_index NUM_CORES core_id;
     let caller = core_owner (cores s c);
     x \<leftarrow> mail_send_lookup recipient mailbox_id s;
     (case x of Inl r \<Rightarrow> Some r
      | Inr (mailbox, untrusted_locked, L, s) \<Rightarrow> do {
          y \<leftarrow> mail_send_lock_caller caller recipient untrusted_locked L s;
          (case y of Inl r \<Rightarrow> Some r
           | Inr (untrusted_locked, L, s) \<Rightarrow>
               mail_send_finish env c caller in_message mailbox untrusted_locked L s) }) }"

section \<open>Attestation, keys and public fields\<close>

definition sm_internal_enclave_get_attest :: "platform_env \<Rightarrow> u64 \<Rightarrow> enclave_id_t \<Rightarrow> u64 \<Rightarrow> u64 \<Rightarrow> u64 \<Rightarrow> call" where
  "sm_internal_enclave_get_attest env core_id enclave_id addr_m addr_pk addr_s s = do {
     c \<leftarrow> c_index NUM_CORES core_id;
     (result, L, s) \<leftarrow> add_lock_region_iff_valid_enclave enclave_id no_regions s;
     if result \<noteq> MONITOR_OK then Some (result, s)
     else if e_init_state (enclaves s enclave_id) \<noteq> ENCLAVE_STATE_INITIALIZED
     then Some (MONITOR_INVALID_STATE, unlock_regions L s)
     else do {
       s \<leftarrow> memcpy_m2u env c addr_m (e_measurement (enclaves s enclave_id)) s;
       s \<leftarrow> memcpy_m2u env c addr_pk (e_public_key (enclaves s enclave_id)) s;
       s \<leftarrow> memcpy_m2u env c addr_s (e_attestation (enclaves s enclave_id)) s;
       Some (MONITOR_OK, unlock_regions L s) } }"

definition sm_internal_enclave_get_keys :: "platform_env \<Rightarrow> u64 \<Rightarrow> u64 \<Rightarrow> u64 \<Rightarrow> u64 \<Rightarrow> u64 \<Rightarrow> call" where
  "sm_internal_enclave_get_keys env core_id addr_m addr_pk addr_sk addr_s s = do {
     c \<leftarrow> c_index NUM_CORES core_id;
     let caller = core_owner (cores s c);
     (result, L, s) \<leftarrow> add_lock_region_iff_valid_enclave caller no_regions s;
     if result \<noteq> MONITOR_OK then Some (result, s)
     else do {
       s \<leftarrow> memcpy_m2u env c addr_m (e_measurement (enclaves s caller)) s;
       s \<leftarrow> memcpy_m2u env c addr_pk (e_public_key (enclaves s caller)) s;
       s \<leftarrow> memcpy_m2u env c addr_sk (e_secret_key (enclaves s caller)) s;
       s \<leftarrow> memcpy_m2u env c addr_s (e_attestation (enclaves s caller)) s;
       Some (MONITOR_OK, unlock_regions L s) } }"

text \<open>The six fields; any other number is rejected.\<close>

definition public_field :: "u32 \<Rightarrow> sm_keys_t \<Rightarrow> bytes option" where
  "public_field field k =
     (if field = 0 then Some (manufacturer_public_key k)
      else if field = 1 then Some (device_public_key k)
      else if field = 2 then Some (software_public_key k)
      else if field = 3 then Some (software_measurement k)
      else if field = 4 then Some (device_signature k)
      else if field = 5 then Some (software_signature k)
      else None)"

definition sm_internal_get_public_field :: "platform_env \<Rightarrow> u64 \<Rightarrow> u32 \<Rightarrow> u64 \<Rightarrow> call" where
  "sm_internal_get_public_field env core_id field out_buffer s = do {
     c \<leftarrow> c_index NUM_CORES core_id;
     (case public_field field (keys s) of None \<Rightarrow> Some (MONITOR_INVALID_VALUE, s)
      | Some buffer \<Rightarrow> do {
          s \<leftarrow> memcpy_m2u env c out_buffer buffer s;
          Some (MONITOR_OK, s) }) }"

section \<open>Specification\<close>

definition box_of :: "enclave_id_t \<Rightarrow> mailbox_id_t \<Rightarrow> mailbox_ptr" where
  "box_of e i = (if e = OWNER_UNTRUSTED then UntrustedBox (unat i) else EnclaveBox e (unat i))"

abbreviation caller_of :: "u64 \<Rightarrow> machine \<Rightarrow> enclave_id_t" where
  "caller_of c s \<equiv> core_owner (cores s (unat c))"

definition own_mailbox :: "enclave_id_t \<Rightarrow> mailbox_id_t \<Rightarrow> machine \<Rightarrow> bool" where
  "own_mailbox e i s \<longleftrightarrow>
     (if e = OWNER_UNTRUSTED then i < of_nat NUM_UNTRUSTED_MAILBOXES
      else unat (addr_to_region_id e) < NUM_REGIONS \<and> i < e_num_mailboxes (enclaves s e))"

definition accept_guard :: "u64 \<Rightarrow> mailbox_id_t \<Rightarrow> machine \<Rightarrow> bool" where
  "accept_guard c i s \<longleftrightarrow> unat c < NUM_CORES \<and> own_mailbox (caller_of c s) i s"

definition accept_effect :: "u64 \<Rightarrow> mailbox_id_t \<Rightarrow> enclave_id_t \<Rightarrow> machine \<Rightarrow> machine" where
  "accept_effect c i sender s = upd_mailbox (box_of (caller_of c s) i)
     (\<lambda>m. m\<lparr>mb_state := ENCLAVE_MAILBOX_STATE_EMPTY, mb_expected_sender := sender\<rparr>) s"

text \<open>A sequence of copies out of the monitor, each through the page tables the one before may have changed.\<close>

primrec m2u_all :: "platform_env \<Rightarrow> csr_file \<Rightarrow> (u64 \<times> bytes) list \<Rightarrow> (u64 \<Rightarrow> u8) \<Rightarrow> (u64 \<Rightarrow> u8) option" where
  "m2u_all env r [] m = Some m"
| "m2u_all env r (x # xs) m = Option.bind (m2u_mem env r (fst x) (snd x) m) (m2u_all env r xs)"

definition receive_copy :: "platform_env \<Rightarrow> u64 \<Rightarrow> mailbox_id_t \<Rightarrow> u64 \<Rightarrow> u64 \<Rightarrow> machine \<Rightarrow> (u64 \<Rightarrow> u8) option" where
  "receive_copy env c i out meas s =
     (let b = get_mailbox (box_of (caller_of c s) i) s; r = csrs s (unat c) in
      m2u_all env r [(meas, mb_sender_measurement b), (out, mb_message b)] (mem s))"

definition receive_guard :: "platform_env \<Rightarrow> u64 \<Rightarrow> mailbox_id_t \<Rightarrow> u64 \<Rightarrow> u64 \<Rightarrow> machine \<Rightarrow> bool" where
  "receive_guard env c i out meas s \<longleftrightarrow> unat c < NUM_CORES \<and> own_mailbox (caller_of c s) i s \<and>
     mb_state (get_mailbox (box_of (caller_of c s) i) s) = ENCLAVE_MAILBOX_STATE_FULL \<and>
     receive_copy env c i out meas s \<noteq> None"

definition receive_effect :: "platform_env \<Rightarrow> u64 \<Rightarrow> mailbox_id_t \<Rightarrow> u64 \<Rightarrow> u64 \<Rightarrow> machine \<Rightarrow> machine" where
  "receive_effect env c i out meas s = s\<lparr>mem := the (receive_copy env c i out meas s)\<rparr>"

definition sender_measurement :: "enclave_id_t \<Rightarrow> machine \<Rightarrow> bytes" where
  "sender_measurement e s = (if e = OWNER_UNTRUSTED then replicate 64 0 else e_measurement (enclaves s e))"

definition send_guard :: "platform_env \<Rightarrow> u64 \<Rightarrow> enclave_id_t \<Rightarrow> mailbox_id_t \<Rightarrow> u64 \<Rightarrow> machine \<Rightarrow> bool" where
  "send_guard env c e i a s \<longleftrightarrow> unat c < NUM_CORES \<and>
     (if e = OWNER_UNTRUSTED then i < of_nat NUM_UNTRUSTED_MAILBOXES
      else valid_metadata e METADATA_PAGE_ENCLAVE s \<and> i < e_num_mailboxes (enclaves s e) \<and>
           e_init_state (enclaves s e) = ENCLAVE_STATE_INITIALIZED) \<and>
     (caller_of c s = OWNER_UNTRUSTED \<or> addr_to_region_id (caller_of c s) = addr_to_region_id e \<or>
      unat (addr_to_region_id (caller_of c s)) < NUM_REGIONS) \<and>
     mb_expected_sender (get_mailbox (box_of e i) s) = caller_of c s \<and>
     mb_state (get_mailbox (box_of e i) s) = ENCLAVE_MAILBOX_STATE_EMPTY \<and>
     memcpy_u2m env (unat c) s MAILBOX_SIZE a \<noteq> None"

definition send_effect :: "platform_env \<Rightarrow> u64 \<Rightarrow> enclave_id_t \<Rightarrow> mailbox_id_t \<Rightarrow> u64 \<Rightarrow> machine \<Rightarrow> machine" where
  "send_effect env c e i a s = upd_mailbox (box_of e i)
     (\<lambda>m. m\<lparr>mb_sender_measurement := sender_measurement (caller_of c s) s,
           mb_message := the (memcpy_u2m env (unat c) s MAILBOX_SIZE a), mb_state := ENCLAVE_MAILBOX_STATE_FULL\<rparr>) s"

section \<open>The calls keep their contracts\<close>

lemma upd_mailbox_sel [simp]:
  "csrs (upd_mailbox b f s) = csrs s" "mem (upd_mailbox b f s) = mem s" "cores (upd_mailbox b f s) = cores s"
  "regions (upd_mailbox b f s) = regions s" "page_info (upd_mailbox b f s) = page_info s" "threads (upd_mailbox b f s) = threads s"
  "untrusted_regions (upd_mailbox b f s) = untrusted_regions s" "keys (upd_mailbox b f s) = keys s" "locks (upd_mailbox b f s) = locks s"
  by (cases b; simp add: upd_enclave_def)+

lemma mailbox_locks [simp]:
  "get_mailbox b (s\<lparr>mem := z\<rparr>) = get_mailbox b s"
  "get_mailbox b (upd_locks f s) = get_mailbox b s" "get_mailbox b (erase s) = get_mailbox b s"
  "upd_mailbox b g (upd_locks f s) = upd_locks f (upd_mailbox b g s)"
  "erase (upd_mailbox b g s) = upd_mailbox b g (erase s)"
  by (cases b; simp add: upd_locks_def upd_enclave_def erase_def)+

lemma mailbox_compose [simp]: "upd_mailbox b g (upd_mailbox b h s) = upd_mailbox b (\<lambda>m. g (h m)) s"
  by (cases b) (simp_all add: upd_enclave_def)

lemma mailbox_idem: "(\<And>m. m = get_mailbox b s \<Longrightarrow> g m = m) \<Longrightarrow> upd_mailbox b g s = s"
  by (cases b) (simp_all add: upd_enclave_def fun_upd_idem)

lemma memcpy_u2m_mailbox [simp]: "memcpy_u2m env c (upd_mailbox b g s) n a = memcpy_u2m env c s n a"
  by (rule memcpy_u2m_cong) simp_all

lemma erase_mail_unlock [simp]: "erase (mail_unlock b L s) = erase s"
  by (simp add: mail_unlock_def unlock_regions_eq unlock_untrusted_eq)

lemma accept_transacts:
  "yields (sm_internal_mail_accept c i e s) (transacts (accept_guard c i) (accept_effect c i e) s)"
  unfolding sm_internal_mail_accept_def
  by (intro yields_rules, simp_all only: prod.case, simp_all add: step_iff c_index_def split del: if_split)
    (auto simp: transacts_def accept_guard_def accept_effect_def own_mailbox_def box_of_def not_le split: if_splits)

lemma accept_succeeds:
  "locks s = free_locks \<Longrightarrow> accept_guard c i s \<Longrightarrow> \<exists>s'. sm_internal_mail_accept c i e s = Some (MONITOR_OK, s')"
  by (auto simp: accept_guard_def own_mailbox_def sm_internal_mail_accept_def Let_def c_index_def lock_unfold not_le split: if_splits)

text \<open>A lookup that may return early, followed by the rest of a call.\<close>

lemma yields_lookup:
  assumes "yields m (\<lambda>x. case x of Inl (r, s') \<Rightarrow> r \<noteq> MONITOR_OK \<and> erase s' = erase s | Inr y \<Rightarrow> Q y)"
    and "\<And>y. Q y \<Longrightarrow> yields (g y) (transacts G E s)"
  shows "yields (Option.bind m (\<lambda>x. case x of Inl r \<Rightarrow> Some r | Inr y \<Rightarrow> g y)) (transacts G E s)"
proof (rule yields_bind)
  fix x assume "m = Some x"
  from yieldsD[OF assms(1) this] assms(2) show "yields (case x of Inl r \<Rightarrow> Some r | Inr y \<Rightarrow> g y) (transacts G E s)"
    by (cases x) (auto intro!: yields_Some simp: transacts_def[of G E s, symmetric], auto simp: transacts_def)
qed

lemma receive_lookup_spec:
  "yields (mail_receive_lookup e i s) (\<lambda>x. case x of
     Inl (r, s') \<Rightarrow> r \<noteq> MONITOR_OK \<and> erase s' = erase s
   | Inr (b, u, L, s') \<Rightarrow> own_mailbox e i s \<and> b = box_of e i \<and> (\<exists>f. s' = upd_locks f s))"
  unfolding mail_receive_lookup_def
  by (intro yields_rules, simp_all only: prod.case sum.case, simp_all add: step_iff split del: if_split)
    (auto simp: own_mailbox_def box_of_def not_le split: if_splits)

lemma receive_finish_spec:
  assumes "unat c < NUM_CORES" "own_mailbox (caller_of c s) i s"
  shows "yields (mail_receive_finish env (unat c) out meas (box_of (caller_of c s) i) u L (upd_locks f s))
     (transacts (receive_guard env c i out meas) (receive_effect env c i out meas) s)"
proof -
  let ?b = "box_of (caller_of c s) i"
  have "upd_mailbox ?b (\<lambda>m. m\<lparr>mb_state := ENCLAVE_MAILBOX_STATE_FULL\<rparr>) t = t"
    if "mb_state (get_mailbox ?b t) = ENCLAVE_MAILBOX_STATE_FULL" for t
    by (rule mailbox_idem) (use that in auto)
  then show ?thesis using assms unfolding mail_receive_finish_def
    by (auto simp: yields_def transacts_def receive_guard_def receive_effect_def receive_copy_def Let_def
        bind_eq_Some_conv memcpy_m2u_eq split: if_splits)
qed

lemma receive_transacts:
  "yields (sm_internal_mail_receive env c i out meas s)
     (transacts (receive_guard env c i out meas) (receive_effect env c i out meas) s)"
  unfolding sm_internal_mail_receive_def
  by (rule yields_bind, simp add: c_index_def split: if_splits)
    (rule yields_lookup[OF receive_lookup_spec], auto intro: receive_finish_spec)

lemma send_lookup_spec:
  "yields (mail_send_lookup e i s) (\<lambda>x. case x of
     Inl (r, s') \<Rightarrow> r \<noteq> MONITOR_OK \<and> erase s' = erase s
   | Inr (b, u, L, s') \<Rightarrow> b = box_of e i \<and> (\<exists>f. s' = upd_locks f s) \<and>
       (if e = OWNER_UNTRUSTED then i < of_nat NUM_UNTRUSTED_MAILBOXES
        else valid_metadata e METADATA_PAGE_ENCLAVE s \<and> i < e_num_mailboxes (enclaves s e) \<and>
             e_init_state (enclaves s e) = ENCLAVE_STATE_INITIALIZED))"
  unfolding mail_send_lookup_def
  by (intro yields_rules, simp_all only: prod.case sum.case, simp_all add: step_iff split del: if_split)
    (auto simp: box_of_def not_le split: if_splits)

lemma send_lock_spec:
  "yields (mail_send_lock_caller a e u L s) (\<lambda>x. case x of
     Inl (r, s') \<Rightarrow> r \<noteq> MONITOR_OK \<and> erase s' = erase s
   | Inr (u, L, s') \<Rightarrow> (\<exists>f. s' = upd_locks f s) \<and>
       (a = OWNER_UNTRUSTED \<or> addr_to_region_id a = addr_to_region_id e \<or> unat (addr_to_region_id a) < NUM_REGIONS))"
  unfolding mail_send_lock_caller_def
  by (intro yields_rules, simp_all only: prod.case sum.case, simp_all add: lock_unfold unlock_regions_eq split: if_splits split del: if_split)
    (auto split: if_splits intro: exI[of _ id])

lemma send_finish_spec:
  assumes "unat c < NUM_CORES"
    "if e = OWNER_UNTRUSTED then i < of_nat NUM_UNTRUSTED_MAILBOXES
     else valid_metadata e METADATA_PAGE_ENCLAVE s \<and> i < e_num_mailboxes (enclaves s e) \<and>
             e_init_state (enclaves s e) = ENCLAVE_STATE_INITIALIZED"
    "caller_of c s = OWNER_UNTRUSTED \<or> addr_to_region_id (caller_of c s) = addr_to_region_id e \<or>
      unat (addr_to_region_id (caller_of c s)) < NUM_REGIONS"
  shows "yields (mail_send_finish env (unat c) (caller_of c s) a (box_of e i) u L (upd_locks f s))
     (transacts (send_guard env c e i a) (send_effect env c e i a) s)"
  using assms unfolding mail_send_finish_def send_effect_def
  by (auto simp: yields_def transacts_def send_guard_def send_effect_def sender_measurement_def Let_def
        bind_eq_Some_conv split: if_splits)

lemma send_transacts:
  "yields (sm_internal_mail_send env c e i a s) (transacts (send_guard env c e i a) (send_effect env c e i a) s)"
  unfolding sm_internal_mail_send_def
proof (rule yields_bind, rule yields_let, simp add: c_index_def split: if_splits, rule yields_lookup[OF send_lookup_spec], clarify)
  fix b u L s1 f
  assume c: "unat c < NUM_CORES" and g: "if e = OWNER_UNTRUSTED then i < of_nat NUM_UNTRUSTED_MAILBOXES
        else valid_metadata e METADATA_PAGE_ENCLAVE s \<and> i < e_num_mailboxes (enclaves s e) \<and>
             e_init_state (enclaves s e) = ENCLAVE_STATE_INITIALIZED"
  have s: "transacts (send_guard env c e i a) (send_effect env c e i a) s =
      transacts (\<lambda>_. send_guard env c e i a s) (\<lambda>_. send_effect env c e i a s) (upd_locks f s)"
    by (simp add: transacts_def)
  show "yields (Option.bind (mail_send_lock_caller (caller_of c s) e u L (upd_locks f s))
          (\<lambda>y. case y of Inl r \<Rightarrow> Some r
           | Inr (untrusted_locked, L, s1) \<Rightarrow> mail_send_finish env (unat c) (caller_of c s) a (box_of e i) untrusted_locked L s1))
        (transacts (send_guard env c e i a) (send_effect env c e i a) s)"
    unfolding s by (rule yields_lookup[OF send_lock_spec]) (use send_finish_spec[OF c g] in \<open>auto simp: s[symmetric]\<close>)
qed

lemma region_id_untrusted: "addr_to_region_id OWNER_UNTRUSTED \<noteq> r \<or> NUM_REGIONS \<le> unat r"
proof -
  have "unat (addr_to_region_id OWNER_UNTRUSTED) = unat (1 - RAM_BASE :: u64) div 2 ^ 25"
    by (simp add: unat_region_id OWNER_UNTRUSTED_def)
  then show ?thesis by (auto simp: RAM_BASE_def NUM_REGIONS_def)
qed

lemma receive_lookup_free:
  assumes "locks s = free_locks" "own_mailbox e i s"
  shows "\<exists>u L f. mail_receive_lookup e i s = Some (Inr (box_of e i, u, L, upd_locks f s))"
proof (cases "e = OWNER_UNTRUSTED")
  case True
  then have "\<not> of_nat NUM_UNTRUSTED_MAILBOXES \<le> i" using assms by (simp add: own_mailbox_def not_le)
  with True show ?thesis using assms(1) by (auto simp: mail_receive_lookup_def lock_untrusted_eq box_of_def)
next
  case False
  then have "unat (addr_to_region_id e) < NUM_REGIONS" "\<not> e_num_mailboxes (enclaves s e) \<le> i"
    using assms by (simp_all add: own_mailbox_def not_le)
  with False show ?thesis using assms(1) by (auto simp: mail_receive_lookup_def add_lock_region_eq box_of_def)
qed

lemma receive_succeeds:
  assumes "locks s = free_locks" "receive_guard env c i out meas s"
  shows "\<exists>s'. sm_internal_mail_receive env c i out meas s = Some (MONITOR_OK, s')"
proof -
  let ?e = "caller_of c s"
  obtain u L f where l: "mail_receive_lookup ?e i s = Some (Inr (box_of ?e i, u, L, upd_locks f s))"
    using receive_lookup_free[OF assms(1)] assms(2) unfolding receive_guard_def by blast
  from assms(2) obtain y z where
    "m2u_mem env (csrs s (unat c)) meas (mb_sender_measurement (get_mailbox (box_of ?e i) s)) (mem s) = Some y"
    "m2u_mem env (csrs s (unat c)) out (mb_message (get_mailbox (box_of ?e i) s)) y = Some z"
    by (auto simp: receive_guard_def receive_copy_def Let_def bind_eq_Some_conv)
  then show ?thesis using assms(2) l
    by (simp add: receive_guard_def sm_internal_mail_receive_def c_index_def mail_receive_finish_def memcpy_m2u_eq Let_def)
qed

lemma send_lookup_free:
  assumes "locks s = free_locks"
    and "if e = OWNER_UNTRUSTED then i < of_nat NUM_UNTRUSTED_MAILBOXES
      else valid_metadata e METADATA_PAGE_ENCLAVE s \<and> i < e_num_mailboxes (enclaves s e) \<and>
           e_init_state (enclaves s e) = ENCLAVE_STATE_INITIALIZED"
  obtains u L f where "mail_send_lookup e i s = Some (Inr (box_of e i, u, L, upd_locks f s))"
    "L = no_regions \<and> e = OWNER_UNTRUSTED \<and> region_locks (f free_locks) = no_regions \<or>
     L = no_regions(unat (addr_to_region_id e) := True) \<and> e \<noteq> OWNER_UNTRUSTED \<and> f = hold_region (unat (addr_to_region_id e))"
proof (cases "e = OWNER_UNTRUSTED")
  case True
  then have "\<not> of_nat NUM_UNTRUSTED_MAILBOXES \<le> i" using assms by (simp add: not_le)
  with True have "mail_send_lookup e i s = Some (Inr (box_of e i, True, no_regions, upd_locks (\<lambda>k. k\<lparr>untrusted_state_lock := True\<rparr>) s))"
    using assms(1) by (simp add: mail_send_lookup_def lock_untrusted_eq box_of_def)
  from that[OF this] True show ?thesis by (simp add: free_locks_def no_regions_def)
next
  case False
  then have v: "valid_metadata e METADATA_PAGE_ENCLAVE s" and "\<not> e_num_mailboxes (enclaves s e) \<le> i"
    "e_init_state (enclaves s e) = ENCLAVE_STATE_INITIALIZED"
    using assms(2) by (simp_all add: not_le)
  with False free_step_valid[OF assms(1) v] have
    "mail_send_lookup e i s = Some (Inr (box_of e i, False, no_regions(unat (addr_to_region_id e) := True),
       upd_locks (hold_region (unat (addr_to_region_id e))) s))"
    by (simp add: mail_send_lookup_def box_of_def add_lock_region_iff_valid_enclave_def)
  from that[OF this] False show ?thesis by simp
qed

lemma send_lock_free:
  assumes "locks s = free_locks"
    and "L = no_regions \<and> e = OWNER_UNTRUSTED \<and> region_locks (f free_locks) = no_regions \<or>
     L = no_regions(unat (addr_to_region_id e) := True) \<and> e \<noteq> OWNER_UNTRUSTED \<and> f = hold_region (unat (addr_to_region_id e))"
    and "a = OWNER_UNTRUSTED \<or> addr_to_region_id a = addr_to_region_id e \<or> unat (addr_to_region_id a) < NUM_REGIONS"
  obtains u' L' g where "mail_send_lock_caller a e u L (upd_locks f s) = Some (Inr (u', L', upd_locks g s))"
proof (cases "a = e \<or> addr_to_region_id a = addr_to_region_id e")
  case True
  then show ?thesis using that by (auto simp: mail_send_lock_caller_def)
next
  case ne: False
  show ?thesis
  proof (cases "a = OWNER_UNTRUSTED")
    case True
    with ne assms(2) have "f = hold_region (unat (addr_to_region_id e))" by auto
    with True ne show ?thesis using that assms(1)
      by (auto simp: mail_send_lock_caller_def lock_untrusted_eq free_locks_def)
  next
    case False
    with ne assms(3) have a: "unat (addr_to_region_id a) < NUM_REGIONS" by simp
    have "unat (addr_to_region_id a) \<noteq> unat (addr_to_region_id e)" using ne by (auto dest: unsigned_word_eqI)
    then have "\<not> L (unat (addr_to_region_id a))" "\<not> region_locks (f free_locks) (unat (addr_to_region_id a))"
      using assms(2) by (auto simp: region_locks_free)
    with False ne a show ?thesis using that assms(1)
      by (simp add: mail_send_lock_caller_def add_lock_region_eq)
  qed
qed

lemma send_succeeds:
  assumes "locks s = free_locks" "send_guard env c e i a s"
  shows "\<exists>s'. sm_internal_mail_send env c e i a s = Some (MONITOR_OK, s')"
proof -
  let ?a = "caller_of c s"
  note g = assms(2)[unfolded send_guard_def]
  obtain u L f where l: "mail_send_lookup e i s = Some (Inr (box_of e i, u, L, upd_locks f s))"
    and f: "L = no_regions \<and> e = OWNER_UNTRUSTED \<and> region_locks (f free_locks) = no_regions \<or>
     L = no_regions(unat (addr_to_region_id e) := True) \<and> e \<noteq> OWNER_UNTRUSTED \<and> f = hold_region (unat (addr_to_region_id e))"
    using send_lookup_free[OF assms(1)] g by blast
  obtain u' L' h where k: "mail_send_lock_caller ?a e u L (upd_locks f s) = Some (Inr (u', L', upd_locks h s))"
    using send_lock_free[OF assms(1) f] g by blast
  obtain x where "memcpy_u2m env (unat c) s MAILBOX_SIZE a = Some x" using g by blast
  moreover from this have "memcpy_u2m env (unat c) t MAILBOX_SIZE a = Some x" if "mem t = mem s" "csrs t = csrs s" for t
    using memcpy_u2m_cong that by metis
  ultimately show ?thesis using g l k
    by (simp add: sm_internal_mail_send_def c_index_def mail_send_finish_def Let_def)
qed

interpretation mail_accept: monitor_call "sm_internal_mail_accept c i e" "accept_guard c i" "accept_effect c i e" for c i e
  by (rule monitor_callI) (fact accept_transacts accept_succeeds)+

interpretation mail_receive: monitor_call "sm_internal_mail_receive env c i out meas"
    "receive_guard env c i out meas" "receive_effect env c i out meas" for env c i out meas
  by (rule monitor_callI) (fact receive_transacts receive_succeeds)+

interpretation mail_send: monitor_call "sm_internal_mail_send env c e i a" "send_guard env c e i a" "send_effect env c e i a"
  for env c e i a
  by (rule monitor_callI) (fact send_transacts send_succeeds)+

section \<open>Copying keys and attestations out\<close>

definition attest_out :: "enclave_id_t \<Rightarrow> u64 \<Rightarrow> u64 \<Rightarrow> u64 \<Rightarrow> machine \<Rightarrow> (u64 \<times> bytes) list" where
  "attest_out e addr_m addr_pk addr_s s =
     (let d = enclaves s e in [(addr_m, e_measurement d), (addr_pk, e_public_key d), (addr_s, e_attestation d)])"

definition keys_out :: "enclave_id_t \<Rightarrow> u64 \<Rightarrow> u64 \<Rightarrow> u64 \<Rightarrow> u64 \<Rightarrow> machine \<Rightarrow> (u64 \<times> bytes) list" where
  "keys_out e addr_m addr_pk addr_sk addr_s s =
     (let d = enclaves s e in [(addr_m, e_measurement d), (addr_pk, e_public_key d),
        (addr_sk, e_secret_key d), (addr_s, e_attestation d)])"

definition copies :: "platform_env \<Rightarrow> u64 \<Rightarrow> (u64 \<times> bytes) list \<Rightarrow> machine \<Rightarrow> (u64 \<Rightarrow> u8) option" where
  "copies env c xs s = m2u_all env (csrs s (unat c)) xs (mem s)"

definition copy_effect :: "platform_env \<Rightarrow> u64 \<Rightarrow> (machine \<Rightarrow> (u64 \<times> bytes) list) \<Rightarrow> machine \<Rightarrow> machine" where
  "copy_effect env c xs s = s\<lparr>mem := the (copies env c (xs s) s)\<rparr>"

definition attest_guard :: "platform_env \<Rightarrow> u64 \<Rightarrow> enclave_id_t \<Rightarrow> u64 \<Rightarrow> u64 \<Rightarrow> u64 \<Rightarrow> machine \<Rightarrow> bool" where
  "attest_guard env c e m pk sg s \<longleftrightarrow> unat c < NUM_CORES \<and> valid_metadata e METADATA_PAGE_ENCLAVE s \<and>
     e_init_state (enclaves s e) = ENCLAVE_STATE_INITIALIZED \<and> copies env c (attest_out e m pk sg s) s \<noteq> None"

definition keys_guard :: "platform_env \<Rightarrow> u64 \<Rightarrow> u64 \<Rightarrow> u64 \<Rightarrow> u64 \<Rightarrow> u64 \<Rightarrow> machine \<Rightarrow> bool" where
  "keys_guard env c m pk sk sg s \<longleftrightarrow> unat c < NUM_CORES \<and> valid_metadata (caller_of c s) METADATA_PAGE_ENCLAVE s \<and>
     copies env c (keys_out (caller_of c s) m pk sk sg s) s \<noteq> None"

definition field_guard :: "platform_env \<Rightarrow> u64 \<Rightarrow> u32 \<Rightarrow> u64 \<Rightarrow> machine \<Rightarrow> bool" where
  "field_guard env c f out s \<longleftrightarrow> unat c < NUM_CORES \<and> f < 6 \<and> copies env c [(out, the (public_field f (keys s)))] s \<noteq> None"

lemma txn_m2u:
  assumes "\<And>m. m2u_mem env (csrs s c) a bs (mem s) = Some m \<Longrightarrow> yields (k (s\<lparr>mem := m\<rparr>)) P"
  shows "yields (Option.bind (memcpy_m2u env c a bs s) k) P"
  using assms by (cases "m2u_mem env (csrs s c) a bs (mem s)") (simp_all add: memcpy_m2u_eq yields_None)

lemma txn_core:
  assumes "unat c < NUM_CORES \<Longrightarrow> yields (k (unat c)) P"
  shows "yields (Option.bind (c_index NUM_CORES c) k) P"
  using assms by (simp add: c_index_def yields_None)

lemma attest_transacts:
  "yields (sm_internal_enclave_get_attest env c e m pk sg s)
     (transacts (attest_guard env c e m pk sg) (copy_effect env c (attest_out e m pk sg)) s)"
  unfolding sm_internal_enclave_get_attest_def add_lock_region_iff_valid_enclave_def
  by (rule txn_core, rule txn_valid_metadata; intro txn_m2u txn_rules)
    (auto simp: transacts_def attest_guard_def copy_effect_def attest_out_def copies_def unlock_regions_eq
      Let_def erase_def upd_locks_def intro!: txn_m2u split: if_splits)

lemma keys_transacts:
  "yields (sm_internal_enclave_get_keys env c m pk sk sg s)
     (transacts (keys_guard env c m pk sk sg) (copy_effect env c (\<lambda>s. keys_out (caller_of c s) m pk sk sg s)) s)"
  unfolding sm_internal_enclave_get_keys_def add_lock_region_iff_valid_enclave_def Let_def
  by (rule txn_core, rule txn_valid_metadata; intro txn_m2u txn_rules)
    (auto simp: transacts_def keys_guard_def copy_effect_def keys_out_def copies_def unlock_regions_eq
      Let_def erase_def upd_locks_def intro!: txn_m2u split: if_splits)

lemma attest_succeeds:
  assumes "locks s = free_locks" "attest_guard env c e m pk sg s"
  shows "\<exists>s'. sm_internal_enclave_get_attest env c e m pk sg s = Some (MONITOR_OK, s')"
  using assms free_step_valid[OF assms(1), of e METADATA_PAGE_ENCLAVE]
  by (auto simp: attest_guard_def sm_internal_enclave_get_attest_def add_lock_region_iff_valid_enclave_def
      copies_def attest_out_def c_index_def memcpy_m2u_eq Let_def bind_eq_Some_conv)

lemma keys_succeeds:
  assumes "locks s = free_locks" "keys_guard env c m pk sk sg s"
  shows "\<exists>s'. sm_internal_enclave_get_keys env c m pk sk sg s = Some (MONITOR_OK, s')"
  using assms free_step_valid[OF assms(1), of "caller_of c s" METADATA_PAGE_ENCLAVE]
  by (auto simp: keys_guard_def sm_internal_enclave_get_keys_def add_lock_region_iff_valid_enclave_def
      copies_def keys_out_def c_index_def memcpy_m2u_eq Let_def bind_eq_Some_conv)

lemma public_field_range: "public_field f k = None \<longleftrightarrow> \<not> f < 6"
proof -
  have "f < 6 \<longleftrightarrow> f = 0 \<or> f = 1 \<or> f = 2 \<or> f = 3 \<or> f = 4 \<or> f = 5"
    unfolding word_less_nat_alt word_eq_iff_unsigned[where 'a = nat] by simp arith
  then show ?thesis by (auto simp: public_field_def)
qed

lemma field_transacts:
  "yields (sm_internal_get_public_field env c f out s)
     (transacts (field_guard env c f out) (copy_effect env c (\<lambda>s. [(out, the (public_field f (keys s)))])) s)"
  unfolding sm_internal_get_public_field_def
  by (rule txn_core, intro yields_option txn_m2u yields_Some)
    (use public_field_range[of f "keys s"] in \<open>auto simp: transacts_def field_guard_def copy_effect_def copies_def\<close>)

lemma field_succeeds:
  assumes "field_guard env c f out s"
  shows "\<exists>s'. sm_internal_get_public_field env c f out s = Some (MONITOR_OK, s')"
  using assms public_field_range[of f "keys s"]
  by (auto simp: field_guard_def sm_internal_get_public_field_def copies_def c_index_def memcpy_m2u_eq bind_eq_Some_conv
      split: option.splits)

lemma field_locks: "yields (sm_internal_get_public_field env c f out s) (\<lambda>(r, s'). locks s' = locks s)"
  unfolding sm_internal_get_public_field_def
  by (rule txn_core, intro yields_option txn_m2u yields_Some) auto

interpretation get_attest: monitor_call "sm_internal_enclave_get_attest env c e m pk sg"
    "attest_guard env c e m pk sg" "copy_effect env c (attest_out e m pk sg)" for env c e m pk sg
  by (rule monitor_callI) (fact attest_transacts attest_succeeds)+

interpretation get_keys: monitor_call "sm_internal_enclave_get_keys env c m pk sk sg"
    "keys_guard env c m pk sk sg" "copy_effect env c (\<lambda>s. keys_out (caller_of c s) m pk sk sg s)" for env c m pk sk sg
  by (rule monitor_callI) (fact keys_transacts keys_succeeds)+

interpretation public_field: balanced_call "sm_internal_get_public_field env c f out"
    "field_guard env c f out" "copy_effect env c (\<lambda>s. [(out, the (public_field f (keys s)))])" for env c f out
  by (rule balanced_callI, rule monitor_callI, rule field_transacts, erule field_succeeds, rule field_locks)


section \<open>Properties\<close>

lemma get_upd_mailbox [simp]: "get_mailbox b (upd_mailbox b f s) = f (get_mailbox b s)"
  by (cases b) simp_all

lemma mailbox_erase_cong: "erase s = erase t \<Longrightarrow> get_mailbox b s = get_mailbox b t"
  by (cases b) (auto dest: erase_eq_sel)

lemma upd_mailbox_measurement [simp]: "e_measurement (enclaves (upd_mailbox b f s) e) = e_measurement (enclaves s e)"
  by (cases b) (simp_all add: upd_enclave_def)

lemma sender_measurement_cong: "erase s = erase t \<Longrightarrow> sender_measurement e s = sender_measurement e t"
  by (auto simp: sender_measurement_def dest: erase_eq_sel)

text \<open>
  C15.  Mail is delivered and authenticated.  When a caller opens one of its mailboxes to a sender, a
  send to that mailbox succeeds only if it comes from that sender, and a receive that follows
  stores, through the page tables of the recipient, exactly the measurement of the sender and the
  bytes the sender had at the address it gave; when the three calls succeed the contents of the mailbox
  are not influenced by anything else.
\<close>

theorem mail_delivery:
  assumes accept: "sm_internal_mail_accept c1 i sender s = Some (MONITOR_OK, s1)"
    and send: "sm_internal_mail_send env c2 (caller_of c1 s) i a s1 = Some (MONITOR_OK, s2)"
    and receive: "sm_internal_mail_receive env c1 i out meas s2 = Some (MONITOR_OK, s3)"
  shows "caller_of c2 s = sender \<and> (\<exists>msg. memcpy_u2m env (unat c2) s MAILBOX_SIZE a = Some msg \<and>
     m2u_all env (csrs s (unat c1)) [(meas, sender_measurement sender s), (out, msg)] (mem s) = Some (mem s3))"
proof -
  let ?b = "box_of (caller_of c1 s) i"
  from mail_accept.call_ok[OF accept] have e1: "erase s1 = erase (accept_effect c1 i sender s)" by simp
  note q1 = erase_eq_sel[OF e1, unfolded accept_effect_def, simplified]
  from mail_send.call_ok[OF send] have g2: "send_guard env c2 (caller_of c1 s) i a s1"
    and e2: "erase s2 = erase (send_effect env c2 (caller_of c1 s) i a s1)" by simp_all
  note q2 = erase_eq_sel[OF e2, unfolded send_effect_def, simplified]
  from mail_receive.call_ok[OF receive] have g3: "receive_guard env c1 i out meas s2"
    and e3: "erase s3 = erase (receive_effect env c1 i out meas s2)" by simp_all
  note q3 = erase_eq_sel[OF e3, unfolded receive_effect_def, simplified]
  have b1: "mb_expected_sender (get_mailbox ?b s1) = sender"
    using mailbox_erase_cong[OF e1] by (simp add: accept_effect_def)
  then have snd: "caller_of c2 s = sender" using g2 q1 by (simp add: send_guard_def)
  have u: "memcpy_u2m env (unat c2) s1 n a = memcpy_u2m env (unat c2) s n a" for n
    by (rule memcpy_u2m_cong) (simp_all add: q1)
  obtain msg where m: "memcpy_u2m env (unat c2) s MAILBOX_SIZE a = Some msg"
    using g2 by (auto simp: send_guard_def u)
  have "sender_measurement sender s1 = sender_measurement sender s"
    using sender_measurement_cong[OF e1, of sender] by (simp add: accept_effect_def sender_measurement_def)
  then have b2: "mb_sender_measurement (get_mailbox ?b s2) = sender_measurement sender s" "mb_message (get_mailbox ?b s2) = msg"
    using mailbox_erase_cong[OF e2, of ?b] snd m u q1 by (simp_all add: send_effect_def)
  have "receive_copy env c1 i out meas s2 = Some (mem s3)"
    using g3 q3 by (auto simp: receive_guard_def)
  then have "m2u_all env (csrs s (unat c1)) [(meas, sender_measurement sender s), (out, msg)] (mem s) = Some (mem s3)"
    using b2 q1 q2 by (simp add: receive_copy_def Let_def)
  with snd m show ?thesis by blast
qed



text \<open>The enclave of the sample machine, running on core 0, receives from untrusted software on core 1.\<close>

definition sample_mail :: machine where
  "sample_mail = upd_enclave 0x82003000 (\<lambda>m. m\<lparr>e_num_mailboxes := 1\<rparr>)
     (sample_enclave\<lparr>cores := (cores sample)(0 := (cores sample 0)\<lparr>core_owner := 0x82003000\<rparr>)\<rparr>)"

lemma sample_m2u: "\<exists>m'. m2u_mem sample_env r a bs m = Some m'"
  by (induction bs arbitrary: a m) auto

lemma sample_m2u_all: "\<exists>m'. m2u_all sample_env r xs m = Some m'"
proof (induction xs arbitrary: m)
  case (Cons x xs)
  from sample_m2u[of r "fst x" "snd x" m] Cons show ?case by auto
qed simp

lemma sample_mail_sel:
  "locks sample_mail = free_locks" "caller_of 0 sample_mail = 0x82003000" "caller_of 1 sample_mail = OWNER_UNTRUSTED"
  "valid_metadata 0x82003000 METADATA_PAGE_ENCLAVE sample_mail"
  "e_num_mailboxes (enclaves sample_mail 0x82003000) = 1"
  "e_init_state (enclaves sample_mail 0x82003000) = ENCLAVE_STATE_INITIALIZED"
  by (simp_all add: sample_mail_def sample_enclave_def upd_enclave_def valid_metadata_def metadata_region_def sample_ids sample_region_def
      NUM_REGIONS_def NUM_CORES_def OWNER_UNTRUSTED_def)


lemma sample_accept: "\<exists>s1. sm_internal_mail_accept 0 0 OWNER_UNTRUSTED sample_mail = Some (MONITOR_OK, s1) \<and>
    locks s1 = free_locks \<and> erase s1 = erase (accept_effect 0 0 OWNER_UNTRUSTED sample_mail)"
proof -
  have "\<exists>s1. sm_internal_mail_accept 0 0 OWNER_UNTRUSTED sample_mail = Some (MONITOR_OK, s1) \<and> locks s1 = free_locks"
    using sample_mail_sel by (simp add: sm_internal_mail_accept_def lock_unfold sample_ids c_index_def NUM_CORES_def NUM_REGIONS_def
      OWNER_UNTRUSTED_def free_locks_def hold_region_def fun_eq_iff)
  then show ?thesis using mail_accept.call_ok by blast
qed


lemma sample_mail_unlock:
  "locks s = free_locks \<Longrightarrow> locks (mail_unlock True (no_regions(1 := True))
     (upd_locks (\<lambda>k. k\<lparr>untrusted_state_lock := True\<rparr>) (upd_locks (hold_region 1) s))) = free_locks"
  by (simp add: mail_unlock_def unlock_regions_eq unlock_untrusted_eq release_map_def hold_region_def free_locks_def
      no_regions_def NUM_REGIONS_def fun_eq_iff)

lemma locks_mail_unlock:
  "locks (mail_unlock u L s) = release_map L (if u then (locks s)\<lparr>untrusted_state_lock := False\<rparr> else locks s)"
  by (simp add: mail_unlock_def unlock_regions_eq unlock_untrusted_eq)

lemma sample_send:
  assumes e: "erase s1 = erase (accept_effect 0 0 OWNER_UNTRUSTED sample_mail)" and f: "locks s1 = free_locks"
  shows "\<exists>s2. sm_internal_mail_send sample_env 1 0x82003000 0 a s1 = Some (MONITOR_OK, s2) \<and> locks s2 = free_locks"
proof -
  note q = erase_eq_sel[OF e, unfolded accept_effect_def, simplified]
  have v: "valid_metadata 0x82003000 METADATA_PAGE_ENCLAVE s1"
    using sample_mail_sel(4) q by (simp add: valid_metadata_def metadata_region_def)
  have d: "e_num_mailboxes (enclaves s1 0x82003000) = 1" "e_init_state (enclaves s1 0x82003000) = ENCLAVE_STATE_INITIALIZED"
    using q sample_mail_sel by (simp_all add: box_of_def upd_enclave_def OWNER_UNTRUSTED_def)
  have b: "mb_expected_sender (e_mailboxes (enclaves s1 0x82003000) 0) = OWNER_UNTRUSTED"
    "mb_state (e_mailboxes (enclaves s1 0x82003000) 0) = ENCLAVE_MAILBOX_STATE_EMPTY"
    using q sample_mail_sel by (simp_all add: box_of_def upd_enclave_def OWNER_UNTRUSTED_def)
  have r: "addr_to_region_id OWNER_UNTRUSTED \<noteq> 1" using region_id_untrusted[of 1] by (simp add: NUM_REGIONS_def)
  obtain x where "memcpy_u2m sample_env 1 t MAILBOX_SIZE a = Some x" if "csrs t = csrs s1" "mem t = mem s1" for t
    using sample_u2m[of 1 s1 MAILBOX_SIZE a] memcpy_u2m_cong by metis
  then have "\<exists>s2. mail_send_finish sample_env 1 OWNER_UNTRUSTED a (EnclaveBox 0x82003000 0) True L (upd_locks g s1) =
      Some (MONITOR_OK, s2) \<and> locks s2 = locks (mail_unlock True L (upd_locks g s1))" for L g
    using b by (simp add: mail_send_finish_def Let_def locks_mail_unlock)
  note finish = this[of _ "(\<lambda>k. k\<lparr>untrusted_state_lock := True\<rparr>) \<circ> hold_region 1"]
  have ne: "(0x82003000 :: enclave_id_t) \<noteq> OWNER_UNTRUSTED" by (simp add: OWNER_UNTRUSTED_def)
  have look: "mail_send_lookup 0x82003000 0 s1 = Some (Inr (EnclaveBox 0x82003000 0, False, no_regions(1 := True), upd_locks (hold_region 1) s1))"
    using free_step_valid[OF f v] d ne by (simp add: mail_send_lookup_def add_lock_region_iff_valid_enclave_def sample_ids)
  have lock: "mail_send_lock_caller OWNER_UNTRUSTED 0x82003000 False L (upd_locks (hold_region 1) s1) =
      Some (Inr (True, L, upd_locks (\<lambda>k. k\<lparr>untrusted_state_lock := True\<rparr>) (upd_locks (hold_region 1) s1)))" for L
    using ne r f by (simp add: mail_send_lock_caller_def lock_untrusted_eq sample_ids free_locks_def)
  have "caller_of 1 s1 = OWNER_UNTRUSTED" using q sample_mail_sel by simp
  with look lock finish[of "no_regions(1 := True)"] sample_mail_unlock[OF f] show ?thesis
    by (simp add: sm_internal_mail_send_def c_index_def NUM_CORES_def Let_def o_def del: upd_mailbox.simps)
qed

lemma sample_receive:
  assumes e: "erase s1 = erase (accept_effect 0 0 OWNER_UNTRUSTED sample_mail)"
    and send: "sm_internal_mail_send sample_env 1 0x82003000 0 a s1 = Some (MONITOR_OK, s2)"
  shows "receive_guard sample_env 0 0 out meas s2"
proof -
  from mail_send.call_ok[OF send] have e2: "erase s2 = erase (send_effect sample_env 1 0x82003000 0 a s1)" by simp
  note q = erase_eq_sel[OF e, unfolded accept_effect_def, simplified]
    and q2 = erase_eq_sel[OF e2, unfolded send_effect_def, simplified]
  have c: "caller_of 0 s2 = 0x82003000" using q q2 sample_mail_sel by simp
  have "e_num_mailboxes (enclaves s2 0x82003000) = 1" "mb_state (get_mailbox (box_of 0x82003000 0) s2) = ENCLAVE_MAILBOX_STATE_FULL"
    using q q2 sample_mail_sel by (simp_all add: box_of_def upd_enclave_def OWNER_UNTRUSTED_def)
  with c show ?thesis using sample_m2u_all
    by (simp add: receive_guard_def receive_copy_def Let_def own_mailbox_def sample_ids NUM_REGIONS_def NUM_CORES_def
        OWNER_UNTRUSTED_def del: m2u_all.simps)
qed

theorem mail_delivery_witness:
  "\<exists>s1 s2 s3. sm_internal_mail_accept 0 0 OWNER_UNTRUSTED sample_mail = Some (MONITOR_OK, s1) \<and>
     sm_internal_mail_send sample_env 1 0x82003000 0 0x5000 s1 = Some (MONITOR_OK, s2) \<and>
     sm_internal_mail_receive sample_env 0 0 0x6000 0x7000 s2 = Some (MONITOR_OK, s3) \<and>
     (\<exists>msg. memcpy_u2m sample_env 1 sample_mail MAILBOX_SIZE 0x5000 = Some msg \<and>
        m2u_all sample_env (csrs sample_mail 0) [(0x7000, replicate 64 0), (0x6000, msg)] (mem sample_mail) = Some (mem s3))"
proof -
  obtain s1 where s1: "sm_internal_mail_accept 0 0 OWNER_UNTRUSTED sample_mail = Some (MONITOR_OK, s1)"
    and f1: "locks s1 = free_locks" and e1: "erase s1 = erase (accept_effect 0 0 OWNER_UNTRUSTED sample_mail)"
    using sample_accept by blast
  obtain s2 where s2: "sm_internal_mail_send sample_env 1 0x82003000 0 0x5000 s1 = Some (MONITOR_OK, s2)"
    and f2: "locks s2 = free_locks" using sample_send[OF e1 f1] by blast
  have "receive_guard sample_env 0 0 0x6000 0x7000 s2"
    by (rule sample_receive[OF e1 s2])
  then obtain s3 where s3: "sm_internal_mail_receive sample_env 0 0 0x6000 0x7000 s2 = Some (MONITOR_OK, s3)"
    using mail_receive.call_free[OF f2] by blast
  from mail_delivery[OF s1 _ s3, of 1 "0x5000"] s2 sample_mail_sel(2)
  have "\<exists>msg. memcpy_u2m sample_env 1 sample_mail MAILBOX_SIZE 0x5000 = Some msg \<and>
        m2u_all sample_env (csrs sample_mail 0) [(0x7000, replicate 64 0), (0x6000, msg)] (mem sample_mail) = Some (mem s3)"
    by (simp add: sender_measurement_def del: m2u_all.simps)
  with s1 s2 s3 show ?thesis by blast
qed

text \<open>A receive on the sample machine, once a mail is in the first mailbox of the untrusted software.\<close>

definition sample_full :: machine where
  "sample_full = upd_mailbox (UntrustedBox 0) (\<lambda>m. m\<lparr>mb_state := ENCLAVE_MAILBOX_STATE_FULL\<rparr>) sample"

lemma sample_full_free: "locks sample_full = free_locks"
  by (simp add: sample_full_def)


end
