(* ===== verification/Dispatch.thy ===== *)
theory Dispatch
  imports Kernel Mail_API Enclave_Load Thread_API
begin

unbundle bit_operations_syntax

text \<open>
  Routing: the tables and the entry code of \<^verbatim>\<open>src/handle_untrusted/entry_from_untrusted.S\<close> and
  \<^verbatim>\<open>src/handle_enclave/entry_from_enclave.S\<close>, the dispatchers \<^verbatim>\<open>ecall_from_s_trap\<close> and \<^verbatim>\<open>ecall_from_enclave_trap\<close>, and the
  interrupt handlers.  A handler either returns to the entry code (\<^term>\<open>Inl\<close>), which restores the registers and
  executes \<^verbatim>\<open>mret\<close>, or leaves the monitor itself (\<^term>\<open>Inr\<close>).
\<close>

section \<open>Calls\<close>

definition returned :: "(api_result_t \<times> machine) option \<Rightarrow> (u64 \<times> machine + machine) option" where
  "returned = map_option (\<lambda>(r, s). Inl (result_code r, s))"

definition returned_or_left :: "(api_result_t \<times> machine + machine) option \<Rightarrow> (u64 \<times> machine + machine) option" where
  "returned_or_left = map_option (\<lambda>x. case x of Inl (r, s) \<Rightarrow> Inl (result_code r, s) | Inr s \<Rightarrow> Inr s)"

definition returned_word :: "(u64 \<times> machine) option \<Rightarrow> (u64 \<times> machine + machine) option" where
  "returned_word = map_option Inl"

text \<open>The \<^verbatim>\<open>switch\<close> of \<^verbatim>\<open>ecall_from_s_trap\<close> on the call number.\<close>

definition call_from_untrusted :: "platform_env \<Rightarrow> u64 \<Rightarrow> u64 \<Rightarrow> (nat \<Rightarrow> u64) \<Rightarrow> machine \<Rightarrow> (u64 \<times> machine + machine) option" where
  "call_from_untrusted env core code arg s =
     (if code = 1000 then returned (sm_internal_enclave_create (arg 0) (arg 1) (arg 2) (arg 3) (arg 4 \<noteq> 0) s)
      else if code = 1001 then returned (sm_internal_enclave_delete core (arg 0) s)
      else if code = 1002 then returned_or_left (sm_internal_enclave_enter env core (arg 0) (arg 1) s)
      else if code = 1004 then returned (sm_internal_enclave_init env (arg 0) s)
      else if code = 1005 then returned (sm_internal_enclave_load_handler env (arg 0) (arg 1) s)
      else if code = 1006 then returned (sm_internal_enclave_load_page_table (arg 0) (arg 1) (arg 2) (arg 3) (arg 4) s)
      else if code = 1007 then returned (sm_internal_enclave_load_page (arg 0) (arg 1) (arg 2) (arg 3) (arg 4) s)
      else if code = 1008 then Some (Inl (sm_internal_enclave_metadata_pages (arg 0), s))
      else if code = 1009 then returned (sm_internal_enclave_get_attest env core (arg 0) (arg 1) (arg 2) (arg 3) s)
      else if code = 1011 then returned (sm_internal_get_public_field env core (ucast (arg 0)) (arg 1) s)
      else if code = 1020 then returned (sm_internal_mail_accept core (arg 0) (arg 1) s)
      else if code = 1021 then returned (sm_internal_mail_receive env core (arg 0) (arg 1) (arg 2) s)
      else if code = 1022 then returned (sm_internal_mail_send env core (arg 0) (arg 1) (arg 2) s)
      else if code = 1030 then returned (sm_internal_region_assign core (arg 0) (arg 1) s)
      else if code = 1031 then returned (sm_internal_region_block core (arg 0) s)
      else if code = 1033 then returned (sm_internal_region_update core s)
      else if code = 1034 then returned (sm_internal_region_free core (arg 0) s)
      else if code = 1035 then returned (sm_internal_region_metadata_create (arg 0) s)
      else if code = 1036 then Some (Inl (sm_internal_region_metadata_pages, s))
      else if code = 1037 then Some (Inl (sm_internal_region_metadata_start, s))
      else if code = 1038 then returned_word (sm_internal_region_owner (arg 0) s)
      else if code = 1039 then returned_word (sm_internal_region_state (arg 0) s)
      else if code = 1040 then returned (sm_internal_region_cache_partitioning env core (arg 0) s)
      else if code = 1041 then returned (sm_internal_region_flush core (arg 0) s)
      else if code = 1050 then returned (sm_internal_thread_delete (arg 0) s)
      else if code = 1051 then returned (sm_internal_thread_load (arg 0) (arg 1) (arg 2) (arg 3) (arg 4) s)
      else if code = 1052 then Some (Inl (sm_internal_thread_metadata_pages, s))
      else Some (Inl (result_code MONITOR_UNSUPPORTED, s)))"

definition call_from_enclave :: "platform_env \<Rightarrow> u64 \<Rightarrow> u64 \<Rightarrow> (nat \<Rightarrow> u64) \<Rightarrow> machine \<Rightarrow> (u64 \<times> machine + machine) option" where
  "call_from_enclave env core code arg s =
     (if code = 1003 then returned_or_left (sm_internal_enclave_exit env core s)
      else if code = 1010 then returned (sm_internal_enclave_get_keys env core (arg 0) (arg 1) (arg 2) (arg 3) s)
      else if code = 1011 then returned (sm_internal_get_public_field env core (ucast (arg 0)) (arg 1) s)
      else if code = 1020 then returned (sm_internal_mail_accept core (arg 0) (arg 1) s)
      else if code = 1021 then returned (sm_internal_mail_receive env core (arg 0) (arg 1) (arg 2) s)
      else if code = 1022 then returned (sm_internal_mail_send env core (arg 0) (arg 1) (arg 2) s)
      else if code = 1031 then returned (sm_internal_region_block core (arg 0) s)
      else if code = 1032 then returned (sm_internal_region_check_owned core (arg 0) s)
      else Some (Inl (result_code MONITOR_UNSUPPORTED, s)))"

text \<open>The arguments are \<^verbatim>\<open>regs[10]\<close> and following; the return value goes to \<^verbatim>\<open>regs[10]\<close>.\<close>

definition finish_call :: "nat \<Rightarrow> kernel_t \<Rightarrow> (u64 \<times> machine + machine) option \<Rightarrow> (system + system) option" where
  "finish_call c k = map_option (\<lambda>x. case x of Inl (retval, s) \<Rightarrow> Inl (set_frame c 10 retval s, k) | Inr s \<Rightarrow> Inr (s, k))"

definition ecall_from_s_trap :: "platform_env \<Rightarrow> nat \<Rightarrow> system \<Rightarrow> (system + system) option" where
  "ecall_from_s_trap env c x = (case x of (s, k) \<Rightarrow>
     let code = trap_frame s c 17 in
     if KERNEL_ECALL_CODE_MIN \<le> code \<and> code \<le> KERNEL_ECALL_CODE_MAX
     then map_option Inl (delegate_ecall_to_kernel env c (s, k))
     else finish_call c k (call_from_untrusted env (of_nat c) code (\<lambda>i. trap_frame s c (10 + i)) s))"

definition ecall_from_enclave_trap :: "platform_env \<Rightarrow> nat \<Rightarrow> system \<Rightarrow> (system + system) option" where
  "ecall_from_enclave_trap env c x = (case x of (s, k) \<Rightarrow>
     let code = trap_frame s c 17 in
     if KERNEL_ECALL_CODE_MIN \<le> code \<and> code \<le> KERNEL_ECALL_CODE_MAX
     then map_option Inl (delegate_ecall_to_kernel_enclave c (s, k))
     else finish_call c k (call_from_enclave env (of_nat c) code (\<lambda>i. trap_frame s c (10 + i)) s))"

section \<open>Interrupts\<close>

text \<open>
  \<^verbatim>\<open>handle_llc_changes\<close> seen from one core: it does not return while the change is under way.
\<close>

definition handle_llc_changes :: "machine \<Rightarrow> (u64 \<times> machine) option" where
  "handle_llc_changes s = do {
     (pending, s) \<leftarrow> llc_arrive s;
     if \<not> pending then Some (1, s)
     else do {
       (wait, s) \<leftarrow> llc_poll s;
       if wait then None else Some (0, s) } }"

definition untrusted_software_interrupt_handler :: "nat \<Rightarrow> u32 \<Rightarrow> machine \<Rightarrow> machine option" where
  "untrusted_software_interrupt_handler c mentry_ipi s =
     (if mentry_ipi AND IPI_SOFT \<noteq> 0 then do {
        (r, s) \<leftarrow> handle_llc_changes s;
        if r = 0 then Some s
        else Some (upd_csr c (\<lambda>r. r\<lparr>csr_mip := csr_mip r OR MIP_SSIP\<rparr>) s) }
      else Some s)"

definition enclave_software_interrupt_handler :: "machine \<Rightarrow> machine option" where
  "enclave_software_interrupt_handler s = map_option snd (handle_llc_changes s)"

definition timer_interrupt_handler :: "platform_env \<Rightarrow> nat \<Rightarrow> machine \<Rightarrow> machine option" where
  "timer_interrupt_handler env c s = sm_internal_enclave_aex env (of_nat c) s"

section \<open>Entry\<close>

datatype event_handler = Delegate_to_s | Bad_event | Illegal_insn | Ecall_from_s | M_soft | M_timer
  | Ecall_from_e | Sw_int | Timer_int | Ext_int

definition trap_table :: "event_handler list" where
  "trap_table = [Delegate_to_s, Bad_event, Illegal_insn, Delegate_to_s, Bad_event, Bad_event, Bad_event, Bad_event,
     Delegate_to_s, Ecall_from_s, Bad_event, Bad_event, Delegate_to_s, Delegate_to_s, Bad_event, Delegate_to_s]"

definition interrupt_table :: "event_handler list" where
  "interrupt_table = [Delegate_to_s, Delegate_to_s, Bad_event, M_soft, Delegate_to_s, Delegate_to_s, Bad_event, M_timer,
     Delegate_to_s, Delegate_to_s, Bad_event, Bad_event]"

definition enclave_trap_table :: "event_handler list" where
  "enclave_trap_table = [Bad_event, Bad_event, Bad_event, Bad_event, Bad_event, Bad_event, Bad_event, Bad_event,
     Ecall_from_e, Ecall_from_e, Bad_event, Bad_event, Bad_event, Bad_event, Bad_event, Bad_event]"

definition enclave_interrupt_table :: "event_handler list" where
  "enclave_interrupt_table = [Bad_event, Bad_event, Bad_event, Sw_int, Bad_event, Bad_event, Bad_event, Timer_int,
     Bad_event, Bad_event, Bad_event, Ext_int]"

text \<open>
  \<^verbatim>\<open>.route_all_events\<close>: the sign of \<^verbatim>\<open>mcause\<close> selects the table; the shift by 2 drops the sign bit.  The
  index is not checked.
\<close>

definition route_event :: "event_handler list \<Rightarrow> event_handler list \<Rightarrow> u64 \<Rightarrow> event_handler option" where
  "route_event traps interrupts cause =
     (let table = (if 0 \<le> sint cause then traps else interrupts);
          i = unat (push_bit 2 cause) div 4
      in if i < length table then Some (table ! i) else None)"

text \<open>
  The code before routing: the stack pointer is exchanged with \<^verbatim>\<open>mscratch\<close>, which holds 0 inside the monitor (a trap
  from there is a bad event); \<^verbatim>\<open>ra\<close>, \<^verbatim>\<open>t0\<close> and the old stack pointer are stored in the frame; the immediate written to
  \<^verbatim>\<open>mspec\<close> is \<^verbatim>\<open>MSPEC_NONMEM\<close>, not the \<^verbatim>\<open>MSPEC_NONE\<close> loaded in \<^verbatim>\<open>t0\<close> before.
\<close>

definition MSPEC_NONMEM :: u64 where [sm_const]: "MSPEC_NONMEM = 1"

definition trap_entry :: "nat \<Rightarrow> machine \<Rightarrow> machine option" where
  "trap_entry c s =
     (let sp = csr_mscratch (csrs s c) in
      if sp = 0 then None
      else let s = set_frame c 1 (gpr s c 1) s;
               s = set_frame c 5 (gpr s c 5) s;
               s = set_frame c 2 (gpr s c 2) s;
               s = set_reg c 2 sp s;
               s = upd_csr c (\<lambda>r. r\<lparr>csr_mscratch := 0\<rparr>) s;
               s = upd_csr c (\<lambda>r. r\<lparr>csr_mspec := MSPEC_NONMEM\<rparr>) s
           in Some (platform_purge_core c s))"

text \<open>\<^verbatim>\<open>.save_regs_and_set_args\<close>: every slot the entry code has not stored.\<close>

definition save_regs :: "nat \<Rightarrow> machine \<Rightarrow> machine" where
  "save_regs c s = s\<lparr>trap_frame := (trap_frame s)(c := (\<lambda>i.
     if i = 0 then 0 else if i \<in> {3, 4} \<union> {6..<NUM_REGISTERS} then gpr s c i else trap_frame s c i))\<rparr>"

section \<open>Paths through the monitor\<close>

text \<open>A handler that returned: \<^verbatim>\<open>.restore_regs\<close> and one of the two ways out.\<close>

definition leave_ecall :: "nat \<Rightarrow> system + system \<Rightarrow> system" where
  "leave_ecall c x = (case x of
     Inl (s, k) \<Rightarrow> (perform_mret_ecall c (trap_frame s c) (restore_regs c (trap_frame s c) s), k)
   | Inr x \<Rightarrow> x)"

definition leave_interrupt :: "nat \<Rightarrow> machine \<Rightarrow> machine" where
  "leave_interrupt c s = perform_mret c (trap_frame s c) (restore_regs c (trap_frame s c) s)"

text \<open>The new \<^verbatim>\<open>mstatus\<close> of \<^verbatim>\<open>.delegate_to_s\<close>.\<close>

definition delegated_mstatus :: "u64 \<Rightarrow> u64" where
  "delegated_mstatus t0 =
     (let t2 = push_bit 4 (t0 AND 0x2) OR (drop_bit 3 t0 AND 0x100) OR 0x0800
      in (t0 AND 0xFFFFFFFFFFFFE6DD) OR t2)"

definition delegate_to_s :: "nat \<Rightarrow> system \<Rightarrow> system" where
  "delegate_to_s c x = (case x of (s, k) \<Rightarrow>
     let s = set_frame c 6 (gpr s c 6) s;
         s = set_frame c 7 (gpr s c 7) s;
         s = upd_csr c (\<lambda>r. r\<lparr>csr_mstatus := delegated_mstatus (csr_mstatus r)\<rparr>) s;
         k = k\<lparr>sepc := (sepc k)(c := csr_mepc (csrs s c))\<rparr>;
         k = k\<lparr>scause := (scause k)(c := mcause k c)\<rparr>;
         k = k\<lparr>sbadaddr := (sbadaddr k)(c := mtval k c)\<rparr>;
         s = upd_csr c (\<lambda>r. r\<lparr>csr_mepc := stvec k c\<rparr>) s;
         s = set_reg c 6 (trap_frame s c 6) s;
         s = set_reg c 7 (trap_frame s c 7) s
     in (perform_mret c (trap_frame s c) s, k))"

definition handle_mtimer_interrupt :: "nat \<Rightarrow> machine \<Rightarrow> machine" where
  "handle_mtimer_interrupt c s =
     (let s = upd_csr c (\<lambda>r. r\<lparr>csr_mie := csr_mie r AND NOT MIP_MTIP\<rparr>) s;
          s = upd_csr c (\<lambda>r. r\<lparr>csr_mip := csr_mip r OR MIP_STIP\<rparr>) s
      in perform_mret c (trap_frame s c) s)"

text \<open>
  The register \<^verbatim>\<open>t0\<close> is not preserved by the C function, and \<^verbatim>\<open>.restore_regs\<close> does not load it: the
  value the tests after the call read is the parameter \<open>t0\<close>.  With the bit \<^verbatim>\<open>IPI_HALT\<close> the core loops for ever.
\<close>

definition handle_m_soft_interrupt :: "nat \<Rightarrow> u64 \<Rightarrow> system \<Rightarrow> system option" where
  "handle_m_soft_interrupt c t0 x = (case x of (s, k) \<Rightarrow> do {
     let k = k\<lparr>clint_ipi := (clint_ipi k)(c := 0)\<rparr>;
     let mentry_ipi = mipi_pending k c;
     let k = k\<lparr>mipi_pending := (mipi_pending k)(c := 0)\<rparr>;
     s \<leftarrow> untrusted_software_interrupt_handler c mentry_ipi (save_regs c s);
     let s = restore_regs c (trap_frame s c) s;
     let s = (if t0 AND ucast IPI_SOFT \<noteq> 0 then upd_csr c (\<lambda>r. r\<lparr>csr_mip := csr_mip r OR MIP_SSIP\<rparr>) s else s);
     if t0 AND ucast IPI_HALT \<noteq> 0 then None
     else do {
       let s = set_reg c 6 (trap_frame s c 6) s;
       Some (perform_mret c (trap_frame s c) s, k) } })"

definition trap_vector_from_untrusted_step :: "platform_env \<Rightarrow> nat \<Rightarrow> u64 \<Rightarrow> system \<Rightarrow> system option" where
  "trap_vector_from_untrusted_step env c t0 x = (case x of (s, k) \<Rightarrow> do {
     s \<leftarrow> trap_entry c s;
     h \<leftarrow> route_event trap_table interrupt_table (mcause k c);
     (case h of
        Delegate_to_s \<Rightarrow> Some (delegate_to_s c (s, k))
      | Illegal_insn \<Rightarrow> map_option (\<lambda>y. leave_ecall c (Inl y)) (illegal_instruction_trap_handler env c (save_regs c s, k))
      | Ecall_from_s \<Rightarrow> map_option (leave_ecall c) (ecall_from_s_trap env c (save_regs c s, k))
      | M_soft \<Rightarrow> handle_m_soft_interrupt c t0 (s, k)
      | M_timer \<Rightarrow> Some (handle_mtimer_interrupt c s, k)
      | _ \<Rightarrow> None) })"

definition trap_vector_from_enclave_step :: "platform_env \<Rightarrow> nat \<Rightarrow> system \<Rightarrow> system option" where
  "trap_vector_from_enclave_step env c x = (case x of (s, k) \<Rightarrow> do {
     s \<leftarrow> trap_entry c s;
     h \<leftarrow> route_event enclave_trap_table enclave_interrupt_table (mcause k c);
     let s = save_regs c s;
     (case h of
        Ecall_from_e \<Rightarrow> map_option (leave_ecall c) (ecall_from_enclave_trap env c (s, k))
      | Sw_int \<Rightarrow> map_option (\<lambda>s. (leave_interrupt c s, k)) (enclave_software_interrupt_handler s)
      | Timer_int \<Rightarrow> map_option (\<lambda>s. (s, k)) (timer_interrupt_handler env c s)
      | Ext_int \<Rightarrow> Some (leave_interrupt c s, k)
      | _ \<Rightarrow> None) })"

section \<open>The way through the entry code\<close>

lemmas path_defs = Let_def set_frame_def save_regs_def set_reg_def upd_csr_def platform_purge_core_def
  restore_regs_def perform_mret_def perform_mret_ecall_def mret_def

text \<open>The entry code and the way out give every register back, whatever slot 10 of the frame holds.\<close>

lemma trap_entry_Some:
  "trap_entry c s = Some s' \<longleftrightarrow> csr_mscratch (csrs s c) \<noteq> 0 \<and>
     s' = s\<lparr>trap_frame := (trap_frame s)(c := (trap_frame s c)(1 := gpr s c 1, 5 := gpr s c 5, 2 := gpr s c 2)),
            gpr := (gpr s)(c := (gpr s c)(2 := csr_mscratch (csrs s c))),
            csrs := (csrs s)(c := (csrs s c)\<lparr>csr_mscratch := 0, csr_mspec := MSPEC_NONMEM\<rparr>),
            bus := bus s @ [PurgeCore c]\<rparr>"
  unfolding trap_entry_def by (auto simp: path_defs)

lemma ecall_path:
  assumes "trap_entry c s = Some s1" "s3 = set_frame c 10 v (save_regs c s1)"
  shows "leave_ecall c (Inl (s3, k)) =
     (s\<lparr>trap_frame := (trap_frame s)(c := trap_frame s3 c),
       gpr := (gpr s)(c := (gpr s c)(10 := v)),
       csrs := (csrs s)(c := (csrs s c)\<lparr>csr_mepc := csr_mepc (csrs s c) + 4, csr_mspec := 0\<rparr>),
       pc := (pc s)(c := csr_mepc (csrs s c) + 4),
       bus := bus s @ [PurgeCore c, PurgeCore c]\<rparr>, k)"
  using assms unfolding trap_entry_Some leave_ecall_def
  by (auto simp: path_defs fun_eq_iff NUM_REGISTERS_def)

section \<open>Errors have no effect\<close>

definition refusal :: "machine \<Rightarrow> u64 \<times> machine + machine \<Rightarrow> bool" where
  "refusal s x \<longleftrightarrow> (case x of Inl (v, s') \<Rightarrow> v \<noteq> 0 \<longrightarrow> erase s' = erase s | Inr _ \<Rightarrow> True)"

lemma result_code_0 [simp]: "result_code r = 0 \<longleftrightarrow> r = MONITOR_OK"
  by (cases r) simp_all

lemma returned_refusal:
  assumes "monitor_call f g e" "returned (f s) = Some y"
  shows "refusal s y"
  using assms(2) monitor_call.call_error[OF assms(1)] by (auto simp: returned_def refusal_def)

lemma returned_or_left_refusal:
  assumes "\<And>r s'. x = Some (Inl (r, s')) \<Longrightarrow> r \<noteq> MONITOR_OK \<Longrightarrow> erase s' = erase s"
    and "returned_or_left x = Some y"
  shows "refusal s y"
proof -
  obtain z where z: "x = Some z" "y = (case z of Inl (r, s) \<Rightarrow> Inl (result_code r, s) | Inr s \<Rightarrow> Inr s)"
    using assms(2) by (auto simp: returned_or_left_def)
  then show ?thesis using assms(1) by (cases z) (auto simp: refusal_def)
qed

lemma enter_refusal: "returned_or_left (sm_internal_enclave_enter env c e t s) = Some y \<Longrightarrow> refusal s y"
  by (erule returned_or_left_refusal[rotated]) (drule yieldsD[OF enter_sound], simp)

lemma exit_refusal: "returned_or_left (sm_internal_enclave_exit env c s) = Some y \<Longrightarrow> refusal s y"
  unfolding sm_internal_enclave_exit_def
  by (erule returned_or_left_refusal[rotated]) (drule yieldsD[OF exit_sound], simp)

lemma region_owner_refusal: "returned_word (sm_internal_region_owner rid s) = Some y \<Longrightarrow> refusal s y"
  by (auto simp: returned_word_def refusal_def sm_internal_region_owner_def region_owner_def lock_unfold Let_def
      erase_def split: if_splits option.splits)

lemma region_state_refusal: "returned_word (sm_internal_region_state rid s) = Some y \<Longrightarrow> refusal s y"
  by (auto simp: returned_word_def refusal_def sm_internal_region_state_def lock_unfold Let_def
      erase_def split: if_splits option.splits)

lemma refusal_same [simp]: "refusal s (Inl (v, s))" by (simp add: refusal_def)

lemmas call_refusals =
  returned_refusal[OF create.monitor_call_axioms] returned_refusal[OF init.monitor_call_axioms] returned_refusal[OF delete.monitor_call_axioms]
  returned_refusal[OF load_handler.monitor_call_axioms] returned_refusal[OF load_page_table.monitor_call_axioms]
  returned_refusal[OF load_page.monitor_call_axioms] returned_refusal[OF mail_accept.monitor_call_axioms]
  returned_refusal[OF mail_receive.monitor_call_axioms] returned_refusal[OF mail_send.monitor_call_axioms]
  returned_refusal[OF get_attest.monitor_call_axioms] returned_refusal[OF get_keys.monitor_call_axioms]
  returned_refusal[OF public_field.monitor_call_axioms] returned_refusal[OF assign.monitor_call_axioms]
  returned_refusal[OF block.monitor_call_axioms] returned_refusal[OF check_owned.monitor_call_axioms]
  returned_refusal[OF free.monitor_call_axioms] returned_refusal[OF metadata_create.monitor_call_axioms]
  returned_refusal[OF update.monitor_call_axioms] returned_refusal[OF thread_load.monitor_call_axioms]
  returned_refusal[OF thread_delete.monitor_call_axioms]
  enter_refusal exit_refusal region_owner_refusal region_state_refusal

text \<open>
  C22. A call from untrusted software that returns an error changes nothing but locks, whatever its number
  and arguments are.  The two calls that stop all cores are the exception: they may fail after the rendezvous.
\<close>

theorem untrusted_error_harmless:
  assumes "call_from_untrusted env core code arg s = Some (Inl (v, s'))" "v \<noteq> 0" "code \<notin> {1040, 1041}"
  shows "erase s' = erase s"
proof -
  have "refusal s (Inl (v, s'))"
    using assms(1,3) unfolding call_from_untrusted_def
    by (simp only: insert_iff empty_iff de_Morgan_disj simp_thms split: if_splits)
      (erule call_refusals | simp)+
  then show ?thesis using assms(2) by (simp add: refusal_def)
qed

text \<open>C23. The same for calls from an enclave, with no exception.\<close>

theorem enclave_error_harmless:
  assumes "call_from_enclave env core code arg s = Some (Inl (v, s'))" "v \<noteq> 0"
  shows "erase s' = erase s"
proof -
  have "refusal s (Inl (v, s'))"
    using assms(1) unfolding call_from_enclave_def
    by (simp only: split: if_splits) (erule call_refusals | simp)+
  then show ?thesis using assms(2) by (simp add: refusal_def)
qed

theorem untrusted_error_harmless_witness:
  "\<exists>v s'. call_from_untrusted sample_env 0 1031 (\<lambda>_. 100) sample = Some (Inl (v, s')) \<and> v \<noteq> 0 \<and> erase s' = erase sample"
proof -
  have "call_from_untrusted sample_env 0 1031 (\<lambda>_. 100) sample = Some (Inl (result_code MONITOR_INVALID_VALUE, sample))"
    by (simp add: call_from_untrusted_def returned_def sm_internal_region_block_def is_valid_region_id_def c_index_def sm_const)
  from this untrusted_error_harmless[OF this] show ?thesis by simp
qed

theorem enclave_error_harmless_witness:
  "\<exists>v s'. call_from_enclave sample_env 0 1032 (\<lambda>_. 100) sample = Some (Inl (v, s')) \<and> v \<noteq> 0 \<and> erase s' = erase sample"
proof -
  have "call_from_enclave sample_env 0 1032 (\<lambda>_. 100) sample = Some (Inl (result_code MONITOR_INVALID_VALUE, sample))"
    by (simp add: call_from_enclave_def returned_def sm_internal_region_check_owned_def is_valid_region_id_def c_index_def sm_const)
  from this enclave_error_harmless[OF this] show ?thesis by simp
qed

text \<open>Routing of the exception and interrupt numbers of the privileged architecture.\<close>

lemma less_16_cases: "(n::u64) < 16 \<Longrightarrow> n \<in> {0,1,2,3,4,5,6,7,8,9,10,11,12,13,14,15}"
proof -
  assume "n < 16"
  then have "unat n < 16" by (simp add: word_less_nat_alt)
  then have "unat n \<in> {0,1,2,3,4,5,6,7,8,9,10,11,12,13,14,15}" by (simp only: insert_iff empty_iff) arith
  then show ?thesis by (auto simp: word_eq_iff_unsigned[where 'a = nat])
qed

lemma enclave_fault_route:
  "n < 16 \<Longrightarrow> n \<notin> {8, 9} \<Longrightarrow> route_event enclave_trap_table it n = Some Bad_event"
  by (drule less_16_cases) (auto simp: route_event_def enclave_trap_table_def Let_def)

lemma enclave_ecall_route: "n \<in> {8, 9} \<Longrightarrow> route_event enclave_trap_table it n = Some Ecall_from_e"
  by (auto simp: route_event_def enclave_trap_table_def Let_def)

lemma delegated_route:
  "n \<in> {0, 3, 8, 12, 13, 15} \<Longrightarrow> route_event trap_table it n = Some Delegate_to_s"
  by (auto simp: route_event_def trap_table_def Let_def)



text \<open>
  C25. A delegated exception of untrusted software reaches the supervisor as if the hardware had delegated it: all
  registers are kept, the core continues at stvec with the cause, the address and the
  faulting pc in the supervisor CSRs, and the monitor's state is the same.
\<close>

theorem delegation_transparent:
  assumes "csr_mscratch (csrs s c) \<noteq> 0" "mcause k c \<in> {0, 3, 8, 12, 13, 15}"
  shows "\<exists>frame. trap_vector_from_untrusted_step env c t0 (s, k) = Some (s\<lparr>
     trap_frame := (trap_frame s)(c := frame),
     csrs := (csrs s)(c := (csrs s c)\<lparr>csr_mstatus := delegated_mstatus (csr_mstatus (csrs s c)),
       csr_mepc := stvec k c, csr_mspec := 0\<rparr>),
     pc := (pc s)(c := stvec k c), bus := bus s @ [PurgeCore c, PurgeCore c]\<rparr>,
     k\<lparr>sepc := (sepc k)(c := csr_mepc (csrs s c)), scause := (scause k)(c := mcause k c),
       sbadaddr := (sbadaddr k)(c := mtval k c)\<rparr>)"
proof -
  obtain s1 where s1: "trap_entry c s = Some s1" using assms(1) trap_entry_Some by blast
  have "trap_vector_from_untrusted_step env c t0 (s, k) = Some (delegate_to_s c (s1, k))"
    using delegated_route[OF assms(2)] by (simp add: trap_vector_from_untrusted_step_def s1)
  also have "\<dots> = Some (s\<lparr>trap_frame := (trap_frame s)(c := trap_frame (fst (delegate_to_s c (s1, k))) c),
     csrs := (csrs s)(c := (csrs s c)\<lparr>csr_mstatus := delegated_mstatus (csr_mstatus (csrs s c)),
       csr_mepc := stvec k c, csr_mspec := 0\<rparr>),
     pc := (pc s)(c := stvec k c), bus := bus s @ [PurgeCore c, PurgeCore c]\<rparr>,
     k\<lparr>sepc := (sepc k)(c := csr_mepc (csrs s c)), scause := (scause k)(c := mcause k c),
       sbadaddr := (sbadaddr k)(c := mtval k c)\<rparr>)"
    using s1 unfolding trap_entry_Some by (auto simp: delegate_to_s_def path_defs fun_eq_iff)
  finally show ?thesis by blast
qed

text \<open>C28. The supervisor status after a delegation: SPIE is the old SIE, SPP the old privilege, SIE is off, MPP is S.\<close>

theorem delegated_status:
  "(bit (delegated_mstatus m) 5 \<longleftrightarrow> bit m 1) \<and> (bit (delegated_mstatus m) 8 \<longleftrightarrow> bit m 11) \<and>
   \<not> bit (delegated_mstatus m) 1 \<and> \<not> bit (delegated_mstatus m) 12 \<and> bit (delegated_mstatus m) 11"
  by (simp add: delegated_mstatus_def Let_def bit_simps bit_numeral_rec)



theorem delegation_transparent_witness:
  "\<exists>s k. trap_vector_from_untrusted_step sample_env 0 0 (sample_trap 0, sample_kernel 13 5) = Some (s, k) \<and>
     pc s 0 = 0x84000000 \<and> gpr s = gpr (sample_trap 0) \<and> sbadaddr k 0 = 5"
  using delegation_transparent[of "sample_trap 0" 0 "sample_kernel 13 5" sample_env 0]
  by (auto simp: sample_kernel_def)


end
