(* ===== verification/Isolation.thy ===== *)
theory Isolation
  imports Dispatch
begin

unbundle bit_operations_syntax

text \<open>
  The isolation invariant: region maps, the bitmaps of the cores and the bitmaps saved in threads agree with the
  owners of the regions.  A step either gives no new access (\<open>no_new_access\<close>), or it moves a region, enters or leaves an
  enclave; the lemmas here show that the effects of the calls keep the invariant.
\<close>

section \<open>The invariant\<close>

definition owned_by :: "machine \<Rightarrow> nat \<Rightarrow> u64 \<Rightarrow> bool" where
  "owned_by s i e \<longleftrightarrow> region_owned_by (regions s i) = e \<and> region_st (regions s i) = REGION_STATE_OWNED"

definition blocked :: "machine \<Rightarrow> nat \<Rightarrow> bool" where
  "blocked s i \<longleftrightarrow> region_st (regions s i) = REGION_STATE_BLOCKED"

definition maps_sound :: "machine \<Rightarrow> bool" where
  "maps_sound s \<longleftrightarrow> (\<forall>i < NUM_REGIONS. untrusted_regions s i \<longrightarrow> owned_by s i OWNER_UNTRUSTED) \<and>
     (\<forall>e. \<forall>i < NUM_REGIONS. e_regions (enclaves s e) i \<longrightarrow> owned_by s i e \<and> e \<noteq> OWNER_UNTRUSTED \<and> e \<noteq> OWNER_SM)"

definition bitmaps_sound :: "machine \<Rightarrow> nat \<Rightarrow> bool" where
  "bitmaps_sound s c \<longleftrightarrow> csr_mmrbm (csrs s c) = core_mmrbm (cores s c) \<and> csr_memrbm (csrs s c) = core_memrbm (cores s c) \<and>
     (core_owner (cores s c) = OWNER_UNTRUSTED \<longrightarrow> core_memrbm (cores s c) = 0) \<and>
     (\<forall>i < NUM_REGIONS. bit (core_mmrbm (cores s c)) i \<longrightarrow> owned_by s i OWNER_UNTRUSTED \<or> blocked s i) \<and>
     (\<forall>i < NUM_REGIONS. bit (core_memrbm (cores s c)) i \<longrightarrow>
        owned_by s i (core_owner (cores s c)) \<and> core_owner (cores s c) \<noteq> OWNER_SM \<or> blocked s i)"

definition saved_sound :: "machine \<Rightarrow> bool" where
  "saved_sound s \<longleftrightarrow> (\<forall>t. tp_memrbm (t_platform_csr (threads s t)) = 0)"

definition monitor_owned :: "machine \<Rightarrow> bool" where
  "monitor_owned s \<longleftrightarrow> owned_by s 0 OWNER_SM \<and> region_type (regions s 0) = REGION_TYPE_SM"

definition isolated :: "machine \<Rightarrow> bool" where
  "isolated s \<longleftrightarrow> maps_sound s \<and> (\<forall>c < NUM_CORES. bitmaps_sound s c) \<and> saved_sound s \<and> monitor_owned s"

lemmas isolated_defs = isolated_def maps_sound_def bitmaps_sound_def saved_sound_def monitor_owned_def owned_by_def blocked_def

text \<open>A step that takes away access or leaves it alone.\<close>

definition no_new_access :: "machine \<Rightarrow> machine \<Rightarrow> bool" where
  "no_new_access s s' \<longleftrightarrow> regions s' = regions s \<and> untrusted_regions s' = untrusted_regions s \<and> cores s' = cores s \<and>
     (\<forall>c. csr_mmrbm (csrs s' c) = csr_mmrbm (csrs s c) \<and> csr_memrbm (csrs s' c) = csr_memrbm (csrs s c)) \<and>
     (\<forall>e i. e_regions (enclaves s' e) i \<longrightarrow> e_regions (enclaves s e) i) \<and>
     (\<forall>t. tp_memrbm (t_platform_csr (threads s' t)) = tp_memrbm (t_platform_csr (threads s t)) \<or>
          tp_memrbm (t_platform_csr (threads s' t)) = 0)"

lemma no_new_access_refl [simp]: "no_new_access s s" by (simp add: no_new_access_def)

lemma no_new_access_trans: "no_new_access s t \<Longrightarrow> no_new_access t u \<Longrightarrow> no_new_access s u"
  unfolding no_new_access_def by (elim conjE, intro conjI) (simp_all, metis)

lemma mono_parts:
  assumes n: "no_new_access s s'"
  shows "maps_sound s \<Longrightarrow> maps_sound s'" "bitmaps_sound s c \<Longrightarrow> bitmaps_sound s' c"
    "saved_sound s \<Longrightarrow> saved_sound s'" "monitor_owned s \<Longrightarrow> monitor_owned s'"
proof -
  have eq: "regions s' = regions s" "untrusted_regions s' = untrusted_regions s" "cores s' = cores s"
    "\<And>c. csr_mmrbm (csrs s' c) = csr_mmrbm (csrs s c)" "\<And>c. csr_memrbm (csrs s' c) = csr_memrbm (csrs s c)"
    and flags: "\<And>e i. e_regions (enclaves s' e) i \<Longrightarrow> e_regions (enclaves s e) i"
    using n by (simp_all add: no_new_access_def)
  have owned: "owned_by s' = owned_by s" "blocked s' = blocked s"
    by (simp_all add: owned_by_def blocked_def eq fun_eq_iff)
  show "maps_sound s \<Longrightarrow> maps_sound s'" using flags by (simp add: maps_sound_def owned eq)
  show "bitmaps_sound s c \<Longrightarrow> bitmaps_sound s' c" by (simp add: bitmaps_sound_def owned eq)
  show "saved_sound s \<Longrightarrow> saved_sound s'" using n by (simp add: saved_sound_def no_new_access_def)
  show "monitor_owned s \<Longrightarrow> monitor_owned s'" by (simp add: monitor_owned_def owned eq)
qed

lemma isolated_mono: "no_new_access s s' \<Longrightarrow> isolated s \<Longrightarrow> isolated s'"
  using mono_parts unfolding isolated_def by blast

lemma erase_no_new_access:
  assumes "erase s = erase t"
  shows "no_new_access s t"
  by (simp add: no_new_access_def erase_eq_sel[OF assms])

lemma isolated_erase: "erase s = erase t \<Longrightarrow> isolated s \<Longrightarrow> isolated t"
  by (rule isolated_mono[OF erase_no_new_access])

lemma bit_regions [simp]: "i < NUM_REGIONS \<Longrightarrow> bit (regions_to_bitmap f) i \<longleftrightarrow> f i"
  by (simp add: regions_to_bitmap_def bit_bitmap_fold NUM_REGIONS_def)

section \<open>Memory protection\<close>

text \<open>Recomputing the bitmaps of a core from sound maps; only soundness of the other cores' bitmaps is needed.\<close>

lemma update_sel:
  "regions (platform_update_memory_protection c s) = regions s"
  "untrusted_regions (platform_update_memory_protection c s) = untrusted_regions s"
  "enclaves (platform_update_memory_protection c s) = enclaves s" "threads (platform_update_memory_protection c s) = threads s"
  "cores (platform_update_memory_protection c s) = (cores s)(c := (cores s c)\<lparr>
     core_mmrbm := regions_to_bitmap (untrusted_regions s),
     core_memrbm := if core_owner (cores s c) \<noteq> OWNER_UNTRUSTED
        then regions_to_bitmap (e_regions (enclaves s (core_owner (cores s c)))) else 0\<rparr>)"
  "csr_mmrbm (csrs (platform_update_memory_protection c s) d) =
     (if d = c then regions_to_bitmap (untrusted_regions s) else csr_mmrbm (csrs s d))"
  "csr_memrbm (csrs (platform_update_memory_protection c s) d) =
     (if d = c then if core_owner (cores s c) \<noteq> OWNER_UNTRUSTED
        then regions_to_bitmap (e_regions (enclaves s (core_owner (cores s c)))) else 0 else csr_memrbm (csrs s d))"
  by (auto simp: platform_update_memory_protection_def Let_def upd_defs)

lemma update_core_sound:
  assumes "maps_sound s"
  shows "bitmaps_sound (platform_update_memory_protection c s) c"
  using assms by (auto simp: maps_sound_def bitmaps_sound_def update_sel owned_by_def)

lemma update_other_core: "d \<noteq> c \<Longrightarrow> bitmaps_sound (platform_update_memory_protection c s) d = bitmaps_sound s d"
  by (simp add: bitmaps_sound_def update_sel owned_by_def blocked_def)

lemma update_rest:
  "maps_sound (platform_update_memory_protection c s) = maps_sound s"
  "saved_sound (platform_update_memory_protection c s) = saved_sound s"
  "monitor_owned (platform_update_memory_protection c s) = monitor_owned s"
  by (simp_all add: maps_sound_def saved_sound_def monitor_owned_def update_sel owned_by_def)

lemma update_isolated:
  assumes "maps_sound s" "\<And>d. d < NUM_CORES \<Longrightarrow> d \<noteq> c \<Longrightarrow> bitmaps_sound s d" "saved_sound s" "monitor_owned s"
  shows "isolated (platform_update_memory_protection c s)"
  unfolding isolated_def update_rest
proof (intro conjI allI impI assms(1,3,4))
  fix d assume "d < NUM_CORES"
  then show "bitmaps_sound (platform_update_memory_protection c s) d"
    using assms(2) update_core_sound[OF assms(1)] update_other_core by (cases "d = c") auto
qed

section \<open>Calls that give no access\<close>

lemma no_new_memset [simp]: "no_new_access s (memset_zero a n s)"
  by (auto simp: no_new_access_def memset_zero_def zero_enclave_def zero_thread_def)

lemma no_new_fill [simp]: "no_new_access s (fill_pages r p n v s)"
  by (simp add: no_new_access_def fill_pages_def)

lemma no_new_upd_enclave:
  "(\<And>m. e_regions (f m) = e_regions m) \<Longrightarrow> no_new_access s (upd_enclave e f s)"
  by (simp add: no_new_access_def upd_enclave_def)

lemma no_new_upd_thread:
  "(\<And>m. t_platform_csr (f m) = t_platform_csr m) \<Longrightarrow> no_new_access s (upd_thread t f s)"
  by (simp add: no_new_access_def upd_thread_def)

lemma no_new_mem [simp]: "no_new_access s (s\<lparr>mem := M\<rparr>)"
  by (simp add: no_new_access_def)

lemma no_new_upd_csr:
  "(\<And>r. csr_mmrbm (f r) = csr_mmrbm r \<and> csr_memrbm (f r) = csr_memrbm r) \<Longrightarrow> no_new_access s (upd_csr c f s)"
  by (simp add: no_new_access_def upd_csr_def)

lemma create_no_new: "no_new_access s (create_effect e b k n d s)"
  unfolding create_effect_def Let_def
  by (rule no_new_access_trans[OF no_new_access_trans[OF no_new_fill no_new_fill] no_new_upd_enclave]) simp

lemma init_no_new: "no_new_access s (init_effect env e s)"
  unfolding init_effect_def Let_def split_beta by (rule no_new_upd_enclave) simp

lemma thread_load_no_new: "no_new_access s (thread_load_effect e t a b d s)"
  unfolding thread_load_effect_def
  by (rule no_new_access_trans[OF no_new_access_trans[OF no_new_fill no_new_upd_thread] no_new_upd_enclave]) simp_all

lemma thread_delete_no_new: "no_new_access s (thread_delete_effect t s)"
  unfolding thread_delete_effect_def
  by (rule no_new_access_trans[OF no_new_access_trans[OF no_new_upd_enclave no_new_memset] no_new_fill]) simp

lemma entry_no_new: "no_new_access s (entry_effect e pa va level acl s)"
  by (auto simp: entry_effect_def upd_ecsr_def intro!: no_new_upd_enclave split: option.split)

lemma load_page_table_no_new: "no_new_access s (load_page_table_effect e pa va level acl s)"
  unfolding load_page_table_effect_def
  by (rule no_new_access_trans[OF entry_no_new no_new_upd_enclave]) simp

lemma load_page_no_new: "no_new_access s (load_page_effect e pa va os acl s)"
  unfolding load_page_effect_def Let_def
  by (rule no_new_access_trans[OF no_new_access_trans[OF entry_no_new no_new_mem] no_new_upd_enclave]) simp

lemma upd_mailbox_no_new: "no_new_access s (upd_mailbox b f s)"
  by (cases b) (auto simp: no_new_access_def upd_enclave_def)

lemma mail_no_new:
  "no_new_access s (accept_effect c i e s)" "no_new_access s (receive_effect env c i out meas s)"
  "no_new_access s (send_effect env c e i a s)" "no_new_access s (copy_effect env c xs s)"
  by (simp_all add: accept_effect_def receive_effect_def send_effect_def copy_effect_def upd_mailbox_no_new)

lemma load_handler_no_new: "no_new_access s (load_handler_effect env e pa s)"
proof -
  have "no_new_access s (stacks_cleared e pa s)"
    by (auto simp: stacks_cleared_def no_new_access_def memset_zero_def upd_enclave_def zero_enclave_def zero_thread_def Let_def)
  moreover have "no_new_access t (platform_protect_enclave_sm_handler e h t)" for h t
    unfolding platform_protect_enclave_sm_handler_def Let_def upd_ecsr_def
    by (rule no_new_access_trans[OF no_new_upd_enclave no_new_upd_enclave]) simp_all
  ultimately show ?thesis unfolding load_handler_effect_def Let_def
    by (intro no_new_access_trans[OF _ no_new_upd_enclave] no_new_access_trans[OF _ no_new_mem]) (auto intro: no_new_access_trans)
qed

section \<open>Calls that move regions\<close>

lemma aligned_not_owner: "is_page_aligned e \<Longrightarrow> e \<noteq> OWNER_UNTRUSTED \<and> e \<noteq> OWNER_SM"
  by (auto simp: is_page_aligned_def sm_const)

lemma region_step:
  assumes "isolated s" "i < NUM_REGIONS" "\<not> untrusted_regions s i" "\<And>e. \<not> e_regions (enclaves s e) i"
    "\<And>c. c < NUM_CORES \<Longrightarrow> bit (core_mmrbm (cores s c)) i \<or> bit (core_memrbm (cores s c)) i \<Longrightarrow>
       region_st (f (regions s i)) = REGION_STATE_BLOCKED"
    and i0: "i \<noteq> 0"
  shows "isolated (upd_region i f s)"
proof -
  have same: "owned_by (upd_region i f s) j e = owned_by s j e" "blocked (upd_region i f s) j = blocked s j" if "j \<noteq> i" for j e
    using that by (simp_all add: owned_by_def blocked_def upd_region_def)
  have sel: "untrusted_regions (upd_region i f s) = untrusted_regions s" "enclaves (upd_region i f s) = enclaves s"
    "cores (upd_region i f s) = cores s" "csrs (upd_region i f s) = csrs s" "threads (upd_region i f s) = threads s"
    "regions (upd_region i f s) i = f (regions s i)" "region_type (regions (upd_region i f s) 0) = region_type (regions s 0)"
    using i0 by (simp_all add: upd_region_def)
  have maps: "maps_sound (upd_region i f s)"
    using assms(1,3,4) unfolding isolated_def maps_sound_def sel by (metis same(1))
  have bits: "bitmaps_sound (upd_region i f s) c" if c: "c < NUM_CORES" for c
  proof -
    have "bitmaps_sound s c" using assms(1) c by (simp add: isolated_def)
    moreover have "blocked (upd_region i f s) i" if "bit (core_mmrbm (cores s c)) i \<or> bit (core_memrbm (cores s c)) i"
      using assms(5)[OF c that] by (simp add: blocked_def sel)
    ultimately show ?thesis unfolding bitmaps_sound_def sel by (metis same)
  qed
  show ?thesis
    using maps bits assms(1) i0 by (simp add: isolated_def saved_sound_def monitor_owned_def sel same)
qed

lemma unowned_no_flags:
  assumes "isolated s" "i < NUM_REGIONS" "region_st (regions s i) \<noteq> REGION_STATE_OWNED"
  shows "\<not> untrusted_regions s i" "\<not> e_regions (enclaves s e) i"
  using assms by (auto simp: isolated_def maps_sound_def owned_by_def)

lemma unowned_not_first: "isolated s \<Longrightarrow> region_st (regions s i) \<noteq> REGION_STATE_OWNED \<Longrightarrow> i \<noteq> 0"
  by (rule notI) (simp add: isolated_def monitor_owned_def owned_by_def)

lemma other_type_not_first: "isolated s \<Longrightarrow> region_type (regions s i) \<noteq> REGION_TYPE_SM \<Longrightarrow> i \<noteq> 0"
  by (rule notI) (simp add: isolated_def monitor_owned_def owned_by_def)

lemma free_no_bits:
  assumes "isolated s" "i < NUM_REGIONS" "region_st (regions s i) = REGION_STATE_FREE" "c < NUM_CORES"
  shows "\<not> bit (core_mmrbm (cores s c)) i" "\<not> bit (core_memrbm (cores s c)) i"
proof -
  have "bitmaps_sound s c" using assms(1,4) by (simp add: isolated_def)
  then show "\<not> bit (core_mmrbm (cores s c)) i" "\<not> bit (core_memrbm (cores s c)) i"
    using assms(2,3) by (auto simp: bitmaps_sound_def owned_by_def blocked_def)
qed

lemma free_step:
  assumes "isolated s" "i < NUM_REGIONS" "region_st (regions s i) = REGION_STATE_FREE"
  shows "isolated (upd_region i f s)"
  using free_no_bits[OF assms] unowned_no_flags[OF assms(1,2)] unowned_not_first[OF assms(1)] assms(3)
  by (intro region_step[OF assms(1,2)]) auto

lemma flush_lines_no_new: "no_new_access s (flush_lines c r n s)"
proof -
  have line: "no_new_access s (flush_line c a s)" for a s
    by (simp add: flush_line_eq clear_L1_bypass_def no_new_access_def upd_csr_def)
  have inner: "no_new_access s (fold (\<lambda>i. flush_line c (g i)) xs s)" for g and xs :: "nat list" and s
    by (induction xs arbitrary: s) (auto intro: no_new_access_trans[OF line])
  have fence: "no_new_access s (s\<lparr>bus := b\<rparr>)" for s b by (simp add: no_new_access_def)
  have "no_new_access s (fold (\<lambda>k s. let s = fold (\<lambda>i. flush_line c (g k i)) [0..<n] s in s\<lparr>bus := bus s @ [Fence]\<rparr>) ks s)"
    for g and ks :: "nat list" and s
    by (induction ks arbitrary: s) (auto simp: Let_def intro: no_new_access_trans[OF no_new_access_trans[OF inner fence]])
  then show ?thesis unfolding flush_lines_def .
qed

lemma clear_flag:
  assumes "isolated s"
  shows "isolated (set_flag e i False s)"
  using assms by (auto simp: isolated_defs set_flag_def upd_enclave_def)

lemma update_same:
  assumes "isolated s"
  shows "isolated (platform_update_memory_protection c s)"
  using assms by (intro update_isolated) (auto simp: isolated_def)

lemma block_isolated:
  assumes "block_guard c r s" "isolated s"
  shows "isolated (block_effect c r s)"
proof -
  let ?i = "unat r" and ?o = "region_owned_by (regions s (unat r))"
  let ?s = "platform_update_memory_protection (unat c) (set_flag ?o ?i False s)"
  have i: "?i < NUM_REGIONS" "region_type (regions s ?i) \<noteq> REGION_TYPE_SM"
    using assms(1) by (auto simp: block_guard_def Let_def)
  have "isolated ?s" using update_same[OF clear_flag[OF assms(2)]] .
  moreover have "\<not> untrusted_regions ?s ?i" "\<not> e_regions (enclaves ?s e) ?i" for e
    using assms(2) i(1) by (auto simp: update_sel set_flag_def upd_enclave_def isolated_def maps_sound_def owned_by_def)
  moreover have "regions ?s = regions s" by (simp add: update_sel set_flag_def upd_enclave_def)
  ultimately show ?thesis unfolding block_effect_def Let_def
    using i other_type_not_first[OF assms(2)] by (intro region_step) auto
qed

lemma set_flag_sel:
  "regions (set_flag e i b s) = regions s" "cores (set_flag e i b s) = cores s" "csrs (set_flag e i b s) = csrs s"
  "threads (set_flag e i b s) = threads s"
  by (simp_all add: set_flag_def upd_enclave_def)

lemma grant_maps:
  assumes "maps_sound t" "owned_by t i e" "e \<noteq> OWNER_SM"
  shows "maps_sound (set_flag e i True t)"
  using assms by (auto simp: maps_sound_def set_flag_def upd_enclave_def owned_by_def)

lemma assign_isolated:
  assumes "assign_guard c r e s" "isolated s"
  shows "isolated (assign_effect c r e s)"
proof -
  define f where "f = (\<lambda>m. m\<lparr>region_owned_by := e,
      region_type := (if e = OWNER_UNTRUSTED then REGION_TYPE_UNTRUSTED else REGION_TYPE_ENCLAVE),
      region_st := REGION_STATE_OWNED\<rparr> :: sm_region_t)"
  let ?i = "unat r" and ?t = "upd_region (unat r) f s"
  have i: "?i < NUM_REGIONS" "region_st (regions s ?i) = REGION_STATE_FREE" and e: "e \<noteq> OWNER_SM"
    using assms(1) aligned_not_owner[of e]
    by (auto simp: assign_guard_def valid_metadata_def metadata_region_def sm_const)
  have t: "isolated ?t" by (rule free_step[OF assms(2) i])
  have owned: "owned_by ?t ?i e" by (simp add: owned_by_def upd_region_def f_def)
  have "maps_sound (set_flag e ?i True ?t)"
    using t owned e by (intro grant_maps) (auto simp: isolated_def)
  moreover have "bitmaps_sound (set_flag e ?i True ?t) d" if "d < NUM_CORES" for d
    using t that by (simp add: isolated_def bitmaps_sound_def owned_by_def blocked_def set_flag_sel)
  moreover have "saved_sound (set_flag e ?i True ?t)" "monitor_owned (set_flag e ?i True ?t)"
    using t by (simp_all add: isolated_def saved_sound_def monitor_owned_def owned_by_def set_flag_sel)
  ultimately have "isolated (platform_update_memory_protection (unat c) (set_flag e ?i True ?t))"
    by (intro update_isolated)
  moreover have "assign_effect c r e s = platform_update_memory_protection (unat c) (set_flag e ?i True ?t)"
    unfolding assign_effect_def f_def[symmetric]
    by (simp add: platform_update_memory_protection_def Let_def upd_defs set_flag_def)
  ultimately show ?thesis by simp
qed

lemma free_isolated:
  assumes "free_guard r s" "isolated s"
  shows "isolated (free_effect c r s)"
proof -
  let ?n = "2 ^ unat (llc_partitions s (unat r))"
  let ?s = "flush_lines (unat c) (unat r) ?n s"
  have n: "no_new_access s ?s" by (rule flush_lines_no_new)
  have i: "unat r < NUM_REGIONS" "region_st (regions s (unat r)) = REGION_STATE_BLOCKED" "no_core_access (unat r) s"
    using assms(1) by (auto simp: free_guard_def)
  have same: "regions ?s = regions s" "cores ?s = cores s" using n by (simp_all add: no_new_access_def)
  have iso: "isolated ?s" by (rule isolated_mono[OF n assms(2)])
  have "\<not> untrusted_regions ?s (unat r)" "\<not> e_regions (enclaves ?s e) (unat r)" for e
    using unowned_no_flags[OF iso i(1)] i(2) same by auto
  then show ?thesis unfolding free_effect_def
    using i same unowned_not_first[OF assms(2), of "unat r"] by (intro region_step[OF iso i(1)]) (auto simp: no_core_access_def)
qed

lemma metadata_create_isolated:
  assumes "metadata_create_guard r s" "isolated s"
  shows "isolated (metadata_create_effect r s)"
proof -
  let ?z = "memset_zero (region_id_to_addr r) (unat REGION_SIZE) s"
  have z: "isolated (?z\<lparr>page_info := p\<rparr>)" for p
    by (rule isolated_mono[OF _ isolated_mono[OF no_new_memset[of s "region_id_to_addr r" "unat REGION_SIZE"] assms(2)]])
      (simp add: no_new_access_def)
  have "regions (?z\<lparr>page_info := p\<rparr>) = regions s" for p by (simp add: memset_zero_def)
  then show ?thesis unfolding metadata_create_effect_def Let_def
    using assms(1) by (intro free_step[OF z]) (auto simp: metadata_create_guard_def)
qed

lemma delete_isolated:
  assumes "delete_guard c e s" "isolated s"
  shows "isolated (delete_effect e s)"
proof -
  have al: "is_page_aligned e" using assms(1) by (simp add: delete_guard_def valid_metadata_def metadata_region_def)
  have "isolated (block_enclave_regions e s)"
  proof (cases "find (e_regions (enclaves s e)) [0..<NUM_REGIONS]")
    case None
    then show ?thesis using assms(2) by (simp add: block_enclave_regions_eq[OF al])
  next
    case (Some i)
    then have i: "i < NUM_REGIONS" "e_regions (enclaves s e) i" by (auto simp: find_Some_iff)
    define w where "w = wipe e s"
    have w: "isolated w" "regions w = regions s" "\<not> e_regions (enclaves w e) i"
      using isolated_mono[OF no_new_memset assms(2)] in_own_region[OF al]
      by (auto simp: w_def wipe_def memset_zero_def zero_enclave_def)
    have own: "owned_by s i e" "e \<noteq> OWNER_UNTRUSTED" "e \<noteq> OWNER_SM"
      using assms(2) i by (auto simp: isolated_def maps_sound_def)
    then have i0: "i \<noteq> 0" using assms(2) by (intro notI) (simp add: isolated_def monitor_owned_def owned_by_def)
    have flags: "\<not> untrusted_regions w i" "\<not> e_regions (enclaves w d) i" for d
      using w own i(1) by (auto simp: isolated_def maps_sound_def owned_by_def)
    have "isolated (upd_region i (\<lambda>m. m\<lparr>region_st := REGION_STATE_BLOCKED, region_owned_by := OWNER_SM\<rparr>) w)"
      using flags i0 by (intro region_step[OF w(1) i(1)]) auto
    moreover have "upd_region i f w = wipe e (upd_region i f s)" for f
      by (simp add: w_def wipe_def memset_zero_def upd_region_def cong: if_cong)
    ultimately show ?thesis by (simp add: block_enclave_regions_eq[OF al] Some)
  qed
  then show ?thesis unfolding delete_effect_def Let_def
    by (rule isolated_mono[OF no_new_access_trans[OF no_new_fill no_new_memset]])
qed

section \<open>Entry and exit\<close>

lemma launch_no_new: "no_new_access s (enclave_launch c t s)"
  by (simp add: no_new_access_def enclave_launch_def switch_defs leave_defs)

lemma enter_isolated:
  assumes "enter_guard c e t s" "isolated s" "core_owner (cores s (unat c)) = OWNER_UNTRUSTED"
  shows "isolated (enter_effect env c e t s)"
proof -
  let ?c = "unat c" and ?s = "enclave_enter_switch env (unat c) e t s"
  have c: "?c < NUM_CORES" and e: "e \<noteq> OWNER_UNTRUSTED" "e \<noteq> OWNER_SM"
    using assms(1) aligned_not_owner[of e] by (auto simp: enter_guard_def valid_metadata_def metadata_region_def)
  have own: "owned_by ?s = owned_by s" "blocked ?s = blocked s"
    by (simp_all add: owned_by_def blocked_def enter_switch_sel fun_eq_iff)
  have b: "bitmaps_sound s ?c" using assms(2) c by (simp add: isolated_def)
  have "maps_sound ?s" "monitor_owned ?s"
    using assms(2) by (simp_all add: isolated_def maps_sound_def monitor_owned_def own enter_switch_sel)
  moreover have "saved_sound ?s"
    using assms(2,3) b by (simp add: isolated_def saved_sound_def bitmaps_sound_def enter_switch_sel)
  moreover have "bitmaps_sound ?s ?c"
    using b e assms(2) by (auto simp: bitmaps_sound_def own enter_switch_sel isolated_def maps_sound_def)
  moreover have "bitmaps_sound ?s d" if "d < NUM_CORES" "d \<noteq> ?c" for d
    using assms(2) that by (simp add: isolated_def bitmaps_sound_def own enter_switch_sel)
  ultimately have "isolated ?s" unfolding isolated_def by blast
  then show ?thesis unfolding enter_effect_def by (rule isolated_mono[OF launch_no_new])
qed

lemma exit_isolated:
  assumes "isolated s" "c < NUM_CORES"
  shows "isolated (exit_resume c k x s)"
proof -
  let ?t = "core_thread (cores s c)" and ?s = "exit_resume c k x s"
  note sel = exit_resume_sel exit_resume_csrs exit_switch_sel exit_switch_csrs Let_def
  have z: "tp_memrbm (t_platform_csr (threads s ?t)) = 0" using assms(1) by (simp add: isolated_def saved_sound_def)
  have own: "owned_by ?s = owned_by s" "blocked ?s = blocked s"
    by (simp_all add: owned_by_def blocked_def sel fun_eq_iff)
  have "maps_sound ?s" "monitor_owned ?s" "saved_sound ?s"
    using assms(1) by (simp_all add: isolated_def maps_sound_def monitor_owned_def saved_sound_def own sel)
  moreover have "bitmaps_sound ?s d" if "d < NUM_CORES" for d
    using assms(1) that z by (cases "d = c") (simp_all add: isolated_def bitmaps_sound_def own sel)
  ultimately show ?thesis unfolding isolated_def by blast
qed

section \<open>Calls\<close>

definition keeps :: "call \<Rightarrow> bool" where
  "keeps f \<longleftrightarrow> (\<forall>s r s'. isolated s \<longrightarrow> f s = Some (r, s') \<longrightarrow> isolated s')"

lemma keeps_contract:
  assumes "monitor_call f g h" "\<And>s. g s \<Longrightarrow> isolated s \<Longrightarrow> isolated (h s)"
  shows "keeps f"
  unfolding keeps_def
proof (intro allI impI)
  fix s r s' assume "isolated s" "f s = Some (r, s')"
  then show "isolated s'"
    by (rule monitor_call.call_preserves[OF assms(1), where P = isolated, rotated 2]) (erule (1) isolated_erase, erule (1) assms(2))
qed

lemma keeps_harmless:
  assumes "monitor_call f g h" "\<And>s. no_new_access s (h s)"
  shows "keeps f"
  by (rule keeps_contract[OF assms(1)]) (rule isolated_mono[OF assms(2)])

lemma keeps_no_new:
  assumes "\<And>s r s'. f s = Some (r, s') \<Longrightarrow> no_new_access s s'"
  shows "keeps f"
  unfolding keeps_def using isolated_mono[OF assms] by blast

text \<open>The machine a call ends in, whether it returned or left.\<close>

definition outcome :: "'a \<times> machine + machine \<Rightarrow> machine" where
  "outcome x = (case x of Inl (r, s) \<Rightarrow> s | Inr s \<Rightarrow> s)"

lemma enter_keeps:
  assumes "isolated s" "core_owner (cores s (unat c)) = OWNER_UNTRUSTED" "sm_internal_enclave_enter env c e t s = Some y"
  shows "isolated (outcome y)"
  using yieldsD[OF enter_sound assms(3)] assms(1) enter_isolated[OF _ assms(1,2)]
  by (auto simp: outcome_def split: sum.splits intro: isolated_erase dest: sym)

lemma exit_keeps:
  assumes "isolated s" "sm_internal_perform_enclave_exit env c x s = Some y"
  shows "isolated (outcome y)"
  using yieldsD[OF exit_sound assms(2)] assms(1) exit_isolated[OF assms(1)]
  by (auto simp: outcome_def split: sum.splits intro: isolated_erase dest: sym)

end
