(* ===== verification/Isolation_Calls.thy ===== *)
theory Isolation_Calls
  imports Isolation
begin

unbundle bit_operations_syntax

text \<open>
  Every call of both dispatchers, every SBI call, the emulation of instructions and the interrupt handlers keep the isolation invariant.
\<close>

section \<open>The calls that stop all cores\<close>

text \<open>Steps that touch neither regions nor bitmaps, as a relation between the state before and after.\<close>

lemma no_new_simple [simp]:
  "no_new_access s (upd_locks f s)" "no_new_access s (s\<lparr>llc_sync := l\<rparr>)" "no_new_access s (s\<lparr>bus := b\<rparr>)"
  "no_new_access s (s\<lparr>bus := b, llc_partitions := p\<rparr>)"
  by (simp_all add: no_new_access_def)

lemma no_new_sync:
  "llc_claim s = Some (b, s') \<Longrightarrow> no_new_access s s'" "llc_arrive s = Some (b, s') \<Longrightarrow> no_new_access s s'"
  "llc_poll s = Some (b, s') \<Longrightarrow> no_new_access s s'"
  "llc_release s = Some s' \<Longrightarrow> no_new_access s s'" "llc_done s = Some s' \<Longrightarrow> no_new_access s s'"
  by (auto simp: llc_claim_def llc_arrive_def llc_poll_def llc_release_def llc_done_def llc_locked_def bus_fence_def
      no_new_access_def split: if_splits)

lemma no_new_fold:
  assumes "\<And>x s. no_new_access s (f x s)"
  shows "no_new_access s (fold f xs s)"
  by (induction xs arbitrary: s) (auto intro: no_new_access_trans[OF assms])

lemma no_new_ipis: "no_new_access s (llc_send_ipis c s)"
  unfolding llc_send_ipis_def by (rule no_new_fold) (simp add: send_ipi_def)

lemma no_new_answers:
  assumes "\<And>s b s'. f s = Some (b, s') \<Longrightarrow> no_new_access s s'"
  shows "cores_answer f is s = Some s' \<Longrightarrow> no_new_access s s'"
  by (induction "is" arbitrary: s) (auto simp: bind_eq_Some_conv intro: no_new_access_trans[OF assms])

lemma no_new_arrivals: "cores_answer llc_arrive is s = Some s' \<Longrightarrow> no_new_access s s'"
  by (erule no_new_answers[rotated]) (rule no_new_sync)

lemma no_new_departures: "cores_answer llc_poll is s = Some s' \<Longrightarrow> no_new_access s s'"
  by (erule no_new_answers[rotated]) (rule no_new_sync)

lemma no_new_flush: "flush_llc_region c r s = Some s' \<Longrightarrow> no_new_access s s'"
  by (auto simp: step_iff flush_lines_no_new)

lemma no_new_flushes: "flush_llc_regions c rs s = Some s' \<Longrightarrow> no_new_access s s'"
  by (induction rs arbitrary: s) (auto simp: bind_eq_Some_conv simp del: flush_Some intro: no_new_access_trans[OF no_new_flush])

lemma no_new_idle: "no_enclaves_running is s = Some (b, s') \<Longrightarrow> no_new_access s s'"
proof (induction "is" arbitrary: s)
  case (Cons i "is")
  then show ?case
    by (auto simp: lock_unfold split: if_splits intro: no_new_access_trans[OF no_new_simple(1)])
qed simp

lemma no_new_slices: "no_new_access s (fold (set_llc_slice copy bases) rs s)"
  by (rule no_new_fold) (simp add: set_llc_slice_def)

lemma no_new_critical: "job_critical c j s = Some (r, s') \<Longrightarrow> no_new_access s s'"
proof (cases j)
  case (FlushJob rid)
  moreover assume "job_critical c j s = Some (r, s')"
  ultimately obtain s1 s2 where "flush_llc_region c rid s = Some s1" "unlock_region rid s1 = Some s2" "llc_release s2 = Some s'"
    by (auto simp: region_flush_critical_def bind_eq_Some_conv simp del: flush_Some)
  then show ?thesis
    by (auto simp: lock_unfold split: if_splits simp del: flush_Some
        intro: no_new_access_trans[OF no_new_flush no_new_access_trans[OF no_new_simple(1) no_new_sync(4)]])
next
  case (PartitionJob idx copy bases)
  moreover assume "job_critical c j s = Some (r, s')"
  ultimately show ?thesis
    by (auto simp: cache_partitioning_critical_def bind_eq_Some_conv lock_unfold split: if_splits
        dest!: no_new_idle no_new_flushes no_new_sync(4))
      (meson no_new_access_trans no_new_slices no_new_simple(1))+
qed

lemma no_new_rendezvous: "llc_rendezvous c j s = Some (r, s') \<Longrightarrow> no_new_access s s'"
  by (auto simp: llc_rendezvous_def bind_eq_Some_conv split: if_splits
      dest!: no_new_arrivals no_new_departures no_new_critical no_new_sync(5)
      intro: no_new_access_trans)

lemma flush_enter_no_new:
  assumes "region_flush_enter core rid s = Some x"
  shows "no_new_access s (outcome x)"
proof -
  have "no_new_access s s'" if "llc_claim (upd_locks f s) = Some (b, s')" for f b s'
    using no_new_access_trans[OF no_new_simple(1) no_new_sync(1)[OF that]] .
  then show ?thesis using assms
    by (auto simp: region_flush_enter_def outcome_def lock_unfold bind_eq_Some_conv split: if_splits)
      (meson no_new_access_trans no_new_ipis no_new_simple(1))+
qed

lemma region_flush_no_new:
  assumes "sm_internal_region_flush core rid s = Some (r, s')"
  shows "no_new_access s s'"
proof -
  obtain x where x: "region_flush_enter core rid s = Some x"
    and r: "(case x of Inl r \<Rightarrow> Some r | Inr s \<Rightarrow> llc_rendezvous (unat core) (FlushJob rid) s) = Some (r, s')"
    using assms by (auto simp: sm_internal_region_flush_def bind_eq_Some_conv c_index_def split: if_splits)
  show ?thesis using flush_enter_no_new[OF x] r
    by (cases x) (auto simp: outcome_def dest!: no_new_rendezvous intro: no_new_access_trans)
qed

lemma no_new_ipis_sync: "no_new_access s (llc_send_ipis c (upd_locks f s\<lparr>llc_sync := l\<rparr>))"
  by (rule no_new_access_trans[OF no_new_access_trans[OF no_new_simple(1) no_new_simple(2)] no_new_ipis])

lemma partition_enter_no_new:
  "yields (cache_partitioning_enter env core part s)
     (\<lambda>x. no_new_access s (case x of Inl (r, s') \<Rightarrow> s' | Inr (idx, copy, bases, s') \<Rightarrow> s'))"
  unfolding cache_partitioning_enter_def lock_untrusted_eq unlock_untrusted_eq Let_def
  by (rule yields_bind, simp only: prod.case, rule yields_if, simp add: yields_Some,
      rule yields_bind, rule yields_option, simp add: yields_Some, simp only: prod.case split: prod.split)
    (auto intro!: yields_claim yields_if yields_Some simp: no_new_ipis_sync)

lemma cache_partitioning_no_new:
  assumes "sm_internal_region_cache_partitioning env core part s = Some (r, s')"
  shows "no_new_access s s'"
proof -
  obtain x where x: "cache_partitioning_enter env core part s = Some x"
    and r: "(case x of Inl r \<Rightarrow> Some r | Inr (idx, copy, bases, s) \<Rightarrow>
      llc_rendezvous (unat core) (PartitionJob idx copy bases) s) = Some (r, s')"
    using assms by (auto simp: sm_internal_region_cache_partitioning_def bind_eq_Some_conv c_index_def split: if_splits)
  show ?thesis using yieldsD[OF partition_enter_no_new x] r
    by (cases x) (auto dest!: no_new_rendezvous intro: no_new_access_trans)
qed

section \<open>Every call keeps isolation\<close>

lemma returned_keeps:
  assumes "keeps f" "isolated s" "returned (f s) = Some y"
  shows "isolated (outcome y)"
  using assms by (auto simp: returned_def outcome_def keeps_def)

lemma returned_or_left_keeps:
  assumes "returned_or_left x = Some y" "\<And>z. x = Some z \<Longrightarrow> isolated (outcome z)"
  shows "isolated (outcome y)"
proof -
  obtain z where z: "x = Some z" "y = (case z of Inl (r, s) \<Rightarrow> Inl (result_code r, s) | Inr s \<Rightarrow> Inr s)"
    using assms(1) by (auto simp: returned_or_left_def)
  then show ?thesis using assms(2)[OF z(1)] by (cases z) (auto simp: outcome_def)
qed

lemma query_keeps:
  "returned_word (sm_internal_region_owner rid s) = Some y \<Longrightarrow> isolated s \<Longrightarrow> isolated (outcome y)"
  "returned_word (sm_internal_region_state rid s) = Some y \<Longrightarrow> isolated s \<Longrightarrow> isolated (outcome y)"
  by (auto simp: returned_word_def outcome_def sm_internal_region_owner_def sm_internal_region_state_def region_owner_def
      lock_unfold Let_def split: if_splits intro: isolated_mono[OF no_new_simple(1)]
      isolated_mono[OF no_new_access_trans[OF no_new_simple(1) no_new_simple(1)]])

lemma moving_keeps:
  "keeps (sm_internal_region_assign c r e)"
  "keeps (sm_internal_region_block c r)"
  "keeps (sm_internal_region_free c r)"
  "keeps (sm_internal_region_metadata_create r)"
  "keeps (sm_internal_enclave_delete c e)"
  "keeps (sm_internal_region_update c)" "keeps (sm_internal_region_check_owned c r)"
proof -
  show "keeps (sm_internal_region_assign c r e)" by (rule keeps_contract[OF assign.monitor_call_axioms assign_isolated])
  show "keeps (sm_internal_region_block c r)" by (rule keeps_contract[OF block.monitor_call_axioms block_isolated])
  show "keeps (sm_internal_region_free c r)" by (rule keeps_contract[OF free.monitor_call_axioms free_isolated])
  show "keeps (sm_internal_region_metadata_create r)" by (rule keeps_contract[OF metadata_create.monitor_call_axioms metadata_create_isolated])
  show "keeps (sm_internal_enclave_delete c e)" by (rule keeps_contract[OF delete.monitor_call_axioms delete_isolated])
  show "keeps (sm_internal_region_update c)" by (rule keeps_contract[OF update.monitor_call_axioms update_same])
  show "keeps (sm_internal_region_check_owned c r)" by (rule keeps_contract[OF check_owned.monitor_call_axioms]) simp
qed

lemma llc_keeps: "keeps (sm_internal_region_flush core rid)" "keeps (sm_internal_region_cache_partitioning env core part)"
  by (rule keeps_no_new, erule region_flush_no_new) (rule keeps_no_new, erule cache_partitioning_no_new)

lemmas call_keeps = moving_keeps[THEN returned_keeps] llc_keeps[THEN returned_keeps]
  keeps_harmless[OF create.monitor_call_axioms create_no_new, THEN returned_keeps]
  keeps_harmless[OF init.monitor_call_axioms init_no_new, THEN returned_keeps]
  keeps_harmless[OF load_handler.monitor_call_axioms load_handler_no_new, THEN returned_keeps]
  keeps_harmless[OF load_page_table.monitor_call_axioms load_page_table_no_new, THEN returned_keeps]
  keeps_harmless[OF load_page.monitor_call_axioms load_page_no_new, THEN returned_keeps]
  keeps_harmless[OF thread_load.monitor_call_axioms thread_load_no_new, THEN returned_keeps]
  keeps_harmless[OF thread_delete.monitor_call_axioms thread_delete_no_new, THEN returned_keeps]
  keeps_harmless[OF mail_accept.monitor_call_axioms mail_no_new(1), THEN returned_keeps]
  keeps_harmless[OF mail_receive.monitor_call_axioms mail_no_new(2), THEN returned_keeps]
  keeps_harmless[OF mail_send.monitor_call_axioms mail_no_new(3), THEN returned_keeps]
  keeps_harmless[OF get_attest.monitor_call_axioms mail_no_new(4), THEN returned_keeps]
  keeps_harmless[OF get_keys.monitor_call_axioms mail_no_new(4), THEN returned_keeps]
  keeps_harmless[OF public_field.monitor_call_axioms mail_no_new(4), THEN returned_keeps]

lemma outcome_same [simp]: "outcome (Inl (v, s)) = s" by (simp add: outcome_def)

lemma untrusted_call_keeps:
  assumes "call_from_untrusted env core code arg s = Some y" "isolated s"
    "core_owner (cores s (unat core)) = OWNER_UNTRUSTED"
  shows "isolated (outcome y)"
proof -
  have enter: "returned_or_left (sm_internal_enclave_enter env core e t s) = Some y \<Longrightarrow> isolated (outcome y)" for e t
    by (erule returned_or_left_keeps) (rule enter_keeps[OF assms(2,3)])
  show ?thesis using assms(1) unfolding call_from_untrusted_def
    by (simp only: split: if_splits)
      (erule call_keeps[OF assms(2)] enter query_keeps[OF _ assms(2)] | simp, use assms(2) in force)+
qed

lemma enclave_call_keeps:
  assumes "call_from_enclave env core code arg s = Some y" "isolated s"
  shows "isolated (outcome y)"
proof -
  have exit: "returned_or_left (sm_internal_perform_enclave_exit env core x s) = Some y \<Longrightarrow> isolated (outcome y)" for x
    by (erule returned_or_left_keeps) (rule exit_keeps[OF assms(2)])
  show ?thesis using assms(1) unfolding call_from_enclave_def sm_internal_enclave_exit_def
    by (simp only: split: if_splits) (erule call_keeps[OF assms(2)] exit | simp, use assms(2) in force)+
qed

section \<open>From the trap to the return\<close>

lemma no_new_frame [simp]: "no_new_access s (set_frame c i v s)" "no_new_access s (save_regs c s)"
  by (simp_all add: no_new_access_def set_frame_def save_regs_def)

lemma no_new_entry: "trap_entry c s = Some s' \<Longrightarrow> no_new_access s s' \<and> cores s' = cores s"
  by (auto simp: trap_entry_Some no_new_access_def)

lemma no_new_mret: "no_new_access s (perform_mret c frame s)" "no_new_access s (perform_mret_ecall c frame s)"
  "no_new_access s (restore_regs c frame s)"
  by (simp_all add: no_new_access_def leave_defs upd_csr_def)

lemma leave_ecall_keeps: "isolated (fst (case x of Inl y \<Rightarrow> y | Inr y \<Rightarrow> y)) \<Longrightarrow> isolated (fst (leave_ecall c x))"
  by (auto simp: leave_ecall_def split: sum.splits prod.splits
      intro: isolated_mono[OF no_new_access_trans[OF no_new_mret(3) no_new_mret(2)]])

lemma leave_interrupt_no_new: "no_new_access s (leave_interrupt c s)"
  unfolding leave_interrupt_def by (rule no_new_access_trans[OF no_new_mret(3) no_new_mret(1)])

lemma delegate_no_new: "no_new_access s (fst (delegate_to_s c (s, k)))"
  by (simp add: no_new_access_def delegate_to_s_def path_defs)

lemma mtimer_no_new: "no_new_access s (handle_mtimer_interrupt c s)"
  by (simp add: no_new_access_def handle_mtimer_interrupt_def path_defs)

lemma llc_changes_no_new: "handle_llc_changes s = Some (r, s') \<Longrightarrow> no_new_access s s'"
  by (auto simp: handle_llc_changes_def bind_eq_Some_conv split: if_splits dest!: no_new_sync intro: no_new_access_trans)

lemma soft_no_new: "untrusted_software_interrupt_handler c m s = Some s' \<Longrightarrow> no_new_access s s'"
  by (auto simp: untrusted_software_interrupt_handler_def bind_eq_Some_conv split: if_splits dest!: llc_changes_no_new
      intro!: no_new_access_trans[OF _ no_new_upd_csr])

lemma m_soft_no_new: "handle_m_soft_interrupt c t0 (s, k) = Some (s', k') \<Longrightarrow> no_new_access s s'"
proof -
  assume "handle_m_soft_interrupt c t0 (s, k) = Some (s', k')"
  then obtain s1 where s1: "untrusted_software_interrupt_handler c (mipi_pending k c) (save_regs c s) = Some s1"
    and "no_new_access s1 s'"
    by (auto simp: handle_m_soft_interrupt_def Let_def bind_eq_Some_conv split: if_splits)
      (auto simp: no_new_access_def path_defs)
  then show ?thesis using no_new_access_trans[OF no_new_frame(2) soft_no_new[OF s1]] no_new_access_trans by blast
qed

lemma kernel_no_new:
  "console_putchar ch (s, k) = Some (s', k') \<Longrightarrow> no_new_access s s'"
  "console_getchar (s, k) = Some (r, s', k') \<Longrightarrow> no_new_access s s'"
  "no_new_access s (snd (mcall_clear_ipi c s))" "no_new_access s (snd (mcall_set_timer c w s))"
  by (auto simp: console_putchar_def console_getchar_def mcall_clear_ipi_def mcall_set_timer_def no_new_access_def
      upd_csr_def Let_def bind_eq_Some_conv split: if_splits)

lemma send_loop_no_new: "send_ipi_loop is h ev (s, k) = Some (s', k') \<Longrightarrow> no_new_access s s'"
proof (induction "is" arbitrary: s k)
  case (Cons i "is")
  have "no_new_access t t'" if "hls_send_ipi i ev (t, j) = Some (t', j')" for t t' j j'
    using that by (auto simp: hls_send_ipi_def send_ipi_def split: if_splits)
  then show ?case using Cons
    by (auto simp: bind_eq_Some_conv split: if_splits) (meson no_new_access_trans)
qed simp

lemma send_many_no_new: "send_ipi_many env c p ev (s, k) = Some (s', k') \<Longrightarrow> no_new_access s s'"
  by (auto simp: send_ipi_many_def bind_eq_Some_conv Let_def split: if_splits dest: send_loop_no_new)

lemma sbi_no_new:
  "delegate_ecall_to_kernel env c (s, k) = Some (s', k') \<Longrightarrow> no_new_access s s'"
  "delegate_ecall_to_kernel_enclave c (s, k) = Some (s', k') \<Longrightarrow> no_new_access s s'"
  using kernel_no_new(3)[of s c] kernel_no_new(4)[of s c]
  by (auto simp: delegate_ecall_to_kernel_def delegate_ecall_to_kernel_enclave_def bind_eq_Some_conv Let_def
      split: if_splits prod.splits dest!: kernel_no_new(1,2) send_many_no_new intro!: no_new_access_trans[OF _ no_new_frame(1)])
    (metis snd_conv)+

lemma emulation_no_new:
  "illegal_instruction_trap_handler env c (s, k) = Some (s', k') \<Longrightarrow> no_new_access s s'"
proof -
  assume "illegal_instruction_trap_handler env c (s, k) = Some (s', k')"
  then obtain insn where "emulate_system_opcode c (csr_mstatus (csrs s c)) insn (s, k) = Some (s', k')"
    by (auto simp: illegal_instruction_trap_handler_def Let_def split: if_splits simp: bind_eq_Some_conv)
  from emulate_confined[OF this] obtain s1 where "satp_only c (csr_mstatus (csrs s c)) s s1"
    "s' = s1 \<or> (\<exists>i v. s' = set_frame c i v s1)" by blast
  moreover from this(1) have "no_new_access s s1"
    by (auto simp: satp_only_def intro!: no_new_upd_csr)
  ultimately show ?thesis by (auto intro: no_new_access_trans[OF _ no_new_frame(1)])
qed

end
