(* ===== verification/Boot.thy ===== *)
theory Boot
  imports Dispatch
begin

unbundle bit_operations_syntax

text \<open>
  The start of the monitor: \<^verbatim>\<open>sm_init\<close> (\<^verbatim>\<open>src/init/init.c\<close>) and the part of \<^verbatim>\<open>src/kernel/kernel_init.c\<close> that does not walk the device tree.
  Core 0 initialises the shared state; then each core sets up its traps, timer and memory protection and jumps
  to untrusted software.  The memory-mapped registers of the timer are the fields \<^term>\<open>timecmp\<close> and \<^term>\<open>clint_ipi\<close>.
\<close>

definition SM_LAST_ADDRESS :: u64 where [sm_const]: "SM_LAST_ADDRESS = 0x80043000"
definition HLS_SIZE :: u64 where [sm_const]: "HLS_SIZE = 64"
definition T_MAX :: u64 where [sm_const]: "T_MAX = 0xFFFFFFFF"

section \<open>Shared state\<close>

definition init_core_metadata :: "platform_env \<Rightarrow> nat \<Rightarrow> machine \<Rightarrow> machine option" where
  "init_core_metadata env i s =
     (let s = upd_core i (\<lambda>k. k\<lparr>core_owner := OWNER_UNTRUSTED\<rparr>) s;
          s = upd_core i (\<lambda>k. k\<lparr>core_thread := ENCLAVE_THREAD_NONE\<rparr>) s;
          s = upd_core i (\<lambda>k. k\<lparr>core_hls_ptr := stack_ptr env - of_nat i * STACK_SIZE - HLS_SIZE\<rparr>) s
      in unlock_core (of_nat i) s)"

definition init_region_metadata :: "nat \<Rightarrow> machine \<Rightarrow> machine option" where
  "init_region_metadata i s =
     (let region_doesnt_include_sm = SM_LAST_ADDRESS < region_id_to_addr (of_nat i);
          s = (if region_doesnt_include_sm then s\<lparr>untrusted_regions := (untrusted_regions s)(i := True)\<rparr> else s);
          s = upd_region i (\<lambda>m. m\<lparr>region_owned_by := if region_doesnt_include_sm then OWNER_UNTRUSTED else OWNER_SM\<rparr>) s;
          s = upd_region i (\<lambda>m. m\<lparr>region_type := if region_doesnt_include_sm then REGION_TYPE_UNTRUSTED else REGION_TYPE_SM\<rparr>) s;
          s = upd_region i (\<lambda>m. m\<lparr>region_st := REGION_STATE_OWNED\<rparr>) s
      in unlock_region (of_nat i) s)"

primrec for_each :: "(nat \<Rightarrow> machine \<Rightarrow> machine option) \<Rightarrow> nat list \<Rightarrow> machine \<Rightarrow> machine option" where
  "for_each f [] s = Some s"
| "for_each f (i # is) s = Option.bind (f i s) (for_each f is)"

definition init_mailboxes :: "machine \<Rightarrow> machine" where
  "init_mailboxes s = s\<lparr>untrusted_mailboxes := (\<lambda>i. if i < NUM_UNTRUSTED_MAILBOXES
     then (untrusted_mailboxes s i)\<lparr>mb_state := ENCLAVE_MAILBOX_STATE_UNUSED\<rparr> else untrusted_mailboxes s i)\<rparr>"

definition init_llc :: "machine \<Rightarrow> machine" where
  "init_llc s = s\<lparr>llc_partitions := (\<lambda>i. if i < NUM_REGIONS then 4 else llc_partitions s i),
     llc_sync := \<lparr>llc_waiting = 0, llc_wait = False, llc_left = 0, llc_busy = False, llc_lock = False\<rparr>\<rparr>"

definition sm_init_shared :: "platform_env \<Rightarrow> machine \<Rightarrow> machine option" where
  "sm_init_shared env s = do {
     s \<leftarrow> for_each (init_core_metadata env) [0..<NUM_CORES] s;
     s \<leftarrow> for_each init_region_metadata [0..<NUM_REGIONS] s;
     Some (unlock_untrusted_state (init_llc (init_mailboxes s))) }"

section \<open>Each core\<close>

definition hart_plic_init :: "nat \<Rightarrow> system \<Rightarrow> system" where
  "hart_plic_init c x = (case x of (s, k) \<Rightarrow>
     (upd_csr c (\<lambda>r. r\<lparr>csr_mip := 0\<rparr>) (s\<lparr>timecmp := (timecmp s)(c := T_MAX)\<rparr>), k\<lparr>clint_ipi := (clint_ipi k)(c := 0)\<rparr>))"

definition delegate_traps :: "nat \<Rightarrow> machine \<Rightarrow> machine" where
  "delegate_traps c s =
     (let interrupts = push_bit 1 1 OR push_bit 5 1 OR push_bit 9 1;
          exceptions = push_bit 0x0 1 OR push_bit 0xc 1 OR push_bit 0x3 1 OR push_bit 0xd 1 OR push_bit 0xf 1 OR push_bit 0x8 1;
          s = upd_csr c (\<lambda>r. r\<lparr>csr_mideleg := interrupts\<rparr>) s
      in upd_csr c (\<lambda>r. r\<lparr>csr_medeleg := exceptions\<rparr>) s)"

text \<open>
  \<^verbatim>\<open>prci_test\<close> raises and clears both interrupts of the core and leaves its registers as \<^verbatim>\<open>hart_plic_init\<close> does; its assertions are on the
  interrupt lines of the hardware.
\<close>

definition prci_test :: "nat \<Rightarrow> system \<Rightarrow> system" where
  "prci_test c x = (case x of (s, k) \<Rightarrow>
     let k = k\<lparr>clint_ipi := (clint_ipi k)(c := 1)\<rparr>;
         k = k\<lparr>clint_ipi := (clint_ipi k)(c := 0)\<rparr>;
         s = s\<lparr>timecmp := (timecmp s)(c := 0)\<rparr>
     in (s\<lparr>timecmp := (timecmp s)(c := T_MAX)\<rparr>, k))"

definition kernel_init_other_core :: "nat \<Rightarrow> system \<Rightarrow> system" where
  "kernel_init_other_core c x = (case x of (s, k) \<Rightarrow> prci_test c (hart_plic_init c (delegate_traps c s, k)))"

definition sm_init_core :: "platform_env \<Rightarrow> nat \<Rightarrow> system \<Rightarrow> system option" where
  "sm_init_core env c x = (case kernel_init_other_core c x of (s, k) \<Rightarrow> do {
     let (ok, s) = lock_untrusted_state s;
     if \<not> ok then None
     else do {
       (ok, s) \<leftarrow> lock_core (of_nat c) s;
       if \<not> ok then None
       else do {
         let s = platform_initialize_memory_protection c s;
         let s = unlock_untrusted_state s;
         s \<leftarrow> unlock_core (of_nat c) s;
         Some (platform_jump_to_untrusted env UNTRUSTED_ENTRY 0 c (UNTRUSTED_ENTRY + PAYLOAD_MAXLEN) s, k) } } })"

primrec sm_init_cores :: "platform_env \<Rightarrow> nat list \<Rightarrow> system \<Rightarrow> system option" where
  "sm_init_cores env [] x = Some x"
| "sm_init_cores env (c # cs) x = Option.bind (sm_init_core env c x) (sm_init_cores env cs)"

text \<open>
  Core 0 sets up its own timer before it wakes the others.  The queries of the device tree in \<^verbatim>\<open>kernel_init\<close> are not modelled: the value they
  give \<^verbatim>\<open>hart_mask\<close> is the one of the initial state.
\<close>

definition sm_init :: "platform_env \<Rightarrow> system \<Rightarrow> system option" where
  "sm_init env x = (case x of (s, k) \<Rightarrow> do {
     s \<leftarrow> sm_init_shared env (fold (platform_core_init env) [0..<NUM_CORES] s);
     x \<leftarrow> send_ipi_many env 0 0 IPI_SOFT (prci_test 0 (hart_plic_init 0 (s, k)));
     sm_init_cores env [0..<NUM_CORES] x })"

end
