(* ===== verification/Reachable.thy ===== *)
theory Reachable
  imports Isolation_Calls Boot
begin

unbundle bit_operations_syntax

text \<open>
  The states of the whole system reachable from power-on, by traps into the monitor and by what software does between them, and
  the isolation properties of these states.
\<close>

section \<open>Boot\<close>

lemma for_each_append: "for_each f (xs @ ys) s = Option.bind (for_each f xs s) (for_each f ys)"
proof (induction xs arbitrary: s)
  case (Cons x xs)
  then show ?case by (cases "f x s") simp_all
qed simp

lemma init_cores_state:
  "n \<le> NUM_CORES \<Longrightarrow> for_each (init_core_metadata env) [0..<n] s = Some s' \<Longrightarrow>
     (\<forall>c<n. core_owner (cores s' c) = OWNER_UNTRUSTED) \<and>
     untrusted_regions s' = untrusted_regions s \<and> enclaves s' = enclaves s \<and> threads s' = threads s \<and> csrs s' = csrs s"
proof (induction n arbitrary: s')
  case (Suc n)
  then show ?case
    by (auto simp: for_each_append bind_eq_Some_conv init_core_metadata_def lock_unfold upd_core_def less_Suc_eq Let_def split: if_splits)
qed simp

lemma init_regions_state:
  "n \<le> NUM_REGIONS \<Longrightarrow> for_each init_region_metadata [0..<n] s = Some s' \<Longrightarrow>
     (\<forall>i<n. region_st (regions s' i) = REGION_STATE_OWNED \<and>
        region_owned_by (regions s' i) = (if SM_LAST_ADDRESS < region_id_to_addr (of_nat i) then OWNER_UNTRUSTED else OWNER_SM) \<and>
        region_type (regions s' i) = (if SM_LAST_ADDRESS < region_id_to_addr (of_nat i) then REGION_TYPE_UNTRUSTED else REGION_TYPE_SM)) \<and>
     (\<forall>i. untrusted_regions s' i \<longleftrightarrow> untrusted_regions s i \<or> i < n \<and> SM_LAST_ADDRESS < region_id_to_addr (of_nat i)) \<and>
     enclaves s' = enclaves s \<and> threads s' = threads s \<and> csrs s' = csrs s \<and> cores s' = cores s"
proof (induction n arbitrary: s')
  case (Suc n)
  have "init_region_metadata n t = Some t' \<Longrightarrow> n < NUM_REGIONS \<Longrightarrow>
     regions t' = (regions t)(n := \<lparr>region_owned_by = (if SM_LAST_ADDRESS < region_id_to_addr (of_nat n) then OWNER_UNTRUSTED else OWNER_SM),
       region_type = (if SM_LAST_ADDRESS < region_id_to_addr (of_nat n) then REGION_TYPE_UNTRUSTED else REGION_TYPE_SM),
       region_st = REGION_STATE_OWNED\<rparr>) \<and>
     untrusted_regions t' = (if SM_LAST_ADDRESS < region_id_to_addr (of_nat n) then (untrusted_regions t)(n := True) else untrusted_regions t) \<and>
     enclaves t' = enclaves t \<and> threads t' = threads t \<and> csrs t' = csrs t \<and> cores t' = cores t" for t t'
    by (auto simp: init_region_metadata_def lock_unfold upd_region_def Let_def split: if_splits)
  then show ?case using Suc
    by (auto simp: for_each_append bind_eq_Some_conv less_Suc_eq split: if_splits)
qed simp

text \<open>Power-on: the monitor's own data is zero (\<^verbatim>\<open>bss\<close>) and memory holds no enclave or thread object.\<close>

definition power_on :: "machine \<Rightarrow> bool" where
  "power_on s \<longleftrightarrow> untrusted_regions s = (\<lambda>_. False) \<and> (\<forall>e i. \<not> e_regions (enclaves s e) i) \<and>
     (\<forall>t. tp_memrbm (t_platform_csr (threads s t)) = 0)"

lemma shared_sound:
  assumes "sm_init_shared env s = Some s'" "power_on s"
  shows "maps_sound s' \<and> saved_sound s' \<and> monitor_owned s' \<and> (\<forall>c<NUM_CORES. core_owner (cores s' c) = OWNER_UNTRUSTED)"
proof -
  obtain s1 s2 where 1: "for_each (init_core_metadata env) [0..<NUM_CORES] s = Some s1"
    and 2: "for_each init_region_metadata [0..<NUM_REGIONS] s1 = Some s2"
    and 3: "s' = unlock_untrusted_state (init_llc (init_mailboxes s2))"
    using assms(1) by (auto simp: sm_init_shared_def bind_eq_Some_conv)
  have eq: "regions s' = regions s2" "untrusted_regions s' = untrusted_regions s2" "enclaves s' = enclaves s2"
    "threads s' = threads s2" "cores s' = cores s2"
    by (simp_all add: 3 lock_unfold init_llc_def init_mailboxes_def)
  have zero: "\<not> SM_LAST_ADDRESS < region_id_to_addr (of_nat 0)" by (simp add: region_id_to_addr_def sm_const)
  have n: "0 < NUM_REGIONS" by (simp add: NUM_REGIONS_def)
  note a = init_cores_state[OF order_refl 1] and b = init_regions_state[OF order_refl 2]
  have "monitor_owned s'"
    using b zero n by (simp add: monitor_owned_def owned_by_def eq)
  moreover have "maps_sound s'"
    using a b assms(2) by (auto simp: maps_sound_def owned_by_def eq power_on_def)
  moreover have "saved_sound s'" using a b assms(2) by (simp add: saved_sound_def eq power_on_def)
  ultimately show ?thesis using a b by (simp add: eq)
qed

lemma update_frame:
  "core_owner (cores (platform_update_memory_protection c s) d) = core_owner (cores s d)"
  by (simp add: update_sel)

text \<open>Memory protection of one core is an update between steps that give no access.\<close>

lemma protection_path:
  "\<exists>t. no_new_access s t \<and> no_new_access (platform_update_memory_protection c t) (platform_initialize_memory_protection c s)"
proof -
  let ?satp = "drop_bit PAGE_SHIFT IDPT_BASE OR push_bit SATP_MODE SATP_MODE_SV39"
  define t where "t = upd_csr c (\<lambda>r. r\<lparr>csr_mevmask := MVMASK_DEFAULT\<rparr>)
    (upd_csr c (\<lambda>r. r\<lparr>csr_mevbase := MVBASE_DEFAULT\<rparr>) (upd_csr c (\<lambda>r. r\<lparr>csr_satp := ?satp\<rparr>) s))"
  have "no_new_access s t" by (simp add: t_def no_new_access_def upd_csr_def)
  moreover have "no_new_access u (upd_csr c (\<lambda>r. r\<lparr>csr_mparmask := REGION_MASK\<rparr>)
      (upd_csr c (\<lambda>r. r\<lparr>csr_mparbase := SM_ADDR\<rparr>) u))" for u
    by (simp add: no_new_access_def upd_csr_def)
  moreover have "platform_initialize_memory_protection c s = upd_csr c (\<lambda>r. r\<lparr>csr_mparmask := REGION_MASK\<rparr>)
      (upd_csr c (\<lambda>r. r\<lparr>csr_mparbase := SM_ADDR\<rparr>) (platform_update_memory_protection c t))"
    by (simp add: platform_initialize_memory_protection_def t_def Let_def)
  ultimately show ?thesis by metis
qed

lemma jump_no_new: "no_new_access s (platform_jump_to_untrusted env p sp c fdt s)"
  by (simp add: no_new_access_def platform_jump_to_untrusted_def Let_def set_reg_def upd_csr_def
      platform_clean_core_leave_args_def platform_purge_core_def)

lemma kernel_init_no_new: "kernel_init_other_core c (s, k) = (s', k') \<Longrightarrow> no_new_access s s'"
  by (auto simp: kernel_init_other_core_def prci_test_def hart_plic_init_def delegate_traps_def Let_def no_new_access_def upd_csr_def)

lemma init_core_path:
  assumes "sm_init_core env c (s, k) = Some (s', k')"
  shows "\<exists>t. no_new_access s t \<and> no_new_access (platform_update_memory_protection c t) s'"
proof -
  obtain s1 k1 where k: "kernel_init_other_core c (s, k) = (s1, k1)" by (cases "kernel_init_other_core c (s, k)")
  obtain f g h where s': "s' = platform_jump_to_untrusted env UNTRUSTED_ENTRY 0 c (UNTRUSTED_ENTRY + PAYLOAD_MAXLEN)
      (upd_locks g (upd_locks h (platform_initialize_memory_protection c (upd_locks f s1))))"
    using assms by (auto simp: sm_init_core_def k lock_unfold Let_def split: if_splits)
  obtain t where t: "no_new_access (upd_locks f s1) t"
    "no_new_access (platform_update_memory_protection c t) (platform_initialize_memory_protection c (upd_locks f s1))"
    using protection_path by blast
  have "no_new_access s t"
    using kernel_init_no_new[OF k] t(1) no_new_simple(1) no_new_access_trans by meson
  moreover have "no_new_access (platform_update_memory_protection c t) s'"
    unfolding s' using t(2) jump_no_new no_new_simple(1) no_new_access_trans by meson
  ultimately show ?thesis by blast
qed

definition booted :: "nat \<Rightarrow> machine \<Rightarrow> bool" where
  "booted n s \<longleftrightarrow> maps_sound s \<and> (\<forall>c<n. bitmaps_sound s c) \<and> saved_sound s \<and> monitor_owned s \<and>
     (\<forall>c<NUM_CORES. core_owner (cores s c) = OWNER_UNTRUSTED)"

lemma booted_mono:
  assumes "no_new_access s s'" "booted n s"
  shows "booted n s'"
proof -
  have "cores s' = cores s" using assms(1) by (simp add: no_new_access_def)
  then show ?thesis using assms mono_parts[OF assms(1)] by (simp add: booted_def)
qed

lemma init_core_step:
  assumes "sm_init_core env n (s, k) = Some (s', k')" "booted n s"
  shows "booted (Suc n) s'"
proof -
  obtain t where t: "no_new_access s t" "no_new_access (platform_update_memory_protection n t) s'"
    using init_core_path[OF assms(1)] by blast
  have b: "booted n t" by (rule booted_mono[OF t(1) assms(2)])
  then have "booted (Suc n) (platform_update_memory_protection n t)"
    using update_core_sound[of t n] by (auto simp: booted_def update_rest update_other_core update_frame less_Suc_eq)
  then show ?thesis by (rule booted_mono[OF t(2)])
qed

lemma init_cores_append: "sm_init_cores env (xs @ ys) x = Option.bind (sm_init_cores env xs x) (sm_init_cores env ys)"
proof (induction xs arbitrary: x)
  case (Cons c xs)
  then show ?case by (cases "sm_init_core env c x") simp_all
qed simp

lemma init_cores_booted:
  "sm_init_cores env [0..<n] (s, k) = Some (s', k') \<Longrightarrow> booted 0 s \<Longrightarrow> booted n s'"
proof (induction n arbitrary: s' k')
  case (Suc n)
  then show ?case by (auto simp: init_cores_append bind_eq_Some_conv intro: init_core_step)
qed simp

lemma core_init_frame:
  "untrusted_regions (fold (platform_core_init env) cs s) = untrusted_regions s"
  "enclaves (fold (platform_core_init env) cs s) = enclaves s" "threads (fold (platform_core_init env) cs s) = threads s"
  by (induction cs arbitrary: s) (simp_all add: platform_core_init_def Let_def upd_csr_def)

lemma boot_state:
  assumes "sm_init env (s, k) = Some (s', k')" "power_on s"
  shows "booted NUM_CORES s'"
proof -
  obtain s1 s2 k2 where 1: "sm_init_shared env (fold (platform_core_init env) [0..<NUM_CORES] s) = Some s1"
    and 2: "send_ipi_many env 0 0 IPI_SOFT (prci_test 0 (hart_plic_init 0 (s1, k))) = Some (s2, k2)"
    and 3: "sm_init_cores env [0..<NUM_CORES] (s2, k2) = Some (s', k')"
    using assms(1) by (auto simp: sm_init_def bind_eq_Some_conv)
  have "power_on (fold (platform_core_init env) [0..<NUM_CORES] s)"
    using assms(2) by (simp add: power_on_def core_init_frame)
  from shared_sound[OF 1 this] have b: "booted 0 s1" by (simp add: booted_def)
  obtain s3 k3 where x: "prci_test 0 (hart_plic_init 0 (s1, k)) = (s3, k3)" "no_new_access s1 s3"
    by (auto simp: prci_test_def hart_plic_init_def Let_def no_new_access_def upd_csr_def)
  have "booted 0 s2"
    using booted_mono[OF send_many_no_new[OF 2[unfolded x(1)]] booted_mono[OF x(2) b]] .
  then show ?thesis by (rule init_cores_booted[OF 3])
qed

lemma boot_isolated: "sm_init env (s, k) = Some (s', k') \<Longrightarrow> power_on s \<Longrightarrow> isolated s'"
  using boot_state by (fastforce simp: booted_def isolated_def)

section \<open>Steps of the system\<close>

text \<open>The hardware lets a core access a region that is in one of its two bitmaps.\<close>

definition may_access :: "machine \<Rightarrow> nat \<Rightarrow> nat \<Rightarrow> bool" where
  "may_access s c i \<longleftrightarrow> bit (csr_mmrbm (csrs s c)) i \<or> bit (csr_memrbm (csrs s c)) i"

text \<open>
  Software on a core, the operating system or an enclave: it computes, writes memory it has access to, and takes the trap that
  leads into the monitor.  It does not write machine-mode registers.
\<close>

inductive software_step :: "nat \<Rightarrow> system \<Rightarrow> system \<Rightarrow> bool" where
  software: "(\<And>a. M a \<noteq> mem s a \<Longrightarrow> may_access s c (unat (addr_to_region_id a))) \<Longrightarrow>
     software_step c (s, k) (s\<lparr>mem := M, gpr := (gpr s)(c := g), pc := (pc s)(c := p), mtime := t,
       csrs := (csrs s)(c := (csrs s c)\<lparr>csr_mstatus := ms, csr_mepc := p, csr_mip := ip, csr_scounteren := sc\<rparr>)\<rparr>, k')"

inductive sm_step :: "platform_env \<Rightarrow> system \<Rightarrow> system \<Rightarrow> bool" for env where
  untrusted_trap: "c < NUM_CORES \<Longrightarrow> core_owner (cores s c) = OWNER_UNTRUSTED \<Longrightarrow>
     trap_vector_from_untrusted_step env c t0 (s, k) = Some x \<Longrightarrow> sm_step env (s, k) x"
| enclave_trap: "c < NUM_CORES \<Longrightarrow> core_owner (cores s c) \<noteq> OWNER_UNTRUSTED \<Longrightarrow>
     trap_vector_from_enclave_step env c (s, k) = Some x \<Longrightarrow> sm_step env (s, k) x"
| software_runs: "c < NUM_CORES \<Longrightarrow> software_step c x y \<Longrightarrow> sm_step env x y"

inductive sm_reach :: "platform_env \<Rightarrow> system \<Rightarrow> bool" for env where
  boot: "power_on s \<Longrightarrow> sm_init env (s, k) = Some x \<Longrightarrow> sm_reach env x"
| step: "sm_reach env x \<Longrightarrow> sm_step env x y \<Longrightarrow> sm_reach env y"

inductive_cases software_stepE: "software_step c x y"

lemma software_no_new: "software_step c (s, k) (s', k') \<Longrightarrow> no_new_access s s'"
  by (erule software_stepE) (simp add: no_new_access_def)

lemma unat_core: "c < NUM_CORES \<Longrightarrow> unat (of_nat c :: u64) = c"
  by (simp add: NUM_CORES_def unat_of_nat)

lemma finish_keeps:
  assumes "finish_call c k x = Some y" "\<And>z. x = Some z \<Longrightarrow> isolated (outcome z)"
  shows "isolated (fst (case y of Inl y \<Rightarrow> y | Inr y \<Rightarrow> y))"
proof -
  obtain z where z: "x = Some z" "y = (case z of Inl (v, s) \<Rightarrow> Inl (set_frame c 10 v s, k) | Inr s \<Rightarrow> Inr (s, k))"
    using assms(1) by (auto simp: finish_call_def)
  then show ?thesis using assms(2)[OF z(1)] isolated_mono[OF no_new_frame(1)] by (cases z) (auto simp: outcome_def)
qed

lemma ecall_untrusted_keeps:
  assumes "ecall_from_s_trap env c (s, k) = Some y" "isolated s" "c < NUM_CORES" "core_owner (cores s c) = OWNER_UNTRUSTED"
  shows "isolated (fst (leave_ecall c y))"
proof (rule leave_ecall_keeps, cases "KERNEL_ECALL_CODE_MIN \<le> trap_frame s c 17 \<and> trap_frame s c 17 \<le> KERNEL_ECALL_CODE_MAX")
  case True
  then show "isolated (fst (case y of Inl y \<Rightarrow> y | Inr y \<Rightarrow> y))"
    using assms(1,2) by (auto simp: ecall_from_s_trap_def Let_def intro: isolated_mono[OF sbi_no_new(1)])
next
  case False
  then have "finish_call c k (call_from_untrusted env (of_nat c) (trap_frame s c 17) (\<lambda>i. trap_frame s c (10 + i)) s) = Some y"
    using assms(1) unfolding ecall_from_s_trap_def Let_def prod.case if_not_P[OF False] by blast
  then show "isolated (fst (case y of Inl y \<Rightarrow> y | Inr y \<Rightarrow> y))"
    by (rule finish_keeps) (erule untrusted_call_keeps, use assms unat_core in simp_all)
qed

lemma ecall_enclave_keeps:
  assumes "ecall_from_enclave_trap env c (s, k) = Some y" "isolated s"
  shows "isolated (fst (leave_ecall c y))"
proof (rule leave_ecall_keeps, cases "KERNEL_ECALL_CODE_MIN \<le> trap_frame s c 17 \<and> trap_frame s c 17 \<le> KERNEL_ECALL_CODE_MAX")
  case True
  then show "isolated (fst (case y of Inl y \<Rightarrow> y | Inr y \<Rightarrow> y))"
    using assms by (auto simp: ecall_from_enclave_trap_def Let_def intro: isolated_mono[OF sbi_no_new(2)])
next
  case False
  then have "finish_call c k (call_from_enclave env (of_nat c) (trap_frame s c 17) (\<lambda>i. trap_frame s c (10 + i)) s) = Some y"
    using assms(1) unfolding ecall_from_enclave_trap_def Let_def prod.case if_not_P[OF False] by blast
  then show "isolated (fst (case y of Inl y \<Rightarrow> y | Inr y \<Rightarrow> y))"
    by (rule finish_keeps) (erule enclave_call_keeps, rule assms)
qed

lemma aex_save_no_new:
  "no_new_access s (unlock_regions L (upd_thread t (\<lambda>m. m\<lparr>t_aex_state := r m\<rparr>) (upd_locks f s)))"
  by (simp add: unlock_regions_eq no_new_access_def upd_thread_def)

lemma aex_keeps:
  assumes "sm_internal_enclave_aex env core s = Some s'" "isolated s"
  shows "isolated s'"
proof -
  let ?c = "unat core" let ?t = "core_thread (cores s ?c)" let ?r = "unat (addr_to_region_id ?t)"
  let ?u = "unlock_regions (no_regions(?r := True)) (upd_thread ?t (\<lambda>m. m\<lparr>t_aex_state :=
      (\<lambda>i. if i < NUM_REGISTERS then trap_frame s ?c i else t_aex_state m i)\<rparr>) (upd_locks (hold_region ?r) s))"
  have "Option.bind (sm_internal_perform_enclave_exit env core True ?u) (\<lambda>x. case x of Inl _ \<Rightarrow> None | Inr s \<Rightarrow> Some s) = Some s'"
    using assms(1) by (simp add: sm_internal_enclave_aex_def lock_unfold no_regions_def c_index_def Let_def cong: if_cong split: if_splits)
  then obtain z where "sm_internal_perform_enclave_exit env core True ?u = Some z" "z = Inr s'"
    by (cases "sm_internal_perform_enclave_exit env core True ?u") (auto split: sum.splits)
  with exit_keeps[OF isolated_mono[OF aex_save_no_new assms(2)]] show ?thesis by (fastforce simp: outcome_def)
qed

lemma emulation_keeps:
  "illegal_instruction_trap_handler env c (s, k) = Some y \<Longrightarrow> isolated s \<Longrightarrow> isolated (fst (leave_ecall c (Inl y)))"
  by (cases y) (auto intro!: leave_ecall_keeps intro: isolated_mono[OF emulation_no_new])

lemma m_soft_keeps: "handle_m_soft_interrupt c t0 (s, k) = Some x \<Longrightarrow> isolated s \<Longrightarrow> isolated (fst x)"
  by (cases x) (auto intro: isolated_mono[OF m_soft_no_new])

lemma untrusted_trap_keeps:
  assumes "trap_vector_from_untrusted_step env c t0 (s, k) = Some x" "isolated s" "c < NUM_CORES"
    "core_owner (cores s c) = OWNER_UNTRUSTED"
  shows "isolated (fst x)"
proof -
  obtain s1 h where s1: "trap_entry c s = Some s1" and h: "route_event trap_table interrupt_table (mcause k c) = Some h"
    using assms(1) by (auto simp: trap_vector_from_untrusted_step_def bind_eq_Some_conv)
  have i: "isolated s1" "isolated (save_regs c s1)" using no_new_entry[OF s1] assms(2) isolated_mono no_new_frame(2) by blast+
  have o: "core_owner (cores (save_regs c s1) c) = OWNER_UNTRUSTED" using no_new_entry[OF s1] assms(4) by (simp add: save_regs_def)
  show ?thesis using assms(1) i o assms(3)
    by (cases h) (auto simp: trap_vector_from_untrusted_step_def s1 h
        intro: isolated_mono[OF delegate_no_new] isolated_mono[OF mtimer_no_new] ecall_untrusted_keeps
          emulation_keeps m_soft_keeps)
qed

lemma enclave_trap_keeps:
  assumes "trap_vector_from_enclave_step env c (s, k) = Some x" "isolated s"
  shows "isolated (fst x)"
proof -
  obtain s1 h where s1: "trap_entry c s = Some s1" and h: "route_event enclave_trap_table enclave_interrupt_table (mcause k c) = Some h"
    using assms(1) by (auto simp: trap_vector_from_enclave_step_def bind_eq_Some_conv)
  have i: "isolated (save_regs c s1)"
    using no_new_entry[OF s1] assms(2) isolated_mono no_new_frame(2) by blast
  show ?thesis using assms(1) i
    by (cases h) (auto simp: trap_vector_from_enclave_step_def s1 h Let_def timer_interrupt_handler_def
        enclave_software_interrupt_handler_def intro: isolated_mono[OF leave_interrupt_no_new] ecall_enclave_keeps aex_keeps
        isolated_mono[OF leave_interrupt_no_new isolated_mono[OF llc_changes_no_new]])
qed

lemma reach_isolated: "sm_reach env x \<Longrightarrow> isolated (fst x)"
proof (induction rule: sm_reach.induct)
  case (boot s k x)
  then show ?case using boot_isolated by (cases x) auto
next
  case (step x y)
  from step(2,3) show ?case
    by (cases rule: sm_step.cases; cases x; cases y)
      (auto intro: isolated_mono[OF software_no_new] dest: untrusted_trap_keeps enclave_trap_keeps)
qed

section \<open>Boot returns\<close>

lemma cores_eq: "[0..<NUM_CORES] = [0, 1]" by (simp add: NUM_CORES_def upt_rec)

lemma init_core_metadata_returns:
  "i < NUM_CORES \<Longrightarrow> \<exists>s'. init_core_metadata env i s = Some s' \<and> core_locks (locks s') = (core_locks (locks s))(i := False)"
  by (simp add: init_core_metadata_def lock_unfold Let_def unat_core upd_core_def)

lemma init_region_metadata_returns:
  "i < NUM_REGIONS \<Longrightarrow> \<exists>s'. init_region_metadata i s = Some s' \<and> core_locks (locks s') = core_locks (locks s)"
  by (simp add: init_region_metadata_def lock_unfold Let_def upd_region_def unat_of_nat NUM_REGIONS_def)

lemma init_regions_return:
  "set is \<subseteq> {..<NUM_REGIONS} \<Longrightarrow> \<exists>s'. for_each init_region_metadata is s = Some s' \<and> core_locks (locks s') = core_locks (locks s)"
proof (induction "is" arbitrary: s)
  case (Cons i "is")
  then obtain s1 where "init_region_metadata i s = Some s1" "core_locks (locks s1) = core_locks (locks s)"
    using init_region_metadata_returns[of i s] by auto
  with Cons show ?case by fastforce
qed simp

definition unlocked :: "machine \<Rightarrow> bool" where
  "unlocked s \<longleftrightarrow> \<not> untrusted_state_lock (locks s) \<and> (\<forall>c<NUM_CORES. \<not> core_locks (locks s) c)"

lemma shared_returns: "\<exists>s'. sm_init_shared env s = Some s' \<and> unlocked s'"
proof -
  obtain s1 where 1: "init_core_metadata env 0 s = Some s1" "core_locks (locks s1) = (core_locks (locks s))(0 := False)"
    using init_core_metadata_returns[of 0 env s] by (auto simp: NUM_CORES_def)
  obtain s2 where 2: "init_core_metadata env 1 s1 = Some s2" "core_locks (locks s2) = (core_locks (locks s1))(1 := False)"
    using init_core_metadata_returns[of 1 env s1] by (auto simp: NUM_CORES_def)
  have "set [0..<NUM_REGIONS] \<subseteq> {..<NUM_REGIONS}" by auto
  then obtain s3 where 3: "for_each init_region_metadata [0..<NUM_REGIONS] s2 = Some s3" "core_locks (locks s3) = core_locks (locks s2)"
    using init_regions_return by blast
  have "for_each (init_core_metadata env) [0..<NUM_CORES] s = Some s2" using 1 2 by (simp add: cores_eq)
  then show ?thesis using 1 2 3
    by (auto simp: sm_init_shared_def unlocked_def lock_unfold init_llc_def init_mailboxes_def NUM_CORES_def less_Suc_eq upd_locks_def)
qed

lemma protection_locks: "locks (platform_initialize_memory_protection c s) = locks s"
  by (simp add: platform_initialize_memory_protection_def platform_update_memory_protection_def Let_def upd_defs)

lemma jump_locks: "locks (platform_jump_to_untrusted env p sp c fdt s) = locks s"
  by (simp add: platform_jump_to_untrusted_def Let_def upd_csr_def set_reg_def platform_clean_core_leave_args_def
      platform_purge_core_def)

lemma init_core_returns:
  assumes "unlocked s" "c < NUM_CORES"
  shows "\<exists>s' k'. sm_init_core env c (s, k) = Some (s', k') \<and> unlocked s'"
proof -
  obtain s1 k1 where k: "kernel_init_other_core c (s, k) = (s1, k1)" by (cases "kernel_init_other_core c (s, k)")
  have l: "locks s1 = locks s"
    using k by (auto simp: kernel_init_other_core_def prci_test_def hart_plic_init_def delegate_traps_def Let_def upd_csr_def)
  have free: "\<not> untrusted_state_lock (locks s)" "\<not> core_locks (locks s) c" using assms by (simp_all add: unlocked_def)
  have "\<exists>s'. sm_init_core env c (s, k) = Some (s', k1) \<and> locks s' = (locks s)\<lparr>untrusted_state_lock := False,
      core_locks := (core_locks (locks s))(c := False)\<rparr>"
    using free assms(2)
    by (simp add: sm_init_core_def k l lock_unfold Let_def unat_core protection_locks jump_locks upd_locks_def)
  then show ?thesis using assms(1) by (auto simp: unlocked_def)
qed

lemma send_loop_returns:
  "(\<And>i. i \<in> set is \<Longrightarrow> bit h i \<Longrightarrow> i < NUM_CORES) \<Longrightarrow>
     \<exists>s' k'. send_ipi_loop is h ev (s, k) = Some (s', k') \<and> locks s' = locks s"
proof (induction "is" arbitrary: s k)
  case (Cons i "is")
  obtain s1 k1 where "(if bit h i then hls_send_ipi i ev (s, k) else Some (s, k)) = Some (s1, k1)" "locks s1 = locks s"
    using Cons.prems[of i] by (cases "bit h i") (auto simp: hls_send_ipi_def send_ipi_def)
  moreover obtain s2 k2 where "send_ipi_loop is h ev (s1, k1) = Some (s2, k2)" "locks s2 = locks s1"
    using Cons.IH[of s1 k1] Cons.prems by auto
  ultimately show ?case by auto
qed simp

lemma two_harts:
  assumes "(h :: u64) \<le> 3" "bit h i"
  shows "i < NUM_CORES"
proof -
  have "unat h \<le> 3" using assms(1) by (simp add: word_le_nat_alt)
  then have "unat h = 0 \<or> unat h = 1 \<or> unat h = 2 \<or> unat h = 3" by arith
  then have "h = 0 \<or> h = 1 \<or> h = 2 \<or> h = 3" by (auto simp: word_eq_iff_unsigned[where 'a = nat])
  then show ?thesis using assms(2) by (auto simp: NUM_CORES_def bit_numeral_rec bit_1_iff split: nat.splits)
qed

lemma boot_returns:
  assumes "\<And>i. bit (hart_mask k) i \<Longrightarrow> i < NUM_CORES"
  shows "\<exists>s' k'. sm_init env (s, k) = Some (s', k')"
proof -
  obtain s1 where 1: "sm_init_shared env (fold (platform_core_init env) [0..<NUM_CORES] s) = Some s1" "unlocked s1"
    using shared_returns by blast
  obtain s2 k2 where 2: "prci_test 0 (hart_plic_init 0 (s1, k)) = (s2, k2)" "locks s2 = locks s1" "hart_mask k2 = hart_mask k"
    by (auto simp: prci_test_def hart_plic_init_def Let_def upd_csr_def)
  obtain s3 k3 where 3: "send_ipi_many env 0 0 IPI_SOFT (s2, k2) = Some (s3, k3)" "locks s3 = locks s2"
    using send_loop_returns[of "[0..<64]" "hart_mask k2" IPI_SOFT s2 k2] assms 2(3) by (auto simp: send_ipi_many_def Let_def)
  have u: "unlocked s3" using 1(2) 2(2) 3(2) by (simp add: unlocked_def)
  obtain s4 k4 where 4: "sm_init_core env 0 (s3, k3) = Some (s4, k4)" "unlocked s4"
    using init_core_returns[OF u, of 0 env k3] by (auto simp: NUM_CORES_def)
  obtain s5 k5 where 5: "sm_init_core env 1 (s4, k4) = Some (s5, k5)"
    using init_core_returns[OF 4(2), of 1 env k4] by (auto simp: NUM_CORES_def)
  show ?thesis using 1(1) 2(1) 3(1) 4(1) 5 by (simp add: sm_init_def cores_eq)
qed

section \<open>Properties\<close>

lemma reach_access:
  assumes "sm_reach env (s, k)" "c < NUM_CORES" "i < NUM_REGIONS" "may_access s c i"
  shows "owned_by s i OWNER_UNTRUSTED \<or> owned_by s i (core_owner (cores s c)) \<and> core_owner (cores s c) \<noteq> OWNER_SM \<or> blocked s i"
proof -
  have "bitmaps_sound s c" using reach_isolated[OF assms(1)] assms(2) by (simp add: isolated_def)
  then show ?thesis using assms(3,4) by (auto simp: bitmaps_sound_def may_access_def)
qed

lemma reach_monitor: "sm_reach env (s, k) \<Longrightarrow> owned_by s 0 OWNER_SM"
  using reach_isolated by (fastforce simp: isolated_def monitor_owned_def)

text \<open>A booted machine.\<close>

lemma sample_power_on: "power_on (sample\<lparr>untrusted_regions := (\<lambda>_. False)\<rparr>)"
  by (simp add: power_on_def zero_enclave_def zero_thread_def)

lemma sample_boot: "\<exists>s k. sm_reach sample_env (s, k) \<and> core_owner (cores s 0) = OWNER_UNTRUSTED"
proof -
  have "hart_mask (sample_kernel 0 0) \<le> 3" by (simp add: sample_kernel_def)
  note this[THEN two_harts]
  from boot_returns[OF this] obtain s k where
    "sm_init sample_env (sample\<lparr>untrusted_regions := (\<lambda>_. False)\<rparr>, sample_kernel 0 0) = Some (s, k)" by blast
  moreover from boot_state[OF this sample_power_on] have "core_owner (cores s 0) = OWNER_UNTRUSTED"
    by (simp add: booted_def NUM_CORES_def)
  ultimately show ?thesis using sm_reach.boot[OF sample_power_on] by blast
qed







end
