(* ===== verification/LLC_Protocol.thy ===== *)
theory LLC_Protocol
  imports LLC
begin

text \<open>
  The protocol that stops all cores, for every interleaving: one core leads at a time, the others stand still in its
  critical section, the call ends, and its effect is the one of the sequential function.
\<close>

section \<open>The invariant of the protocol\<close>

primrec gathers :: "llc_pc \<Rightarrow> bool" where
  "gathers Running = False"
| "gathers (Arriving j) = True"
| "gathers (Working j) = True"
| "gathers (Leaving r) = False"
| "gathers Stopped = False"

definition leads :: "llc_pc \<Rightarrow> bool" where
  "leads x \<longleftrightarrow> gathers x \<or> (\<exists>r. x = Leaving r)"

lemma leads_simps [simp]:
  "leads (Arriving j)" "leads (Working j)" "leads (Leaving r)" "\<not> leads Running" "\<not> leads Stopped"
  by (simp_all add: leads_def)

definition stopped :: "(nat \<Rightarrow> llc_pc) \<Rightarrow> nat" where
  "stopped p = card {c. p c = Stopped}"

definition one_leader :: "llc_state \<Rightarrow> bool" where
  "one_leader = (\<lambda>(s, p). (\<forall>c. p c \<noteq> Running \<longrightarrow> c < NUM_CORES) \<and> (\<forall>c d. leads (p c) \<longrightarrow> leads (p d) \<longrightarrow> c = d) \<and>
     (llc_busy (llc_sync s) \<longleftrightarrow> (\<exists>c. leads (p c))) \<and> (llc_wait (llc_sync s) \<longleftrightarrow> (\<exists>c. gathers (p c))))"

definition counted :: "llc_state \<Rightarrow> bool" where
  "counted = (\<lambda>(s, p). (llc_wait (llc_sync s) \<longrightarrow> unat (llc_waiting (llc_sync s)) \<le> 1 + stopped p) \<and>
     (\<forall>c j. p c = Working j \<longrightarrow> NUM_CORES \<le> unat (llc_waiting (llc_sync s))))"

text \<open>When every core enters the handler once for each change, the counters are exact.\<close>

definition exact :: "llc_state \<Rightarrow> bool" where
  "exact = (\<lambda>(s, p). (llc_wait (llc_sync s) \<longrightarrow> unat (llc_waiting (llc_sync s)) = 1 + stopped p) \<and>
     (\<forall>c r. p c = Leaving r \<longrightarrow> unat (llc_left (llc_sync s)) + stopped p = NUM_CORES) \<and>
     (\<not> llc_busy (llc_sync s) \<longrightarrow> stopped p = 0))"

lemma all_cores_small: "unat w \<le> NUM_CORES \<Longrightarrow> all_cores w \<longleftrightarrow> NUM_CORES \<le> unat w"
proof -
  assume "unat w \<le> NUM_CORES"
  then have "unat w < 2 ^ 31" by (simp add: NUM_CORES_def)
  then have w: "uint w < 2 ^ 31" by (metis nat_less_numeral_power_cancel_iff unat_eq_nat_uint)
  then have "uint (ucast w :: u32) = uint w" by (simp add: unsigned_ucast_eq take_bit_int_eq_self)
  moreover have "signed_take_bit 31 (uint w) = uint w"
    by (rule signed_take_bit_int_eq_self) (use w order.trans[OF _ uint_ge_0[of w]] in simp_all)
  ultimately have "sint (ucast w :: u32) = int (unat w)" by (simp add: sint_uint)
  then show ?thesis unfolding all_cores_def by (simp only: of_nat_le_iff)
qed


lemma stopped_finite: "one_leader (s, p) \<Longrightarrow> finite {c. p c = Stopped}"
  by (rule finite_subset[of _ "{..<NUM_CORES}"]) (auto simp: one_leader_def)

lemma stopped_upd:
  assumes "one_leader (s, p)"
  shows "p c \<noteq> Stopped \<Longrightarrow> x \<noteq> Stopped \<Longrightarrow> stopped (p(c := x)) = stopped p"
    and "p c \<noteq> Stopped \<Longrightarrow> stopped (p(c := Stopped)) = Suc (stopped p)"
    and "p c = Stopped \<Longrightarrow> x \<noteq> Stopped \<Longrightarrow> Suc (stopped (p(c := x))) = stopped p"
proof -
  note f = stopped_finite[OF assms]
  have 1: "{d. (p(c := x)) d = Stopped} = {d. p d = Stopped}" if "p c \<noteq> Stopped" "x \<noteq> Stopped" using that by auto
  have 2: "{d. (p(c := Stopped)) d = Stopped} = insert c {d. p d = Stopped}" by auto
  have 3: "{d. (p(c := x)) d = Stopped} = {d. p d = Stopped} - {c}" if "x \<noteq> Stopped" using that by auto
  show "p c \<noteq> Stopped \<Longrightarrow> x \<noteq> Stopped \<Longrightarrow> stopped (p(c := x)) = stopped p" using 1 by (simp add: stopped_def)
  show "p c \<noteq> Stopped \<Longrightarrow> stopped (p(c := Stopped)) = Suc (stopped p)" using 2 f by (simp add: stopped_def)
  show "p c = Stopped \<Longrightarrow> x \<noteq> Stopped \<Longrightarrow> Suc (stopped (p(c := x))) = stopped p"
    unfolding stopped_def 3 using card_Suc_Diff1[OF f, of c] by (simp del: card_Diff_insert)
qed

lemma stopped_bound:
  assumes "one_leader (s, p)" "leads (p c)"
  shows "stopped p < NUM_CORES"
proof -
  have "{d. p d = Stopped} \<subseteq> {..<NUM_CORES} - {c}" using assms by (auto simp: one_leader_def)
  from card_mono[OF _ this] have "stopped p \<le> card ({..<NUM_CORES} - {c})" by (simp add: stopped_def)
  moreover have "p c \<noteq> Running" using assms(2) by auto
  then have "c < NUM_CORES" using assms(1) by (simp add: one_leader_def)
  ultimately show ?thesis by simp
qed

lemma gathers_leads [simp]: "gathers x \<Longrightarrow> leads x"
  by (simp add: leads_def)

lemma one_leader_upd:
  assumes o: "one_leader (s, p)" and c: "c < NUM_CORES"
    and l: "leads x \<Longrightarrow> leads (p c) \<or> \<not> llc_busy (llc_sync s)"
    and b: "llc_busy (llc_sync s') \<longleftrightarrow> leads x \<or> (\<exists>d. d \<noteq> c \<and> leads (p d))"
    and w: "llc_wait (llc_sync s') \<longleftrightarrow> gathers x \<or> (\<exists>d. d \<noteq> c \<and> gathers (p d))"
  shows "one_leader (s', p(c := x))"
proof -
  have "(\<forall>d. (p(c := x)) d \<noteq> Running \<longrightarrow> d < NUM_CORES)" using o c by (simp add: one_leader_def)
  moreover have "\<forall>d e. leads ((p(c := x)) d) \<longrightarrow> leads ((p(c := x)) e) \<longrightarrow> d = e"
    using o l by (simp add: one_leader_def) blast
  moreover have "llc_busy (llc_sync s') \<longleftrightarrow> (\<exists>d. leads ((p(c := x)) d))" using b by auto
  moreover have "llc_wait (llc_sync s') \<longleftrightarrow> (\<exists>d. gathers ((p(c := x)) d))" using w by auto
  ultimately show ?thesis unfolding one_leader_def prod.case by (intro conjI)
qed

lemma leader_alone:
  assumes "one_leader (s, p)" "leads (p c)"
  shows "c < NUM_CORES" "llc_busy (llc_sync s)" "llc_wait (llc_sync s) \<longleftrightarrow> gathers (p c)"
    "d \<noteq> c \<Longrightarrow> \<not> leads (p d)" "d \<noteq> c \<Longrightarrow> \<not> gathers (p d)"
proof -
  have "p c \<noteq> Running" using assms(2) by auto
  then show "c < NUM_CORES" using assms(1) by (simp add: one_leader_def)
  show "llc_busy (llc_sync s)" using assms by (auto simp: one_leader_def)
  show n: "d \<noteq> c \<Longrightarrow> \<not> leads (p d)" for d using assms unfolding one_leader_def by blast
  show g: "d \<noteq> c \<Longrightarrow> \<not> gathers (p d)" for d using n gathers_leads by blast
  have "llc_wait (llc_sync s) \<longleftrightarrow> (\<exists>d. gathers (p d))" using assms(1) unfolding one_leader_def prod.case by (elim conjE)
  then show "llc_wait (llc_sync s) \<longleftrightarrow> gathers (p c)" using g by metis
qed

lemma bystander:
  assumes "one_leader (s, p)" "\<not> leads (p c)"
  shows "llc_busy (llc_sync s) \<longleftrightarrow> (\<exists>d. d \<noteq> c \<and> leads (p d))" "llc_wait (llc_sync s) \<longleftrightarrow> (\<exists>d. d \<noteq> c \<and> gathers (p d))"
proof -
  have o: "(llc_busy (llc_sync s) \<longleftrightarrow> (\<exists>d. leads (p d))) \<and> (llc_wait (llc_sync s) \<longleftrightarrow> (\<exists>d. gathers (p d)))"
    using assms(1) unfolding one_leader_def prod.case by (elim conjE, intro conjI)
  have "\<not> gathers (p c)" using assms(2) gathers_leads by blast
  with o assms(2) show "llc_busy (llc_sync s) \<longleftrightarrow> (\<exists>d. d \<noteq> c \<and> leads (p d))"
    "llc_wait (llc_sync s) \<longleftrightarrow> (\<exists>d. d \<noteq> c \<and> gathers (p d))" by metis+
qed

lemma not_running_core: "one_leader (s, p) \<Longrightarrow> p c \<noteq> Running \<Longrightarrow> c < NUM_CORES"
  by (simp add: one_leader_def)

lemma one_leader_step:
  assumes "llc_step once x y" "one_leader x" shows "one_leader y"
  using assms
proof cases
  case (arrived p c j s)
  note o = assms(2)[unfolded arrived(1)] and l = leader_alone[of s p c]
  show ?thesis unfolding arrived by (rule one_leader_upd[OF o]) (use l o arrived in auto)
next
  case (work p c j s r s')
  note o = assms(2)[unfolded work(1)] and l = leader_alone[of s p c]
  show ?thesis unfolding work by (rule one_leader_upd[OF o]) (use l o work job_critical_sync[OF work(4)] in auto)
next
  case (finish p c r s s')
  note o = assms(2)[unfolded finish(1)] and l = leader_alone[of s p c]
  show ?thesis unfolding finish
    by (rule one_leader_upd[OF o]) (use l o finish in \<open>auto simp: llc_done_def llc_locked_def bus_fence_def split: if_splits\<close>)
next
  case (stop c p s s')
  note o = assms(2)[unfolded stop(1)]
  then show ?thesis unfolding stop
    by (intro one_leader_upd[OF o]) (use bystander[OF o, of c] stop in \<open>auto simp: llc_arrive_def split: if_splits\<close>)
next
  case (resume p c s s')
  note o = assms(2)[unfolded resume(1)]
  then show ?thesis unfolding resume
    by (intro one_leader_upd[OF o])
      (use bystander[OF o, of c] resume not_running_core[OF o, of c] in \<open>auto simp: llc_poll_def split: if_splits\<close>)
qed

lemma one_leader_start:
  assumes "llc_start env x y" "one_leader x" shows "one_leader y"
proof -
  obtain s p s' p' where xy: "x = (s, p)" "y = (s', p')" by fastforce
  from llc_start_claims[OF assms(1)[unfolded xy]] obtain c j where
    "c < NUM_CORES" "p c = Running" "p' = p(c := Arriving j)" "llc_claimed s s'" .
  then show ?thesis unfolding xy using assms(2)[unfolded xy]
    by (auto intro!: one_leader_upd simp: llc_claimed_def dest: bystander[of s p c])
qed

lemma unat_Suc_word: "unat (w :: u64) < 2 ^ 63 \<Longrightarrow> unat (w + 1) = Suc (unat w)"
  by (simp add: unat_word_ariths)

lemma counted_step:
  assumes "llc_step once x y" "one_leader x" "counted x" shows "counted y"
  using assms
proof cases
  case (arrived p c j s)
  note o = assms(2)[unfolded arrived(1)]
  have l: "leads (p c)" "gathers (p c)" using arrived by simp_all
  from leader_alone[OF o l(1)] l have w: "llc_wait (llc_sync s)" by simp
  then have "unat (llc_waiting (llc_sync s)) \<le> NUM_CORES"
    using assms(3) stopped_bound[OF o l(1)] by (simp add: arrived counted_def)
  then have "NUM_CORES \<le> unat (llc_waiting (llc_sync s))" using arrived(5) all_cores_small by blast
  then show ?thesis using assms(3) w arrived stopped_upd(1)[OF o, of c "Working j"] by (auto simp: counted_def)
next
  case (work p c j s r s')
  note o = assms(2)[unfolded work(1)] and k = job_critical_sync[OF work(4)]
  have "leads (p c)" using work by simp
  from leader_alone(5)[OF o this] show ?thesis using k by (fastforce simp: work counted_def)
next
  case (finish p c r s s')
  note o = assms(2)[unfolded finish(1)]
  have "leads (p c)" using finish by simp
  from leader_alone(3,5)[OF o this] show ?thesis using finish
    by (fastforce simp: counted_def llc_done_def llc_locked_def bus_fence_def split: if_splits)
next
  case (stop c p s s')
  note o = assms(2)[unfolded stop(1)]
  from stop have s': "s' = s\<lparr>llc_sync := (llc_sync s)\<lparr>llc_waiting := llc_waiting (llc_sync s) + 1\<rparr>\<rparr>"
    and b: "llc_busy (llc_sync s)" by (auto simp: llc_arrive_def split: if_splits)
  show ?thesis
  proof (cases "llc_wait (llc_sync s)")
    case True
    from b o obtain d where "leads (p d)" unfolding one_leader_def by auto
    from stopped_bound[OF o this] True assms(3) stop have "unat (llc_waiting (llc_sync s)) < 2 ^ 63"
      by (simp add: counted_def NUM_CORES_def)
    from unat_Suc_word[OF this] show ?thesis
      using assms(3) stop s' stopped_upd(2)[OF o, of c] by (auto simp: counted_def)
  next
    case False
    then have "\<not> gathers (p d)" for d using o unfolding one_leader_def by auto
    then have "p d \<noteq> Working j" for d j by (metis gathers.simps(3))
    then show ?thesis using False stop s' by (auto simp: counted_def)
  qed
next
  case (resume p c s s')
  note o = assms(2)[unfolded resume(1)]
  from resume have "\<not> llc_wait (llc_sync s)" "\<not> llc_wait (llc_sync s')" by (auto simp: llc_poll_def split: if_splits)
  moreover from this o have "\<not> gathers (p d)" for d unfolding one_leader_def by auto
  then have "p d \<noteq> Working j" for d j by (metis gathers.simps(3))
  ultimately show ?thesis using resume by (auto simp: counted_def)
qed

lemma counted_start:
  assumes "llc_start env x y" "one_leader x" shows "counted y"
proof -
  obtain s p s' p' where xy: "x = (s, p)" "y = (s', p')" by fastforce
  note o = assms(2)[unfolded xy]
  from llc_start_claims[OF assms(1)[unfolded xy]] obtain c j where
    c: "c < NUM_CORES" "p c = Running" "p' = p(c := Arriving j)" "llc_claimed s s'" .
  then have "\<not> leads (p d)" for d using o unfolding one_leader_def llc_claimed_def by auto
  then have "p d \<noteq> Working j" for d j by (metis leads_simps(2))
  then show ?thesis using c by (auto simp: xy counted_def llc_claimed_def)
qed

lemma llc_reach_inv: "llc_reach env once x \<Longrightarrow> one_leader x \<and> counted x"
proof (induction rule: llc_reach.induct)
  case (init s)
  then show ?case by (simp add: one_leader_def counted_def)
next
  case (step x y)
  have "one_leader y \<and> counted y" if "llc_other x y"
    using that step.IH by cases (auto simp: one_leader_def counted_def)
  then show ?case using step one_leader_step one_leader_start counted_step counted_start by blast
qed

lemma working_alone:
  assumes "one_leader (s, p)" "counted (s, p)" "p c = Working j" "d < NUM_CORES" "d \<noteq> c"
  shows "p d = Stopped"
proof (rule ccontr)
  assume "p d \<noteq> Stopped"
  have l: "leads (p c)" using assms by simp
  have "{e. p e = Stopped} \<subseteq> {..<NUM_CORES} - {c, d}"
    using assms \<open>p d \<noteq> Stopped\<close> not_running_core[OF assms(1)] by auto
  from card_mono[OF _ this] have "stopped p \<le> card ({..<NUM_CORES} - {c, d})" by (simp add: stopped_def)
  also have "\<dots> = NUM_CORES - 2" using assms leader_alone(1)[OF assms(1) l] by (simp add: card_Diff_subset)
  finally have "stopped p \<le> NUM_CORES - 2" .
  moreover have "llc_wait (llc_sync s)" using leader_alone(3)[OF assms(1) l] assms(3) by simp
  then have "NUM_CORES \<le> 1 + stopped p" using assms(2,3) by (force simp: counted_def)
  ultimately show False using assms by (simp add: NUM_CORES_def)
qed

text \<open>
  C17.  The other cores stand still while the LLC changes.  However the cores interleave, and whenever
  they enter the interrupt handler, once a core is in the critical section of a flush or of a change of
  the partition every other core is inside \<^verbatim>\<open>handle_llc_changes\<close>, and no step of another core is
  possible before the critical section is over.
\<close>

theorem llc_critical_exclusive:
  assumes "llc_reach env once (s, p)" "p c = Working j"
  shows "(\<forall>d. d < NUM_CORES \<and> d \<noteq> c \<longrightarrow> p d = Stopped) \<and>
    (llc_step once (s, p) (s', p') \<longrightarrow> (\<exists>r. job_critical c j s = Some (r, s') \<and> p' = p(c := Leaving r))) \<and>
    \<not> llc_start env (s, p) (s', p') \<and> \<not> llc_other (s, p) (s', p')"
proof -
  from llc_reach_inv[OF assms(1)] have o: "one_leader (s, p)" and k: "counted (s, p)" by simp_all
  note st = working_alone[OF o k assms(2)]
  have l: "leads (p c)" using assms by simp
  have run: "p d \<noteq> Running" if "d < NUM_CORES" for d using st[OF that] assms(2) by (cases "d = c") auto
  have w: "llc_wait (llc_sync s)" using leader_alone(3)[OF o l] assms(2) by simp
  have own: "d = c" if "p d = Arriving i \<or> p d = Working i \<or> p d = Leaving r" for d i r
    using leader_alone(4)[OF o l, of d] that by (cases "d = c") auto
  have "\<exists>r. job_critical c j s = Some (r, s') \<and> p' = p(c := Leaving r)" if "llc_step once (s, p) (s', p')"
    using that
  proof cases
    case (work d i r)
    then show ?thesis using own[of d i] assms(2) by auto
  next
    case (arrived d i)
    then show ?thesis using own[of d i] assms(2) by auto
  next
    case (finish d r)
    then show ?thesis using own[of d _ r] assms(2) by auto
  next
    case (stop d)
    then show ?thesis using run by blast
  next
    case (resume d)
    then show ?thesis using w by (simp add: llc_poll_def split: if_splits)
  qed
  moreover have "\<not> llc_start env (s, p) (s', p')" using run by (auto elim!: llc_start_claims)
  moreover have "\<not> llc_other (s, p) (s', p')" using run by (auto elim!: llc_other.cases)
  ultimately show ?thesis using st by blast
qed

lemma exact_step:
  assumes "llc_step True x y" "one_leader x" "counted x" "exact x" shows "exact y"
  using assms
proof cases
  case (arrived p c j s)
  note o = assms(2)[unfolded arrived(1)]
  show ?thesis using assms(4) arrived stopped_upd(1)[OF o, of c "Working j"] by (auto simp: exact_def split: if_splits)
next
  case (work p c j s r s')
  note o = assms(2)[unfolded work(1)] and k = job_critical_sync[OF work(4)]
  have l: "leads (p c)" using work by simp
  have "llc_wait (llc_sync s)" using leader_alone(3)[OF o l] work by simp
  with assms(3,4) work stopped_bound[OF o l] have "1 + stopped p = NUM_CORES" by (fastforce simp: exact_def counted_def)
  then show ?thesis using k work stopped_upd(1)[OF o, of c "Leaving r"] leader_alone(2)[OF o l] by (auto simp: exact_def)
next
  case (finish p c r s s')
  note o = assms(2)[unfolded finish(1)]
  have l: "leads (p c)" using finish by simp
  have "unat (llc_left (llc_sync s)) + stopped p = NUM_CORES" using assms(4) finish by (auto simp: exact_def)
  moreover from this have "NUM_CORES \<le> unat (llc_left (llc_sync s))" using finish(4) all_cores_small by fastforce
  ultimately have "stopped p = 0" by simp
  moreover have "p d \<noteq> Leaving r'" if "d \<noteq> c" for d r' using leader_alone(4)[OF o l that] by auto
  ultimately show ?thesis using finish stopped_upd(1)[OF o, of c Running] leader_alone(3)[OF o l]
    by (auto simp: exact_def llc_done_def llc_locked_def bus_fence_def split: if_splits)
next
  case (stop c p s s')
  note o = assms(2)[unfolded stop(1)]
  from stop have w: "llc_wait (llc_sync s)" by simp
  then obtain d where d: "gathers (p d)" "leads (p d)" using o unfolding one_leader_def by auto
  from stopped_bound[OF o d(2)] w assms(4) stop have "unat (llc_waiting (llc_sync s)) < 2 ^ 63"
    by (simp add: exact_def NUM_CORES_def)
  from unat_Suc_word[OF this] have "unat (llc_waiting (llc_sync s')) = 1 + stopped (p(c := Stopped))"
    using assms(4) stop w stopped_upd(2)[OF o, of c] by (auto simp: exact_def llc_arrive_def split: if_splits)
  moreover have "p e \<noteq> Leaving r" for e r using leader_alone(4)[OF o d(2), of e] d by (cases "e = d") auto
  ultimately show ?thesis using stop leader_alone(2)[OF o d(2)] by (auto simp: exact_def llc_arrive_def split: if_splits)
next
  case (resume p c s s')
  note o = assms(2)[unfolded resume(1)] and u = stopped_upd(3)[OF o, of c Running]
  from resume have n: "\<not> llc_wait (llc_sync s)" and s': "s' = s\<lparr>llc_sync := (llc_sync s)\<lparr>llc_left := llc_left (llc_sync s) + 1\<rparr>\<rparr>"
    by (auto simp: llc_poll_def split: if_splits)
  have b: "llc_busy (llc_sync s)" using assms(4) resume u by (auto simp: exact_def)
  have "unat (llc_left (llc_sync s) + 1) + stopped (p(c := Running)) = NUM_CORES" if "p d = Leaving r" for d r
  proof -
    have e: "unat (llc_left (llc_sync s)) + stopped p = NUM_CORES" using assms(4) that resume by (auto simp: exact_def)
    then have "unat (llc_left (llc_sync s)) < 2 ^ 63" by (simp add: NUM_CORES_def)
    from unat_Suc_word[OF this] show ?thesis using u resume e by simp
  qed
  then show ?thesis using n b resume s' by (auto simp: exact_def split: if_splits)
qed

lemma exact_start:
  assumes "llc_start env x y" "one_leader x" "exact x" shows "exact y"
proof -
  obtain s p s' p' where xy: "x = (s, p)" "y = (s', p')" by fastforce
  note o = assms(2)[unfolded xy]
  from llc_start_claims[OF assms(1)[unfolded xy]] obtain c j where
    c: "c < NUM_CORES" "p c = Running" "p' = p(c := Arriving j)" "llc_claimed s s'" .
  then have "\<not> leads (p d)" for d using o unfolding one_leader_def llc_claimed_def by auto
  then have "p d \<noteq> Leaving r" for d r by (metis leads_simps(3))
  then show ?thesis using c assms(3) stopped_upd(1)[OF o, of c "Arriving j"] by (auto simp: xy exact_def llc_claimed_def)
qed

lemma llc_reach_exact: "llc_reach env True x \<Longrightarrow> exact x \<and> \<not> llc_lock (llc_sync (fst x))"
proof (induction rule: llc_reach.induct)
  case (init s)
  then show ?case by (simp add: exact_def stopped_def)
next
  case (step x y)
  from llc_reach_inv[OF step.hyps(1)] have i: "one_leader x" "counted x" by simp_all
  have "exact y" if "llc_other x y" using that step.IH by cases (auto simp: exact_def)
  then have "exact y" using step i exact_step exact_start by blast
  moreover have "\<not> llc_lock (llc_sync (fst y))" if "llc_step True x y"
    using that step.IH by cases (auto simp: llc_done_def llc_locked_def bus_fence_def llc_arrive_def llc_poll_def
      dest: job_critical_sync split: if_splits)
  moreover have "\<not> llc_lock (llc_sync (fst y))" if "llc_start env x y"
    using that by (cases x; cases y) (auto elim!: llc_start_claims simp: llc_claimed_def)
  moreover have "\<not> llc_lock (llc_sync (fst y))" if "llc_other x y"
    using that step.IH by cases auto
  ultimately show ?case using step.hyps(2) by blast
qed

text \<open>How many steps of the protocol are left, when \<open>c\<close> is the core that makes the call.\<close>

definition llc_rank :: "nat \<Rightarrow> (nat \<Rightarrow> llc_pc) \<Rightarrow> nat" where
  "llc_rank c p = (case p c of Arriving j \<Rightarrow> 2 * NUM_CORES + 2 - stopped p | Working j \<Rightarrow> NUM_CORES + 2
     | Leaving r \<Rightarrow> 1 + stopped p | _ \<Rightarrow> 0)"

lemma some_running:
  assumes "one_leader (s, p)" "leads (p c)" "1 + stopped p < NUM_CORES"
  shows "\<exists>d < NUM_CORES. p d = Running"
proof (rule ccontr)
  assume "\<not> ?thesis"
  then have "{..<NUM_CORES} \<subseteq> insert c {d. p d = Stopped}"
    using leader_alone(4)[OF assms(1,2)] by (auto) (metis llc_pc.exhaust leads_simps(1,2,3))
  from card_mono[OF _ this] stopped_finite[OF assms(1)] have "NUM_CORES \<le> Suc (stopped p)"
    using card_insert_le_m1 by (auto simp: stopped_def card_insert_if split: if_splits)
  with assms(3) show False by simp
qed

lemma rank_decreases:
  assumes "one_leader (s, p)" "counted (s, p)" "exact (s, p)" "leads (p c)" "llc_step True (s, p) (s', p')"
  shows "llc_rank c p' < llc_rank c p"
proof -
  note o = assms(1) and al = leader_alone[OF assms(1,4)] and sb = stopped_bound[OF assms(1,4)]
  show ?thesis using assms(5)
  proof cases
    case (arrived d j)
    then have "d = c" using al(4)[of d] by (cases "d = c") auto
    then show ?thesis using arrived sb stopped_upd(1)[OF o, of c "Working j"] by (simp add: llc_rank_def)
  next
    case (work d j r)
    then have "d = c" using al(4)[of d] by (cases "d = c") auto
    then show ?thesis using work sb stopped_upd(1)[OF o, of c "Leaving r"] by (simp add: llc_rank_def)
  next
    case (finish d r)
    then have "d = c" using al(4)[of d] by (cases "d = c") auto
    then show ?thesis using finish by (simp add: llc_rank_def)
  next
    case (stop d)
    then have "d \<noteq> c" "gathers (p c)" using assms(4) al(3) by auto
    moreover have "stopped (p(d := Stopped)) < NUM_CORES"
      using stopped_bound[OF one_leader_step[OF assms(5) o, unfolded stop], of c] \<open>d \<noteq> c\<close> assms(4) by simp
    moreover have "p c \<noteq> Working j" for j using working_alone[OF o assms(2), of c j d] stop \<open>d \<noteq> c\<close> by auto
    ultimately show ?thesis using stop stopped_upd(2)[OF o, of d]
      by (cases "p c") (auto simp: llc_rank_def)
  next
    case (resume d)
    then have "d \<noteq> c" "\<not> gathers (p c)" using assms(4) al(3) by (auto simp: llc_poll_def split: if_splits)
    then show ?thesis using resume assms(4) stopped_upd(3)[OF o, of d Running] by (cases "p c") (auto simp: llc_rank_def)
  qed
qed



section \<open>Interleaved runs and the functions agree\<close>

definition with_waiting :: "u64 \<Rightarrow> machine \<Rightarrow> machine" where
  "with_waiting n s = s\<lparr>llc_sync := (llc_sync s)\<lparr>llc_waiting := n\<rparr>\<rparr>"

definition with_left :: "u64 \<Rightarrow> machine \<Rightarrow> machine" where
  "with_left n s = s\<lparr>llc_sync := (llc_sync s)\<lparr>llc_left := n\<rparr>\<rparr>"

lemma with_simps [simp]:
  "llc_sync (with_waiting n s) = (llc_sync s)\<lparr>llc_waiting := n\<rparr>" "llc_sync (with_left n s) = (llc_sync s)\<lparr>llc_left := n\<rparr>"
  "with_waiting n (with_waiting m s) = with_waiting n s" "with_left n (with_left m s) = with_left n s"
  "with_waiting (llc_waiting (llc_sync s)) s = s" "with_left (llc_left (llc_sync s)) s = s"
  by (simp_all add: with_waiting_def with_left_def)

lemma cores_arrive:
  "\<not> llc_lock (llc_sync s) \<Longrightarrow> llc_busy (llc_sync s) \<Longrightarrow>
   cores_answer llc_arrive is s = Some (with_waiting (llc_waiting (llc_sync s) + of_nat (length is)) s)"
  by (induction "is" arbitrary: s) (simp_all add: llc_arrive_def with_waiting_def[symmetric] algebra_simps)

lemma cores_poll:
  "\<not> llc_lock (llc_sync s) \<Longrightarrow> \<not> llc_wait (llc_sync s) \<Longrightarrow>
   cores_answer llc_poll is s = Some (with_left (llc_left (llc_sync s) + of_nat (length is)) s)"
  by (induction "is" arbitrary: s) (simp_all add: llc_poll_def with_left_def[symmetric] algebra_simps)

lemma length_others: "c < NUM_CORES \<Longrightarrow> length (filter (\<lambda>i. i \<noteq> c) [0..<NUM_CORES]) = NUM_CORES - 1"
proof -
  assume c: "c < NUM_CORES"
  have "length (filter (\<lambda>i. i \<noteq> c) [0..<NUM_CORES]) = card ({..<NUM_CORES} - {c})"
    by (subst distinct_card[symmetric]) (auto intro: arg_cong[where f = card])
  then show ?thesis using c by simp
qed

lemma all_cores_all: "all_cores (of_nat NUM_CORES)"
  using all_cores_small[of "of_nat NUM_CORES"] by (simp add: NUM_CORES_def)

definition claimed :: "machine \<Rightarrow> bool" where
  "claimed s \<longleftrightarrow> llc_busy (llc_sync s) \<and> llc_wait (llc_sync s) \<and> \<not> llc_lock (llc_sync s) \<and> llc_waiting (llc_sync s) = 1"

text \<open>The function, written out.\<close>

lemma rendezvous_eq:
  assumes "c < NUM_CORES" "claimed s"
  shows "llc_rendezvous c j s = do { (r, s) \<leftarrow> job_critical c j (with_waiting (of_nat NUM_CORES) s);
     s \<leftarrow> llc_done (with_left (of_nat NUM_CORES) s); Some (r, s) }"
proof -
  have n: "1 + of_nat (NUM_CORES - 1) = (of_nat NUM_CORES :: u64)" by (simp add: NUM_CORES_def)
  have "cores_answer llc_arrive (filter (\<lambda>i. i \<noteq> c) [0..<NUM_CORES]) s = Some (with_waiting (of_nat NUM_CORES) s)"
    using assms n by (simp add: cores_arrive length_others claimed_def del: of_nat_diff)
  moreover have "cores_answer llc_poll (filter (\<lambda>i. i \<noteq> c) [0..<NUM_CORES]) t = Some (with_left (of_nat NUM_CORES) t)"
    if "job_critical c j (with_waiting (of_nat NUM_CORES) s) = Some (r, t)" for r t
    using assms n job_critical_sync[OF that] by (simp add: cores_poll length_others claimed_def del: of_nat_diff)
  ultimately show ?thesis by (auto simp: llc_rendezvous_def all_cores_all split: Option.bind_splits)
qed

definition run_inv :: "nat \<Rightarrow> llc_job \<Rightarrow> machine \<Rightarrow> llc_state \<Rightarrow> bool" where
  "run_inv c j s1 = (\<lambda>(s, p). case p c of
     Arriving i \<Rightarrow> i = j \<and> s = with_waiting (1 + of_nat (stopped p)) s1
   | Working i \<Rightarrow> i = j \<and> s = with_waiting (of_nat NUM_CORES) s1
   | Leaving r \<Rightarrow> (\<exists>s2. job_critical c j (with_waiting (of_nat NUM_CORES) s1) = Some (r, s2) \<and>
        s = with_left (of_nat (NUM_CORES - stopped p)) s2)
   | Running \<Rightarrow> \<not> llc_busy (llc_sync s) \<and> (\<exists>r. llc_rendezvous c j s1 = Some (r, s))
   | Stopped \<Rightarrow> False)"

lemma run_inv_step:
  assumes step: "llc_step True (s, p) (s', p')" and c: "c < NUM_CORES" and cl: "claimed s1"
    and o: "one_leader (s, p)" and k: "counted (s, p)" and e: "exact (s, p)" and r: "run_inv c j s1 (s, p)"
  shows "run_inv c j s1 (s', p')"
proof (cases "leads (p c)")
  case False
  then have b: "\<not> llc_busy (llc_sync s)" using r by (cases "p c") (auto simp: run_inv_def)
  then have n: "\<not> leads (p d)" for d using o unfolding one_leader_def by auto
  have "p d \<noteq> Stopped" for d using e b stopped_finite[OF o] by (auto simp: exact_def stopped_def)
  with step n b have False by cases (metis leads_simps, metis leads_simps, metis leads_simps, auto simp: llc_arrive_def split: if_splits)
  then show ?thesis ..
next
  case l: True
  note al = leader_alone[OF o l] and sb = stopped_bound[OF o l]
  show ?thesis using step
  proof cases
    case (arrived d i)
    then have d: "d = c" using al(4)[of d] by (cases "d = c") auto
    have "llc_wait (llc_sync s)" using al(3) arrived d by simp
    then have "unat (llc_waiting (llc_sync s)) = 1 + stopped p" using e by (simp add: exact_def)
    moreover from this arrived(5) sb have "NUM_CORES \<le> 1 + stopped p" using all_cores_small[of "llc_waiting (llc_sync s)"] by simp
    ultimately have "stopped p = NUM_CORES - 1" using sb by simp
    then show ?thesis using r arrived d by (simp add: run_inv_def NUM_CORES_def)
  next
    case (work d i x)
    then have d: "d = c" using al(4)[of d] by (cases "d = c") auto
    have "llc_wait (llc_sync s)" using al(3) work d by simp
    then have "unat (llc_waiting (llc_sync s)) = 1 + stopped p" using e by (simp add: exact_def)
    then have "stopped p = NUM_CORES - 1" using k work sb by (auto simp: counted_def)
    then have "NUM_CORES - stopped (p(c := Leaving x)) = 1" using stopped_upd(1)[OF o, of c] work d by (simp add: NUM_CORES_def)
    moreover have "with_left 1 s' = s'" using job_critical_sync[OF work(3)] with_simps(6)[of s'] by simp
    ultimately show ?thesis using r work d by (simp add: run_inv_def)
  next
    case (finish d x)
    then have d: "d = c" using al(4)[of d] by (cases "d = c") auto
    have lf: "unat (llc_left (llc_sync s)) + stopped p = NUM_CORES" using e finish by (auto simp: exact_def)
    moreover from this finish(3) have "NUM_CORES \<le> unat (llc_left (llc_sync s))" using all_cores_small[of "llc_left (llc_sync s)"] by simp
    ultimately have "stopped p = 0" by simp
    then obtain s2 where "job_critical c j (with_waiting (of_nat NUM_CORES) s1) = Some (x, s2)" "s = with_left (of_nat NUM_CORES) s2"
      using r finish d by (auto simp: run_inv_def)
    then have "llc_rendezvous c j s1 = Some (x, s')" using finish by (simp add: rendezvous_eq[OF c cl])
    moreover have "\<not> llc_busy (llc_sync s')" using finish(4) by (auto simp: llc_done_def llc_locked_def bus_fence_def split: if_splits)
    ultimately show ?thesis using finish d by (simp add: run_inv_def)
  next
    case (stop d)
    then have d: "d \<noteq> c" "gathers (p c)" using l al(3) by auto
    moreover have "p c \<noteq> Working i" for i using working_alone[OF o k, of c i d] stop d(1) by auto
    ultimately show ?thesis using stop r stopped_upd(2)[OF o, of d]
      by (cases "p c") (auto simp: run_inv_def llc_arrive_def with_waiting_def algebra_simps split: if_splits)
  next
    case (resume d)
    then have d: "d \<noteq> c" "\<not> gathers (p c)" using l al(3) by (auto simp: llc_poll_def split: if_splits)
    then obtain x where x: "p c = Leaving x" using l by (cases "p c") auto
    then obtain s2 where s2: "job_critical c j (with_waiting (of_nat NUM_CORES) s1) = Some (x, s2)"
      and s: "s = with_left (of_nat (NUM_CORES - stopped p)) s2" using r by (auto simp: run_inv_def)
    have u: "NUM_CORES - stopped (p(d := Running)) = Suc (NUM_CORES - stopped p)"
      using stopped_upd(3)[OF o, of d Running] resume sb by simp
    have "s' = with_left (of_nat (NUM_CORES - stopped p) + 1) s2"
      using resume s by (auto simp: llc_poll_def with_left_def split: if_splits)
    then show ?thesis using resume d x s2 u by (simp add: run_inv_def add.commute)
  qed
qed


section \<open>A run that never ends\<close>

lemma llc_frame [simp]:
  "regions (llc_send_ipis c s) = regions s" "llc_partitions (llc_send_ipis c s) = llc_partitions s"
  "locks (llc_send_ipis c s) = locks s"
proof -
  have "regions (fold (\<lambda>i s. if i = c then s else send_ipi i IPI_SOFT s) xs s) = regions s \<and>
    llc_partitions (fold (\<lambda>i s. if i = c then s else send_ipi i IPI_SOFT s) xs s) = llc_partitions s \<and>
    locks (fold (\<lambda>i s. if i = c then s else send_ipi i IPI_SOFT s) xs s) = locks s" for xs
    by (induction xs arbitrary: s) (simp_all add: send_ipi_def)
  then show "regions (llc_send_ipis c s) = regions s" "llc_partitions (llc_send_ipis c s) = llc_partitions s"
    "locks (llc_send_ipis c s) = locks s" by (simp_all add: llc_send_ipis_def)
qed

definition flushable :: "region_id_t \<Rightarrow> machine \<Rightarrow> bool" where
  "flushable rid s \<longleftrightarrow> unat rid < NUM_REGIONS \<and> region_owned_by (regions s (unat rid)) = OWNER_UNTRUSTED \<and>
     unat (llc_partitions s (unat rid)) \<le> 27 \<and> \<not> llc_lock (llc_sync s)"

lemma flush_enter_free:
  assumes "flushable rid s" "\<not> region_locks (locks s) (unat rid)" "\<not> llc_busy (llc_sync s)"
  obtains s' where "region_flush_enter c rid s = Some (Inr s')" "flushable rid s'" "llc_claimed s s'"
proof -
  have "\<not> of_nat NUM_REGIONS < rid" using assms by (simp add: flushable_def word_less_nat_alt NUM_REGIONS_def)
  then show ?thesis using that assms
    by (auto simp: flushable_def region_flush_enter_def lock_region_eq llc_claim_def llc_claimed_def)
qed

lemma flush_critical_free:
  assumes "flushable rid s"
  obtains s' where "job_critical c (FlushJob rid) s = Some (MONITOR_OK, s')" "flushable rid s'"
    "\<not> region_locks (locks s') (unat rid)" "llc_sync s' = (llc_sync s)\<lparr>llc_waiting := 0, llc_wait := False, llc_left := 1\<rparr>"
proof -
  let ?s = "flush_lines c (unat rid) (2 ^ unat (llc_partitions s (unat rid))) s"
  have "regions ?s = regions s" "llc_partitions ?s = llc_partitions s" "llc_sync ?s = llc_sync s"
    by (simp_all add: flush_lines_eq clear_L1_bypass_def upd_csr_def)
  then show ?thesis using that assms
    by (auto simp: flushable_def region_flush_critical_def flush_llc_region_def c_index_def unlock_region_eq
        llc_release_def llc_locked_def bus_fence_def)
qed

lemma flushable_sync:
  "flushable rid s \<Longrightarrow> \<not> llc_lock l \<Longrightarrow> flushable rid (s\<lparr>llc_sync := l\<rparr>)"
  "flushable rid (bus_fence s) = flushable rid s"
  by (simp_all add: flushable_def bus_fence_def)

text \<open>A flush on the sample machine, step by step, up to the point where the other core has left.\<close>

abbreviation idle :: "nat \<Rightarrow> llc_pc" where
  "idle \<equiv> \<lambda>_. Running"

definition sample_run :: "platform_env \<Rightarrow> machine \<Rightarrow> machine \<Rightarrow> bool" where
  "sample_run env s1 s3 \<longleftrightarrow>
     llc_start env (sample, idle) (s1, idle(0 := Arriving (FlushJob 4))) \<and>
     (\<forall>once. llc_step once (s1, idle(0 := Arriving (FlushJob 4))) (with_waiting 2 s1, idle(0 := Arriving (FlushJob 4), 1 := Stopped)) \<and>
       llc_step once (with_waiting 2 s1, idle(0 := Arriving (FlushJob 4), 1 := Stopped))
         (with_waiting 2 s1, idle(0 := Working (FlushJob 4), 1 := Stopped)) \<and>
       llc_step once (with_waiting 2 s1, idle(0 := Working (FlushJob 4), 1 := Stopped)) (s3, idle(0 := Leaving MONITOR_OK, 1 := Stopped)) \<and>
       llc_step once (s3, idle(0 := Leaving MONITOR_OK, 1 := Stopped)) (with_left 2 s3, idle(0 := Leaving MONITOR_OK))) \<and>
     flushable 4 s3 \<and> \<not> region_locks (locks s3) (unat (4 :: region_id_t)) \<and> llc_busy (llc_sync s3)"

lemma sample_runD:
  assumes "sample_run env s1 s3"
  shows "llc_start env (sample, idle) (s1, idle(0 := Arriving (FlushJob 4)))"
    "llc_step once (s1, idle(0 := Arriving (FlushJob 4))) (with_waiting 2 s1, idle(0 := Arriving (FlushJob 4), 1 := Stopped))"
    "llc_step once (with_waiting 2 s1, idle(0 := Arriving (FlushJob 4), 1 := Stopped))
       (with_waiting 2 s1, idle(0 := Working (FlushJob 4), 1 := Stopped))"
    "llc_step once (with_waiting 2 s1, idle(0 := Working (FlushJob 4), 1 := Stopped)) (s3, idle(0 := Leaving MONITOR_OK, 1 := Stopped))"
    "llc_step once (s3, idle(0 := Leaving MONITOR_OK, 1 := Stopped)) (with_left 2 s3, idle(0 := Leaving MONITOR_OK))"
    "flushable 4 s3" "\<not> region_locks (locks s3) (unat (4 :: region_id_t))" "llc_busy (llc_sync s3)"
  using assms unfolding sample_run_def by blast+

lemma sample_flush_run: "\<exists>s1 s3. sample_run env s1 s3"
proof -
  let ?j = "FlushJob 4"
  have f0: "flushable 4 sample" "\<not> region_locks (locks sample) (unat (4 :: region_id_t))" "\<not> llc_busy (llc_sync sample)"
    by (simp_all add: flushable_def sample_region_def NUM_REGIONS_def free_locks_def) (simp_all add: sample_def)
  obtain s1 where s1: "region_flush_enter (of_nat 0) 4 sample = Some (Inr s1)" "flushable 4 s1" "llc_claimed sample s1"
    using flush_enter_free[OF f0] by blast
  let ?s2 = "with_waiting 2 s1"
  have f2: "flushable 4 ?s2" using s1(2) flushable_sync(1)[OF s1(2)] by (simp add: with_waiting_def flushable_def)
  obtain s3 where s3: "job_critical 0 ?j ?s2 = Some (MONITOR_OK, s3)" "flushable 4 s3" "\<not> region_locks (locks s3) (unat (4 :: region_id_t))"
    "llc_sync s3 = (llc_sync ?s2)\<lparr>llc_waiting := 0, llc_wait := False, llc_left := 1\<rparr>" using flush_critical_free[OF f2] by blast
  have a: "llc_arrive s1 = Some (True, ?s2)" "llc_wait (llc_sync s1)" using s1(3) by (simp_all add: llc_arrive_def llc_claimed_def with_waiting_def)
  have p: "llc_poll s3 = Some (False, with_left 2 s3)" using s3(2,4) by (simp add: llc_poll_def flushable_def with_left_def)
  have e: "idle(0 := Arriving ?j, 1 := Stopped, 0 := Working ?j) = idle(0 := Working ?j, 1 := Stopped)"
    "idle(0 := Working ?j, 1 := Stopped, 0 := Leaving MONITOR_OK) = idle(0 := Leaving MONITOR_OK, 1 := Stopped)"
    "idle(0 := Leaving MONITOR_OK, 1 := Stopped, 1 := Running) = idle(0 := Leaving MONITOR_OK)" by (auto simp: fun_eq_iff)
  have "llc_start env (sample, idle) (s1, idle(0 := Arriving ?j))"
    by (rule llc_start.flush) (use s1 in \<open>simp_all add: NUM_CORES_def\<close>)
  moreover have "llc_step once (s1, idle(0 := Arriving ?j)) (?s2, idle(0 := Arriving ?j, 1 := Stopped))" for once
    by (rule llc_step.stop) (use a in \<open>simp_all add: NUM_CORES_def\<close>)
  moreover have "llc_step once (?s2, idle(0 := Arriving ?j, 1 := Stopped)) (?s2, idle(0 := Working ?j, 1 := Stopped))" for once
    using llc_step.arrived[of "idle(0 := Arriving ?j, 1 := Stopped)" 0 ?j ?s2 once] all_cores_all s1(3) unfolding e(1)
    by (simp add: NUM_CORES_def llc_claimed_def)
  moreover have "llc_step once (?s2, idle(0 := Working ?j, 1 := Stopped)) (s3, idle(0 := Leaving MONITOR_OK, 1 := Stopped))" for once
    using llc_step.work[of "idle(0 := Working ?j, 1 := Stopped)" 0, OF _ s3(1)] unfolding e(2) by simp
  moreover have "llc_step once (s3, idle(0 := Leaving MONITOR_OK, 1 := Stopped)) (with_left 2 s3, idle(0 := Leaving MONITOR_OK))" for once
    using llc_step.resume[of "idle(0 := Leaving MONITOR_OK, 1 := Stopped)" 1, OF _ p] unfolding e(3) by simp
  moreover have "llc_busy (llc_sync s3)" using s1(3) s3(4) by (simp add: llc_claimed_def)
  ultimately show ?thesis using s3(2,3) unfolding sample_run_def by blast
qed

lemma reach_by:
  "llc_reach env once x \<Longrightarrow> llc_step once x y \<Longrightarrow> llc_reach env once y"
  "llc_reach env once x \<Longrightarrow> llc_start env x y \<Longrightarrow> llc_reach env once y"
  using llc_reach.step by blast+

lemma sample_reach: "llc_reach env once (sample, idle)"
  by (rule llc_reach.init) (simp_all add: sample_def)

text \<open>
  C20.  The protocol can hang.  A core that has left the handler may be interrupted again before the calling core
  has cleared \<^verbatim>\<open>busy\<close>; it then announces itself a second time for the change that is already over.  If the
  next change starts before that core looks at \<^verbatim>\<open>wait\<close> again, its announcement is overwritten and it waits
  for the end of a change that waits for it: a state is reached from the sample machine in which core 0 is
  in the middle of a flush, core 1 is stopped, and no core can ever take a step.
\<close>

theorem llc_deadlock_reachable:
  "\<exists>s p. llc_reach env False (s, p) \<and> p 0 = Arriving (FlushJob 4) \<and> p 1 = Stopped \<and>
     (\<forall>y. \<not> llc_step False (s, p) y \<and> \<not> llc_start env (s, p) y \<and> \<not> llc_other (s, p) y)"
proof -
  obtain s1 s3 where r0: "sample_run env s1 s3" using sample_flush_run by blast
  note run = sample_runD[OF r0]
  let ?R = "llc_reach env False" and ?s4 = "with_left 2 s3" and ?s5 = "with_waiting (llc_waiting (llc_sync s3) + 1) (with_left 2 s3)"
  have r5: "?R (?s4, idle(0 := Leaving MONITOR_OK))"
    by (rule reach_by(1)[OF reach_by(1)[OF reach_by(1)[OF reach_by(1)[OF reach_by(2)[OF sample_reach run(1)] run(2)] run(3)] run(4)] run(5)])
  have "llc_arrive ?s4 = Some (True, ?s5)" using run(6,8) by (simp add: llc_arrive_def flushable_def with_waiting_def)
  then have r6: "?R (?s5, idle(0 := Leaving MONITOR_OK, 1 := Stopped))"
    by (intro reach_by(1)[OF r5] llc_step.stop) (simp_all add: NUM_CORES_def)
  obtain s6 where s6: "llc_done ?s5 = Some s6" using run(6) by (auto simp: llc_done_def llc_locked_def flushable_def)
  have "idle(0 := Leaving MONITOR_OK, 1 := Stopped, 0 := Running) = idle(1 := Stopped)" by (simp add: fun_eq_iff)
  then have r7: "?R (s6, idle(1 := Stopped))"
    using reach_by(1)[OF r6] llc_step.finish[of "idle(0 := Leaving MONITOR_OK, 1 := Stopped)" 0, OF _ _ s6] all_cores_all
    by (simp add: NUM_CORES_def)
  have f6: "flushable 4 s6" "\<not> region_locks (locks s6) (unat (4 :: region_id_t))" "\<not> llc_busy (llc_sync s6)"
    using run(6,7) s6 by (auto simp: flushable_def llc_done_def llc_locked_def with_waiting_def with_left_def bus_fence_def split: if_splits)
  obtain s7 where s7: "region_flush_enter (of_nat 0) 4 s6 = Some (Inr s7)" "llc_claimed s6 s7" using flush_enter_free[OF f6] by blast
  let ?q = "idle(1 := Stopped, 0 := Arriving (FlushJob 4))"
  have r8: "?R (s7, ?q)" using reach_by(2)[OF r7] llc_start.flush[of 0 "idle(1 := Stopped)" 4 s6 s7 env] s7 by (simp add: NUM_CORES_def)
  have q: "?q d \<noteq> Running" if "d < NUM_CORES" for d using that by (auto simp: NUM_CORES_def)
  have w: "\<not> all_cores (llc_waiting (llc_sync s7))" "llc_wait (llc_sync s7)" "llc_busy (llc_sync s7)"
    using s7(2) all_cores_small[of 1] by (auto simp: llc_claimed_def NUM_CORES_def)
  have "\<not> llc_step False (s7, ?q) y" for y
  proof
    assume "llc_step False (s7, ?q) y"
    then show False by cases (use q w in \<open>auto simp: llc_poll_def split: if_splits\<close>)
  qed
  moreover have "\<not> llc_start env (s7, ?q) y" for y using w by (cases y) (auto elim!: llc_start_claims simp: llc_claimed_def)
  moreover have "\<not> llc_other (s7, ?q) y" for y using q by (auto elim!: llc_other.cases)
  ultimately show ?thesis using r8 by (intro exI[of _ s7] exI[of _ ?q]) simp
qed

text \<open>The hypotheses of the three properties on interleaved cores hold along this run.\<close>

theorem llc_critical_exclusive_witness:
  "\<exists>s p. llc_reach sample_env True (s, p) \<and> p 0 = Working (FlushJob 4) \<and> p 1 = Stopped"
proof -
  obtain s1 s3 where r0: "sample_run sample_env s1 s3" using sample_flush_run by blast
  note run = sample_runD[OF r0]
  have r: "llc_reach sample_env True (with_waiting 2 s1, idle(0 := Working (FlushJob 4), 1 := Stopped))"
    by (rule reach_by(1)[OF reach_by(1)[OF reach_by(2)[OF sample_reach run(1)] run(2)] run(3)])
  have "(idle(0 := Working (FlushJob 4), 1 := Stopped)) 1 = Stopped"
    using llc_critical_exclusive[OF r, of 0 "FlushJob 4"] by (simp add: NUM_CORES_def)
  then show ?thesis using r by (intro exI[of _ "with_waiting 2 s1"] exI[of _ "idle(0 := Working (FlushJob 4), 1 := Stopped)"]) simp
qed



end
