(* ===== verification/LLC_Partition.thy ===== *)
theory LLC_Partition
  imports LLC_Protocol
begin

text \<open>
  What a successful change of the LLC partition has done to the controller and to the monitor's record of it.
\<close>

section \<open>What a change of the partition does\<close>

definition slice_base :: "(nat \<Rightarrow> u8) \<Rightarrow> nat \<Rightarrow> nat" where
  "slice_base lg i = (\<Sum>k<i. 2 ^ unat (lg k))"

lemma partition_scan_spec:
  assumes "partition_scan copy current [i..<n] acc found idx bases = Some (acc', idx', bases')"
    and "i \<le> n" "unat acc = slice_base copy i" "n \<le> 2 ^ 20" "slice_base copy i \<le> i * 512"
    and "if found then (\<forall>k < unat idx. copy k = current k) else idx = of_nat i \<and> (\<forall>k<i. copy k = current k)"
    and "\<forall>k<i. unat (bases k) = slice_base copy k" "unat idx \<le> i"
  shows "(\<forall>k. i \<le> k \<and> k < n \<longrightarrow> copy k < 10) \<and> unat acc' = slice_base copy n \<and> (\<forall>k < unat idx'. copy k = current k) \<and>
    (\<forall>k<n. unat (bases' k) = slice_base copy k) \<and> unat idx' \<le> n"
  using assms
proof (induction "n - i" arbitrary: i acc found idx bases)
  case 0
  then have "i = n" by simp
  with 0 show ?case by (auto simp: unat_of_nat split: if_splits)
next
  case (Suc m)
  then have i: "i < n" "[i..<n] = i # [Suc i..<n]" by (simp_all add: upt_rec)
  let ?f = "found \<or> copy i \<noteq> current i"
  let ?x = "if ?f then idx else idx + 1"
  have nl: "\<not> 10 \<le> copy i" using Suc.prems(1) unfolding i(2) by (auto split: if_splits)
  then have lt: "copy i < 10" by (simp add: not_le)
  have rec: "partition_scan copy current [Suc i..<n] (acc + push_bit (unat (copy i)) 1) ?f ?x (bases(i := acc))
      = Some (acc', idx', bases')"
    using Suc.prems(1) nl unfolding i(2) partition_scan.simps Let_def by (simp only: if_False)
  have c: "unat (copy i) < 10" using lt by (simp add: word_less_nat_alt)
  then have p: "(2 :: nat) ^ unat (copy i) \<le> 512" using power_increasing[of "unat (copy i)" 9 "2 :: nat"] by simp
  then have "unat (of_nat (2 ^ unat (copy i)) :: u64) = 2 ^ unat (copy i)" unfolding unat_of_nat by simp
  then have "unat (push_bit (unat (copy i)) 1 :: u64) = 2 ^ unat (copy i)" by (simp add: push_bit_eq_mult)
  then have a: "unat (acc + push_bit (unat (copy i)) 1) = slice_base copy (Suc i)"
    using Suc.prems(3,4,5) p i(1) by (simp add: unat_word_ariths slice_base_def)
  have b: "slice_base copy (Suc i) \<le> Suc i * 512" using Suc.prems(5) p by (simp add: slice_base_def)
  have small: "i < 2 ^ 64" using Suc.prems i by simp
  have x: "if ?f then (\<forall>k < unat ?x. copy k = current k) else ?x = of_nat (Suc i) \<and> (\<forall>k < Suc i. copy k = current k)"
    using Suc.prems(6) small by (auto simp: unat_of_nat less_Suc_eq split: if_splits)
  have y: "unat ?x \<le> Suc i" using Suc.prems(8) small i by (auto simp: unat_word_ariths)
  have z: "\<forall>k < Suc i. unat ((bases(i := acc)) k) = slice_base copy k" using Suc.prems(3,7) by (auto simp: less_Suc_eq)
  have ih: "(\<forall>k. Suc i \<le> k \<and> k < n \<longrightarrow> copy k < 10) \<and> unat acc' = slice_base copy n \<and> (\<forall>k < unat idx'. copy k = current k) \<and>
    (\<forall>k<n. unat (bases' k) = slice_base copy k) \<and> unat idx' \<le> n"
    by (rule Suc.hyps(1)[OF _ rec _ a _ b x z y]) (use Suc.hyps(2) Suc.prems(4) i in simp_all)
  moreover have "copy k < 10" if "i \<le> k" "k < n" for k using ih lt that by (cases "k = i") simp_all
  ultimately show ?case by blast
qed

lemma no_enclaves_locks:
  "no_enclaves_running is s = Some (b, s') \<Longrightarrow> \<exists>f. s' = upd_locks f s \<and> (b \<and> is \<noteq> [] \<longrightarrow> core_owner (cores s 0) = OWNER_UNTRUSTED)"
proof (induction "is" arbitrary: s)
  case Nil
  then have "s' = upd_locks id s" by (simp add: upd_locks_def)
  then show ?case by blast
next
  case (Cons i "is")
  let ?t = "upd_locks (\<lambda>k. k\<lparr>core_locks := (core_locks k)(unat (of_nat i :: u64) := True)\<rparr>) s"
  show ?case
  proof (cases "core_owner (cores s 0) = OWNER_UNTRUSTED")
    case True
    with Cons.prems obtain g where "no_enclaves_running is (upd_locks g s) = Some (b, s')"
      by (auto simp: lock_core_eq unlock_core_eq split: if_splits)
    from Cons.IH[OF this] True show ?thesis by auto
  next
    case False
    with Cons.prems have "s' = ?t" "\<not> b" by (auto simp: lock_core_eq split: if_splits)
    then show ?thesis by blast
  qed
qed

definition ctrl_events :: "machine \<Rightarrow> u64 list" where
  "ctrl_events s = concat (map (\<lambda>e. case e of LlcCtrl w \<Rightarrow> [w] | _ \<Rightarrow> []) (bus s))"

lemma ctrl_append [simp]:
  "ctrl_events (s\<lparr>bus := bus s @ xs\<rparr>) = ctrl_events s @ concat (map (\<lambda>e. case e of LlcCtrl w \<Rightarrow> [w] | _ \<Rightarrow> []) xs)"
  by (simp add: ctrl_events_def)

lemma ctrl_cong: "bus s = bus t \<Longrightarrow> ctrl_events s = ctrl_events t"
  by (simp add: ctrl_events_def)

lemma flush_regions_frame:
  "flush_llc_regions c rs s = Some s' \<Longrightarrow> llc_partitions s' = llc_partitions s \<and> ctrl_events s' = ctrl_events s"
proof (induction rs arbitrary: s)
  case (Cons r rs)
  then obtain t where t: "flush_llc_region c (of_nat r) s = Some t" "flush_llc_regions c rs t = Some s'"
    by (auto simp: bind_eq_Some_conv)
  have "concat (map (\<lambda>e. case e of LlcCtrl w \<Rightarrow> [w] | _ \<Rightarrow> []) (flush_events x y)) = []" for x y
    by (simp add: flush_events_def)
  with t(1) have "llc_partitions t = llc_partitions s \<and> ctrl_events t = ctrl_events s"
    by (auto simp: flush_Some flush_lines_eq clear_L1_bypass_def upd_csr_def ctrl_events_def)
  with Cons.IH[OF t(2)] show ?case by simp
qed simp

definition llc_ctrl_word :: "nat \<Rightarrow> u64 \<Rightarrow> u8 \<Rightarrow> u64" where
  "llc_ctrl_word rid base lg = push_bit 14 (of_nat rid) + push_bit 4 base + ucast lg"

lemma set_slices:
  "llc_partitions (fold (set_llc_slice copy bases) rs s) = (\<lambda>i. if i \<in> set rs then copy i else llc_partitions s i) \<and>
   ctrl_events (fold (set_llc_slice copy bases) rs s) = ctrl_events s @ map (\<lambda>i. llc_ctrl_word i (bases i) (copy i)) rs"
proof (induction rs arbitrary: s)
  case (Cons r rs)
  have "ctrl_events (set_llc_slice copy bases r s) = ctrl_events s @ [llc_ctrl_word r (bases r) (copy r)]"
    by (simp add: set_llc_slice_def ctrl_events_def llc_ctrl_word_def sm_const)
  with Cons.IH[of "set_llc_slice copy bases r s"] show ?case by (auto simp: set_llc_slice_def fun_eq_iff)
qed (simp add: fun_eq_iff)


lemma send_ipis_frame [simp]:
  "ctrl_events (llc_send_ipis c s) = ctrl_events s" "cores (llc_send_ipis c s) = cores s"
proof -
  have "ctrl_events (fold (\<lambda>i s. if i = c then s else send_ipi i IPI_SOFT s) xs s) = ctrl_events s \<and>
    cores (fold (\<lambda>i s. if i = c then s else send_ipi i IPI_SOFT s) xs s) = cores s" for xs
    by (induction xs arbitrary: s) (simp_all add: send_ipi_def)
  then show "ctrl_events (llc_send_ipis c s) = ctrl_events s" "cores (llc_send_ipis c s) = cores s"
    by (simp_all add: llc_send_ipis_def)
qed

lemma ctrl_sync [simp]: "ctrl_events (s\<lparr>llc_sync := l\<rparr>) = ctrl_events s" "ctrl_events (upd_locks f s) = ctrl_events s"
  by (simp_all add: ctrl_events_def upd_locks_def)

lemma enter_partition:
  assumes "cache_partitioning_enter env core part s = Some (Inr (idx, copy, bases, s1))"
  shows "\<exists>bs. memcpy_u2m env (unat core) s NUM_REGIONS part = Some bs \<and> copy = (!) bs \<and> 0 < idx \<and> idx \<le> NUM_REGIONS \<and>
    (\<forall>i<NUM_REGIONS. bs ! i < 10) \<and> slice_base ((!) bs) NUM_REGIONS \<le> 1024 \<and> (\<forall>i<idx. bs ! i = llc_partitions s i) \<and>
    (\<forall>i<NUM_REGIONS. unat (bases i) = slice_base ((!) bs) i) \<and>
    llc_partitions s1 = llc_partitions s \<and> ctrl_events s1 = ctrl_events s \<and> cores s1 = cores s"
proof -
  have "yields (cache_partitioning_enter env core part s) (\<lambda>x. case x of Inl _ \<Rightarrow> True | Inr (idx, copy, bases, s1) \<Rightarrow>
     (\<exists>bs w acc. memcpy_u2m env (unat core) s NUM_REGIONS part = Some bs \<and> copy = (!) bs \<and> idx = unat w \<and> 0 < w \<and> \<not> 1024 < acc \<and>
       partition_scan ((!) bs) (llc_partitions s) [0..<NUM_REGIONS] 0 False 0 (\<lambda>_. 0) = Some (acc, w, bases) \<and>
       llc_partitions s1 = llc_partitions s \<and> ctrl_events s1 = ctrl_events s \<and> cores s1 = cores s))"
    unfolding cache_partitioning_enter_def lock_untrusted_eq unlock_untrusted_eq Let_def
    by (rule yields_bind, simp only: prod.case, rule yields_if, simp add: yields_Some,
        rule yields_bind, rule yields_option, simp add: yields_Some, simp only: prod.case split: prod.split)
      (auto intro!: yields_claim yields_if yields_Some simp: word_gt_0)
  from yieldsD[OF this assms] obtain bs w acc where *: "memcpy_u2m env (unat core) s NUM_REGIONS part = Some bs"
    "copy = (!) bs" "idx = unat w" "0 < w" "\<not> 1024 < acc"
    "partition_scan ((!) bs) (llc_partitions s) [0..<NUM_REGIONS] 0 False 0 (\<lambda>_. 0) = Some (acc, w, bases)"
    "llc_partitions s1 = llc_partitions s" "ctrl_events s1 = ctrl_events s" "cores s1 = cores s" by auto
  have "unat acc \<le> 1024" using *(5) by (simp add: word_less_nat_alt not_less)
  with partition_scan_spec[OF *(6)] * show ?thesis
    by (auto simp: slice_base_def NUM_REGIONS_def word_less_nat_alt)
qed

lemma partition_critical:
  assumes "job_critical c (PartitionJob idx copy bases) s = Some (MONITOR_OK, s')"
  shows "core_owner (cores s 0) = OWNER_UNTRUSTED \<and>
    llc_partitions s' = (\<lambda>i. if idx \<le> i \<and> i < NUM_REGIONS then copy i else llc_partitions s i) \<and>
    ctrl_events s' = ctrl_events s @ map (\<lambda>i. llc_ctrl_word i (bases i) (copy i)) [idx..<NUM_REGIONS]"
proof -
  from assms obtain t u v where t: "no_enclaves_running [0..<NUM_CORES] s = Some (True, t)"
    and u: "flush_llc_regions c [idx..<NUM_REGIONS] t = Some u"
    and v: "llc_release (fold (set_llc_slice copy bases) [idx..<NUM_REGIONS] u) = Some v" "s' = unlock_untrusted_state v"
    by (auto simp: cache_partitioning_critical_def bind_eq_Some_conv split: if_splits)
  from no_enclaves_locks[OF t] have "core_owner (cores s 0) = OWNER_UNTRUSTED" "llc_partitions t = llc_partitions s" "ctrl_events t = ctrl_events s"
    by (auto simp: NUM_CORES_def upd_locks_def ctrl_events_def)
  moreover from flush_regions_frame[OF u] have "llc_partitions u = llc_partitions t" "ctrl_events u = ctrl_events t" by simp_all
  moreover have "llc_partitions s' = llc_partitions (fold (set_llc_slice copy bases) [idx..<NUM_REGIONS] u)"
    "ctrl_events s' = ctrl_events (fold (set_llc_slice copy bases) [idx..<NUM_REGIONS] u)"
    using v by (auto simp: llc_release_Some bus_fence_def unlock_untrusted_eq) (simp add: ctrl_events_def upd_locks_def)
  ultimately show ?thesis using set_slices[of copy bases "[idx..<NUM_REGIONS]" u] by auto
qed

lemma rendezvous_frame:
  assumes "c < NUM_CORES" "claimed s" "llc_rendezvous c j s = Some (r, s')"
  obtains t where "job_critical c j (with_waiting (of_nat NUM_CORES) s) = Some (r, t)"
    "llc_partitions s' = llc_partitions t" "ctrl_events s' = ctrl_events t"
proof -
  from assms(3) obtain t where t: "job_critical c j (with_waiting (of_nat NUM_CORES) s) = Some (r, t)"
    "llc_done (with_left (of_nat NUM_CORES) t) = Some s'"
    by (auto simp: rendezvous_eq[OF assms(1,2)] bind_eq_Some_conv)
  then show ?thesis using that[OF t(1)]
    by (auto simp: llc_done_def llc_locked_def bus_fence_def with_left_def ctrl_events_def split: if_splits)
qed

text \<open>
  C21.  A change of the LLC partition is what was asked for, and it is a partition.  After success each
  region has the size that the caller's array holds; all slices together fit in the cache; the slices written to the
  controller follow one another without overlap, starting where the unchanged ones end; the first region keeps its size;
  and core 0, the only one the code looks at, is not running an enclave.
\<close>

theorem cache_partitioning_sound:
  assumes "sm_internal_region_cache_partitioning env core part s = Some (MONITOR_OK, s')"
  shows "core_owner (cores s 0) = OWNER_UNTRUSTED \<and> (\<exists>bs idx. memcpy_u2m env (unat core) s NUM_REGIONS part = Some bs \<and> 0 < idx \<and>
    (\<forall>i<NUM_REGIONS. llc_partitions s' i = bs ! i \<and> bs ! i < 10) \<and> (\<forall>i<idx. bs ! i = llc_partitions s i) \<and>
    slice_base ((!) bs) NUM_REGIONS \<le> 1024 \<and>
    ctrl_events s' = ctrl_events s @ map (\<lambda>i. llc_ctrl_word i (of_nat (slice_base ((!) bs) i)) (bs ! i)) [idx..<NUM_REGIONS])"
proof -
  from assms obtain x where c: "unat core < NUM_CORES" and x: "cache_partitioning_enter env core part s = Some x"
    and k: "(case x of Inl r \<Rightarrow> Some r | Inr (idx, copy, bases, s) \<Rightarrow> llc_rendezvous (unat core) (PartitionJob idx copy bases) s) = Some (MONITOR_OK, s')"
    by (auto simp: sm_internal_region_cache_partitioning_def bind_eq_Some_conv)
  from k yieldsD[OF partition_enter_claims x] obtain idx copy bases s1 where xr: "x = Inr (idx, copy, bases, s1)" and cl: "llc_claimed s s1"
    and r: "llc_rendezvous (unat core) (PartitionJob idx copy bases) s1 = Some (MONITOR_OK, s')" by (auto split: sum.splits prod.splits)
  from enter_partition[OF x[unfolded xr]] obtain bs where b: "memcpy_u2m env (unat core) s NUM_REGIONS part = Some bs"
    "copy = (!) bs" "0 < idx" "idx \<le> NUM_REGIONS" "\<forall>i<NUM_REGIONS. bs ! i < 10" "slice_base ((!) bs) NUM_REGIONS \<le> 1024"
    "\<forall>i<idx. bs ! i = llc_partitions s i" "\<forall>i<NUM_REGIONS. unat (bases i) = slice_base ((!) bs) i"
    "llc_partitions s1 = llc_partitions s" "ctrl_events s1 = ctrl_events s" "cores s1 = cores s" by blast
  have "claimed s1" using cl by (simp add: llc_claimed_def claimed_def)
  from rendezvous_frame[OF c this r] obtain t where
    t: "job_critical (unat core) (PartitionJob idx copy bases) (with_waiting (of_nat NUM_CORES) s1) = Some (MONITOR_OK, t)"
    "llc_partitions s' = llc_partitions t" "ctrl_events s' = ctrl_events t" .
  have w: "llc_partitions (with_waiting n s1) = llc_partitions s" "ctrl_events (with_waiting n s1) = ctrl_events s" "cores (with_waiting n s1) = cores s" for n
    using b(9-11) by (simp_all add: with_waiting_def)
  have "bases i = of_nat (slice_base ((!) bs) i)" if "i < NUM_REGIONS" for i using b(8) that by (metis of_nat_unat ucast_id)
  with partition_critical[OF t(1)] t(2,3) w b show ?thesis
    by (intro conjI exI[of _ bs] exI[of _ idx]) (auto simp: not_le)
qed


text \<open>The operating system halves the slices of all regions but the first.\<close>

definition sample_part :: machine where
  "sample_part = sample\<lparr>mem := (\<lambda>a. if a = 0x5000 then 3 else 2)\<rparr>"

lemma flush_regions_total:
  "(\<forall>r \<in> set rs. r < NUM_REGIONS) \<Longrightarrow> (\<forall>r. unat (llc_partitions s r) \<le> 27) \<Longrightarrow> \<exists>s'. flush_llc_regions c rs s = Some s'"
proof (induction rs arbitrary: s)
  case (Cons r rs)
  have u: "unat (of_nat r :: u64) = r" using Cons.prems by (simp add: unat_of_nat NUM_REGIONS_def)
  then obtain t where t: "flush_llc_region c (of_nat r) s = Some t" using Cons.prems by (simp add: flush_llc_region_def c_index_def not_less[symmetric] Let_def)
  then have "llc_partitions t = llc_partitions s" using flush_regions_frame[of c "[r]" s t] by simp
  with Cons t show ?case by simp
qed simp

definition sample_sizes :: "u8 list" where
  "sample_sizes = map (\<lambda>i. if i = 0 then 3 else 2) [0..<NUM_REGIONS]"

lemma sample_part_sizes: "memcpy_u2m sample_env c sample_part NUM_REGIONS 0x5000 = Some sample_sizes"
proof -
  have "(of_nat i :: u64) = 0 \<longleftrightarrow> i = 0" if "i < NUM_REGIONS" for i
    using that by (auto simp: NUM_REGIONS_def word_of_nat_eq_0_iff dest: nat_dvd_not_less)
  then show ?thesis unfolding sample_u2m_eq sample_sizes_def sample_part_def by simp
qed

lemma scan_const:
  "\<forall>i \<in> set is. copy i = 2 \<Longrightarrow> \<exists>b. partition_scan copy cur is acc True idx bases = Some (acc + of_nat (4 * length is), idx, b)"
proof (induction "is" arbitrary: acc bases)
  case (Cons i "is")
  have "\<not> (10 :: u8) \<le> 2" by (simp add: word_le_nat_alt)
  moreover have "acc + 4 + of_nat (4 * length is) = acc + of_nat (4 * length (i # is))" by simp
  ultimately show ?case using Cons.IH[of "acc + 4" "bases(i := acc)"] Cons.prems
    by (simp add: push_bit_eq_mult fun_upd_def algebra_simps)
qed simp

lemma sample_part_enter:
  obtains bases s1 where "cache_partitioning_enter sample_env 0 0x5000 sample_part = Some (Inr (1, (!) sample_sizes, bases, s1))"
    "llc_claimed sample_part s1" "core_locks (locks s1) = (\<lambda>_. False)" "cores s1 = cores sample" "llc_partitions s1 = (\<lambda>_. 3)"
proof -
  have n: "sample_sizes ! i = (if i = 0 then 3 else 2)" if "i < NUM_REGIONS" for i
    using that by (simp add: sample_sizes_def)
  have "[0..<NUM_REGIONS] = 0 # 1 # [2..<NUM_REGIONS]" by (simp add: NUM_REGIONS_def upt_conv_Cons numeral_2_eq_2)
  moreover obtain b where "partition_scan ((!) sample_sizes) (\<lambda>_. 3) [2..<NUM_REGIONS] 12 True 1 (((\<lambda>_. 0)(0 := 0))(1 := 8)) = Some (260, 1, b)"
    using scan_const[of "[2..<NUM_REGIONS]" "(!) sample_sizes" "\<lambda>_. 3" 12 1] n by (auto simp: NUM_REGIONS_def)
  ultimately obtain bases where sc: "partition_scan ((!) sample_sizes) (\<lambda>_. 3) [0..<NUM_REGIONS] 0 False 0 (\<lambda>_. 0) = Some (260, 1, bases)"
    using n[of 0] n[of 1] by (simp add: NUM_REGIONS_def push_bit_eq_mult word_le_nat_alt)
  have "llc_partitions (upd_locks f sample_part) = (\<lambda>_. 3)" "\<not> llc_lock (llc_sync sample_part)" "\<not> llc_busy (llc_sync sample_part)"
    "locks sample_part = free_locks" "cores sample_part = cores sample" for f
    by (simp_all add: sample_part_def) (simp_all add: sample_def)
  with sample_part_sizes sc that show ?thesis
    by (simp add: cache_partitioning_enter_def c_index_def NUM_CORES_def lock_untrusted_eq llc_claim_def llc_claimed_def free_locks_def)
qed

theorem cache_partitioning_sound_witness:
  "\<exists>s'. sm_internal_region_cache_partitioning sample_env 0 0x5000 sample_part = Some (MONITOR_OK, s') \<and>
     llc_partitions s' 0 = 3 \<and> llc_partitions s' 1 = 2 \<and> llc_partitions s' 63 = 2"
proof -
  obtain bases s1 where en: "cache_partitioning_enter sample_env 0 0x5000 sample_part = Some (Inr (1, (!) sample_sizes, bases, s1))"
    and cl: "llc_claimed sample_part s1" and lk: "core_locks (locks s1) = (\<lambda>_. False)" "cores s1 = cores sample" "llc_partitions s1 = (\<lambda>_. 3)"
    by (rule sample_part_enter)
  let ?w = "with_waiting (of_nat NUM_CORES) s1" and ?copy = "(!) sample_sizes"
  have c1: "claimed s1" using cl by (simp add: llc_claimed_def claimed_def)
  have w: "core_locks (locks ?w) = (\<lambda>_. False)" "core_owner (cores ?w 0) = OWNER_UNTRUSTED" "llc_partitions ?w = (\<lambda>_. 3)" "\<not> llc_lock (llc_sync ?w)"
    using lk c1 by (simp_all add: with_waiting_def claimed_def)
  have "[0..<NUM_CORES] = [0, 1]" by (simp add: NUM_CORES_def upt_rec)
  then obtain g where t: "no_enclaves_running [0..<NUM_CORES] ?w = Some (True, upd_locks g ?w)"
    using w by (auto simp: lock_core_eq unlock_core_eq NUM_CORES_def)
  obtain u where u: "flush_llc_regions 0 [1..<NUM_REGIONS] (upd_locks g ?w) = Some u"
    using flush_regions_total[of "[1..<NUM_REGIONS]" "upd_locks g ?w" 0] w(3) by auto
  have "\<not> llc_lock (llc_sync u)" using flush_llc_regions_sync[OF u] w(4) by simp
  then obtain v where v: "job_critical 0 (PartitionJob 1 ?copy bases) ?w = Some (MONITOR_OK, v)"
    using t u by (auto simp: cache_partitioning_critical_def llc_release_def llc_locked_def set_llc_slices_sync)
  from job_critical_sync[OF v] obtain s' where "llc_done (with_left (of_nat NUM_CORES) v) = Some s'"
    by (auto simp: llc_done_def llc_locked_def)
  with v have "llc_rendezvous 0 (PartitionJob 1 ?copy bases) s1 = Some (MONITOR_OK, s')"
    by (simp add: rendezvous_eq[OF _ c1] NUM_CORES_def)
  then have s': "sm_internal_region_cache_partitioning sample_env 0 0x5000 sample_part = Some (MONITOR_OK, s')"
    using en by (simp add: sm_internal_region_cache_partitioning_def c_index_def NUM_CORES_def)
  from cache_partitioning_sound[OF s'] obtain bs where bs: "memcpy_u2m sample_env 0 sample_part NUM_REGIONS 0x5000 = Some bs"
    "\<forall>i<NUM_REGIONS. llc_partitions s' i = bs ! i" by auto
  then have "bs = sample_sizes" using sample_part_sizes by simp
  then have "bs ! 0 = 3" "bs ! 1 = 2" "bs ! 63 = 2" by (simp_all add: sample_sizes_def NUM_REGIONS_def)
  with bs(2) s' show ?thesis by (auto simp: NUM_REGIONS_def)
qed

end
