(* ===== verification/C_Int.thy ===== *)
theory C_Int
  imports Prelude
begin

text \<open>
  Signed integers of C with their width.  Addition, subtraction, negation and multiplication that leave the range of the type are
  undefined (\<open>UB\<close>), and whatever is computed from an undefined value is undefined.  Shifts and conversions of signed values are those
  gcc documents: \<^verbatim>\<open>>>\<close> rounds down, \<^verbatim>\<open><<\<close> and narrowing keep the low bits.
\<close>

datatype 'w cint = C int | UB

type_synonym i32 = "32 cint"
type_synonym i64 = "64 cint"

definition in_width :: "nat \<Rightarrow> int \<Rightarrow> bool" where
  "in_width w v \<longleftrightarrow> - (2 ^ (w - 1)) \<le> v \<and> v < 2 ^ (w - 1)"

definition checked :: "int \<Rightarrow> 'w::len cint" where
  "checked v = (if in_width LENGTH('w) v then C v else UB)"

fun lift1 :: "(int \<Rightarrow> 'v cint) \<Rightarrow> 'w cint \<Rightarrow> 'v cint" where
  "lift1 f (C a) = f a"
| "lift1 f UB = UB"

fun lift2 :: "(int \<Rightarrow> int \<Rightarrow> int) \<Rightarrow> 'w::len cint \<Rightarrow> 'w cint \<Rightarrow> 'w cint" where
  "lift2 f (C a) (C b) = checked (f a b)"
| "lift2 f _ _ = UB"

instantiation cint :: (len) "{plus, minus, times, uminus}"
begin

definition plus_cint :: "'a cint \<Rightarrow> 'a cint \<Rightarrow> 'a cint" where
  "plus_cint = lift2 (+)"

definition minus_cint :: "'a cint \<Rightarrow> 'a cint \<Rightarrow> 'a cint" where
  "minus_cint = lift2 (-)"

definition times_cint :: "'a cint \<Rightarrow> 'a cint \<Rightarrow> 'a cint" where
  "times_cint = lift2 (*)"

definition uminus_cint :: "'a cint \<Rightarrow> 'a cint" where
  "uminus_cint = lift1 (\<lambda>v. checked (- v))"

instance ..

end

definition shr :: "'w cint \<Rightarrow> nat \<Rightarrow> 'w cint" where
  "shr x n = lift1 (\<lambda>v. C (v div 2 ^ n)) x"

definition shl :: "'w::len cint \<Rightarrow> nat \<Rightarrow> 'w cint" where
  "shl x n = lift1 (\<lambda>v. C (signed_take_bit (LENGTH('w) - 1) (v * 2 ^ n))) x"

definition cast :: "'v cint \<Rightarrow> 'w::len cint" where
  "cast x = lift1 (\<lambda>v. C (signed_take_bit (LENGTH('w) - 1) v)) x"

section \<open>Values with a bound\<close>

text \<open>\<open>x\<close> is defined, has the value \<open>v\<close>, and that is at most \<open>b\<close> in size.\<close>

definition fits :: "'w cint \<Rightarrow> int \<Rightarrow> int \<Rightarrow> bool" where
  "fits x v b \<longleftrightarrow> x = C v \<and> \<bar>v\<bar> \<le> b"

named_theorems fits_rules

lemma checked_abs: "\<bar>v\<bar> \<le> b \<Longrightarrow> b < 2 ^ (LENGTH('w) - 1) \<Longrightarrow> checked v = (C v :: 'w::len cint)"
  by (auto simp: checked_def in_width_def)

lemma fits_C: "\<bar>v\<bar> \<le> b \<Longrightarrow> fits (C v) v b"
  by (simp add: fits_def)

lemma fits_add [fits_rules]:
  fixes x y :: "'w::len cint"
  assumes "fits x v b" "fits y u c" "b + c < 2 ^ (LENGTH('w) - 1)"
  shows "fits (x + y) (v + u) (b + c)"
proof -
  have "\<bar>v + u\<bar> \<le> b + c" using assms(1,2) unfolding fits_def by arith
  then show ?thesis using assms checked_abs[of "v + u" "b + c", where 'w = 'w] by (simp add: fits_def plus_cint_def)
qed

lemma fits_diff [fits_rules]:
  fixes x y :: "'w::len cint"
  assumes "fits x v b" "fits y u c" "b + c < 2 ^ (LENGTH('w) - 1)"
  shows "fits (x - y) (v - u) (b + c)"
proof -
  have "\<bar>v - u\<bar> \<le> b + c" using assms(1,2) unfolding fits_def by arith
  then show ?thesis using assms checked_abs[of "v - u" "b + c", where 'w = 'w] by (simp add: fits_def minus_cint_def)
qed

lemma fits_mult [fits_rules]:
  fixes x y :: "'w::len cint"
  assumes "fits x v b" "fits y u c" "b * c < 2 ^ (LENGTH('w) - 1)"
  shows "fits (x * y) (v * u) (b * c)"
proof -
  have "\<bar>v * u\<bar> \<le> b * c" using assms by (auto simp: fits_def abs_mult intro!: mult_mono)
  then show ?thesis using assms checked_abs[of "v * u" "b * c", where 'w = 'w] by (simp add: fits_def times_cint_def)
qed

lemma fits_minus [fits_rules]:
  fixes x :: "'w::len cint"
  assumes "fits x v b" "b < 2 ^ (LENGTH('w) - 1)"
  shows "fits (- x) (- v) b"
  using assms checked_abs[of "- v" b, where 'w = 'w] by (simp add: fits_def uminus_cint_def)

lemma signed_take_bit_abs: "\<bar>v\<bar> \<le> b \<Longrightarrow> b < 2 ^ n \<Longrightarrow> signed_take_bit n v = (v::int)"
  by (rule signed_take_bit_int_eq_self) auto

lemma fits_cast [fits_rules]:
  assumes "fits x v b" "b < 2 ^ (LENGTH('w) - 1)"
  shows "fits (cast x :: 'w::len cint) v b"
  using assms signed_take_bit_abs[of v b "LENGTH('w) - 1"] by (simp add: fits_def cast_def)

lemma fits_shl [fits_rules]:
  fixes x :: "'w::len cint"
  assumes "fits x v b" "b * 2 ^ n < 2 ^ (LENGTH('w) - 1)"
  shows "fits (shl x n) (v * 2 ^ n) (b * 2 ^ n)"
  using assms signed_take_bit_abs[of "v * 2 ^ n" "b * 2 ^ n" "LENGTH('w) - 1"]
  by (simp add: fits_def shl_def abs_mult)

lemma fits_shr [fits_rules]:
  assumes "fits x v b"
  shows "fits (shr x n) (v div 2 ^ n) (b div 2 ^ n + 1)"
proof -
  have v: "- b \<le> v" "v \<le> b" using assms by (auto simp: fits_def)
  have "v div 2 ^ n \<le> b div 2 ^ n" using v by (simp add: zdiv_mono1)
  moreover have "- b div 2 ^ n \<le> v div 2 ^ n" using v by (simp add: zdiv_mono1)
  moreover have "- (b div 2 ^ n) - 1 \<le> - b div 2 ^ n"
    by (simp add: zdiv_zminus1_eq_if)
  ultimately show ?thesis using assms by (simp add: fits_def shr_def)
qed

lemma fits_mono: "fits x v b \<Longrightarrow> b \<le> c \<Longrightarrow> fits x v c"
  by (simp add: fits_def)

end
