(* ===== verification/Field.thy ===== *)
theory Field
  imports C_Int
begin

unbundle bit_operations_syntax

text \<open>
  The field of integers modulo \<open>2 ^ 255 - 19\<close> (\<^verbatim>\<open>src/crypto/ed25519/fe.c\<close>).  An element is an array of ten signed limbs of alternately 26 and
  25 bits, not in a unique form.
\<close>

type_synonym fe = "i32 list"

section \<open>Operations\<close>

definition load_3 :: "bytes \<Rightarrow> u64" where
  "load_3 s = ucast (s ! 0) OR push_bit 8 (ucast (s ! 1)) OR push_bit 16 (ucast (s ! 2))"

definition load_4 :: "bytes \<Rightarrow> u64" where
  "load_4 s = ucast (s ! 0) OR push_bit 8 (ucast (s ! 1)) OR push_bit 16 (ucast (s ! 2)) OR push_bit 24 (ucast (s ! 3))"

definition fe_0 :: fe where
  "fe_0 = [C 0, C 0, C 0, C 0, C 0, C 0, C 0, C 0, C 0, C 0]"

definition fe_1 :: fe where
  "fe_1 = [C 1, C 0, C 0, C 0, C 0, C 0, C 0, C 0, C 0, C 0]"

definition fe_add :: "fe \<Rightarrow> fe \<Rightarrow> fe" where
  "fe_add f g = map (\<lambda>i. f ! i + g ! i) [0..<10]"

definition fe_sub :: "fe \<Rightarrow> fe \<Rightarrow> fe" where
  "fe_sub f g = map (\<lambda>i. f ! i - g ! i) [0..<10]"

definition fe_neg :: "fe \<Rightarrow> fe" where
  "fe_neg f = map (\<lambda>i. - (f ! i)) [0..<10]"

definition fe_copy :: "fe \<Rightarrow> fe" where
  "fe_copy f = map (\<lambda>i. f ! i) [0..<10]"

text \<open>Bitwise operations on the two's complement representation; the mask is unsigned.\<close>

fun cxor :: "i32 \<Rightarrow> i32 \<Rightarrow> i32" where
  "cxor (C a) (C b) = C (a XOR b)"
| "cxor _ _ = UB"

definition cmask :: "i32 \<Rightarrow> u32 \<Rightarrow> i32" where
  "cmask x m = lift1 (\<lambda>v. C (sint (word_of_int v AND m))) x"

definition fe_cmov :: "fe \<Rightarrow> fe \<Rightarrow> u32 \<Rightarrow> fe" where
  "fe_cmov f g b =
     (let x = map (\<lambda>i. cxor (f ! i) (g ! i)) [0..<10];
          b = - b;
          x = map (\<lambda>i. cmask (x ! i) b) [0..<10]
      in map (\<lambda>i. cxor (f ! i) (x ! i)) [0..<10])"

definition fe_cswap :: "fe \<Rightarrow> fe \<Rightarrow> u32 \<Rightarrow> fe \<times> fe" where
  "fe_cswap f g b =
     (let x = map (\<lambda>i. cxor (f ! i) (g ! i)) [0..<10];
          b = - b;
          x = map (\<lambda>i. cmask (x ! i) b) [0..<10]
      in (map (\<lambda>i. cxor (f ! i) (x ! i)) [0..<10], map (\<lambda>i. cxor (g ! i) (x ! i)) [0..<10]))"

subsection \<open>Carries\<close>

text \<open>
  The three lines \<^verbatim>\<open>carry = (h[i] + (1 << (w-1))) >> w; h[i+1] += carry; h[i] -= carry << w\<close>; the carry out of the last limb is
  multiplied by 19 and goes to the first.
\<close>

definition limb_width :: "nat \<Rightarrow> nat" where
  "limb_width i = (if even i then 26 else 25)"

definition carry :: "nat \<Rightarrow> i64 list \<Rightarrow> i64 list" where
  "carry i h =
     (let w = limb_width i;
          c = shr (h ! i + C (2 ^ (w - 1))) w;
          h = (if i = 9 then h[0 := h ! 0 + c * C 19] else h[Suc i := h ! Suc i + c])
      in h[i := h ! i - shl c w])"

definition store_limbs :: "i64 list \<Rightarrow> fe" where
  "store_limbs h = map (\<lambda>i. cast (h ! i)) [0..<10]"

text \<open>The carry chains of \<^verbatim>\<open>fe_mul\<close>, \<^verbatim>\<open>fe_sq\<close> and \<^verbatim>\<open>fe_sq2\<close>, and of \<^verbatim>\<open>fe_frombytes\<close> and \<^verbatim>\<open>fe_mul121666\<close>.\<close>

definition carry_chain :: "i64 list \<Rightarrow> i64 list" where
  "carry_chain h = fold carry [0, 4, 1, 5, 2, 6, 3, 7, 4, 8, 9, 0] h"

definition carry_once :: "i64 list \<Rightarrow> i64 list" where
  "carry_once h = fold carry [9, 1, 3, 5, 7, 0, 2, 4, 6, 8] h"

subsection \<open>Multiplication\<close>

definition fe_mul_products :: "fe \<Rightarrow> fe \<Rightarrow> i64 list" where
  "fe_mul_products f g =
     (let f0 = f ! 0; f1 = f ! 1; f2 = f ! 2; f3 = f ! 3; f4 = f ! 4; f5 = f ! 5; f6 = f ! 6; f7 = f ! 7; f8 = f ! 8;
          f9 = f ! 9; g0 = g ! 0; g1 = g ! 1; g2 = g ! 2; g3 = g ! 3; g4 = g ! 4; g5 = g ! 5; g6 = g ! 6; g7 = g ! 7;
          g8 = g ! 8; g9 = g ! 9; g1_19 = C 19 * g1; g2_19 = C 19 * g2; g3_19 = C 19 * g3; g4_19 = C 19 * g4;
          g5_19 = C 19 * g5; g6_19 = C 19 * g6; g7_19 = C 19 * g7; g8_19 = C 19 * g8; g9_19 = C 19 * g9;
          f1_2 = C 2 * f1; f3_2 = C 2 * f3; f5_2 = C 2 * f5; f7_2 = C 2 * f7; f9_2 = C 2 * f9;
          f0g0 = cast f0 * cast g0; f0g1 = cast f0 * cast g1; f0g2 = cast f0 * cast g2; f0g3 = cast f0 * cast g3;
          f0g4 = cast f0 * cast g4; f0g5 = cast f0 * cast g5; f0g6 = cast f0 * cast g6; f0g7 = cast f0 * cast g7;
          f0g8 = cast f0 * cast g8; f0g9 = cast f0 * cast g9; f1g0 = cast f1 * cast g0; f1g1_2 = cast f1_2 * cast g1;
          f1g2 = cast f1 * cast g2; f1g3_2 = cast f1_2 * cast g3; f1g4 = cast f1 * cast g4;
          f1g5_2 = cast f1_2 * cast g5; f1g6 = cast f1 * cast g6; f1g7_2 = cast f1_2 * cast g7;
          f1g8 = cast f1 * cast g8; f1g9_38 = cast f1_2 * cast g9_19; f2g0 = cast f2 * cast g0;
          f2g1 = cast f2 * cast g1; f2g2 = cast f2 * cast g2; f2g3 = cast f2 * cast g3; f2g4 = cast f2 * cast g4;
          f2g5 = cast f2 * cast g5; f2g6 = cast f2 * cast g6; f2g7 = cast f2 * cast g7;
          f2g8_19 = cast f2 * cast g8_19; f2g9_19 = cast f2 * cast g9_19; f3g0 = cast f3 * cast g0;
          f3g1_2 = cast f3_2 * cast g1; f3g2 = cast f3 * cast g2; f3g3_2 = cast f3_2 * cast g3;
          f3g4 = cast f3 * cast g4; f3g5_2 = cast f3_2 * cast g5; f3g6 = cast f3 * cast g6;
          f3g7_38 = cast f3_2 * cast g7_19; f3g8_19 = cast f3 * cast g8_19; f3g9_38 = cast f3_2 * cast g9_19;
          f4g0 = cast f4 * cast g0; f4g1 = cast f4 * cast g1; f4g2 = cast f4 * cast g2; f4g3 = cast f4 * cast g3;
          f4g4 = cast f4 * cast g4; f4g5 = cast f4 * cast g5; f4g6_19 = cast f4 * cast g6_19;
          f4g7_19 = cast f4 * cast g7_19; f4g8_19 = cast f4 * cast g8_19; f4g9_19 = cast f4 * cast g9_19;
          f5g0 = cast f5 * cast g0; f5g1_2 = cast f5_2 * cast g1; f5g2 = cast f5 * cast g2;
          f5g3_2 = cast f5_2 * cast g3; f5g4 = cast f5 * cast g4; f5g5_38 = cast f5_2 * cast g5_19;
          f5g6_19 = cast f5 * cast g6_19; f5g7_38 = cast f5_2 * cast g7_19; f5g8_19 = cast f5 * cast g8_19;
          f5g9_38 = cast f5_2 * cast g9_19; f6g0 = cast f6 * cast g0; f6g1 = cast f6 * cast g1;
          f6g2 = cast f6 * cast g2; f6g3 = cast f6 * cast g3; f6g4_19 = cast f6 * cast g4_19;
          f6g5_19 = cast f6 * cast g5_19; f6g6_19 = cast f6 * cast g6_19; f6g7_19 = cast f6 * cast g7_19;
          f6g8_19 = cast f6 * cast g8_19; f6g9_19 = cast f6 * cast g9_19; f7g0 = cast f7 * cast g0;
          f7g1_2 = cast f7_2 * cast g1; f7g2 = cast f7 * cast g2; f7g3_38 = cast f7_2 * cast g3_19;
          f7g4_19 = cast f7 * cast g4_19; f7g5_38 = cast f7_2 * cast g5_19; f7g6_19 = cast f7 * cast g6_19;
          f7g7_38 = cast f7_2 * cast g7_19; f7g8_19 = cast f7 * cast g8_19; f7g9_38 = cast f7_2 * cast g9_19;
          f8g0 = cast f8 * cast g0; f8g1 = cast f8 * cast g1; f8g2_19 = cast f8 * cast g2_19;
          f8g3_19 = cast f8 * cast g3_19; f8g4_19 = cast f8 * cast g4_19; f8g5_19 = cast f8 * cast g5_19;
          f8g6_19 = cast f8 * cast g6_19; f8g7_19 = cast f8 * cast g7_19; f8g8_19 = cast f8 * cast g8_19;
          f8g9_19 = cast f8 * cast g9_19; f9g0 = cast f9 * cast g0; f9g1_38 = cast f9_2 * cast g1_19;
          f9g2_19 = cast f9 * cast g2_19; f9g3_38 = cast f9_2 * cast g3_19; f9g4_19 = cast f9 * cast g4_19;
          f9g5_38 = cast f9_2 * cast g5_19; f9g6_19 = cast f9 * cast g6_19; f9g7_38 = cast f9_2 * cast g7_19;
          f9g8_19 = cast f9 * cast g8_19; f9g9_38 = cast f9_2 * cast g9_19;
          h0 = f0g0 + f1g9_38 + f2g8_19 + f3g7_38 + f4g6_19 + f5g5_38 + f6g4_19 + f7g3_38 + f8g2_19 + f9g1_38;
          h1 = f0g1 + f1g0 + f2g9_19 + f3g8_19 + f4g7_19 + f5g6_19 + f6g5_19 + f7g4_19 + f8g3_19 + f9g2_19;
          h2 = f0g2 + f1g1_2 + f2g0 + f3g9_38 + f4g8_19 + f5g7_38 + f6g6_19 + f7g5_38 + f8g4_19 + f9g3_38;
          h3 = f0g3 + f1g2 + f2g1 + f3g0 + f4g9_19 + f5g8_19 + f6g7_19 + f7g6_19 + f8g5_19 + f9g4_19;
          h4 = f0g4 + f1g3_2 + f2g2 + f3g1_2 + f4g0 + f5g9_38 + f6g8_19 + f7g7_38 + f8g6_19 + f9g5_38;
          h5 = f0g5 + f1g4 + f2g3 + f3g2 + f4g1 + f5g0 + f6g9_19 + f7g8_19 + f8g7_19 + f9g6_19;
          h6 = f0g6 + f1g5_2 + f2g4 + f3g3_2 + f4g2 + f5g1_2 + f6g0 + f7g9_38 + f8g8_19 + f9g7_38;
          h7 = f0g7 + f1g6 + f2g5 + f3g4 + f4g3 + f5g2 + f6g1 + f7g0 + f8g9_19 + f9g8_19;
          h8 = f0g8 + f1g7_2 + f2g6 + f3g5_2 + f4g4 + f5g3_2 + f6g2 + f7g1_2 + f8g0 + f9g9_38;
          h9 = f0g9 + f1g8 + f2g7 + f3g6 + f4g5 + f5g4 + f6g3 + f7g2 + f8g1 + f9g0
      in [h0, h1, h2, h3, h4, h5, h6, h7, h8, h9])"

definition fe_mul :: "fe \<Rightarrow> fe \<Rightarrow> fe" where
  "fe_mul f g = store_limbs (carry_chain (fe_mul_products f g))"

definition fe_sq_products :: "fe \<Rightarrow> i64 list" where
  "fe_sq_products f =
     (let f0 = f ! 0; f1 = f ! 1; f2 = f ! 2; f3 = f ! 3; f4 = f ! 4; f5 = f ! 5; f6 = f ! 6; f7 = f ! 7; f8 = f ! 8;
          f9 = f ! 9; f0_2 = C 2 * f0; f1_2 = C 2 * f1; f2_2 = C 2 * f2; f3_2 = C 2 * f3; f4_2 = C 2 * f4;
          f5_2 = C 2 * f5; f6_2 = C 2 * f6; f7_2 = C 2 * f7; f5_38 = C 38 * f5; f6_19 = C 19 * f6; f7_38 = C 38 * f7;
          f8_19 = C 19 * f8; f9_38 = C 38 * f9; f0f0 = cast f0 * cast f0; f0f1_2 = cast f0_2 * cast f1;
          f0f2_2 = cast f0_2 * cast f2; f0f3_2 = cast f0_2 * cast f3; f0f4_2 = cast f0_2 * cast f4;
          f0f5_2 = cast f0_2 * cast f5; f0f6_2 = cast f0_2 * cast f6; f0f7_2 = cast f0_2 * cast f7;
          f0f8_2 = cast f0_2 * cast f8; f0f9_2 = cast f0_2 * cast f9; f1f1_2 = cast f1_2 * cast f1;
          f1f2_2 = cast f1_2 * cast f2; f1f3_4 = cast f1_2 * cast f3_2; f1f4_2 = cast f1_2 * cast f4;
          f1f5_4 = cast f1_2 * cast f5_2; f1f6_2 = cast f1_2 * cast f6; f1f7_4 = cast f1_2 * cast f7_2;
          f1f8_2 = cast f1_2 * cast f8; f1f9_76 = cast f1_2 * cast f9_38; f2f2 = cast f2 * cast f2;
          f2f3_2 = cast f2_2 * cast f3; f2f4_2 = cast f2_2 * cast f4; f2f5_2 = cast f2_2 * cast f5;
          f2f6_2 = cast f2_2 * cast f6; f2f7_2 = cast f2_2 * cast f7; f2f8_38 = cast f2_2 * cast f8_19;
          f2f9_38 = cast f2 * cast f9_38; f3f3_2 = cast f3_2 * cast f3; f3f4_2 = cast f3_2 * cast f4;
          f3f5_4 = cast f3_2 * cast f5_2; f3f6_2 = cast f3_2 * cast f6; f3f7_76 = cast f3_2 * cast f7_38;
          f3f8_38 = cast f3_2 * cast f8_19; f3f9_76 = cast f3_2 * cast f9_38; f4f4 = cast f4 * cast f4;
          f4f5_2 = cast f4_2 * cast f5; f4f6_38 = cast f4_2 * cast f6_19; f4f7_38 = cast f4 * cast f7_38;
          f4f8_38 = cast f4_2 * cast f8_19; f4f9_38 = cast f4 * cast f9_38; f5f5_38 = cast f5 * cast f5_38;
          f5f6_38 = cast f5_2 * cast f6_19; f5f7_76 = cast f5_2 * cast f7_38; f5f8_38 = cast f5_2 * cast f8_19;
          f5f9_76 = cast f5_2 * cast f9_38; f6f6_19 = cast f6 * cast f6_19; f6f7_38 = cast f6 * cast f7_38;
          f6f8_38 = cast f6_2 * cast f8_19; f6f9_38 = cast f6 * cast f9_38; f7f7_38 = cast f7 * cast f7_38;
          f7f8_38 = cast f7_2 * cast f8_19; f7f9_76 = cast f7_2 * cast f9_38; f8f8_19 = cast f8 * cast f8_19;
          f8f9_38 = cast f8 * cast f9_38; f9f9_38 = cast f9 * cast f9_38;
          h0 = f0f0 + f1f9_76 + f2f8_38 + f3f7_76 + f4f6_38 + f5f5_38;
          h1 = f0f1_2 + f2f9_38 + f3f8_38 + f4f7_38 + f5f6_38;
          h2 = f0f2_2 + f1f1_2 + f3f9_76 + f4f8_38 + f5f7_76 + f6f6_19;
          h3 = f0f3_2 + f1f2_2 + f4f9_38 + f5f8_38 + f6f7_38;
          h4 = f0f4_2 + f1f3_4 + f2f2 + f5f9_76 + f6f8_38 + f7f7_38;
          h5 = f0f5_2 + f1f4_2 + f2f3_2 + f6f9_38 + f7f8_38;
          h6 = f0f6_2 + f1f5_4 + f2f4_2 + f3f3_2 + f7f9_76 + f8f8_19;
          h7 = f0f7_2 + f1f6_2 + f2f5_2 + f3f4_2 + f8f9_38; h8 = f0f8_2 + f1f7_4 + f2f6_2 + f3f5_4 + f4f4 + f9f9_38;
          h9 = f0f9_2 + f1f8_2 + f2f7_2 + f3f6_2 + f4f5_2
      in [h0, h1, h2, h3, h4, h5, h6, h7, h8, h9])"

definition fe_sq :: "fe \<Rightarrow> fe" where
  "fe_sq f = store_limbs (carry_chain (fe_sq_products f))"

text \<open>\<^verbatim>\<open>fe_sq2\<close> repeats the products of \<^verbatim>\<open>fe_sq\<close> and doubles them.\<close>

definition fe_sq2_products :: "fe \<Rightarrow> i64 list" where
  "fe_sq2_products f = map (\<lambda>i. fe_sq_products f ! i + fe_sq_products f ! i) [0..<10]"

definition fe_sq2 :: "fe \<Rightarrow> fe" where
  "fe_sq2 f = store_limbs (carry_chain (fe_sq2_products f))"

definition fe_mul121666 :: "fe \<Rightarrow> fe" where
  "fe_mul121666 f = store_limbs (carry_once (map (\<lambda>i. cast (f ! i) * C 121666) [0..<10]))"

subsection \<open>Powers\<close>

text \<open>\<^verbatim>\<open>fe_sq(t, x); for (i = 1; i < n; ++i) fe_sq(t, t);\<close>\<close>

definition fe_sqn :: "nat \<Rightarrow> fe \<Rightarrow> fe" where
  "fe_sqn n x = ((fe_sq ^^ (n - 1)) (fe_sq x))"

definition fe_invert :: "fe \<Rightarrow> fe" where
  "fe_invert z =
     (let t0 = fe_sqn 1 z;
          t1 = fe_sqn 2 t0;
          t1 = fe_mul z t1;
          t0 = fe_mul t0 t1;
          t2 = fe_sqn 1 t0;
          t1 = fe_mul t1 t2;
          t2 = fe_sqn 5 t1;
          t1 = fe_mul t2 t1;
          t2 = fe_sqn 10 t1;
          t2 = fe_mul t2 t1;
          t3 = fe_sqn 20 t2;
          t2 = fe_mul t3 t2;
          t2 = fe_sqn 10 t2;
          t1 = fe_mul t2 t1;
          t2 = fe_sqn 50 t1;
          t2 = fe_mul t2 t1;
          t3 = fe_sqn 100 t2;
          t2 = fe_mul t3 t2;
          t2 = fe_sqn 50 t2;
          t1 = fe_mul t2 t1;
          t1 = fe_sqn 5 t1
      in fe_mul t1 t0)"

definition fe_pow22523 :: "fe \<Rightarrow> fe" where
  "fe_pow22523 z =
     (let t0 = fe_sqn 1 z;
          t1 = fe_sqn 2 t0;
          t1 = fe_mul z t1;
          t0 = fe_mul t0 t1;
          t0 = fe_sqn 1 t0;
          t0 = fe_mul t1 t0;
          t1 = fe_sqn 5 t0;
          t0 = fe_mul t1 t0;
          t1 = fe_sqn 10 t0;
          t1 = fe_mul t1 t0;
          t2 = fe_sqn 20 t1;
          t1 = fe_mul t2 t1;
          t1 = fe_sqn 10 t1;
          t0 = fe_mul t1 t0;
          t1 = fe_sqn 50 t0;
          t1 = fe_mul t1 t0;
          t2 = fe_sqn 100 t1;
          t1 = fe_mul t2 t1;
          t1 = fe_sqn 50 t1;
          t0 = fe_mul t1 t0;
          t0 = fe_sqn 2 t0
      in fe_mul t0 z)"

subsection \<open>Encoding\<close>

definition of_u64 :: "u64 \<Rightarrow> i64" where
  "of_u64 w = C (sint w)"

definition frombytes_limbs :: "bytes \<Rightarrow> i64 list" where
  "frombytes_limbs s = map of_u64
     [load_4 s, push_bit 6 (load_3 (drop 4 s)), push_bit 5 (load_3 (drop 7 s)), push_bit 3 (load_3 (drop 10 s)),
      push_bit 2 (load_3 (drop 13 s)), load_4 (drop 16 s), push_bit 7 (load_3 (drop 20 s)), push_bit 5 (load_3 (drop 23 s)),
      push_bit 4 (load_3 (drop 26 s)), push_bit 2 (load_3 (drop 29 s) AND 8388607)]"

definition fe_frombytes :: "bytes \<Rightarrow> fe" where
  "fe_frombytes s = store_limbs (carry_once (frombytes_limbs s))"

text \<open>The quotient by the prime: one pass over the limbs that starts from \<^verbatim>\<open>(19 * h9 + (1 << 24)) >> 25\<close>.\<close>

definition tobytes_quotient :: "fe \<Rightarrow> i32" where
  "tobytes_quotient h =
     fold (\<lambda>i q. shr (h ! i + q) (limb_width i)) [0..<10] (shr (C 19 * h ! 9 + C (2 ^ 24)) 25)"

text \<open>\<^verbatim>\<open>carry = h[i] >> w; h[i+1] += carry; h[i] -= carry << w\<close>; the last carry is dropped.\<close>

definition floor_carry :: "nat \<Rightarrow> fe \<Rightarrow> fe" where
  "floor_carry i h =
     (let w = limb_width i;
          c = shr (h ! i) w;
          h = (if i = 9 then h else h[Suc i := h ! Suc i + c])
      in h[i := h ! i - shl c w])"

definition tobytes_reduce :: "fe \<Rightarrow> fe" where
  "tobytes_reduce h = fold floor_carry [0..<10] (h[0 := h ! 0 + C 19 * tobytes_quotient h])"

fun cor :: "'w cint \<Rightarrow> 'w cint \<Rightarrow> 'w cint" where
  "cor (C a) (C b) = C (a OR b)"
| "cor _ _ = UB"

text \<open>\<^verbatim>\<open>(unsigned char) x\<close>.\<close>

fun to_u8 :: "'w cint \<Rightarrow> u8 option" where
  "to_u8 (C a) = Some (word_of_int a)"
| "to_u8 UB = None"

definition tobytes_store :: "fe \<Rightarrow> bytes option" where
  "tobytes_store h =
     (let h0 = h ! 0; h1 = h ! 1; h2 = h ! 2; h3 = h ! 3; h4 = h ! 4; h5 = h ! 5; h6 = h ! 6; h7 = h ! 7; h8 = h ! 8;
          h9 = h ! 9
      in those (map to_u8
        [shr h0 0, shr h0 8, shr h0 16, cor (shr h0 24) (shl h1 2), shr h1 6, shr h1 14, cor (shr h1 22) (shl h2 3),
         shr h2 5, shr h2 13, cor (shr h2 21) (shl h3 5), shr h3 3, shr h3 11, cor (shr h3 19) (shl h4 6), shr h4 2,
         shr h4 10, shr h4 18, shr h5 0, shr h5 8, shr h5 16, cor (shr h5 24) (shl h6 1), shr h6 7, shr h6 15,
         cor (shr h6 23) (shl h7 3), shr h7 5, shr h7 13, cor (shr h7 21) (shl h8 4), shr h8 4, shr h8 12,
         cor (shr h8 20) (shl h9 6), shr h9 2, shr h9 10, shr h9 18]))"

definition fe_tobytes :: "fe \<Rightarrow> bytes option" where
  "fe_tobytes h = tobytes_store (tobytes_reduce h)"

definition fe_isnegative :: "fe \<Rightarrow> u8 option" where
  "fe_isnegative f = map_option (\<lambda>s. s ! 0 AND 1) (fe_tobytes f)"

definition fe_isnonzero :: "fe \<Rightarrow> bool option" where
  "fe_isnonzero f = map_option (\<lambda>s. fold (\<lambda>i r. r OR s ! i) [1..<32] (s ! 0) \<noteq> 0) (fe_tobytes f)"

end
