(* ===== verification/Field_Limbs.thy ===== *)
theory Field_Limbs
  imports Field
begin

text \<open>What limbs represent, and that carries keep it.\<close>

definition p25519 :: int where
  "p25519 = 2 ^ 255 - 19"

definition limb_pos :: "nat \<Rightarrow> nat" where
  "limb_pos i = (51 * i + 1) div 2"

definition limbs_val :: "int list \<Rightarrow> int" where
  "limbs_val vs = (\<Sum>i<10. vs ! i * 2 ^ limb_pos i)"

text \<open>An array of ten defined limbs with bounds, whose value is \<open>V\<close> modulo the prime.\<close>

definition limbs :: "int list \<Rightarrow> 'w cint list \<Rightarrow> int \<Rightarrow> bool" where
  "limbs bs h V \<longleftrightarrow> (\<exists>vs. length vs = 10 \<and> length h = 10 \<and> length bs = 10 \<and> (\<forall>i<10. fits (h ! i) (vs ! i) (bs ! i)) \<and>
     limbs_val vs mod p25519 = V mod p25519)"

lemma sum10: "(\<Sum>i<10. f i) = f 0 + f 1 + f 2 + f 3 + f 4 + f 5 + f 6 + f 7 + f 8 + (f 9 :: int)" for f :: "nat \<Rightarrow> int"
  by (simp add: eval_nat_numeral)

lemma upt10: "[0..<10] = [0, 1, 2, 3, 4, 5, 6, 7, 8, 9]"
  by (simp add: upt_rec)

lemma all10: "(\<forall>i<10. P i) \<longleftrightarrow> P 0 \<and> P 1 \<and> P 2 \<and> P 3 \<and> P 4 \<and> P 5 \<and> P 6 \<and> P 7 \<and> P 8 \<and> P (9::nat)"
proof -
  have "(\<forall>i<10. P i) \<longleftrightarrow> (\<forall>i\<in>set [0..<10]. P i)" by auto
  then show ?thesis unfolding upt10 by simp
qed

lemma limbs_val_update:
  assumes "length vs = 10" "i < 10"
  shows "limbs_val (vs[i := x]) = limbs_val vs + (x - vs ! i) * 2 ^ limb_pos i"
proof -
  have "limbs_val (vs[i := x]) = (\<Sum>j<10. vs ! j * 2 ^ limb_pos j + (if j = i then (x - vs ! i) * 2 ^ limb_pos i else 0))"
    unfolding limbs_val_def using assms by (intro sum.cong) (auto simp: nth_list_update algebra_simps)
  then show ?thesis using assms by (simp add: sum.distrib limbs_val_def)
qed

lemma limb_pos_Suc: "limb_pos (Suc i) = limb_pos i + limb_width i"
  by (cases "even i") (auto simp: limb_pos_def limb_width_def elim!: evenE oddE)

text \<open>The bounds after a carry out of limb \<open>i\<close>.\<close>

definition carry_bounds :: "nat \<Rightarrow> int list \<Rightarrow> int list" where
  "carry_bounds i bs =
     (let w = limb_width i; c = (bs ! i + 2 ^ (w - 1)) div 2 ^ w + 1
      in (if i = 9 then bs[0 := bs ! 0 + 19 * c] else bs[Suc i := bs ! Suc i + c])[i := 2 ^ (w - 1)])"

definition carry_ok :: "nat \<Rightarrow> int list \<Rightarrow> bool" where
  "carry_ok i bs \<longleftrightarrow> i < 10 \<and> 0 \<le> bs ! i \<and> bs ! i < 3 * 2 ^ 60 \<and> bs ! (if i = 9 then 0 else Suc i) < 3 * 2 ^ 60"

lemma round_remainder:
  fixes v :: int
  assumes "0 < w"
  shows "\<bar>v - (v + 2 ^ (w - 1)) div 2 ^ w * 2 ^ w\<bar> \<le> 2 ^ (w - 1)"
proof -
  obtain n where n: "w = Suc n" using assms by (cases w) auto
  define m where "m = (v + 2 ^ n) mod (2 * 2 ^ n)"
  have "v + 2 ^ n = (v + 2 ^ n) div (2 * 2 ^ n) * (2 * 2 ^ n) + m" unfolding m_def by (simp only: div_mult_mod_eq)
  moreover have "0 \<le> m" "m < 2 * 2 ^ n" unfolding m_def by (simp_all)
  ultimately show ?thesis unfolding n by simp
qed

lemma carry_out:
  fixes x :: i64
  assumes "fits x v b" "0 \<le> b" "b < 3 * 2 ^ 60" "w = limb_width i" "c = (v + 2 ^ (w - 1)) div 2 ^ w"
  shows "fits (shr (x + C (2 ^ (w - 1))) w) c ((b + 2 ^ (w - 1)) div 2 ^ w + 1)"
    "fits (x - shl (shr (x + C (2 ^ (w - 1))) w) w) (v - c * 2 ^ w) (2 ^ (w - 1))"
    "(b + 2 ^ (w - 1)) div 2 ^ w + 1 < 2 ^ 39"
proof -
  have w: "w = 26 \<or> w = 25" by (auto simp: assms(4) limb_width_def)
  have s: "fits (x + C (2 ^ (w - 1))) (v + 2 ^ (w - 1)) (b + 2 ^ (w - 1))"
    using w assms(2,3) by (intro fits_add assms(1) fits_C) auto
  show c: "fits (shr (x + C (2 ^ (w - 1))) w) c ((b + 2 ^ (w - 1)) div 2 ^ w + 1)"
    unfolding assms(5) by (rule fits_shr[OF s])
  show lt: "(b + 2 ^ (w - 1)) div 2 ^ w + 1 < 2 ^ 39" using w assms(2,3) by auto
  have r: "\<bar>v - c * 2 ^ w\<bar> \<le> 2 ^ (w - 1)" unfolding assms(5) by (rule round_remainder) (use w in auto)
  have "((b + 2 ^ (w - 1)) div 2 ^ w + 1) * 2 ^ w < 2 ^ 63" using w assms(2,3) by auto
  then have "fits (shl (shr (x + C (2 ^ (w - 1))) w) w) (c * 2 ^ w) (((b + 2 ^ (w - 1)) div 2 ^ w + 1) * 2 ^ w)"
    by (intro fits_shl[OF c]) simp
  moreover have "b + ((b + 2 ^ (w - 1)) div 2 ^ w + 1) * 2 ^ w < 2 ^ 63" using w assms(2,3) by auto
  ultimately have "fits (x - shl (shr (x + C (2 ^ (w - 1))) w) w) (v - c * 2 ^ w) (b + ((b + 2 ^ (w - 1)) div 2 ^ w + 1) * 2 ^ w)"
    by (intro fits_diff assms(1)) auto
  with r show "fits (x - shl (shr (x + C (2 ^ (w - 1))) w) w) (v - c * 2 ^ w) (2 ^ (w - 1))" by (simp add: fits_def)
qed

lemma limbs_carry:
  assumes "limbs bs h V" "carry_ok i bs"
  shows "limbs (carry_bounds i bs) (carry i h) V"
proof -
  obtain vs where vs: "length vs = 10" "length h = 10" "length bs = 10" "\<And>j. j < 10 \<Longrightarrow> fits (h ! j) (vs ! j) (bs ! j)"
    "limbs_val vs mod p25519 = V mod p25519"
    using assms(1) by (auto simp: limbs_def)
  define w where "w = limb_width i"
  define c where "c = (vs ! i + 2 ^ (w - 1)) div 2 ^ w"
  define k where "k = (if i = 9 then 0 else Suc i)"
  define m where "m = (if i = 9 then 19 else 1 :: int)"
  have i: "i < 10" "k < 10" "k \<noteq> i" using assms(2) by (auto simp: carry_ok_def k_def)
  have b: "0 \<le> bs ! i" "bs ! i < 3 * 2 ^ 60" "bs ! k < 3 * 2 ^ 60" using assms(2) by (auto simp: carry_ok_def k_def)
  note out = carry_out[OF vs(4)[OF i(1)] b(1,2) w_def c_def]
  let ?cb = "(bs ! i + 2 ^ (w - 1)) div 2 ^ w + 1" and ?x = "shr (h ! i + C (2 ^ (w - 1))) w"
  define y where "y = (if i = 9 then h ! 0 + ?x * C 19 else h ! Suc i + ?x)"
  have hk: "fits y (vs ! k + m * c) (bs ! k + m * ?cb)"
  proof (cases "i = 9")
    case True
    have c19: "fits (?x * C 19) (c * 19) (?cb * 19)" using out(1,3) by (intro fits_mult fits_C) auto
    show ?thesis using True fits_add[OF vs(4)[OF i(2)] c19] b(3) out(3) by (simp add: y_def k_def m_def mult.commute)
  next
    case False
    then show ?thesis using fits_add[OF vs(4)[OF i(2)] out(1)] b(3) out(3) by (simp add: y_def k_def m_def)
  qed
  let ?vs = "vs[k := vs ! k + m * c, i := vs ! i - c * 2 ^ w]"
  have carry: "carry i h = h[k := y, i := h ! i - shl ?x w]"
    using i by (simp add: carry_def Let_def w_def k_def y_def)
  have bnd: "carry_bounds i bs = bs[k := bs ! k + m * ?cb, i := 2 ^ (w - 1)]"
    by (simp add: carry_bounds_def Let_def w_def k_def m_def)
  have "limbs_val ?vs = limbs_val vs + m * c * 2 ^ limb_pos k - c * 2 ^ (limb_pos i + w)"
    using vs(1) i by (simp add: limbs_val_update power_add algebra_simps)
  also have "\<dots> = limbs_val vs + (if i = 9 then - c * p25519 else 0)"
  proof (cases "i = 9")
    case True
    then show ?thesis by (simp add: k_def m_def w_def p25519_def limb_pos_def limb_width_def algebra_simps)
  next
    case False
    then show ?thesis by (simp add: k_def m_def w_def limb_pos_Suc)
  qed
  finally have "limbs_val ?vs mod p25519 = V mod p25519" using vs(5) by (simp add: mod_diff_eq[symmetric])
  moreover have "\<forall>j<10. fits (carry i h ! j) (?vs ! j) (carry_bounds i bs ! j)"
    unfolding carry bnd using vs(1-4) i hk out(2) by (auto simp: nth_list_update)
  ultimately show ?thesis using vs(1-3) unfolding limbs_def by (intro exI[of _ ?vs]) (simp add: carry bnd)
qed

lemma limbs_mono: "limbs bs h V \<Longrightarrow> (\<And>i. i < 10 \<Longrightarrow> bs ! i \<le> cs ! i) \<Longrightarrow> length cs = 10 \<Longrightarrow> limbs cs h V"
  unfolding limbs_def by (meson fits_mono)

end
