(* ===== verification/Field_Mul.thy ===== *)
theory Field_Mul
  imports Field_Limbs
begin

text \<open>
  The products of \<^verbatim>\<open>fe_mul\<close> are schoolbook multiplication of the limbs, where a product that falls beyond the last limb comes back at the
  first with the factor 19, and where two odd limbs contribute a factor 2 because their positions are rounded up.
\<close>

definition fe_bounds :: "int \<Rightarrow> int list" where
  "fe_bounds k = [2 * k, k, 2 * k, k, 2 * k, k, 2 * k, k, 2 * k, k]"

definition fe_in :: "int \<Rightarrow> fe \<Rightarrow> int \<Rightarrow> bool" where
  "fe_in k f V \<longleftrightarrow> limbs (fe_bounds k) f V"

text \<open>Schoolbook multiplication: the weight of \<open>as ! i * bs ! j\<close> in the limb \<open>(i + j) mod 10\<close>.\<close>

definition weight :: "nat \<Rightarrow> nat \<Rightarrow> int" where
  "weight i j = (if odd i \<and> odd j then 2 else 1) * (if 10 \<le> i + j then 19 else 1)"

definition mul_vals :: "int list \<Rightarrow> int list \<Rightarrow> int list" where
  "mul_vals as bs = map (\<lambda>k. \<Sum>i<10. let j = (k + 10 - i) mod 10 in weight i j * (as ! i * bs ! j)) [0..<10]"

definition mul_excess :: "int list \<Rightarrow> int list \<Rightarrow> int" where
  "mul_excess as bs = (\<Sum>i<10. \<Sum>j<10. if 10 \<le> i + j
     then (if odd i \<and> odd j then 2 else 1) * 2 ^ limb_pos (i + j - 10) * (as ! i * bs ! j) else 0)"

lemma limb_pos_add: "limb_pos i + limb_pos j = limb_pos (i + j) + (if odd i \<and> odd j then 1 else 0)"
  unfolding limb_pos_def by presburger

lemma limb_pos_wrap: "10 \<le> n \<Longrightarrow> limb_pos n = limb_pos (n - 10) + 255"
  by (simp add: limb_pos_def)

lemma mul_term:
  assumes "i < 10" "j < 10"
  shows "2 ^ limb_pos i * 2 ^ limb_pos j = weight i j * 2 ^ limb_pos ((i + j) mod 10) +
     p25519 * (if 10 \<le> i + j then (if odd i \<and> odd j then 2 else 1) * 2 ^ limb_pos (i + j - 10) else 0)"
proof (cases "10 \<le> i + j")
  case True
  then have "(i + j) mod 10 = i + j - 10" using assms by (simp add: mod_if)
  then show ?thesis using True
    by (simp add: power_add[symmetric] limb_pos_add limb_pos_wrap weight_def) (simp add: power_add p25519_def algebra_simps)
next
  case False
  then show ?thesis by (simp add: power_add[symmetric] limb_pos_add weight_def)
qed

lemma sum_rotate:
  fixes F :: "nat \<Rightarrow> nat \<Rightarrow> int"
  assumes "i < 10"
  shows "(\<Sum>k<10. F k ((k + 10 - i) mod 10)) = (\<Sum>j<10. F ((i + j) mod 10) j )"
proof (rule sum.reindex_bij_witness[where i = "\<lambda>j. (i + j) mod 10" and j = "\<lambda>k. (k + 10 - i) mod 10"])
  show "(i + (k + 10 - i) mod 10) mod 10 = k" if "k \<in> {..<10}" for k
    using that assms by (simp add: mod_add_right_eq)
  then show "F ((i + (k + 10 - i) mod 10) mod 10) ((k + 10 - i) mod 10) = F k ((k + 10 - i) mod 10)" if "k \<in> {..<10}" for k
    using that by simp
  show "((i + j) mod 10 + 10 - i) mod 10 = j" if "j \<in> {..<10}" for j
  proof (cases "i + j < 10")
    case False
    then have "(i + j) mod 10 = i + j - 10" using that assms by (simp add: mod_if)
    then show ?thesis using that False by simp
  qed (use that in simp)
qed auto

lemma mul_val:
  "limbs_val as * limbs_val bs = limbs_val (mul_vals as bs) + p25519 * mul_excess as bs"
proof -
  have "limbs_val (mul_vals as bs) =
    (\<Sum>i<10. \<Sum>k<10. weight i ((k + 10 - i) mod 10) * (as ! i * bs ! ((k + 10 - i) mod 10)) * 2 ^ limb_pos k)"
    unfolding limbs_val_def mul_vals_def by (subst sum.swap) (simp add: sum_distrib_right Let_def)
  also have "\<dots> = (\<Sum>i<10. \<Sum>j<10. weight i j * (as ! i * bs ! j) * 2 ^ limb_pos ((i + j) mod 10))"
    by (rule sum.cong[OF refl], rule sum_rotate) simp
  finally have m: "limbs_val (mul_vals as bs) = \<dots>" .
  have "limbs_val as * limbs_val bs = (\<Sum>i<10. \<Sum>j<10. as ! i * bs ! j * (2 ^ limb_pos i * 2 ^ limb_pos j))"
    unfolding limbs_val_def sum_product by (simp add: algebra_simps)
  also have "\<dots> = limbs_val (mul_vals as bs) + p25519 * mul_excess as bs"
    unfolding m mul_excess_def sum_distrib_left sum.distrib[symmetric]
    by (intro sum.cong refl) (simp add: mul_term algebra_simps)
  finally show ?thesis .
qed

lemma fits_eq: "fits x v b \<Longrightarrow> v = v' \<Longrightarrow> b \<le> b' \<Longrightarrow> fits x v' b'"
  by (auto simp: fits_def)

lemma fits_numeral [fits_rules]: "fits (C (numeral n)) (numeral n) (numeral n)"
  by (simp add: fits_def)

lemma products_fit:
  assumes f: "fits (f ! 0) a0 (2 * k)" "fits (f ! 1) a1 k" "fits (f ! 2) a2 (2 * k)" "fits (f ! 3) a3 k" "fits (f ! 4) a4 (2 * k)"
    "fits (f ! 5) a5 k" "fits (f ! 6) a6 (2 * k)" "fits (f ! 7) a7 k" "fits (f ! 8) a8 (2 * k)" "fits (f ! 9) a9 k"
  and g: "fits (g ! 0) b0 (2 * k)" "fits (g ! 1) b1 k" "fits (g ! 2) b2 (2 * k)" "fits (g ! 3) b3 k" "fits (g ! 4) b4 (2 * k)"
    "fits (g ! 5) b5 k" "fits (g ! 6) b6 (2 * k)" "fits (g ! 7) b7 k" "fits (g ! 8) b8 (2 * k)" "fits (g ! 9) b9 k"
  and k: "k = 55364812"
  shows "list_all2 (\<lambda>x v. fits x v 1600000000000000000) (fe_mul_products f g)
    (mul_vals [a0, a1, a2, a3, a4, a5, a6, a7, a8, a9] [b0, b1, b2, b3, b4, b5, b6, b7, b8, b9])"
  unfolding fe_mul_products_def mul_vals_def Let_def upt10 list.map sum10 list_all2_Cons list_all2_Nil
  apply (intro conjI TrueI)
  by (rule fits_eq, (rule fits_rules f[unfolded k] g[unfolded k] | (simp add: weight_def; fail))+)+

end
