(* ===== verification/Field_Ops.thy ===== *)
theory Field_Ops
  imports Field_Mul
begin

text \<open>
  The products of \<^verbatim>\<open>fe_sq\<close> and \<^verbatim>\<open>fe_sq2\<close>, the chain of carries that follows them, and with these the results of \<^verbatim>\<open>fe_mul\<close>, \<^verbatim>\<open>fe_sq\<close>
  and \<^verbatim>\<open>fe_sq2\<close>.  The chain is checked by computing with bounds.
\<close>

section \<open>Squares\<close>

lemma sq_products_fit:
  assumes f: "fits (f ! 0) a0 (2 * k)" "fits (f ! 1) a1 k" "fits (f ! 2) a2 (2 * k)" "fits (f ! 3) a3 k" "fits (f ! 4) a4 (2 * k)"
    "fits (f ! 5) a5 k" "fits (f ! 6) a6 (2 * k)" "fits (f ! 7) a7 k" "fits (f ! 8) a8 (2 * k)" "fits (f ! 9) a9 k"
  and k: "k = 55364812"
  shows "list_all2 (\<lambda>x v. fits x v 1600000000000000000) (fe_sq_products f)
    (mul_vals [a0, a1, a2, a3, a4, a5, a6, a7, a8, a9] [a0, a1, a2, a3, a4, a5, a6, a7, a8, a9])"
  unfolding fe_sq_products_def mul_vals_def Let_def upt10 list.map sum10 list_all2_Cons list_all2_Nil
  apply (intro conjI TrueI)
  by (rule fits_eq, (rule fits_rules f[unfolded k] | (simp add: weight_def; fail) | (simp add: weight_def algebra_simps; fail))+)+

section \<open>The carry chain\<close>

primrec carries_ok :: "nat list \<Rightarrow> int list \<Rightarrow> bool" where
  "carries_ok [] bs = True"
| "carries_ok (i # is) bs = (carry_ok i bs \<and> carries_ok is (carry_bounds i bs))"

lemma limbs_carries: "limbs bs h V \<Longrightarrow> carries_ok is bs \<Longrightarrow> limbs (fold carry_bounds is bs) (fold carry is h) V"
  by (induction "is" arbitrary: bs h) (simp_all add: limbs_carry)

lemma limbs_store:
  assumes "limbs bs h V" "\<And>i. i < 10 \<Longrightarrow> bs ! i < 2 ^ 31"
  shows "limbs bs (store_limbs h) V"
  using assms unfolding limbs_def store_limbs_def by (force intro: fits_cast)

definition mul_bounds :: "int list" where
  "mul_bounds = replicate 10 3200000000000000000"

lemma chain_ok: "carries_ok [0, 4, 1, 5, 2, 6, 3, 7, 4, 8, 9, 0] mul_bounds"
  by code_simp

lemma chain_bounds: "list_all2 (\<le>) (fold carry_bounds [0, 4, 1, 5, 2, 6, 3, 7, 4, 8, 9, 0] mul_bounds) (fe_bounds 16944988)"
  by code_simp

lemma fe_in_carries:
  assumes "limbs bs h V" "carries_ok is bs" "list_all2 (\<le>) (fold carry_bounds is bs) (fe_bounds 16944988)"
  shows "fe_in 16944988 (store_limbs (fold carry is h)) V"
proof -
  have "limbs (fold carry_bounds is bs) (fold carry is h) V" by (rule limbs_carries[OF assms(1,2)])
  then have "limbs (fe_bounds 16944988) (fold carry is h) V"
    by (rule limbs_mono) (use assms(3) in \<open>auto simp: list_all2_conv_all_nth fe_bounds_def\<close>)
  moreover have "\<forall>i<10. fe_bounds 16944988 ! i < 2 ^ 31" unfolding all10 by (simp add: fe_bounds_def)
  ultimately show ?thesis unfolding fe_in_def by (intro limbs_store) auto
qed

lemma fe_in_chain: "limbs mul_bounds h V \<Longrightarrow> fe_in 16944988 (store_limbs (carry_chain h)) V"
  unfolding carry_chain_def by (rule fe_in_carries[OF _ chain_ok chain_bounds])

lemma fe_in_cases:
  assumes "fe_in k f V"
  obtains a0 a1 a2 a3 a4 a5 a6 a7 a8 a9 where
    "fits (f ! 0) a0 (2 * k)" "fits (f ! 1) a1 k" "fits (f ! 2) a2 (2 * k)" "fits (f ! 3) a3 k" "fits (f ! 4) a4 (2 * k)"
    "fits (f ! 5) a5 k" "fits (f ! 6) a6 (2 * k)" "fits (f ! 7) a7 k" "fits (f ! 8) a8 (2 * k)" "fits (f ! 9) a9 k"
    "limbs_val [a0, a1, a2, a3, a4, a5, a6, a7, a8, a9] mod p25519 = V mod p25519"
proof -
  obtain vs where vs: "length vs = 10" "\<forall>i<10. fits (f ! i) (vs ! i) (fe_bounds k ! i)" "limbs_val vs mod p25519 = V mod p25519"
    using assms by (auto simp: fe_in_def limbs_def)
  have "vs = map ((!) vs) [0..<10]" using vs(1) by (metis map_nth)
  then have e: "[vs ! 0, vs ! 1, vs ! 2, vs ! 3, vs ! 4, vs ! 5, vs ! 6, vs ! 7, vs ! 8, vs ! 9] = vs" by (simp add: upt10)
  have "limbs_val [vs ! 0, vs ! 1, vs ! 2, vs ! 3, vs ! 4, vs ! 5, vs ! 6, vs ! 7, vs ! 8, vs ! 9] mod p25519 = V mod p25519"
    unfolding e by (rule vs(3))
  with vs(2) show thesis
    by (intro that[of "vs ! 0" "vs ! 1" "vs ! 2" "vs ! 3" "vs ! 4" "vs ! 5" "vs ! 6" "vs ! 7" "vs ! 8" "vs ! 9"])
      (simp_all add: all10 fe_bounds_def)
qed

lemma limbsI:
  assumes "list_all2 (\<lambda>x v. fits x v b) h vs" "length vs = 10" "limbs_val vs mod p25519 = V mod p25519"
  shows "limbs (replicate 10 b) h V"
  using assms unfolding limbs_def list_all2_conv_all_nth by auto

lemma limbs_mul_vals:
  assumes "limbs_val as mod p25519 = F mod p25519" "limbs_val bs mod p25519 = G mod p25519"
  shows "limbs_val (mul_vals as bs) mod p25519 = F * G mod p25519"
proof -
  have "limbs_val (mul_vals as bs) mod p25519 = limbs_val as * limbs_val bs mod p25519" by (simp add: mul_val)
  then show ?thesis using assms by (metis mod_mult_eq)
qed

lemma fits_double_sum:
  fixes x :: i64
  shows "fits x v b \<Longrightarrow> b < 2 ^ 62 \<Longrightarrow> fits (x + x) (2 * v) (2 * b)"
  using fits_add[of x v b x v b] by simp

lemma products_limbs:
  assumes "fe_in 55364812 f F" "fe_in 55364812 g G"
  shows "limbs (replicate 10 1600000000000000000) (fe_mul_products f g) (F * G)"
proof -
  obtain a0 a1 a2 a3 a4 a5 a6 a7 a8 a9 where f:
    "fits (f ! 0) a0 (2 * 55364812)" "fits (f ! 1) a1 55364812" "fits (f ! 2) a2 (2 * 55364812)" "fits (f ! 3) a3 55364812"
    "fits (f ! 4) a4 (2 * 55364812)" "fits (f ! 5) a5 55364812" "fits (f ! 6) a6 (2 * 55364812)" "fits (f ! 7) a7 55364812"
    "fits (f ! 8) a8 (2 * 55364812)" "fits (f ! 9) a9 55364812"
    "limbs_val [a0, a1, a2, a3, a4, a5, a6, a7, a8, a9] mod p25519 = F mod p25519" by (rule fe_in_cases[OF assms(1)])
  obtain b0 b1 b2 b3 b4 b5 b6 b7 b8 b9 where g:
    "fits (g ! 0) b0 (2 * 55364812)" "fits (g ! 1) b1 55364812" "fits (g ! 2) b2 (2 * 55364812)" "fits (g ! 3) b3 55364812"
    "fits (g ! 4) b4 (2 * 55364812)" "fits (g ! 5) b5 55364812" "fits (g ! 6) b6 (2 * 55364812)" "fits (g ! 7) b7 55364812"
    "fits (g ! 8) b8 (2 * 55364812)" "fits (g ! 9) b9 55364812"
    "limbs_val [b0, b1, b2, b3, b4, b5, b6, b7, b8, b9] mod p25519 = G mod p25519" by (rule fe_in_cases[OF assms(2)])
  show ?thesis
    by (rule limbsI[OF products_fit[OF f(1-10) g(1-10) refl] _ limbs_mul_vals[OF f(11) g(11)]]) (simp add: mul_vals_def)
qed

lemma sq_products_limbs:
  assumes "fe_in 55364812 f F"
  shows "limbs (replicate 10 1600000000000000000) (fe_sq_products f) (F * F)"
proof -
  obtain a0 a1 a2 a3 a4 a5 a6 a7 a8 a9 where f:
    "fits (f ! 0) a0 (2 * 55364812)" "fits (f ! 1) a1 55364812" "fits (f ! 2) a2 (2 * 55364812)" "fits (f ! 3) a3 55364812"
    "fits (f ! 4) a4 (2 * 55364812)" "fits (f ! 5) a5 55364812" "fits (f ! 6) a6 (2 * 55364812)" "fits (f ! 7) a7 55364812"
    "fits (f ! 8) a8 (2 * 55364812)" "fits (f ! 9) a9 55364812"
    "limbs_val [a0, a1, a2, a3, a4, a5, a6, a7, a8, a9] mod p25519 = F mod p25519" by (rule fe_in_cases[OF assms])
  show ?thesis
    by (rule limbsI[OF sq_products_fit[OF f(1-10) refl] _ limbs_mul_vals[OF f(11) f(11)]]) (simp add: mul_vals_def)
qed

lemma mul_bounds_mono: "limbs (replicate 10 b) h V \<Longrightarrow> b \<le> 3200000000000000000 \<Longrightarrow> limbs mul_bounds h V"
  by (erule limbs_mono) (simp_all add: mul_bounds_def)

lemma limbs_val_map: "length vs = 10 \<Longrightarrow> limbs_val (map (\<lambda>v. c * v) vs) = c * limbs_val vs"
  by (simp add: limbs_val_def sum_distrib_left algebra_simps)

lemma sq2_products_limbs:
  assumes "fe_in 55364812 f F"
  shows "limbs (replicate 10 3200000000000000000) (fe_sq2_products f) (2 * (F * F))"
proof -
  obtain vs where vs: "length vs = 10" "\<And>i. i < 10 \<Longrightarrow> fits (fe_sq_products f ! i) (vs ! i) 1600000000000000000"
    "limbs_val vs mod p25519 = F * F mod p25519"
    using sq_products_limbs[OF assms] by (auto simp: limbs_def)
  have "limbs_val (map (\<lambda>v. 2 * v) vs) mod p25519 = 2 * (F * F) mod p25519"
    unfolding limbs_val_map[OF vs(1)] by (metis vs(3) mod_mult_right_eq)
  moreover have "\<forall>i<10. fits (fe_sq2_products f ! i) (map (\<lambda>v. 2 * v) vs ! i) 3200000000000000000"
    using fits_double_sum[OF vs(2)] vs(1) by (simp add: fe_sq2_products_def)
  ultimately show ?thesis using vs(1) unfolding limbs_def
    by (intro exI[of _ "map (\<lambda>v. 2 * v) vs"]) (simp add: fe_sq2_products_def)
qed

lemma fe_in_mul: "fe_in 55364812 f F \<Longrightarrow> fe_in 55364812 g G \<Longrightarrow> fe_in 16944988 (fe_mul f g) (F * G)"
  unfolding fe_mul_def by (intro fe_in_chain mul_bounds_mono[OF products_limbs]) simp_all

lemma fe_in_sq: "fe_in 55364812 f F \<Longrightarrow> fe_in 16944988 (fe_sq f) (F * F)"
  unfolding fe_sq_def by (intro fe_in_chain mul_bounds_mono[OF sq_products_limbs]) simp_all

lemma fe_in_sq2: "fe_in 55364812 f F \<Longrightarrow> fe_in 16944988 (fe_sq2 f) (2 * (F * F))"
  unfolding fe_sq2_def by (intro fe_in_chain mul_bounds_mono[OF sq2_products_limbs]) simp_all

end
