(* ===== verification/Field_Ring.thy ===== *)
theory Field_Ring
  imports Field_Ops
begin

text \<open>
  The field operations on arrays of limbs compute addition, subtraction, negation, multiplication by a constant and powers
  modulo the prime, with the bounds of the limbs that make them composable.
\<close>

lemma fe_in_mono: "fe_in k f V \<Longrightarrow> k \<le> l \<Longrightarrow> fe_in l f V"
  unfolding fe_in_def
  by (erule limbs_mono) (auto simp: fe_bounds_def less_Suc_eq numeral_eq_Suc)

lemma fe_bounds_nth: "i < 10 \<Longrightarrow> fe_bounds k ! i = (if even i then 2 else 1) * k"
proof -
  have "\<forall>i<10. fe_bounds k ! i = (if even i then 2 else 1) * k" unfolding all10 by (simp add: fe_bounds_def)
  then show "i < 10 \<Longrightarrow> fe_bounds k ! i = (if even i then 2 else 1) * k" by blast
qed

lemma fe_in_iff:
  "fe_in k f V \<longleftrightarrow> length f = 10 \<and> (\<exists>vs. length vs = 10 \<and>
     (\<forall>i<10. fits (f ! i) (vs ! i) ((if even i then 2 else 1) * k)) \<and> limbs_val vs mod p25519 = V mod p25519)"
  unfolding fe_in_def limbs_def by (auto simp: fe_bounds_nth fe_bounds_def[THEN arg_cong[of _ _ length]])

lemma limbs_val_map2:
  "limbs_val (map (\<lambda>i. a * vs ! i + b * us ! i) [0..<10]) = a * limbs_val vs + b * limbs_val us"
  by (simp add: limbs_val_def sum.distrib sum_distrib_left algebra_simps)

text \<open>A limbwise combination of two elements.\<close>

lemma fe_in_combine:
  assumes f: "fe_in k f F" and g: "fe_in l g G"
  and op: "\<And>i x v y u b c. fits x v b \<Longrightarrow> fits y u c \<Longrightarrow> b + c < 2 ^ 31 \<Longrightarrow> fits (op x y) (a * v + d * u) (b + c)"
  and kl: "2 * (k + l) < 2 ^ 31" "0 \<le> k" "0 \<le> l"
  shows "fe_in (k + l) (map (\<lambda>i. op (f ! i) (g ! i)) [0..<10]) (a * F + d * G)"
proof -
  obtain vs where vs: "\<And>i. i < 10 \<Longrightarrow> fits (f ! i) (vs ! i) ((if even i then 2 else 1) * k)" "limbs_val vs mod p25519 = F mod p25519"
    using f by (auto simp: fe_in_iff)
  obtain us where us: "\<And>i. i < 10 \<Longrightarrow> fits (g ! i) (us ! i) ((if even i then 2 else 1) * l)" "limbs_val us mod p25519 = G mod p25519"
    using g by (auto simp: fe_in_iff)
  let ?ws = "map (\<lambda>i. a * vs ! i + d * us ! i) [0..<10]"
  have "fits (op (f ! i) (g ! i)) (?ws ! i) ((if even i then 2 else 1) * (k + l))" if "i < 10" for i
    using op[OF vs(1)[OF that] us(1)[OF that]] kl that by (auto simp: algebra_simps)
  moreover have "limbs_val ?ws mod p25519 = (a * F + d * G) mod p25519"
    unfolding limbs_val_map2 by (metis vs(2) us(2) mod_add_eq mod_mult_right_eq)
  ultimately show ?thesis unfolding fe_in_iff by (intro conjI exI[of _ ?ws]) simp_all
qed

lemma fe_in_add:
  "fe_in k f F \<Longrightarrow> fe_in l g G \<Longrightarrow> 2 * (k + l) < 2 ^ 31 \<Longrightarrow> 0 \<le> k \<Longrightarrow> 0 \<le> l \<Longrightarrow> fe_in (k + l) (fe_add f g) (F + G)"
  unfolding fe_add_def using fe_in_combine[of k f F l g G "(+)" 1 1] fits_add[where 'w = 32] by simp

lemma fe_in_sub:
  "fe_in k f F \<Longrightarrow> fe_in l g G \<Longrightarrow> 2 * (k + l) < 2 ^ 31 \<Longrightarrow> 0 \<le> k \<Longrightarrow> 0 \<le> l \<Longrightarrow> fe_in (k + l) (fe_sub f g) (F - G)"
  unfolding fe_sub_def using fe_in_combine[of k f F l g G "(-)" 1 "-1"] fits_diff[where 'w = 32] by simp

lemma fe_in_0: "fe_in 0 fe_0 0"
  unfolding fe_in_iff fe_0_def all10 by (intro conjI exI[of _ "replicate 10 0"]) (simp_all add: fits_def limbs_val_def)

lemma fe_in_1: "fe_in 1 fe_1 1"
  unfolding fe_in_iff fe_1_def all10 by (intro conjI exI[of _ "1 # replicate 9 0"]) (simp_all add: fits_def limbs_val_def sum10 limb_pos_def)

lemma fe_copy_id: "length f = 10 \<Longrightarrow> fe_copy f = f"
  unfolding fe_copy_def by (metis map_nth)

lemma fe_in_length: "fe_in k f V \<Longrightarrow> length f = 10"
  by (simp add: fe_in_iff)

lemma fe_in_neg: "fe_in k f F \<Longrightarrow> 2 * k < 2 ^ 31 \<Longrightarrow> 0 \<le> k \<Longrightarrow> fe_in k (fe_neg f) (- F)"
proof -
  assume a: "fe_in k f F" "2 * k < 2 ^ 31" "0 \<le> k"
  have m: "fits (- x) (- 1 * v + 0 * u) (b + c)" if "fits x v b" "fits y u c" "b + c < 2 ^ 31" for x y :: i32 and v u b c
  proof -
    have "0 \<le> c" using that(2) by (auto simp: fits_def)
    then show ?thesis using fits_minus[OF that(1)] that(3) by (auto intro: fits_eq)
  qed
  show ?thesis unfolding fe_neg_def
    using fe_in_combine[OF a(1) fe_in_0, of "\<lambda>x y. - x" "- 1" 0] m a by simp
qed

section \<open>Powers\<close>

lemma fe_in_relax: "fe_in 16944988 f F \<Longrightarrow> fe_in 55364812 f F"
  by (erule fe_in_mono) simp

lemma fe_in_sq_iter:
  "fe_in 16944988 f F \<Longrightarrow> fe_in 16944988 ((fe_sq ^^ n) f) (F ^ 2 ^ n)"
proof (induction n)
  case (Suc n)
  then have "fe_in 16944988 (fe_sq ((fe_sq ^^ n) f)) (F ^ 2 ^ n * F ^ 2 ^ n)"
    by (intro fe_in_sq fe_in_relax)
  moreover have "F ^ 2 ^ n * F ^ 2 ^ n = F ^ 2 ^ Suc n" unfolding power_add[symmetric] by (simp only: power_Suc mult_2)
  ultimately show ?case by simp
qed simp

lemma fe_in_sqn: "fe_in 55364812 f F \<Longrightarrow> 0 < n \<Longrightarrow> fe_in 16944988 (fe_sqn n f) (F ^ 2 ^ n)"
proof -
  assume a: "fe_in 55364812 f F" "0 < n"
  then obtain m where n: "n = Suc m" by (cases n) auto
  have "(F * F) ^ 2 ^ m = F ^ 2 ^ n" unfolding n power2_eq_square[symmetric] power_mult[symmetric] by (simp only: power_Suc)
  then show ?thesis using fe_in_sq_iter[OF fe_in_sq[OF a(1)], of m] by (simp only: fe_sqn_def n diff_Suc_1)
qed

lemma power_mul:
  "fe_in 55364812 t (Z ^ a) \<Longrightarrow> fe_in 55364812 u (Z ^ b) \<Longrightarrow> fe_in 16944988 (fe_mul t u) (Z ^ (a + b))"
  using fe_in_mul[of t "Z ^ a" u "Z ^ b"] by (simp add: power_add)

lemma power_sqn: "fe_in 55364812 t (Z ^ a) \<Longrightarrow> 0 < n \<Longrightarrow> fe_in 16944988 (fe_sqn n t) (Z ^ (a * 2 ^ n))"
  using fe_in_sqn[of t "Z ^ a" n] by (simp add: power_mult)

lemma power_let:
  "fe_in 16944988 t (Z ^ e) \<Longrightarrow> (\<And>x. fe_in 55364812 x (Z ^ e) \<Longrightarrow> fe_in 16944988 (g x) W) \<Longrightarrow> fe_in 16944988 (Let t g) W"
  by (simp add: fe_in_relax)

lemma power_exp: "fe_in 16944988 t (Z ^ a) \<Longrightarrow> a = b \<Longrightarrow> fe_in 16944988 t (Z ^ b)"
  by simp

lemma fe_in_invert:
  assumes "fe_in 55364812 z Z"
  shows "fe_in 16944988 (fe_invert z) (Z ^ (2 ^ 255 - 21))"
proof -
  have z: "fe_in 55364812 z (Z ^ 1)" using assms by simp
  show ?thesis unfolding fe_invert_def
    by (rule power_exp, (rule power_let power_mul power_sqn z | assumption | (simp; fail))+)
qed

lemma fe_in_pow22523:
  assumes "fe_in 55364812 z Z"
  shows "fe_in 16944988 (fe_pow22523 z) (Z ^ (2 ^ 252 - 3))"
proof -
  have z: "fe_in 55364812 z (Z ^ 1)" using assms by simp
  show ?thesis unfolding fe_pow22523_def
    by (rule power_exp, (rule power_let power_mul power_sqn z | assumption | (simp; fail))+)
qed

end
