(* ===== verification/Field_Bytes.thy ===== *)
theory Field_Bytes
  imports Field_Ring
begin

text \<open>
  Reading an element from 32 bytes (\<^verbatim>\<open>fe_frombytes\<close>) and multiplying by a small constant (\<^verbatim>\<open>fe_mul121666\<close>): the limbs are loaded from the
  bytes, and one pass of carries brings them to the bounds of the results of \<^verbatim>\<open>fe_mul\<close>.
\<close>

unbundle bit_operations_syntax

primrec le_val :: "bytes \<Rightarrow> int" where
  "le_val [] = 0"
| "le_val (b # bs) = uint b + 256 * le_val bs"

lemma le_val_bounds: "0 \<le> le_val s \<and> le_val s < 256 ^ length s"
proof (induction s)
  case (Cons b s)
  then show ?case using uint_range_size[of b] by (simp add: word_size)
qed simp

lemma or_push_bit: "0 \<le> x \<Longrightarrow> x < 2 ^ n \<Longrightarrow> x OR push_bit n y = x + y * 2 ^ n" for x y :: int
  using concat_bit_def[of n x y] concat_bit_eq[of n x y] by (simp add: take_bit_int_eq_self push_bit_eq_mult)

lemma uint_byte: "0 \<le> uint (b::u8)" "uint (b::u8) < 256"
  using uint_range_size[of b] by (simp_all add: word_size)

lemma uint_push_bit: "uint w * 2 ^ n < 2 ^ 64 \<Longrightarrow> uint (push_bit n w) = uint w * 2 ^ n" for w :: u64
  unfolding unsigned_push_bit_eq by (simp add: push_bit_eq_mult[of n "uint w"] take_bit_int_eq_self)

lemma uint_ucast_byte: "uint (ucast b :: u64) = uint (b :: u8)"
  using uint_byte[of b] by (simp add: unsigned_ucast_eq take_bit_int_eq_self)

lemma uint_push_byte:
  "n \<le> 24 \<Longrightarrow> uint (push_bit n (ucast b :: u64)) = push_bit n (uint (b :: u8))"
proof -
  assume n: "n \<le> 24"
  have "uint b * 2 ^ n \<le> 256 * 2 ^ 24" using uint_byte[of b] n by (intro mult_mono power_increasing) auto
  then show ?thesis unfolding push_bit_eq_mult[of n "uint b"] by (subst uint_push_bit) (simp_all add: uint_ucast_byte)
qed

lemma push_bytes:
  "push_bit 16 x = push_bit 8 (push_bit 8 x)" "push_bit 24 x = push_bit 8 (push_bit 8 (push_bit 8 x))" for x :: int
  by (simp_all add: push_bit_eq_mult)

lemma take_conv_nth: "n \<le> length s \<Longrightarrow> take n s = map ((!) s) [0..<n]"
  by (auto intro: nth_equalityI)

lemma upt34: "[0..<3] = [0, 1, 2]" "[0..<4] = [0, 1, 2, 3]"
  by (simp_all add: upt_rec)

lemma uint_load_3: "3 \<le> length s \<Longrightarrow> uint (load_3 s) = le_val (take 3 s)"
  unfolding load_3_def uint_or uint_ucast_byte
  by (simp only: uint_push_byte push_bytes push_bit_or[symmetric] refl) (simp add: take_conv_nth upt34 or_push_bit uint_byte)

lemma uint_load_4: "4 \<le> length s \<Longrightarrow> uint (load_4 s) = le_val (take 4 s)"
  unfolding load_4_def uint_or uint_ucast_byte
  by (simp only: uint_push_byte push_bytes push_bit_or[symmetric] refl) (simp add: take_conv_nth upt34 or_push_bit uint_byte)

lemma le_val_append: "le_val (a @ b) = le_val a + 256 ^ length a * le_val b"
  by (induction a) (simp_all add: algebra_simps)

lemma le_val_take: "n \<le> length s \<Longrightarrow> 0 \<le> le_val (take n s) \<and> le_val (take n s) < 256 ^ n"
  using le_val_bounds[of "take n s"] by (simp add: min_absorb2)

lemma fits_of_u64: "uint w = v \<Longrightarrow> v < 2 ^ 33 \<Longrightarrow> fits (of_u64 w) v (2 ^ 33)"
  using signed_take_bit_abs[of v "2 ^ 33" 63] by (auto simp: of_u64_def fits_def sint_uint)

lemma fits_load_4: "4 \<le> length s \<Longrightarrow> fits (of_u64 (load_4 s)) (le_val (take 4 s)) (2 ^ 33)"
  using le_val_take[of 4 s] by (intro fits_of_u64 uint_load_4) auto

lemma fits_load_3:
  assumes "3 \<le> length s" "n \<le> 8"
  shows "fits (of_u64 (push_bit n (load_3 s))) (le_val (take 3 s) * 2 ^ n) (2 ^ 33)"
proof (rule fits_of_u64)
  have "(2::int) ^ n \<le> 2 ^ 8" using assms(2) by (intro power_increasing) auto
  then have "le_val (take 3 s) * 2 ^ n \<le> 256 ^ 3 * 2 ^ 8" using le_val_take[OF assms(1)] by (intro mult_mono) auto
  then show lt: "le_val (take 3 s) * 2 ^ n < 2 ^ 33" by simp
  then show "uint (push_bit n (load_3 s)) = le_val (take 3 s) * 2 ^ n"
    using assms(1) by (subst uint_push_bit) (simp_all add: uint_load_3)
qed

lemma fits_load_top:
  assumes "3 \<le> length s"
  shows "fits (of_u64 (push_bit 2 (load_3 s AND 8388607))) (le_val (take 3 s) mod 2 ^ 23 * 2 ^ 2) (2 ^ 33)"
proof (rule fits_of_u64)
  show lt: "le_val (take 3 s) mod 2 ^ 23 * 2 ^ 2 < 2 ^ 33"
    using pos_mod_bound[of "2 ^ 23" "le_val (take 3 s)"] by simp
  have "load_3 s AND 8388607 = take_bit 23 (load_3 s)" by (simp add: take_bit_eq_mask mask_eq_exp_minus_1)
  then have "uint (load_3 s AND 8388607) = le_val (take 3 s) mod 2 ^ 23"
    using assms by (simp only: unsigned_take_bit_eq take_bit_eq_mod[of 23 "le_val (take 3 s)"] uint_load_3)
  then show "uint (push_bit 2 (load_3 s AND 8388607)) = le_val (take 3 s) mod 2 ^ 23 * 2 ^ 2"
    using lt by (subst uint_push_bit) simp_all
qed

definition frombytes_vals :: "bytes \<Rightarrow> int list" where
  "frombytes_vals s =
     [le_val (take 4 s), le_val (take 3 (drop 4 s)) * 2 ^ 6, le_val (take 3 (drop 7 s)) * 2 ^ 5, le_val (take 3 (drop 10 s)) * 2 ^ 3,
      le_val (take 3 (drop 13 s)) * 2 ^ 2, le_val (take 4 (drop 16 s)), le_val (take 3 (drop 20 s)) * 2 ^ 7,
      le_val (take 3 (drop 23 s)) * 2 ^ 5, le_val (take 3 (drop 26 s)) * 2 ^ 4, le_val (take 3 (drop 29 s)) mod 2 ^ 23 * 2 ^ 2]"

lemma le_val_split: "n \<le> length s \<Longrightarrow> le_val s = le_val (take n s) + 256 ^ n * le_val (drop n s)"
  using le_val_append[of "take n s" "drop n s"] by (simp add: min_absorb2)

lemma le_val_take_add:
  "m + n \<le> length s \<Longrightarrow> le_val (take (m + n) s) = le_val (take m s) + 2 ^ (8 * m) * le_val (take n (drop m s))"
  using le_val_append[of "take m s" "take n (drop m s)"] by (simp add: take_add min_absorb2 power_mult)

lemma frombytes_vals_val:
  assumes "length s = 32"
  shows "limbs_val (frombytes_vals s) = le_val s mod 2 ^ 255"
proof -
  note t = le_val_take_add[of _ _ s, unfolded assms]
  have t': "le_val (take 29 s) = le_val (take 26 s) + 2 ^ 208 * le_val (take 3 (drop 26 s))"
    "le_val (take 26 s) = le_val (take 23 s) + 2 ^ 184 * le_val (take 3 (drop 23 s))"
    "le_val (take 23 s) = le_val (take 20 s) + 2 ^ 160 * le_val (take 3 (drop 20 s))"
    "le_val (take 20 s) = le_val (take 16 s) + 2 ^ 128 * le_val (take 4 (drop 16 s))"
    "le_val (take 16 s) = le_val (take 13 s) + 2 ^ 104 * le_val (take 3 (drop 13 s))"
    "le_val (take 13 s) = le_val (take 10 s) + 2 ^ 80 * le_val (take 3 (drop 10 s))"
    "le_val (take 10 s) = le_val (take 7 s) + 2 ^ 56 * le_val (take 3 (drop 7 s))"
    "le_val (take 7 s) = le_val (take 4 s) + 2 ^ 32 * le_val (take 3 (drop 4 s))"
    subgoal using t[of 26 3] by simp
    subgoal using t[of 23 3] by simp
    subgoal using t[of 20 3] by simp
    subgoal using t[of 16 4] by simp
    subgoal using t[of 13 3] by simp
    subgoal using t[of 10 3] by simp
    subgoal using t[of 7 3] by simp
    subgoal using t[of 4 3] by simp
    done
  have low: "le_val (take 29 s) = le_val (take 4 s) + 2 ^ 32 * le_val (take 3 (drop 4 s)) + 2 ^ 56 * le_val (take 3 (drop 7 s)) +
    2 ^ 80 * le_val (take 3 (drop 10 s)) + 2 ^ 104 * le_val (take 3 (drop 13 s)) + 2 ^ 128 * le_val (take 4 (drop 16 s)) +
    2 ^ 160 * le_val (take 3 (drop 20 s)) + 2 ^ 184 * le_val (take 3 (drop 23 s)) + 2 ^ 208 * le_val (take 3 (drop 26 s))"
    by (simp only: t')
  have b: "0 \<le> le_val (take 29 s)" "le_val (take 29 s) < 2 ^ 232" using le_val_take[of 29 s] assms by auto
  have "le_val s = le_val (take 29 s) + 2 ^ 232 * le_val (take 3 (drop 29 s))" using le_val_split[of 29 s] assms by simp
  then have "le_val s mod (2 ^ 232 * 2 ^ 23) = 2 ^ 232 * (le_val (take 3 (drop 29 s)) mod 2 ^ 23) + le_val (take 29 s)"
    using b by (subst zmod_zmult2_eq) simp_all
  moreover have "limbs_val (frombytes_vals s) = 2 ^ 232 * (le_val (take 3 (drop 29 s)) mod 2 ^ 23) + le_val (take 29 s)"
    unfolding limbs_val_def sum10 frombytes_vals_def low by (simp add: limb_pos_def)
  moreover have "(2::int) ^ 255 = 2 ^ 232 * 2 ^ 23" by simp
  ultimately show ?thesis by (simp only:)
qed

lemma frombytes_fit:
  assumes "length s = 32"
  shows "limbs (replicate 10 (2 ^ 33)) (frombytes_limbs s) (le_val s mod 2 ^ 255)"
proof (rule limbsI)
  show "list_all2 (\<lambda>x v. fits x v (2 ^ 33)) (frombytes_limbs s) (frombytes_vals s)"
    unfolding frombytes_limbs_def frombytes_vals_def list.map list_all2_Cons list_all2_Nil using assms
    by (intro conjI TrueI fits_load_4 fits_load_3 fits_load_top) simp_all
qed (use frombytes_vals_val[OF assms] in \<open>simp_all add: frombytes_vals_def\<close>)

section \<open>Carrying once\<close>

lemma once_ok: "carries_ok [9, 1, 3, 5, 7, 0, 2, 4, 6, 8] (replicate 10 9000000000000)"
  by code_simp

lemma once_bounds:
  "list_all2 (\<le>) (fold carry_bounds [9, 1, 3, 5, 7, 0, 2, 4, 6, 8] (replicate 10 9000000000000)) (fe_bounds 16944988)"
  by code_simp

lemma fe_in_once:
  assumes "limbs (replicate 10 b) h V" "b \<le> 9000000000000"
  shows "fe_in 16944988 (store_limbs (carry_once h)) V"
proof -
  have "limbs (replicate 10 9000000000000) h V" by (rule limbs_mono[OF assms(1)]) (use assms(2) in auto)
  then show ?thesis unfolding carry_once_def by (rule fe_in_carries[OF _ once_ok once_bounds])
qed

lemma fe_in_frombytes: "length s = 32 \<Longrightarrow> fe_in 16944988 (fe_frombytes s) (le_val s mod 2 ^ 255)"
  unfolding fe_frombytes_def by (rule fe_in_once[OF frombytes_fit]) simp_all

lemma fe_in_mul121666:
  assumes "fe_in 36909875 f F"
  shows "fe_in 16944988 (fe_mul121666 f) (F * 121666)"
  unfolding fe_mul121666_def
proof (rule fe_in_once)
  obtain vs where vs: "length vs = 10" "\<And>i. i < 10 \<Longrightarrow> fits (f ! i) (vs ! i) ((if even i then 2 else 1) * 36909875)"
    "limbs_val vs mod p25519 = F mod p25519"
    using assms by (auto simp: fe_in_iff)
  have f: "fits (cast (f ! i) * C 121666 :: i64) (121666 * vs ! i) 9000000000000" if "i < 10" for i
  proof -
    have i: "fits (f ! i) (vs ! i) 73819750" by (rule fits_mono[OF vs(2)[OF that]]) simp
    show ?thesis by (rule fits_eq, (rule fits_rules i | (simp; fail))+)
  qed
  have "limbs_val (map (\<lambda>v. 121666 * v) vs) mod p25519 = F * 121666 mod p25519"
    unfolding limbs_val_map[OF vs(1)] by (metis vs(3) mod_mult_left_eq mult.commute)
  then show "limbs (replicate 10 9000000000000) (map (\<lambda>i. cast (f ! i) * C 121666 :: i64) [0..<10]) (F * 121666)"
    using f vs(1) unfolding limbs_def by (intro exI[of _ "map (\<lambda>v. 121666 * v) vs"]) simp
qed simp

end
