(* ===== verification/Field_Encode.thy ===== *)
theory Field_Encode
  imports Field_Bytes
begin

text \<open>
  The canonical encoding of an element (\<^verbatim>\<open>fe_tobytes\<close>): the quotient by the prime is found from the limbs, a pass of carries that
  round down leaves the limbs of the remainder, and these are stored in 32 bytes.  \<^verbatim>\<open>fe_isnegative\<close> and \<^verbatim>\<open>fe_isnonzero\<close> look at the
  encoding; \<^verbatim>\<open>fe_cmov\<close> and \<^verbatim>\<open>fe_cswap\<close> select without branching.
\<close>

unbundle bit_operations_syntax

section \<open>Sums of limbs\<close>

definition psum :: "int list \<Rightarrow> nat \<Rightarrow> int" where
  "psum vs n = (\<Sum>i<n. vs ! i * 2 ^ limb_pos i)"

lemma psum_0 [simp]: "psum vs 0 = 0"
  by (simp add: psum_def)

lemma psum_Suc: "psum vs (Suc n) = psum vs n + vs ! n * 2 ^ limb_pos n"
  by (simp add: psum_def)

lemma limbs_val_psum: "limbs_val vs = psum vs 10"
  by (simp add: limbs_val_def psum_def)

lemma floor_step: "(v + a div 2 ^ n) div 2 ^ w = (a + v * 2 ^ n) div 2 ^ (n + w)" for a v :: int
  by (simp add: power_add zdiv_zmult2_eq add.commute)

section \<open>The quotient\<close>

lemma quotient_bound:
  fixes H Q r q0 h9 L :: int
  assumes "H = p25519 * Q + r" "0 \<le> r" "r < p25519" "H = h9 * 2 ^ 230 + L" "\<bar>L\<bar> \<le> 2 ^ 231"
    "q0 = (19 * h9 + 2 ^ 24) div 2 ^ 25" "\<bar>Q\<bar> \<le> 4"
  shows "(H + q0) div 2 ^ 255 = Q"
proof -
  have "q0 * 2 ^ 25 \<le> 19 * h9 + 2 ^ 24" "19 * h9 + 2 ^ 24 < (q0 + 1) * 2 ^ 25"
    unfolding assms(6) by simp_all
  then have lo: "0 \<le> q0 - 19 * Q" and hi: "q0 - 19 * Q \<le> 19" using assms(1-5,7) unfolding p25519_def by simp_all
  have "H + q0 = r + (q0 - 19 * Q) + 2 ^ 255 * Q" unfolding assms(1) p25519_def by (simp add: algebra_simps)
  moreover have "0 \<le> r + (q0 - 19 * Q)" "r + (q0 - 19 * Q) < 2 ^ 255" using lo hi assms(2,3) by (simp_all add: p25519_def)
  ultimately show ?thesis by (simp add: div_add_self2)
qed

lemma psum_bound:
  assumes "\<And>i. i < 10 \<Longrightarrow> \<bar>vs ! i\<bar> \<le> (if even i then 2 else 1) * 36909875"
  shows "\<bar>psum vs 9\<bar> \<le> 2 ^ 231"
proof -
  have "\<bar>psum vs 9\<bar> \<le> (\<Sum>i<9. \<bar>vs ! i * 2 ^ limb_pos i\<bar>)" unfolding psum_def by (rule sum_abs)
  also have "\<dots> \<le> (\<Sum>i<9. (if even i then 2 else 1) * 36909875 * 2 ^ limb_pos i)"
    using assms by (intro sum_mono) (auto simp: abs_mult)
  also have "\<dots> \<le> 2 ^ 231" by (simp add: lessThan_nat_numeral lessThan_Suc limb_pos_def)
  finally show ?thesis .
qed

lemma quotient_fold:
  assumes "\<And>i. i < 10 \<Longrightarrow> fits (h ! i :: i32) (vs ! i) ((if even i then 2 else 1) * 36909875)" "fits q q0 30" "n \<le> 10"
  shows "fits (fold (\<lambda>i q. shr (h ! i + q) (limb_width i)) [0..<n] q) ((q0 + psum vs n) div 2 ^ limb_pos n) 30"
  using assms(3)
proof (induction n)
  case 0
  then show ?case using assms(2) by (simp add: limb_pos_def)
next
  case (Suc n)
  let ?q = "(q0 + psum vs n) div 2 ^ limb_pos n"
  have "fits (h ! n + fold (\<lambda>i q. shr (h ! i + q) (limb_width i)) [0..<n] q) (vs ! n + ?q)
    ((if even n then 2 else 1) * 36909875 + 30)"
    by (rule fits_add[OF assms(1) Suc.IH]) (use Suc.prems in auto)
  from fits_shr[OF this, of "limb_width n"] show ?case
    by (simp add: floor_step psum_Suc limb_pos_Suc add.assoc) (erule fits_mono, simp add: limb_width_def)
qed

lemma quotient_fits:
  assumes "\<And>i. i < 10 \<Longrightarrow> fits (h ! i) (vs ! i) ((if even i then 2 else 1) * 36909875)"
  shows "fits (tobytes_quotient h) (limbs_val vs div p25519) 30"
proof -
  have v: "\<bar>vs ! i\<bar> \<le> (if even i then 2 else 1) * 36909875" if "i < 10" for i using assms[OF that] by (simp add: fits_def)
  let ?q0 = "(19 * vs ! 9 + 2 ^ 24) div 2 ^ 25"
  have 9: "fits (h ! 9) (vs ! 9) 36909875" using assms[of 9] by simp
  have "fits (C 19 * h ! 9 + C (2 ^ 24)) (19 * vs ! 9 + 2 ^ 24) (19 * 36909875 + 2 ^ 24)"
    by (rule fits_add[OF fits_mult[OF fits_numeral 9] fits_C]) simp_all
  from fits_shr[OF this, of 25] have q0: "fits (shr (C 19 * h ! 9 + C (2 ^ 24)) 25) ?q0 30" by (rule fits_mono) simp
  have H: "limbs_val vs = vs ! 9 * 2 ^ 230 + psum vs 9"
    using psum_Suc[of vs 9] by (simp add: limbs_val_psum limb_pos_def)
  then have "\<bar>limbs_val vs div p25519\<bar> \<le> 4"
    using v[of 9] psum_bound[OF v] by (simp add: p25519_def) 
  then have "(limbs_val vs + ?q0) div 2 ^ 255 = limbs_val vs div p25519"
    by (intro quotient_bound[OF mult_div_mod_eq[symmetric] _ _ H psum_bound[OF v] refl]) (simp_all add: p25519_def)
  then show ?thesis using quotient_fold[OF assms q0, of 10]
    by (simp add: tobytes_quotient_def limbs_val_psum limb_pos_def add.commute)
qed

section \<open>The reduced limbs\<close>

definition limb_of :: "int \<Rightarrow> nat \<Rightarrow> int" where
  "limb_of r i = r div 2 ^ limb_pos i mod 2 ^ limb_width i"

lemma limb_of_cong:
  assumes "a mod 2 ^ limb_pos (Suc i) = b mod 2 ^ limb_pos (Suc i)"
  shows "limb_of a i = limb_of b i"
proof -
  have "c mod 2 ^ limb_pos (Suc i) div 2 ^ limb_pos i = limb_of c i" for c :: int
    unfolding limb_pos_Suc power_add limb_of_def by (subst zmod_zmult2_eq) simp_all
  then show ?thesis using assms by metis
qed

lemma limb_pos_mono: "i \<le> j \<Longrightarrow> limb_pos i \<le> limb_pos j"
  by (simp add: limb_pos_def div_le_mono)

lemma psum_mod: "n \<le> m \<Longrightarrow> psum vs m mod 2 ^ limb_pos n = psum vs n mod 2 ^ limb_pos n"
proof (induction m)
  case (Suc m)
  show ?case
  proof (cases "n = Suc m")
    case False
    then have "(2::int) ^ limb_pos n dvd vs ! m * 2 ^ limb_pos m" using Suc.prems by (intro dvd_mult le_imp_power_dvd limb_pos_mono) auto
    then show ?thesis using False Suc by (simp add: psum_Suc mod_add_right_eq[symmetric, of _ "vs ! m * 2 ^ limb_pos m"])
  qed simp
qed simp

lemma floor_carry_step:
  fixes x :: i32
  assumes "fits x v b" "b \<le> 2 ^ 27" "w = limb_width i"
  shows "fits (shr x w) (v div 2 ^ w) 5" "x - shl (shr x w) w = C (v mod 2 ^ w)"
proof -
  have w: "w = 26 \<or> w = 25" by (auto simp: assms(3) limb_width_def)
  show c: "fits (shr x w) (v div 2 ^ w) 5" by (rule fits_mono[OF fits_shr[OF assms(1)]]) (use w assms(2) in auto)
  have "fits (shl (shr x w) w) (v div 2 ^ w * 2 ^ w) (5 * 2 ^ w)" using w by (intro fits_shl[OF c]) auto
  from fits_diff[OF assms(1) this] have "fits (x - shl (shr x w) w) (v - v div 2 ^ w * 2 ^ w) (b + 5 * 2 ^ w)" using w assms(2) by auto
  then show "x - shl (shr x w) w = C (v mod 2 ^ w)" by (simp add: fits_def minus_div_mult_eq_mod)
qed

lemma reduce_fold:
  assumes h: "length h = 10" "\<And>i. i < 10 \<Longrightarrow> fits (h ! i) (us ! i) 80000000" and n: "n \<le> 10"
  shows "length (fold floor_carry [0..<n] h) = 10 \<and> (\<forall>i<n. fold floor_carry [0..<n] h ! i = C (limb_of (psum us (Suc i)) i)) \<and>
    (\<forall>i<10. n \<le> i \<longrightarrow> fits (fold floor_carry [0..<n] h ! i) (us ! i + (if i = n then psum us n div 2 ^ limb_pos n else 0)) (if i = n then 80000005 else 80000000))"
  using n
proof (induction n)
  case 0
  then show ?case using h fits_mono[OF h(2)[of 0], of 80000005] by auto
next
  case (Suc n)
  let ?g = "fold floor_carry [0..<n] h" and ?v = "us ! n + psum us n div 2 ^ limb_pos n"
  define w where "w = limb_width n"
  have "n < 10" and f: "\<And>i. i < 10 \<Longrightarrow> n \<le> i \<Longrightarrow> fits (?g ! i) (us ! i + (if i = n then psum us n div 2 ^ limb_pos n else 0))
    (if i = n then 80000005 else 80000000)" using Suc by auto
  with f[of n] have g: "length ?g = 10" "\<And>i. i < n \<Longrightarrow> ?g ! i = C (limb_of (psum us (Suc i)) i)" "fits (?g ! n) ?v 80000005"
    "\<And>i. n < i \<Longrightarrow> i < 10 \<Longrightarrow> fits (?g ! i) (us ! i) 80000000"
    using Suc f by (auto dest: f)
  note st = floor_carry_step[OF g(3) _ w_def]
  have v: "?v = psum us (Suc n) div 2 ^ limb_pos n" using floor_step[of "us ! n" "psum us n" "limb_pos n" 0] by (simp add: psum_Suc)
  have c: "?v div 2 ^ w = psum us (Suc n) div 2 ^ limb_pos (Suc n)"
    by (simp add: floor_step psum_Suc limb_pos_Suc w_def)
  have step: "fold floor_carry [0..<Suc n] h =
    (if n = 9 then ?g else ?g[Suc n := ?g ! Suc n + shr (?g ! n) w])[n := ?g ! n - shl (shr (?g ! n) w) w]"
    by (simp add: floor_carry_def Let_def w_def)
  have nxt: "fits (?g ! Suc n + shr (?g ! n) w) (us ! Suc n + psum us (Suc n) div 2 ^ limb_pos (Suc n)) 80000005" if "n \<noteq> 9"
    using fits_add[OF g(4)[of "Suc n"] st(1)] that Suc.prems by (simp add: c)
  show ?case unfolding step using g st(2) nxt Suc.prems
    by (auto simp: nth_list_update less_Suc_eq v limb_of_def w_def)
qed

lemma tobytes_reduce_limbs:
  assumes "fe_in 36909875 h V"
  shows "tobytes_reduce h = map (\<lambda>i. C (limb_of (V mod p25519) i)) [0..<10]"
proof -
  obtain vs where vs: "length h = 10" "length vs = 10" "\<And>i. i < 10 \<Longrightarrow> fits (h ! i) (vs ! i) ((if even i then 2 else 1) * 36909875)"
    "limbs_val vs mod p25519 = V mod p25519"
    using assms by (auto simp: fe_in_iff)
  define Q where "Q = limbs_val vs div p25519"
  define h' where "h' = h[0 := h ! 0 + C 19 * tobytes_quotient h]"
  define us where "us = vs[0 := vs ! 0 + 19 * Q]"
  have q: "fits (C 19 * tobytes_quotient h) (19 * Q) (19 * 30)"
    by (rule fits_mult[OF fits_numeral]) (use quotient_fits[OF vs(3)] in \<open>simp_all add: Q_def\<close>)
  have z: "fits (h' ! 0) (us ! 0) 80000000"
    using fits_eq[OF fits_add[OF vs(3)[of 0] q] refl] vs(1,2) by (simp add: h'_def us_def)
  have "fits (h' ! i) (us ! i) 80000000" if "i < 10" "i \<noteq> 0" for i
    using fits_mono[OF vs(3)[OF that(1)], of 80000000] that by (simp add: h'_def us_def)
  then have h': "fits (h' ! i) (us ! i) 80000000" if "i < 10" for i
    using z that by (cases "i = 0") simp_all
  have l: "length h' = 10" using vs(1) by (simp add: h'_def)
  have H: "limbs_val vs = p25519 * Q + V mod p25519" unfolding Q_def vs(4)[symmetric] by simp
  have "limbs_val us = V mod p25519 + 2 ^ 255 * Q"
    using H vs(2) by (simp add: us_def limbs_val_update limb_pos_def p25519_def algebra_simps)
  then have p: "psum us 10 = V mod p25519 + 2 ^ 255 * Q" by (simp add: limbs_val_psum)
  have "limb_of (psum us (Suc i)) i = limb_of (V mod p25519) i" if "i < 10" for i
  proof (rule limb_of_cong)
    have "limb_pos (Suc i) \<le> limb_pos 10" using that by (intro limb_pos_mono) simp
    then have "(2::int) ^ limb_pos (Suc i) dvd 2 ^ 255" by (intro le_imp_power_dvd) (simp add: limb_pos_def)
    then have "(V mod p25519 + 2 ^ 255 * Q) mod 2 ^ limb_pos (Suc i) = V mod p25519 mod 2 ^ limb_pos (Suc i)"
      by (metis dvd_mult2 mod_add_right_eq add_0_right dvd_imp_mod_0)
    then show "psum us (Suc i) mod 2 ^ limb_pos (Suc i) = V mod p25519 mod 2 ^ limb_pos (Suc i)"
      using psum_mod[of "Suc i" 10 us] that p by simp
  qed
  then show ?thesis using reduce_fold[OF l h', of 10] unfolding tobytes_reduce_def h'_def[symmetric]
    by (intro nth_equalityI) simp_all
qed

section \<open>Storing the bytes\<close>

text \<open>The bits \<open>p, ..., p + w - 1\<close> of a number; a stored byte lies in one limb or in two adjacent ones.\<close>

definition window :: "int \<Rightarrow> nat \<Rightarrow> nat \<Rightarrow> int" where
  "window r p w = r div 2 ^ p mod 2 ^ w"

lemma bit_window: "bit (window r p w) n \<longleftrightarrow> n < w \<and> bit r (p + n)"
  by (simp add: window_def drop_bit_eq_div[symmetric] take_bit_eq_mod[symmetric] bit_take_bit_iff bit_drop_bit_eq)

lemma byte_of_bits: "n < 8 \<Longrightarrow> bit (ucast (drop_bit m (word_of_int r :: 256 word)) :: u8) n \<longleftrightarrow> m + n < 256 \<and> bit r (m + n)"
  by (auto simp: bit_ucast_iff bit_drop_bit_eq bit_word_of_int_iff)

lemma byte_window:
  assumes "m = p + a" "m + 8 \<le> 256" "a + 8 \<le> w \<or> (0 \<le> r \<and> r < 2 ^ (p + w))"
  shows "to_u8 (shr (C (window r p w)) a) = Some (ucast (drop_bit m (word_of_int r :: 256 word)))"
proof -
  have top: "k < w" if "0 \<le> r" "r < 2 ^ (p + w)" "bit r (p + k)" for k
    using that bit_take_bit_iff[of "p + w" r "p + k"] by (simp add: take_bit_int_eq_self)
  have "(word_of_int (window r p w div 2 ^ a) :: u8) = ucast (drop_bit m (word_of_int r :: 256 word))"
    by (rule bit_word_eqI)
      (use assms in \<open>auto intro: top simp: byte_of_bits bit_word_of_int_iff drop_bit_eq_div[symmetric] bit_drop_bit_eq bit_window add.assoc not_less\<close>)
  then show ?thesis by (simp add: shr_def)
qed

lemma byte_join:
  fixes x :: "'w::len cint"
  assumes "m = p + a" "m + 8 \<le> 256" "a + b = w" "b < 8" "q = p + w" "8 \<le> v" "8 < LENGTH('w)" "x = C (window r p w)"
  shows "to_u8 (cor (shr x a) (shl (C (window r q v)) b)) = Some (ucast (drop_bit m (word_of_int r :: 256 word)))"
proof -
  have "(word_of_int (window r p w div 2 ^ a OR signed_take_bit (LENGTH('w) - 1) (window r q v * 2 ^ b)) :: u8) =
    ucast (drop_bit m (word_of_int r :: 256 word))"
    by (rule bit_word_eqI)
      (use assms(1,2,4,6,7) in \<open>auto simp: assms(3)[symmetric] assms(5) byte_of_bits bit_word_of_int_iff drop_bit_eq_div[symmetric]
        push_bit_eq_mult[symmetric] bit_drop_bit_eq bit_window add.assoc bit_or_iff bit_signed_take_bit_iff bit_push_bit_iff not_less min_def\<close>)
  then show ?thesis by (simp add: shr_def shl_def assms(8))
qed

lemma those_Some: "list_all2 (\<lambda>x y. x = Some y) xs ys \<Longrightarrow> those xs = Some ys"
  by (induction rule: list_all2_induct) simp_all

lemma nth_map10:
  "map f [0..<10] ! 0 = f 0" "map f [0..<10] ! 1 = f 1" "map f [0..<10] ! 2 = f 2" "map f [0..<10] ! 3 = f 3" "map f [0..<10] ! 4 = f 4"
  "map f [0..<10] ! 5 = f 5" "map f [0..<10] ! 6 = f 6" "map f [0..<10] ! 7 = f 7" "map f [0..<10] ! 8 = f 8" "map f [0..<10] ! 9 = f 9"
  unfolding upt10 by simp_all

lemma upt32:
  "[0..<32] = [0, 1, 2, 3, 4, 5, 6, 7, 8, 9, 10, 11, 12, 13, 14, 15, 16, 17, 18, 19, 20, 21, 22, 23, 24, 25, 26, 27, 28, 29, 30, 31]"
  by (simp add: upt_rec)

lemma tobytes_store_bytes:
  assumes "0 \<le> r" "r < 2 ^ 255"
  shows "tobytes_store (map (\<lambda>i. C (limb_of r i)) [0..<10]) = Some (le_bytes 32 (word_of_int r :: 256 word))"
  unfolding le_bytes_map tobytes_store_def Let_def nth_map10 upt32 list.map
  apply (rule those_Some)
  unfolding list_all2_Cons list_all2_Nil
  apply (intro conjI TrueI)
  unfolding limb_of_def window_def[symmetric]
  by ((rule byte_window byte_join, (use assms in \<open>simp add: limb_pos_def limb_width_def; fail\<close>)+)+)

lemma fe_tobytes_val:
  "fe_in 36909875 h V \<Longrightarrow> fe_tobytes h = Some (le_bytes 32 (word_of_int (V mod p25519) :: 256 word))"
  unfolding fe_tobytes_def by (simp add: tobytes_reduce_limbs) (rule tobytes_store_bytes, simp_all add: p25519_def)

lemma le_bytes_le_val:
  "8 * length s \<le> LENGTH('a) \<Longrightarrow> le_bytes (length s) (word_of_int (le_val s) :: 'a::len word) = s"
proof (induction s)
  case (Cons b s)
  define x where "x = uint b + 256 * le_val s"
  have "x < 256 ^ length (b # s)" "0 \<le> x" using le_val_bounds[of "b # s"] by (simp_all add: x_def)
  moreover have "(256 :: int) ^ length (b # s) \<le> 2 ^ LENGTH('a)"
    using power_increasing[OF Cons.prems, of "2 :: int"] by (simp only: power_mult) simp
  ultimately have tb: "take_bit LENGTH('a) x = x" by (simp add: take_bit_int_eq_self)
  then have x: "uint (word_of_int x :: 'a word) = x" by (simp add: uint_word_of_int_eq)
  have b: "x mod 256 = uint b" "x div 256 = le_val s" using uint_byte[of b] by (simp_all add: x_def)
  have "ucast (word_of_int x :: 'a word) = b"
    by (rule word_uint_eqI) (use x b in \<open>simp add: unsigned_ucast_eq take_bit_eq_mod\<close>)
  moreover have "drop_bit 8 (word_of_int x :: 'a word) = word_of_int (le_val s)"
  proof -
    have "uint (drop_bit 8 (word_of_int x :: 'a word)) = le_val s"
      unfolding unsigned_drop_bit_eq using b by (simp add: x tb drop_bit_eq_div)
    then show ?thesis by (metis word_of_int_uint)
  qed
  ultimately show ?case using Cons by (simp add: x_def[symmetric])
qed simp

lemma fe_isnegative_val: "fe_in 36909875 f V \<Longrightarrow> fe_isnegative f = Some (of_bool (odd (V mod p25519)))"
proof -
  assume a: "fe_in 36909875 f V"
  have "le_bytes 32 (word_of_int (V mod p25519) :: 256 word) ! 0 AND 1 = of_bool (odd (V mod p25519))"
    using byte_of_bits[of 0 0 "V mod p25519"] unfolding le_bytes_map and_one_eq mod_2_eq_odd by (simp add: bit_0)
  then show ?thesis using a by (simp add: fe_isnegative_def fe_tobytes_val)
qed

lemma fold_or_zero: "fold (\<lambda>i r. r OR s ! i) is r = 0 \<longleftrightarrow> r = 0 \<and> (\<forall>i\<in>set is. s ! i = 0)" for s :: bytes
  by (induction "is" arbitrary: r) (auto simp: or_eq_0_iff)

lemma fe_isnonzero_val:
  assumes "fe_in 36909875 f V"
  shows "fe_isnonzero f = Some (V mod p25519 \<noteq> 0)"
proof -
  let ?w = "word_of_int (V mod p25519) :: 256 word"
  have "fold (\<lambda>i r. r OR le_bytes 32 ?w ! i) [1..<32] (le_bytes 32 ?w ! 0) = 0 \<longleftrightarrow> (\<forall>i<32. le_bytes 32 ?w ! i = 0)"
    unfolding fold_or_zero by (auto simp: Suc_le_eq)
  also have "\<dots> \<longleftrightarrow> le_bytes 32 ?w = le_bytes 32 (0 :: 256 word)" by (simp add: list_eq_iff_nth_eq)
  also have "\<dots> \<longleftrightarrow> ?w = 0" by (rule le_bytes_inject) simp
  also have "\<dots> \<longleftrightarrow> V mod p25519 = 0"
    using zdvd_imp_le[of "2 ^ 256" "V mod p25519"] pos_mod_bound[of p25519 V] pos_mod_sign[of p25519 V]
    by (auto simp: word_of_int_eq_0_iff p25519_def)
  finally show ?thesis using assms by (simp add: fe_isnonzero_def fe_tobytes_val)
qed

section \<open>Conditional moves\<close>

definition fe_ok :: "fe \<Rightarrow> bool" where
  "fe_ok f \<longleftrightarrow> length f = 10 \<and> (\<forall>x\<in>set f. \<exists>v. x = C v \<and> in_width 32 v)"

lemma fe_in_ok: "fe_in k f V \<Longrightarrow> 0 \<le> k \<Longrightarrow> 2 * k < 2 ^ 31 \<Longrightarrow> fe_ok f"
  by (force simp: fe_in_iff fe_ok_def in_set_conv_nth fits_def in_width_def split: if_splits)

lemma fe_result_ok: "fe_in 16944988 f V \<Longrightarrow> fe_ok f"
  by (erule fe_in_ok) simp_all

lemma fe_ok_nth: "fe_ok f \<Longrightarrow> i < 10 \<Longrightarrow> \<exists>v. f ! i = C v \<and> in_width 32 v"
  by (auto simp: fe_ok_def)

lemma sint_word_of_int32: "in_width 32 v \<Longrightarrow> sint (word_of_int v :: u32) = v"
  by (simp add: in_width_def int_word_sint)

lemma in_width_signed: "in_width 32 v \<longleftrightarrow> (\<forall>n. bit v (min 31 n) = bit v n)"
proof -
  have "in_width 32 v \<longleftrightarrow> signed_take_bit 31 v = v" by (auto simp: in_width_def signed_take_bit_int_eq_self_iff)
  then show ?thesis by (auto simp: bit_eq_iff bit_signed_take_bit_iff)
qed

lemma in_width_xor: "in_width 32 a \<Longrightarrow> in_width 32 b \<Longrightarrow> in_width 32 (a XOR b)"
  by (simp add: in_width_signed bit_xor_iff)

lemma cmov_limb:
  assumes "\<exists>v. x = C v \<and> in_width 32 v" "\<exists>v. y = C v \<and> in_width 32 v"
  shows "cxor x (cmask (cxor x y) 0) = x" "cxor x (cmask (cxor x y) (- 1)) = y" "cxor y (cmask (cxor x y) 0) = y"
    "cxor y (cmask (cxor x y) (- 1)) = x"
proof -
  obtain a b where "x = C a" "y = C b" "in_width 32 a" "in_width 32 b" using assms by auto
  then show "cxor x (cmask (cxor x y) 0) = x" "cxor x (cmask (cxor x y) (- 1)) = y" "cxor y (cmask (cxor x y) 0) = y"
    "cxor y (cmask (cxor x y) (- 1)) = x"
    by (simp_all add: cmask_def sint_word_of_int32 in_width_xor xor.assoc[symmetric]) (simp add: xor.commute[of b a] xor.assoc)
qed

lemma fe_cmov_val: "fe_ok f \<Longrightarrow> fe_ok g \<Longrightarrow> fe_cmov f g 0 = f" "fe_ok f \<Longrightarrow> fe_ok g \<Longrightarrow> fe_cmov f g 1 = g"
  by (intro nth_equalityI; simp add: fe_cmov_def Let_def cmov_limb fe_ok_nth fe_ok_def)+

lemma fe_cswap_val: "fe_ok f \<Longrightarrow> fe_ok g \<Longrightarrow> fe_cswap f g 0 = (f, g)" "fe_ok f \<Longrightarrow> fe_ok g \<Longrightarrow> fe_cswap f g 1 = (g, f)"
  unfolding fe_cswap_def Let_def
  by (auto intro!: nth_equalityI simp: cmov_limb fe_ok_nth fe_ok_def)

section \<open>Properties\<close>

lemma fe_in_out: "fe_in 16944988 f V \<Longrightarrow> fe_in 36909875 f V"
  by (erule fe_in_mono) simp

text \<open>
  C30. Multiplication in the field: for arguments within the bounds that the comment of \<^verbatim>\<open>fe_mul\<close> states, no intermediate product, sum or
  carry overflows its C type, the result represents the product modulo \<open>2 ^ 255 - 19\<close>, and its limbs are within the bounds of the
  comment.
\<close>

theorem fe_mul_correct:
  assumes "fe_in 55364812 f F" "fe_in 55364812 g G"
  shows "fe_in 16944988 (fe_mul f g) (F * G)"
  using assms by (rule fe_in_mul)

theorem fe_mul_correct_witness: "fe_in 16944988 (fe_mul (fe_frombytes (9 # replicate 31 255)) fe_1) (le_val (9 # replicate 31 255) mod 2 ^ 255 * 1)"
  by (rule fe_mul_correct[OF fe_in_relax[OF fe_in_frombytes] fe_in_mono[OF fe_in_1]]) simp_all

text \<open>
  C31. The optimised squaring is the multiplication of an element with itself: both are encoded by the same 32 bytes, and \<^verbatim>\<open>fe_sq2\<close> by those of
  the double.
\<close>

theorem fe_sq_is_mul:
  assumes "fe_in 55364812 f F"
  shows "fe_tobytes (fe_sq f) = fe_tobytes (fe_mul f f) \<and> fe_tobytes (fe_sq2 f) = fe_tobytes (fe_add (fe_mul f f) (fe_mul f f)) \<and>
    fe_tobytes (fe_sq f) \<noteq> None"
proof -
  have "fe_in (16944988 + 16944988) (fe_add (fe_mul f f) (fe_mul f f)) (F * F + F * F)"
    by (rule fe_in_add) (simp_all add: fe_in_mul assms)
  then have "fe_in 36909875 (fe_add (fe_mul f f) (fe_mul f f)) (2 * (F * F))" unfolding mult_2 by (rule fe_in_mono) simp
  then show ?thesis
    by (simp add: fe_tobytes_val[OF fe_in_out[OF fe_in_sq[OF assms]]] fe_tobytes_val[OF fe_in_out[OF fe_in_sq2[OF assms]]]
      fe_tobytes_val[OF fe_in_out[OF fe_in_mul[OF assms assms]]] fe_tobytes_val)
qed

theorem fe_sq_is_mul_witness:
  "fe_tobytes (fe_sq (fe_frombytes (replicate 32 7))) = fe_tobytes (fe_mul (fe_frombytes (replicate 32 7)) (fe_frombytes (replicate 32 7)))"
  using fe_sq_is_mul[OF fe_in_relax[OF fe_in_frombytes[of "replicate 32 7"]]] by simp



text \<open>
  C33. The addition chains: \<^verbatim>\<open>fe_invert\<close> raises to the power \<open>p - 2\<close>, which by Fermat is the inverse, and \<^verbatim>\<open>fe_pow22523\<close> to the power
  \<open>(p - 5) / 8\<close>.
\<close>

theorem fe_powers:
  assumes "fe_in 55364812 z Z"
  shows "fe_in 16944988 (fe_invert z) (Z ^ nat (p25519 - 2)) \<and> fe_in 16944988 (fe_pow22523 z) (Z ^ nat ((p25519 - 5) div 8))"
proof -
  have "nat (p25519 - 2) = 2 ^ 255 - 21" "nat ((p25519 - 5) div 8) = 2 ^ 252 - 3" by (simp_all add: p25519_def)
  then show ?thesis by (simp only: fe_in_invert[OF assms] fe_in_pow22523[OF assms])
qed

theorem fe_powers_witness: "fe_in 16944988 (fe_invert fe_1) (1 ^ nat (p25519 - 2))"
  using fe_powers[OF fe_in_mono[OF fe_in_1, of 55364812]] by simp



end
