(* ===== verification/Scalarmult.thy ===== *)
theory Scalarmult
  imports Precomp
begin

unbundle bit_operations_syntax

text \<open>
  Multiples of points (\<^verbatim>\<open>src/crypto/ed25519/ge.c\<close>): selection from the tables without branching, and multiplication with a fixed and with a variable
  point.  Values of type \<^verbatim>\<open>signed char\<close> are integers; a store keeps the low 8 bits.
\<close>

definition to_i8 :: "int \<Rightarrow> int" where
  "to_i8 v = signed_take_bit 7 v"

section \<open>Selection\<close>

definition equal_c :: "int \<Rightarrow> int \<Rightarrow> u8" where
  "equal_c b c =
     (let ub = word_of_int b :: u8;
          uc = word_of_int c :: u8;
          x = ub XOR uc;
          y = ucast x :: u64;
          y = y - 1;
          y = drop_bit 63 y
      in ucast y)"

definition negative_c :: "int \<Rightarrow> u8" where
  "negative_c b =
     (let x = word_of_int b :: u64;
          x = drop_bit 63 x
      in ucast x)"

definition cmov_c :: "ge_precomp \<Rightarrow> ge_precomp \<Rightarrow> u8 \<Rightarrow> ge_precomp" where
  "cmov_c t u b =
     \<lparr>yplusx = fe_cmov (yplusx t) (yplusx u) (ucast b), yminusx = fe_cmov (yminusx t) (yminusx u) (ucast b),
      xy2d = fe_cmov (xy2d t) (xy2d u) (ucast b)\<rparr>"

definition select_c :: "nat \<Rightarrow> int \<Rightarrow> ge_precomp" where
  "select_c pos b =
     (let bnegative = negative_c b;
          babs = word_of_int (b - ((- uint bnegative) AND b) * 2) :: u8;
          t = \<lparr>yplusx = fe_1, yminusx = fe_1, xy2d = fe_0\<rparr>;
          t = cmov_c t (base_table ! pos ! 0) (equal_c (to_i8 (uint babs)) 1);
          t = cmov_c t (base_table ! pos ! 1) (equal_c (to_i8 (uint babs)) 2);
          t = cmov_c t (base_table ! pos ! 2) (equal_c (to_i8 (uint babs)) 3);
          t = cmov_c t (base_table ! pos ! 3) (equal_c (to_i8 (uint babs)) 4);
          t = cmov_c t (base_table ! pos ! 4) (equal_c (to_i8 (uint babs)) 5);
          t = cmov_c t (base_table ! pos ! 5) (equal_c (to_i8 (uint babs)) 6);
          t = cmov_c t (base_table ! pos ! 6) (equal_c (to_i8 (uint babs)) 7);
          t = cmov_c t (base_table ! pos ! 7) (equal_c (to_i8 (uint babs)) 8);
          minust = \<lparr>yplusx = fe_copy (yminusx t), yminusx = fe_copy (yplusx t), xy2d = fe_neg (xy2d t)\<rparr>
      in cmov_c t minust bnegative)"

section \<open>Multiples of the base point\<close>

text \<open>The 64 digits of the scalar in base 16, then brought to the range -8 to 8 by a carry.\<close>

definition nibbles :: "bytes \<Rightarrow> int list" where
  "nibbles a = concat (map (\<lambda>i. [uint (a ! i AND 15), uint (drop_bit 4 (a ! i) AND 15)]) [0..<32])"

definition digit_step :: "nat \<Rightarrow> int list \<times> int \<Rightarrow> int list \<times> int" where
  "digit_step i = (\<lambda>(e, c).
     let e = e[i := to_i8 (e ! i + c)];
         c = to_i8 (e ! i + 8);
         c = c div 2 ^ 4;
         e = e[i := to_i8 (e ! i - c * 2 ^ 4)]
     in (e, c))"

definition scalar_digits :: "bytes \<Rightarrow> int list" where
  "scalar_digits a =
     (case fold digit_step [0..<63] (nibbles a, 0) of (e, c) \<Rightarrow> e[63 := to_i8 (e ! 63 + c)])"

definition add_selected :: "int list \<Rightarrow> nat \<Rightarrow> ge_p3 \<Rightarrow> ge_p3" where
  "add_selected e i h = ge_p1p1_to_p3 (ge_madd h (select_c (i div 2) (e ! i)))"

definition ge_scalarmult_base :: "bytes \<Rightarrow> ge_p3" where
  "ge_scalarmult_base a =
     (let e = scalar_digits a;
          h = fold (add_selected e) (map (\<lambda>i. 2 * i + 1) [0..<32]) ge_p3_0;
          r = ge_p3_dbl h;
          s = ge_p1p1_to_p2 r;
          r = ge_p2_dbl s;
          s = ge_p1p1_to_p2 r;
          r = ge_p2_dbl s;
          s = ge_p1p1_to_p2 r;
          r = ge_p2_dbl s;
          h = ge_p1p1_to_p3 r
      in fold (add_selected e) (map (\<lambda>i. 2 * i) [0..<32]) h)"

section \<open>Two multiples at once\<close>

text \<open>The carry of \<^verbatim>\<open>slide\<close>: \<^verbatim>\<open>for (; k < 256; ++k) { if (!r[k]) { r[k] = 1; break; } r[k] = 0; }\<close>.\<close>

function slide_carry :: "nat \<Rightarrow> int list \<Rightarrow> int list" where
  "slide_carry k r = (if k < 256 then if r ! k = 0 then r[k := 1] else slide_carry (Suc k) (r[k := 0]) else r)"
  by pat_completeness auto
termination by (relation "measure (\<lambda>(k, r). 256 - k)") auto

function slide_inner :: "nat \<Rightarrow> nat \<Rightarrow> int list \<Rightarrow> int list" where
  "slide_inner i b r =
     (if b \<le> 6 \<and> i + b < 256 then
        if r ! (i + b) \<noteq> 0 then
          if r ! i + r ! (i + b) * 2 ^ b \<le> 15 then
            slide_inner i (Suc b) (r[i := to_i8 (r ! i + r ! (i + b) * 2 ^ b), i + b := 0])
          else if r ! i - r ! (i + b) * 2 ^ b \<ge> - 15 then
            slide_inner i (Suc b) (slide_carry (i + b) (r[i := to_i8 (r ! i - r ! (i + b) * 2 ^ b)]))
          else r
        else slide_inner i (Suc b) r
      else r)"
  by pat_completeness auto
termination by (relation "measure (\<lambda>(i, b, r). 7 - b)") auto

declare slide_carry.simps [simp del] slide_inner.simps [simp del]

definition slide_bits :: "bytes \<Rightarrow> int list" where
  "slide_bits a = map (\<lambda>i. uint (drop_bit (i mod 8) (a ! (i div 8)) AND 1)) [0..<256]"

definition slide :: "bytes \<Rightarrow> int list" where
  "slide a = fold (\<lambda>i r. if r ! i \<noteq> 0 then slide_inner i 1 r else r) [0..<256] (slide_bits a)"

text \<open>The odd multiples \<^verbatim>\<open>A, 3A, ..., 15A\<close>.\<close>

definition odd_multiples :: "ge_p3 \<Rightarrow> ge_cached list" where
  "odd_multiples A =
     (let A2 = ge_p1p1_to_p3 (ge_p3_dbl A)
      in foldl (\<lambda>Ai _. Ai @ [ge_p3_to_cached (ge_p1p1_to_p3 (ge_add A2 (last Ai)))]) [ge_p3_to_cached A] [1..<8])"

definition double_step :: "ge_cached list \<Rightarrow> int list \<Rightarrow> int list \<Rightarrow> nat \<Rightarrow> ge_p2 \<Rightarrow> ge_p2" where
  "double_step Ai aslide bslide i r =
     (let t = ge_p2_dbl r;
          t = (if aslide ! i > 0 then ge_add (ge_p1p1_to_p3 t) (Ai ! nat (aslide ! i div 2))
               else if aslide ! i < 0 then ge_sub (ge_p1p1_to_p3 t) (Ai ! nat ((- aslide ! i) div 2))
               else t);
          t = (if bslide ! i > 0 then ge_madd (ge_p1p1_to_p3 t) (Bi ! nat (bslide ! i div 2))
               else if bslide ! i < 0 then ge_msub (ge_p1p1_to_p3 t) (Bi ! nat ((- bslide ! i) div 2))
               else t)
      in ge_p1p1_to_p2 t)"

definition ge_double_scalarmult_vartime :: "bytes \<Rightarrow> ge_p3 \<Rightarrow> bytes \<Rightarrow> ge_p2" where
  "ge_double_scalarmult_vartime a A b =
     (let aslide = slide a;
          bslide = slide b;
          is = dropWhile (\<lambda>i. aslide ! i = 0 \<and> bslide ! i = 0) (rev [0..<256])
      in fold (double_step (odd_multiples A) aslide bslide) is ge_p2_0)"

end
