(* ===== verification/Scalar.thy ===== *)
theory Scalar
  imports Field_Encode
begin

unbundle bit_operations_syntax

text \<open>
  Arithmetic modulo the order of the base point (\<^verbatim>\<open>src/crypto/ed25519/sc.c\<close>).  A number is an array of 24 signed 64-bit limbs of 21 bits; both
  functions of the file are straight-line code over three kinds of statement groups, which are the operations below.  \<^verbatim>\<open>load_3\<close> and \<^verbatim>\<open>load_4\<close> are
  those of \<^verbatim>\<open>fe.c\<close>.
\<close>

section \<open>Operations\<close>

text \<open>\<^verbatim>\<open>s[k-12] += s[k] * 666643; ...; s[k] = 0\<close>: replaces \<open>2 ^ 252\<close> by the small number it is congruent to.\<close>

definition sc_fold :: "nat \<Rightarrow> i64 list \<Rightarrow> i64 list" where
  "sc_fold k s =
     (let s = s[k - 12 := s ! (k - 12) + s ! k * C 666643];
          s = s[k - 11 := s ! (k - 11) + s ! k * C 470296];
          s = s[k - 10 := s ! (k - 10) + s ! k * C 654183];
          s = s[k - 9 := s ! (k - 9) - s ! k * C 997805];
          s = s[k - 8 := s ! (k - 8) + s ! k * C 136657];
          s = s[k - 7 := s ! (k - 7) - s ! k * C 683901]
      in s[k := C 0])"

text \<open>\<^verbatim>\<open>carry = (s[i] + (1 << 20)) >> 21; s[i+1] += carry; s[i] -= carry << 21\<close>, and the same without rounding.\<close>

definition sc_carry :: "nat \<Rightarrow> i64 list \<Rightarrow> i64 list" where
  "sc_carry i s =
     (let c = shr (s ! i + C (2 ^ 20)) 21;
          s = s[Suc i := s ! Suc i + c]
      in s[i := s ! i - shl c 21])"

definition sc_floor :: "nat \<Rightarrow> i64 list \<Rightarrow> i64 list" where
  "sc_floor i s =
     (let c = shr (s ! i) 21;
          s = s[Suc i := s ! Suc i + c]
      in s[i := s ! i - shl c 21])"

definition sc_load :: "bytes \<Rightarrow> i64 list" where
  "sc_load s = map of_u64
     [2097151 AND load_3 s, 2097151 AND drop_bit 5 (load_4 (drop 2 s)), 2097151 AND drop_bit 2 (load_3 (drop 5 s)),
      2097151 AND drop_bit 7 (load_4 (drop 7 s)), 2097151 AND drop_bit 4 (load_4 (drop 10 s)),
      2097151 AND drop_bit 1 (load_3 (drop 13 s)), 2097151 AND drop_bit 6 (load_4 (drop 15 s)),
      2097151 AND drop_bit 3 (load_3 (drop 18 s)), 2097151 AND load_3 (drop 21 s), 2097151 AND drop_bit 5 (load_4 (drop 23 s)),
      2097151 AND drop_bit 2 (load_3 (drop 26 s)), 2097151 AND drop_bit 7 (load_4 (drop 28 s)),
      2097151 AND drop_bit 4 (load_4 (drop 31 s)), 2097151 AND drop_bit 1 (load_3 (drop 34 s)),
      2097151 AND drop_bit 6 (load_4 (drop 36 s)), 2097151 AND drop_bit 3 (load_3 (drop 39 s)), 2097151 AND load_3 (drop 42 s),
      2097151 AND drop_bit 5 (load_4 (drop 44 s)), 2097151 AND drop_bit 2 (load_3 (drop 47 s)),
      2097151 AND drop_bit 7 (load_4 (drop 49 s)), 2097151 AND drop_bit 4 (load_4 (drop 52 s)),
      2097151 AND drop_bit 1 (load_3 (drop 55 s)), 2097151 AND drop_bit 6 (load_4 (drop 57 s)), drop_bit 3 (load_4 (drop 60 s))]"

text \<open>The limbs 23 to 18 are folded, and carries bring the middle limbs back to 21 bits.\<close>

definition sc_reduce_high :: "i64 list \<Rightarrow> i64 list" where
  "sc_reduce_high s = fold sc_carry [6, 8, 10, 12, 14, 16, 7, 9, 11, 13, 15] (fold sc_fold [23, 22, 21, 20, 19, 18] s)"

definition sc_reduce_mid :: "i64 list \<Rightarrow> i64 list" where
  "sc_reduce_mid s = fold sc_carry [0, 2, 4, 6, 8, 10, 1, 3, 5, 7, 9, 11] (fold sc_fold [17, 16, 15, 14, 13, 12] s)"

definition sc_reduce_low :: "i64 list \<Rightarrow> i64 list" where
  "sc_reduce_low s = fold sc_floor [0, 1, 2, 3, 4, 5, 6, 7, 8, 9, 10]
     (sc_fold 12 (fold sc_floor [0, 1, 2, 3, 4, 5, 6, 7, 8, 9, 10, 11] (sc_fold 12 s)))"

definition sc_store :: "i64 list \<Rightarrow> bytes option" where
  "sc_store s = those (map to_u8
     [shr (s ! 0) 0, shr (s ! 0) 8, cor (shr (s ! 0) 16) (shl (s ! 1) 5), shr (s ! 1) 3, shr (s ! 1) 11,
      cor (shr (s ! 1) 19) (shl (s ! 2) 2), shr (s ! 2) 6, cor (shr (s ! 2) 14) (shl (s ! 3) 7), shr (s ! 3) 1, shr (s ! 3) 9,
      cor (shr (s ! 3) 17) (shl (s ! 4) 4), shr (s ! 4) 4, shr (s ! 4) 12, cor (shr (s ! 4) 20) (shl (s ! 5) 1), shr (s ! 5) 7,
      cor (shr (s ! 5) 15) (shl (s ! 6) 6), shr (s ! 6) 2, shr (s ! 6) 10, cor (shr (s ! 6) 18) (shl (s ! 7) 3), shr (s ! 7) 5,
      shr (s ! 7) 13, shr (s ! 8) 0, shr (s ! 8) 8, cor (shr (s ! 8) 16) (shl (s ! 9) 5), shr (s ! 9) 3, shr (s ! 9) 11,
      cor (shr (s ! 9) 19) (shl (s ! 10) 2), shr (s ! 10) 6, cor (shr (s ! 10) 14) (shl (s ! 11) 7), shr (s ! 11) 1,
      shr (s ! 11) 9, shr (s ! 11) 17])"

definition sc_reduce :: "bytes \<Rightarrow> bytes option" where
  "sc_reduce s = sc_store (sc_reduce_low (sc_reduce_mid (sc_reduce_high (sc_load s))))"

subsection \<open>Multiplication and addition\<close>

definition sc_load_32 :: "bytes \<Rightarrow> i64 list" where
  "sc_load_32 s = map of_u64
     [2097151 AND load_3 s, 2097151 AND drop_bit 5 (load_4 (drop 2 s)), 2097151 AND drop_bit 2 (load_3 (drop 5 s)),
      2097151 AND drop_bit 7 (load_4 (drop 7 s)), 2097151 AND drop_bit 4 (load_4 (drop 10 s)),
      2097151 AND drop_bit 1 (load_3 (drop 13 s)), 2097151 AND drop_bit 6 (load_4 (drop 15 s)),
      2097151 AND drop_bit 3 (load_3 (drop 18 s)), 2097151 AND load_3 (drop 21 s), 2097151 AND drop_bit 5 (load_4 (drop 23 s)),
      2097151 AND drop_bit 2 (load_3 (drop 26 s)), drop_bit 7 (load_4 (drop 28 s))]"

definition sc_products :: "i64 list \<Rightarrow> i64 list \<Rightarrow> i64 list \<Rightarrow> i64 list" where
  "sc_products a b c =
     [c ! 0 + a ! 0 * b ! 0,
      c ! 1 + a ! 0 * b ! 1 + a ! 1 * b ! 0,
      c ! 2 + a ! 0 * b ! 2 + a ! 1 * b ! 1 + a ! 2 * b ! 0,
      c ! 3 + a ! 0 * b ! 3 + a ! 1 * b ! 2 + a ! 2 * b ! 1 + a ! 3 * b ! 0,
      c ! 4 + a ! 0 * b ! 4 + a ! 1 * b ! 3 + a ! 2 * b ! 2 + a ! 3 * b ! 1 + a ! 4 * b ! 0,
      c ! 5 + a ! 0 * b ! 5 + a ! 1 * b ! 4 + a ! 2 * b ! 3 + a ! 3 * b ! 2 + a ! 4 * b ! 1 + a ! 5 * b ! 0,
      c ! 6 + a ! 0 * b ! 6 + a ! 1 * b ! 5 + a ! 2 * b ! 4 + a ! 3 * b ! 3 + a ! 4 * b ! 2 + a ! 5 * b ! 1 + a ! 6 * b ! 0,
      c ! 7 + a ! 0 * b ! 7 + a ! 1 * b ! 6 + a ! 2 * b ! 5 + a ! 3 * b ! 4 + a ! 4 * b ! 3 + a ! 5 * b ! 2 + a ! 6 * b ! 1 +
        a ! 7 * b ! 0,
      c ! 8 + a ! 0 * b ! 8 + a ! 1 * b ! 7 + a ! 2 * b ! 6 + a ! 3 * b ! 5 + a ! 4 * b ! 4 + a ! 5 * b ! 3 + a ! 6 * b ! 2 +
        a ! 7 * b ! 1 + a ! 8 * b ! 0,
      c ! 9 + a ! 0 * b ! 9 + a ! 1 * b ! 8 + a ! 2 * b ! 7 + a ! 3 * b ! 6 + a ! 4 * b ! 5 + a ! 5 * b ! 4 + a ! 6 * b ! 3 +
        a ! 7 * b ! 2 + a ! 8 * b ! 1 + a ! 9 * b ! 0,
      c ! 10 + a ! 0 * b ! 10 + a ! 1 * b ! 9 + a ! 2 * b ! 8 + a ! 3 * b ! 7 + a ! 4 * b ! 6 + a ! 5 * b ! 5 + a ! 6 * b ! 4 +
        a ! 7 * b ! 3 + a ! 8 * b ! 2 + a ! 9 * b ! 1 + a ! 10 * b ! 0,
      c ! 11 + a ! 0 * b ! 11 + a ! 1 * b ! 10 + a ! 2 * b ! 9 + a ! 3 * b ! 8 + a ! 4 * b ! 7 + a ! 5 * b ! 6 +
        a ! 6 * b ! 5 + a ! 7 * b ! 4 + a ! 8 * b ! 3 + a ! 9 * b ! 2 + a ! 10 * b ! 1 + a ! 11 * b ! 0,
      a ! 1 * b ! 11 + a ! 2 * b ! 10 + a ! 3 * b ! 9 + a ! 4 * b ! 8 + a ! 5 * b ! 7 + a ! 6 * b ! 6 + a ! 7 * b ! 5 +
        a ! 8 * b ! 4 + a ! 9 * b ! 3 + a ! 10 * b ! 2 + a ! 11 * b ! 1,
      a ! 2 * b ! 11 + a ! 3 * b ! 10 + a ! 4 * b ! 9 + a ! 5 * b ! 8 + a ! 6 * b ! 7 + a ! 7 * b ! 6 + a ! 8 * b ! 5 +
        a ! 9 * b ! 4 + a ! 10 * b ! 3 + a ! 11 * b ! 2,
      a ! 3 * b ! 11 + a ! 4 * b ! 10 + a ! 5 * b ! 9 + a ! 6 * b ! 8 + a ! 7 * b ! 7 + a ! 8 * b ! 6 + a ! 9 * b ! 5 +
        a ! 10 * b ! 4 + a ! 11 * b ! 3,
      a ! 4 * b ! 11 + a ! 5 * b ! 10 + a ! 6 * b ! 9 + a ! 7 * b ! 8 + a ! 8 * b ! 7 + a ! 9 * b ! 6 + a ! 10 * b ! 5 +
        a ! 11 * b ! 4,
      a ! 5 * b ! 11 + a ! 6 * b ! 10 + a ! 7 * b ! 9 + a ! 8 * b ! 8 + a ! 9 * b ! 7 + a ! 10 * b ! 6 + a ! 11 * b ! 5,
      a ! 6 * b ! 11 + a ! 7 * b ! 10 + a ! 8 * b ! 9 + a ! 9 * b ! 8 + a ! 10 * b ! 7 + a ! 11 * b ! 6,
      a ! 7 * b ! 11 + a ! 8 * b ! 10 + a ! 9 * b ! 9 + a ! 10 * b ! 8 + a ! 11 * b ! 7,
      a ! 8 * b ! 11 + a ! 9 * b ! 10 + a ! 10 * b ! 9 + a ! 11 * b ! 8,
      a ! 9 * b ! 11 + a ! 10 * b ! 10 + a ! 11 * b ! 9,
      a ! 10 * b ! 11 + a ! 11 * b ! 10,
      a ! 11 * b ! 11,
      C 0]"

definition sc_muladd_carries :: "i64 list \<Rightarrow> i64 list" where
  "sc_muladd_carries s = fold sc_carry [0, 2, 4, 6, 8, 10, 12, 14, 16, 18, 20, 22, 1, 3, 5, 7, 9, 11, 13, 15, 17, 19, 21] s"

text \<open>From here \<^verbatim>\<open>sc_muladd\<close> repeats the statements of \<^verbatim>\<open>sc_reduce\<close>.\<close>

definition sc_muladd_reduce :: "i64 list \<Rightarrow> i64 list" where
  "sc_muladd_reduce s = sc_reduce_low (sc_reduce_mid (sc_reduce_high s))"

definition sc_muladd :: "bytes \<Rightarrow> bytes \<Rightarrow> bytes \<Rightarrow> bytes option" where
  "sc_muladd a b c =
     sc_store (sc_muladd_reduce (sc_muladd_carries (sc_products (sc_load_32 a) (sc_load_32 b) (sc_load_32 c))))"

end
