(* ===== verification/Scalar_Limbs.thy ===== *)
theory Scalar_Limbs
  imports Scalar
begin

text \<open>
  What an array of 24 limbs of 21 bits represents modulo the order of the base point, bounds for the limbs, and what the three statement groups
  of \<^verbatim>\<open>sc.c\<close> do to both.
\<close>

definition order :: int where
  "order = 2 ^ 252 + 27742317777372353535851937790883648493"

definition sval :: "nat \<Rightarrow> int list \<Rightarrow> int" where
  "sval n vs = (\<Sum>i<n. vs ! i * 2 ^ (21 * i))"

lemma sval_Suc: "sval (Suc n) vs = sval n vs + vs ! n * 2 ^ (21 * n)"
  by (simp add: sval_def)

lemma sval_0 [simp]: "sval 0 vs = 0"
  by (simp add: sval_def)

lemma sval_update: "i < n \<Longrightarrow> n \<le> length vs \<Longrightarrow> sval n (vs[i := x]) = sval n vs + (x - vs ! i) * 2 ^ (21 * i)"
proof -
  assume a: "i < n" "n \<le> length vs"
  have "sval n (vs[i := x]) = (\<Sum>j<n. vs ! j * 2 ^ (21 * j) + (if j = i then (x - vs ! i) * 2 ^ (21 * i) else 0))"
    unfolding sval_def using a by (intro sum.cong) (auto simp: nth_list_update algebra_simps)
  then show ?thesis using a by (simp add: sum.distrib sval_def)
qed

text \<open>The limbs are defined, have the given values, and are within the given bounds.\<close>

definition holds :: "int list \<Rightarrow> i64 list \<Rightarrow> int list \<Rightarrow> bool" where
  "holds bs s vs \<longleftrightarrow> length bs = 24 \<and> length s = 24 \<and> length vs = 24 \<and> (\<forall>i<24. fits (s ! i) (vs ! i) (bs ! i))"

lemma holds_nth: "holds bs s vs \<Longrightarrow> i < 24 \<Longrightarrow> fits (s ! i) (vs ! i) (bs ! i)"
  by (simp add: holds_def)

lemma holds_length: "holds bs s vs \<Longrightarrow> length bs = 24 \<and> length s = 24 \<and> length vs = 24"
  by (simp add: holds_def)

lemma holds_upd: "holds bs s vs \<Longrightarrow> fits x v b \<Longrightarrow> holds (bs[i := b]) (s[i := x]) (vs[i := v])"
  unfolding holds_def by (cases "i < 24") (auto simp: nth_list_update)

definition scalar :: "int list \<Rightarrow> i64 list \<Rightarrow> int \<Rightarrow> bool" where
  "scalar bs s V \<longleftrightarrow> (\<exists>vs. holds bs s vs \<and> sval 24 vs mod order = V mod order)"

section \<open>Folding\<close>

definition add_at :: "nat \<Rightarrow> nat \<Rightarrow> int \<Rightarrow> int list \<Rightarrow> int list" where
  "add_at i k c vs = vs[i := vs ! i + vs ! k * c]"

definition fold_vals :: "nat \<Rightarrow> int list \<Rightarrow> int list" where
  "fold_vals k vs = (add_at (k - 7) k (- 683901) (add_at (k - 8) k 136657 (add_at (k - 9) k (- 997805)
     (add_at (k - 10) k 654183 (add_at (k - 11) k 470296 (add_at (k - 12) k 666643 vs))))))[k := 0]"

definition fold_bounds :: "nat \<Rightarrow> int list \<Rightarrow> int list" where
  "fold_bounds k vs = (add_at (k - 7) k 683901 (add_at (k - 8) k 136657 (add_at (k - 9) k 997805
     (add_at (k - 10) k 654183 (add_at (k - 11) k 470296 (add_at (k - 12) k 666643 vs))))))[k := 0]"

definition fold_ok :: "nat \<Rightarrow> int list \<Rightarrow> bool" where
  "fold_ok k bs \<longleftrightarrow> 12 \<le> k \<and> k < 24 \<and> 0 \<le> bs ! k \<and> bs ! k < 2 ^ 40 \<and> (\<forall>d\<in>set [7, 8, 9, 10, 11, 12]. bs ! (k - d) < 2 ^ 62)"

lemma holds_add:
  assumes "holds bs s vs" "i < 24" "k < 24" "\<bar>c\<bar> < 2 ^ 20" "bs ! k < 2 ^ 40" "0 \<le> bs ! k" "bs ! i < 2 ^ 62"
  shows "0 \<le> c \<Longrightarrow> holds (add_at i k c bs) (s[i := s ! i + s ! k * C c]) (add_at i k c vs)"
    "c \<le> 0 \<Longrightarrow> holds (add_at i k (- c) bs) (s[i := s ! i - s ! k * C (- c)]) (add_at i k c vs)"
proof -
  have m: "bs ! k * \<bar>c\<bar> \<le> 2 ^ 40 * 2 ^ 20" using assms by (intro mult_mono) auto
  note i = holds_nth[OF assms(1,2)] and k = holds_nth[OF assms(1,3)]
  {
    assume c: "0 \<le> c"
    have "fits (s ! k * C c) (vs ! k * c) (bs ! k * c)" using fits_mult[OF k fits_C, of c c] m c by simp
    from fits_add[OF i this] show "holds (add_at i k c bs) (s[i := s ! i + s ! k * C c]) (add_at i k c vs)"
      unfolding add_at_def using m c assms(7) by (intro holds_upd assms(1)) simp
  next
    assume c: "c \<le> 0"
    have "fits (s ! k * C (- c)) (vs ! k * - c) (bs ! k * - c)" using fits_mult[OF k fits_C, of "- c" "- c"] m c by simp
    from fits_diff[OF i this] show "holds (add_at i k (- c) bs) (s[i := s ! i - s ! k * C (- c)]) (add_at i k c vs)"
      unfolding add_at_def using m c assms(7) by (intro holds_upd assms(1)) simp
  }
qed

lemma add_at_nth: "j \<noteq> i \<Longrightarrow> add_at i k c vs ! j = vs ! j" "length (add_at i k c vs) = length vs"
  by (simp_all add: add_at_def)

lemma index_diff:
  "m + 12 - 12 = m" "m + 12 - 11 = m + 1" "m + 12 - 10 = m + 2" "m + 12 - 9 = m + 3" "m + 12 - 8 = m + 4" "m + 12 - 7 = m + (5::nat)"
  by simp_all

lemma holds_fold:
  assumes "holds bs s vs" "fold_ok k bs"
  shows "holds (fold_bounds k bs) (sc_fold k s) (fold_vals k vs)"
proof -
  obtain m where km: "k = m + 12" using assms(2) by (metis fold_ok_def le_Suc_ex add.commute)
  have k: "m < 12" "0 \<le> bs ! (m + 12)" "bs ! (m + 12) < 2 ^ 40" using assms(2) by (auto simp: fold_ok_def km)
  have b: "bs ! m < 2 ^ 62" "bs ! (m + 1) < 2 ^ 62" "bs ! (m + 2) < 2 ^ 62" "bs ! (m + 3) < 2 ^ 62" "bs ! (m + 4) < 2 ^ 62"
    "bs ! (m + 5) < 2 ^ 62"
    using assms(2) unfolding fold_ok_def km list.set by (simp_all only: index_diff ball_simps insert_iff)
  define s0 where "s0 = s"
  define s1 where "s1 = s0[m := s0 ! (m) + s0 ! (m + 12) * C 666643]"
  define s2 where "s2 = s1[m + 1 := s1 ! (m + 1) + s1 ! (m + 12) * C 470296]"
  define s3 where "s3 = s2[m + 2 := s2 ! (m + 2) + s2 ! (m + 12) * C 654183]"
  define s4 where "s4 = s3[m + 3 := s3 ! (m + 3) - s3 ! (m + 12) * C 997805]"
  define s5 where "s5 = s4[m + 4 := s4 ! (m + 4) + s4 ! (m + 12) * C 136657]"
  define s6 where "s6 = s5[m + 5 := s5 ! (m + 5) - s5 ! (m + 12) * C 683901]"
  have h1: "holds (add_at (m) (m + 12) 666643 bs) s1 (add_at (m) (m + 12) 666643 vs)"
    unfolding s1_def using holds_add(1)[OF assms(1)[folded s0_def], of "m" "m + 12" "666643"] k b by (simp add: add_at_nth)
  have h2: "holds (add_at (m + 1) (m + 12) 470296 (add_at (m) (m + 12) 666643 bs)) s2 (add_at (m + 1) (m + 12) 470296 (add_at (m) (m + 12) 666643 vs))"
    unfolding s2_def using holds_add(1)[OF h1, of "m + 1" "m + 12" "470296"] k b by (simp add: add_at_nth)
  have h3: "holds (add_at (m + 2) (m + 12) 654183 (add_at (m + 1) (m + 12) 470296 (add_at (m) (m + 12) 666643 bs))) s3 (add_at (m + 2) (m + 12) 654183 (add_at (m + 1) (m + 12) 470296 (add_at (m) (m + 12) 666643 vs)))"
    unfolding s3_def using holds_add(1)[OF h2, of "m + 2" "m + 12" "654183"] k b by (simp add: add_at_nth)
  have h4: "holds (add_at (m + 3) (m + 12) 997805 (add_at (m + 2) (m + 12) 654183 (add_at (m + 1) (m + 12) 470296 (add_at (m) (m + 12) 666643 bs)))) s4 (add_at (m + 3) (m + 12) (- 997805) (add_at (m + 2) (m + 12) 654183 (add_at (m + 1) (m + 12) 470296 (add_at (m) (m + 12) 666643 vs))))"
    unfolding s4_def using holds_add(2)[OF h3, of "m + 3" "m + 12" "- 997805"] k b by (simp add: add_at_nth)
  have h5: "holds (add_at (m + 4) (m + 12) 136657 (add_at (m + 3) (m + 12) 997805 (add_at (m + 2) (m + 12) 654183 (add_at (m + 1) (m + 12) 470296 (add_at (m) (m + 12) 666643 bs))))) s5 (add_at (m + 4) (m + 12) 136657 (add_at (m + 3) (m + 12) (- 997805) (add_at (m + 2) (m + 12) 654183 (add_at (m + 1) (m + 12) 470296 (add_at (m) (m + 12) 666643 vs)))))"
    unfolding s5_def using holds_add(1)[OF h4, of "m + 4" "m + 12" "136657"] k b by (simp add: add_at_nth)
  have h6: "holds (add_at (m + 5) (m + 12) 683901 (add_at (m + 4) (m + 12) 136657 (add_at (m + 3) (m + 12) 997805 (add_at (m + 2) (m + 12) 654183 (add_at (m + 1) (m + 12) 470296 (add_at (m) (m + 12) 666643 bs)))))) s6 (add_at (m + 5) (m + 12) (- 683901) (add_at (m + 4) (m + 12) 136657 (add_at (m + 3) (m + 12) (- 997805) (add_at (m + 2) (m + 12) 654183 (add_at (m + 1) (m + 12) 470296 (add_at (m) (m + 12) 666643 vs))))))"
    unfolding s6_def using holds_add(2)[OF h5, of "m + 5" "m + 12" "- 683901"] k b by (simp add: add_at_nth)
  have "sc_fold k s = s6[m + 12 := C 0]"
    unfolding sc_fold_def Let_def s6_def s5_def s4_def s3_def s2_def s1_def s0_def km index_diff by (rule refl)
  then show ?thesis unfolding fold_bounds_def fold_vals_def km index_diff using holds_upd[OF h6, of "C 0" 0 0 "m + 12"] by (simp add: fits_def)
qed

lemma sval_add_at: "i < 24 \<Longrightarrow> length vs = 24 \<Longrightarrow> sval 24 (add_at i k c vs) = sval 24 vs + vs ! k * c * 2 ^ (21 * i)"
  by (simp add: add_at_def sval_update)

lemma fold_vals_val:
  assumes "length vs = 24" "12 \<le> k" "k < 24"
  shows "sval 24 (fold_vals k vs) = sval 24 vs - vs ! k * 2 ^ (21 * (k - 12)) * order"
proof -
  obtain m where km: "k = m + 12" using assms(2) by (metis le_Suc_ex add.commute)
  have m: "m < 12" using assms(3) km by simp
  show ?thesis unfolding fold_vals_def km index_diff order_def
    using assms(1) m by (simp add: sval_update sval_add_at add_at_nth power_add algebra_simps)
qed

lemma scalar_fold:
  assumes "scalar bs s V" "fold_ok k bs"
  shows "scalar (fold_bounds k bs) (sc_fold k s) V"
proof -
  obtain vs where vs: "holds bs s vs" "sval 24 vs mod order = V mod order" using assms(1) by (auto simp: scalar_def)
  have "12 \<le> k" "k < 24" using assms(2) by (auto simp: fold_ok_def)
  then have "sval 24 (fold_vals k vs) mod order = V mod order"
    using fold_vals_val[of vs k] holds_length[OF vs(1)] vs(2) by (simp add: mod_diff_eq[symmetric])
  then show ?thesis using holds_fold[OF vs(1) assms(2)] by (auto simp: scalar_def)
qed

section \<open>Carries\<close>

definition sc_carry_bounds :: "nat \<Rightarrow> int list \<Rightarrow> int list" where
  "sc_carry_bounds i bs = bs[Suc i := bs ! Suc i + ((bs ! i + 2 ^ 20) div 2 ^ 21 + 1), i := 2 ^ 20]"

definition sc_carry_ok :: "nat \<Rightarrow> int list \<Rightarrow> bool" where
  "sc_carry_ok i bs \<longleftrightarrow> i < 23 \<and> 0 \<le> bs ! i \<and> bs ! i < 2 ^ 61 \<and> bs ! Suc i < 2 ^ 61"

lemma scalar_carry:
  assumes "scalar bs s V" "sc_carry_ok i bs"
  shows "scalar (sc_carry_bounds i bs) (sc_carry i s) V"
proof -
  obtain vs where vs: "holds bs s vs" "sval 24 vs mod order = V mod order" using assms(1) by (auto simp: scalar_def)
  have i: "i < 23" "0 \<le> bs ! i" "bs ! i < 2 ^ 61" "bs ! Suc i < 2 ^ 61" using assms(2) by (auto simp: sc_carry_ok_def)
  define c where "c = (vs ! i + 2 ^ 20) div 2 ^ 21"
  define b where "b = (bs ! i + 2 ^ 20) div 2 ^ 21 + 1"
  define x where "x = shr (s ! i + C (2 ^ 20)) 21"
  have b: "0 \<le> b" "b < 2 ^ 41" "b * 2 ^ 21 \<le> bs ! i + 2 ^ 22" using i by (auto simp: b_def)
  have fi: "fits (s ! i) (vs ! i) (bs ! i)" and fs: "fits (s ! Suc i) (vs ! Suc i) (bs ! Suc i)"
    using holds_nth[OF vs(1)] i(1) by auto
  have s: "fits (s ! i + C (2 ^ 20)) (vs ! i + 2 ^ 20) (bs ! i + 2 ^ 20)" using i by (intro fits_add[OF fi fits_C]) auto
  have x: "fits x c b" unfolding c_def b_def x_def by (rule fits_shr[OF s])
  have nx: "fits (s ! Suc i + x) (vs ! Suc i + c) (bs ! Suc i + b)" using fits_add[OF fs x] i b by simp
  have sh: "fits (shl x 21) (c * 2 ^ 21) (b * 2 ^ 21)" using b i by (intro fits_shl[OF x]) simp
  have "fits (s ! i - shl x 21) (vs ! i - c * 2 ^ 21) (bs ! i + b * 2 ^ 21)" using b i by (intro fits_diff[OF fi sh]) simp
  moreover have "\<bar>vs ! i - c * 2 ^ 21\<bar> \<le> 2 ^ 20" unfolding c_def using round_remainder[of 21 "vs ! i"] by simp
  ultimately have r: "fits (s ! i - shl x 21) (vs ! i - c * 2 ^ 21) (2 ^ 20)" by (simp add: fits_def)
  let ?vs = "vs[Suc i := vs ! Suc i + c, i := vs ! i - c * 2 ^ 21]"
  have "holds (sc_carry_bounds i bs) (sc_carry i s) ?vs"
    using holds_upd[OF holds_upd[OF vs(1) nx, of "Suc i"] r, of i]
    by (simp add: sc_carry_bounds_def sc_carry_def Let_def b_def x_def)
  moreover have "sval 24 ?vs = sval 24 vs"
    using i holds_length[OF vs(1)] by (simp add: sval_update power_add algebra_simps)
  ultimately show ?thesis using vs(2) by (auto simp: scalar_def)
qed

section \<open>Sequences\<close>

primrec all_ok :: "(nat \<Rightarrow> int list \<Rightarrow> bool) \<Rightarrow> (nat \<Rightarrow> int list \<Rightarrow> int list) \<Rightarrow> nat list \<Rightarrow> int list \<Rightarrow> bool" where
  "all_ok P g [] bs = True"
| "all_ok P g (i # is) bs = (P i bs \<and> all_ok P g is (g i bs))"

lemma scalar_folds: "scalar bs s V \<Longrightarrow> all_ok fold_ok fold_bounds is bs \<Longrightarrow> scalar (fold fold_bounds is bs) (fold sc_fold is s) V"
  by (induction "is" arbitrary: bs s) (simp_all add: scalar_fold)

lemma scalar_carries:
  "scalar bs s V \<Longrightarrow> all_ok sc_carry_ok sc_carry_bounds is bs \<Longrightarrow> scalar (fold sc_carry_bounds is bs) (fold sc_carry is s) V"
  by (induction "is" arbitrary: bs s) (simp_all add: scalar_carry)

lemma scalar_mono: "scalar bs s V \<Longrightarrow> list_all2 (\<le>) bs cs \<Longrightarrow> scalar cs s V"
  unfolding scalar_def holds_def list_all2_conv_all_nth by (metis fits_mono)

definition high_bounds :: "int list \<Rightarrow> int list" where
  "high_bounds bs = fold sc_carry_bounds [6, 8, 10, 12, 14, 16, 7, 9, 11, 13, 15] (fold fold_bounds [23, 22, 21, 20, 19, 18] bs)"

definition mid_bounds :: "int list \<Rightarrow> int list" where
  "mid_bounds bs = fold sc_carry_bounds [0, 2, 4, 6, 8, 10, 1, 3, 5, 7, 9, 11] (fold fold_bounds [17, 16, 15, 14, 13, 12] bs)"

definition reduce_ok :: "int list \<Rightarrow> bool" where
  "reduce_ok bs \<longleftrightarrow> all_ok fold_ok fold_bounds [23, 22, 21, 20, 19, 18] bs \<and>
     all_ok sc_carry_ok sc_carry_bounds [6, 8, 10, 12, 14, 16, 7, 9, 11, 13, 15] (fold fold_bounds [23, 22, 21, 20, 19, 18] bs) \<and>
     all_ok fold_ok fold_bounds [17, 16, 15, 14, 13, 12] (high_bounds bs) \<and>
     all_ok sc_carry_ok sc_carry_bounds [0, 2, 4, 6, 8, 10, 1, 3, 5, 7, 9, 11] (fold fold_bounds [17, 16, 15, 14, 13, 12] (high_bounds bs))"

definition low_bounds :: "int list" where
  "low_bounds = replicate 11 (2 ^ 31) @ [2 ^ 20, 100] @ replicate 11 0"

lemma scalar_reduced:
  assumes "scalar bs s V" "reduce_ok bs" "list_all2 (\<le>) (mid_bounds (high_bounds bs)) low_bounds"
  shows "scalar low_bounds (sc_reduce_mid (sc_reduce_high s)) V"
proof (rule scalar_mono[OF _ assms(3)])
  show "scalar (mid_bounds (high_bounds bs)) (sc_reduce_mid (sc_reduce_high s)) V"
    unfolding mid_bounds_def sc_reduce_mid_def high_bounds_def sc_reduce_high_def
    using assms(2) unfolding reduce_ok_def high_bounds_def by (intro scalar_carries scalar_folds assms(1)) auto
qed

definition hash_bounds :: "int list" where
  "hash_bounds = replicate 23 (2 ^ 21) @ [2 ^ 29]"

lemma hash_bounds_ok: "reduce_ok hash_bounds"
  by code_simp

lemma hash_bounds_low: "list_all2 (\<le>) (mid_bounds (high_bounds hash_bounds)) low_bounds"
  by code_simp

end
