(* ===== verification/Scalar_Reduce.thy ===== *)
theory Scalar_Reduce
  imports Scalar_Limbs
begin

unbundle bit_operations_syntax

text \<open>
  The last pass of \<^verbatim>\<open>sc_reduce\<close> and \<^verbatim>\<open>sc_muladd\<close>, which leaves the representative below the order, the bytes it is stored in, and the limbs that are
  loaded from bytes.
\<close>

section \<open>Windows\<close>

lemma window_cong: "a mod 2 ^ (p + w) = b mod 2 ^ (p + w) \<Longrightarrow> window a p w = window b p w"
proof -
  have "c mod 2 ^ (p + w) div 2 ^ p = window c p w" for c :: int
    unfolding power_add window_def by (subst zmod_zmult2_eq) simp_all
  then show "a mod 2 ^ (p + w) = b mod 2 ^ (p + w) \<Longrightarrow> window a p w = window b p w" by metis
qed

lemma sval_mod: "n \<le> m \<Longrightarrow> sval m vs mod 2 ^ (21 * n) = sval n vs mod 2 ^ (21 * n)"
proof (induction m)
  case (Suc m)
  show ?case
  proof (cases "n = Suc m")
    case False
    then have "(2::int) ^ (21 * n) dvd vs ! m * 2 ^ (21 * m)" using Suc.prems by (intro dvd_mult le_imp_power_dvd) auto
    then show ?thesis using False Suc by (simp add: sval_Suc mod_add_right_eq[symmetric, of _ "vs ! m * 2 ^ (21 * m)"])
  qed simp
qed simp

lemma sval_window: "i < n \<Longrightarrow> window (sval (Suc i) vs) (21 * i) 21 = window (sval n vs) (21 * i) 21"
  using sval_mod[of "Suc i" n vs] by (intro window_cong) (simp add: add.commute)

lemma windows_sum: "(\<Sum>i<n. window T (21 * i) 21 * 2 ^ (21 * i)) = T mod 2 ^ (21 * n)"
proof (induction n)
  case (Suc n)
  have "T mod (2 ^ (21 * n) * 2 ^ 21) = 2 ^ (21 * n) * window T (21 * n) 21 + T mod 2 ^ (21 * n)"
    unfolding window_def by (subst zmod_zmult2_eq) simp_all
  then show ?case using Suc by (simp add: power_add mult.commute)
qed simp

section \<open>Carrying without rounding\<close>

lemma floor_limb:
  fixes x :: i64
  assumes "fits x v b" "b \<le> 2 ^ 41"
  shows "fits (shr x 21) (v div 2 ^ 21) (2 ^ 20 + 1)" "x - shl (shr x 21) 21 = C (v mod 2 ^ 21)"
proof -
  show c: "fits (shr x 21) (v div 2 ^ 21) (2 ^ 20 + 1)" by (rule fits_mono[OF fits_shr[OF assms(1)]]) (use assms(2) in auto)
  have "fits (shl (shr x 21) 21) (v div 2 ^ 21 * 2 ^ 21) ((2 ^ 20 + 1) * 2 ^ 21)" by (intro fits_shl[OF c]) auto
  from fits_diff[OF assms(1) this] have "fits (x - shl (shr x 21) 21) (v - v div 2 ^ 21 * 2 ^ 21) (b + (2 ^ 20 + 1) * 2 ^ 21)"
    using assms(2) by auto
  then show "x - shl (shr x 21) 21 = C (v mod 2 ^ 21)" by (simp add: fits_def minus_div_mult_eq_mod)
qed

lemma floor_fold:
  assumes h: "length s = 24" "\<And>i. i < 24 \<Longrightarrow> fits (s ! i) (us ! i) (2 ^ 40)" and n: "n \<le> 23"
  shows "length (fold sc_floor [0..<n] s) = 24 \<and> (\<forall>i<n. fold sc_floor [0..<n] s ! i = C (window (sval (Suc i) us) (21 * i) 21)) \<and>
    (\<forall>i<24. n \<le> i \<longrightarrow> fits (fold sc_floor [0..<n] s ! i) (us ! i + (if i = n then sval n us div 2 ^ (21 * n) else 0))
      (if i = n then 2 ^ 41 else 2 ^ 40))"
  using n
proof (induction n)
  case 0
  then show ?case using h fits_mono[OF h(2)[of 0], of "2 ^ 41"] by auto
next
  case (Suc n)
  let ?g = "fold sc_floor [0..<n] s" and ?v = "us ! n + sval n us div 2 ^ (21 * n)"
  have "n < 24" and f: "\<And>i. i < 24 \<Longrightarrow> n \<le> i \<Longrightarrow> fits (?g ! i) (us ! i + (if i = n then sval n us div 2 ^ (21 * n) else 0))
    (if i = n then 2 ^ 41 else 2 ^ 40)" using Suc by auto
  with f[of n] have g: "length ?g = 24" "\<And>i. i < n \<Longrightarrow> ?g ! i = C (window (sval (Suc i) us) (21 * i) 21)" "fits (?g ! n) ?v (2 ^ 41)"
    "\<And>i. n < i \<Longrightarrow> i < 24 \<Longrightarrow> fits (?g ! i) (us ! i) (2 ^ 40)"
    using Suc by (auto dest: f)
  note st = floor_limb[OF g(3) order_refl]
  have v: "?v = sval (Suc n) us div 2 ^ (21 * n)" using floor_step[of "us ! n" "sval n us" "21 * n" 0] by (simp add: sval_Suc)
  have c: "?v div 2 ^ 21 = sval (Suc n) us div 2 ^ (21 * Suc n)"
    using floor_step[of "us ! n" "sval n us" "21 * n" 21] by (simp only: sval_Suc mult_Suc_right add.commute)
  have step: "fold sc_floor [0..<Suc n] s = ?g[Suc n := ?g ! Suc n + shr (?g ! n) 21, n := ?g ! n - shl (shr (?g ! n) 21) 21]"
    by (simp add: sc_floor_def Let_def)
  have "fits (?g ! Suc n + shr (?g ! n) 21) (us ! Suc n + sval (Suc n) us div 2 ^ (21 * Suc n)) (2 ^ 40 + (2 ^ 20 + 1))"
    unfolding c[symmetric] using fits_add[OF g(4)[of "Suc n"] st(1)] Suc.prems by simp
  then have nxt: "fits (?g ! Suc n + shr (?g ! n) 21) (us ! Suc n + sval (Suc n) us div 2 ^ (21 * Suc n)) (2 ^ 41)" by (rule fits_mono) simp
  show ?case unfolding step using g st(2) nxt Suc.prems
    by (auto simp: nth_list_update less_Suc_eq v window_def)
qed

section \<open>The last pass\<close>

lemma sval_abs: "(\<And>i. i < n \<Longrightarrow> \<bar>vs ! i\<bar> \<le> bs ! i) \<Longrightarrow> \<bar>sval n vs\<bar> \<le> sval n bs"
proof -
  assume a: "\<And>i. i < n \<Longrightarrow> \<bar>vs ! i\<bar> \<le> bs ! i"
  have "\<bar>sval n vs\<bar> \<le> (\<Sum>i<n. \<bar>vs ! i * 2 ^ (21 * i)\<bar>)" unfolding sval_def by (rule sum_abs)
  also have "\<dots> \<le> sval n bs" unfolding sval_def using a by (intro sum_mono) (auto simp: abs_mult)
  finally show ?thesis .
qed

lemma sval_tail: "(\<And>i. n \<le> i \<Longrightarrow> i < m \<Longrightarrow> vs ! i = 0) \<Longrightarrow> n \<le> m \<Longrightarrow> sval m vs = sval n vs"
  by (induction m) (auto simp: sval_Suc le_Suc_eq)

lemma holds_abs: "holds bs s vs \<Longrightarrow> i < 24 \<Longrightarrow> \<bar>vs ! i\<bar> \<le> bs ! i"
  by (simp add: holds_def fits_def)

lemma low_fold_ok: "fold_ok 12 low_bounds"
  by code_simp

lemma low_fold_bounds:
  "list_all2 (\<le>) (fold_bounds 12 low_bounds) (replicate 11 (2 ^ 32) @ [2 ^ 20] @ replicate 12 0)"
  by code_simp

lemma low_sum: "sval 12 (replicate 11 (2 ^ 32) @ [2 ^ 20] @ replicate 12 0) < 2 ^ 252"
  by code_simp

lemma carried_fold_ok: "fold_ok 12 (replicate 12 (2 ^ 21) @ [1] @ replicate 11 0)"
  by code_simp

lemma carried_fold_bounds: "list_all (\<lambda>b. b \<le> 2 ^ 40) (fold_bounds 12 (replicate 12 (2 ^ 21) @ [1] @ replicate 11 0)) \<and>
    drop 12 (fold_bounds 12 (replicate 12 (2 ^ 21) @ [1] @ replicate 11 0)) = replicate 12 0"
  by code_simp

lemma holds_mono: "holds bs s vs \<Longrightarrow> list_all2 (\<le>) bs cs \<Longrightarrow> holds cs s vs"
  unfolding holds_def list_all2_conv_all_nth by (metis fits_mono)

definition low_limbs :: "int \<Rightarrow> i64 list \<Rightarrow> bool" where
  "low_limbs r s \<longleftrightarrow> (\<forall>i<11. s ! i = C (window r (21 * i) 21)) \<and> s ! 11 = C (window r 231 25)"

lemma first_pass:
  assumes "scalar low_bounds s V"
  obtains T where "T mod order = V mod order" "- (2 ^ 252) < T" "T < 2 ^ 252"
    "holds (replicate 12 (2 ^ 21) @ [1] @ replicate 11 0) (fold sc_floor [0..<12] (sc_fold 12 s))
      (map (\<lambda>i. if i < 12 then window T (21 * i) 21 else if i = 12 then T div 2 ^ 252 else 0) [0..<24])"
proof -
  obtain vs where vs: "holds low_bounds s vs" "sval 24 vs mod order = V mod order" using assms by (auto simp: scalar_def)
  let ?b = "replicate 11 (2 ^ 32) @ [2 ^ 20] @ replicate 12 (0::int)"
  define us where "us = fold_vals 12 vs"
  define T where "T = sval 12 us"
  have h: "holds ?b (sc_fold 12 s) us" unfolding us_def by (rule holds_mono[OF holds_fold[OF vs(1) low_fold_ok] low_fold_bounds])
  have b: "?b ! i \<le> 2 ^ 40" if "i < 24" for i using that by (auto simp: nth_append nth_Cons')
  have z: "?b ! i = 0" if "12 \<le> i" "i < 24" for i using that by (auto simp: nth_append nth_Cons')
  have us0: "us ! i = 0" if "12 \<le> i" "i < 24" for i using holds_abs[OF h that(2)] z[OF that] by simp
  have "sval 24 us = T" unfolding T_def by (rule sval_tail) (use us0 in auto)
  moreover have "sval 24 us mod order = V mod order"
    using fold_vals_val[of vs 12] holds_length[OF vs(1)] vs(2) by (simp add: us_def mod_diff_eq[symmetric])
  ultimately have TV: "T mod order = V mod order" by simp
  have "\<bar>T\<bar> < 2 ^ 252" using sval_abs[of 12 us ?b] holds_abs[OF h] low_sum by (auto simp: T_def)
  then have T: "- (2 ^ 252) < T" "T < 2 ^ 252" by auto
  then have q: "\<bar>T div 2 ^ 252\<bar> \<le> 1" by simp
  have f: "fits (sc_fold 12 s ! i) (us ! i) (2 ^ 40)" if "i < 24" for i using fits_mono[OF holds_nth[OF h that] b[OF that]] .
  note ff = floor_fold[OF conjunct1[OF conjunct2[OF holds_length[OF h]]] f, of 12]
  have "holds (replicate 12 (2 ^ 21) @ [1] @ replicate 11 0) (fold sc_floor [0..<12] (sc_fold 12 s))
      (map (\<lambda>i. if i < 12 then window T (21 * i) 21 else if i = 12 then T div 2 ^ 252 else 0) [0..<24])"
    unfolding holds_def
  proof (intro conjI allI impI)
    fix i :: nat
    assume i: "i < 24"
    consider "i < 12" | "i = 12" | "12 < i" by linarith
    then show "fits (fold sc_floor [0..<12] (sc_fold 12 s) ! i)
      (map (\<lambda>i. if i < 12 then window T (21 * i) 21 else if i = 12 then T div 2 ^ 252 else 0) [0..<24] ! i)
      ((replicate 12 (2 ^ 21) @ [1] @ replicate 11 0) ! i)"
    proof cases
      case 1
      have "\<bar>window T (21 * i) 21\<bar> \<le> 2 ^ 21" by (simp add: window_def abs_of_nonneg less_imp_le)
      then show ?thesis using 1 ff sval_window[OF 1, of us] by (simp add: fits_def T_def nth_append nth_Cons')
    next
      case 2
      then show ?thesis using ff us0[of 12] q by (simp add: fits_def T_def nth_append nth_Cons')
    next
      case 3
      then show ?thesis using ff us0[of i] i by (simp add: fits_def nth_append nth_Cons')
    qed
  qed (use ff in auto)
  with TV T show thesis by (rule that)
qed

lemma low_pass:
  assumes "scalar low_bounds s V"
  shows "low_limbs (V mod order) (sc_reduce_low s)"
proof -
  obtain T where T: "T mod order = V mod order" "- (2 ^ 252) < T" "T < 2 ^ 252"
    "holds (replicate 12 (2 ^ 21) @ [1] @ replicate 11 0) (fold sc_floor [0..<12] (sc_fold 12 s))
      (map (\<lambda>i. if i < 12 then window T (21 * i) 21 else if i = 12 then T div 2 ^ 252 else 0) [0..<24])"
    by (rule first_pass[OF assms])
  define ws where "ws = map (\<lambda>i. if i < 12 then window T (21 * i) 21 else if i = 12 then T div 2 ^ 252 else 0) [0..<24]"
  define us where "us = fold_vals 12 ws"
  let ?s = "sc_fold 12 (fold sc_floor [0..<12] (sc_fold 12 s))" and ?b = "fold_bounds 12 (replicate 12 (2 ^ 21) @ [1] @ replicate 11 0)"
  have "sval 24 ws = sval 13 ws" by (rule sval_tail) (auto simp: ws_def)
  also have "\<dots> = T mod 2 ^ 252 + T div 2 ^ 252 * 2 ^ 252"
    using sval_Suc[of 12 ws] windows_sum[of T 12] by (simp add: sval_def ws_def)
  finally have wT: "sval 24 ws = T" by (simp only: mod_div_mult_eq)
  have h: "holds ?b ?s us" unfolding us_def by (rule holds_fold[OF T(4)[folded ws_def] carried_fold_ok])
  have b: "?b ! i \<le> 2 ^ 40" if "i < 24" for i
    using carried_fold_bounds holds_length[OF h] that by (simp add: list_all_length)
  have z: "?b ! i = 0" if "12 \<le> i" "i < 24" for i
    using carried_fold_bounds that nth_drop[of 12 ?b "i - 12"] holds_length[OF h] by simp
  have us0: "us ! i = 0" if "12 \<le> i" "i < 24" for i using holds_abs[OF h that(2)] z[OF that] by simp
  have "sval 12 us = sval 24 us" by (rule sval_tail[symmetric]) (use us0 in auto)
  then have r: "sval 12 us = T - T div 2 ^ 252 * order"
    using fold_vals_val[of ws 12] wT by (simp add: us_def ws_def)
  have "- 1 \<le> T div 2 ^ 252" "T div 2 ^ 252 < 1" using T(2,3) by simp_all
  then have q: "T div 2 ^ 252 = 0 \<or> T div 2 ^ 252 = - 1" by linarith
  have "T - T div 2 ^ 252 * order = T mod 2 ^ 252 - T div 2 ^ 252 * (order - 2 ^ 252)"
    using mod_div_mult_eq[of T "2 ^ 252"] by (simp add: algebra_simps)
  then have "0 \<le> sval 12 us" "sval 12 us < order"
    using q pos_mod_bound[of "2 ^ 252" T] pos_mod_sign[of "2 ^ 252" T] unfolding r by (auto simp: order_def)
  moreover have "sval 12 us mod order = V mod order" unfolding r using T(1) by (simp add: mod_diff_eq[symmetric])
  ultimately have V: "sval 12 us = V mod order" by simp
  have f: "fits (?s ! i) (us ! i) (2 ^ 40)" if "i < 24" for i using fits_mono[OF holds_nth[OF h that] b[OF that]] .
  note ff = floor_fold[OF conjunct1[OF conjunct2[OF holds_length[OF h]]] f, of 11]
  have up: "[0, 1, 2, 3, 4, 5, 6, 7, 8, 9, 10] = [0..<11]" "[0, 1, 2, 3, 4, 5, 6, 7, 8, 9, 10, 11] = [0..<12]" by (simp_all add: upt_rec)
  have "us ! 11 + sval 11 us div 2 ^ 231 = V mod order div 2 ^ 231"
    using floor_step[of "us ! 11" "sval 11 us" 231 0] sval_Suc[of 11 us] V by simp
  moreover have "V mod order div 2 ^ 231 = window (V mod order) 231 25"
  proof -
    have "0 \<le> V mod order" "V mod order < 2 ^ 253" by (simp_all add: order_def order.strict_trans[OF pos_mod_bound])
    then show ?thesis by (simp add: window_def)
  qed
  ultimately show ?thesis unfolding low_limbs_def sc_reduce_low_def up
    using ff sval_window[of _ 12 us] V by (simp add: fits_def)
qed

section \<open>Bytes\<close>

lemma low_limbs_store:
  assumes "low_limbs r s" "0 \<le> r" "r < 2 ^ 256"
  shows "sc_store s = Some (le_bytes 32 (word_of_int r :: 256 word))"
proof -
  have s: "s ! 0 = C (window r 0 21)" "s ! 1 = C (window r 21 21)" "s ! 2 = C (window r 42 21)" "s ! 3 = C (window r 63 21)"
    "s ! 4 = C (window r 84 21)" "s ! 5 = C (window r 105 21)" "s ! 6 = C (window r 126 21)" "s ! 7 = C (window r 147 21)"
    "s ! 8 = C (window r 168 21)" "s ! 9 = C (window r 189 21)" "s ! 10 = C (window r 210 21)" "s ! 11 = C (window r 231 25)"
    using assms(1) by (auto simp: low_limbs_def)
  show ?thesis unfolding le_bytes_map sc_store_def s upt32 list.map
    apply (rule those_Some)
    unfolding list_all2_Cons list_all2_Nil
    apply (intro conjI TrueI)
    by ((rule byte_window byte_join, (use assms in \<open>simp; fail\<close>)+)+)
qed

lemma le_val_window:
  assumes "k + n \<le> length s"
  shows "le_val (take n (drop k s)) = window (le_val s) (8 * k) (8 * n)"
proof -
  have "le_val s = le_val (take k s) + 2 ^ (8 * k) * (le_val (take n (drop k s)) + 2 ^ (8 * n) * le_val (drop (k + n) s))"
    using le_val_split[of k s] le_val_split[of n "drop k s"] assms by (simp add: power_mult add.commute)
  moreover have "0 \<le> le_val (take k s)" "le_val (take k s) < 2 ^ (8 * k)" using le_val_take[of k s] assms by (simp_all add: power_mult)
  moreover have "0 \<le> le_val (take n (drop k s))" "le_val (take n (drop k s)) < 2 ^ (8 * n)"
    using le_val_take[of n "drop k s"] assms by (simp_all add: power_mult)
  ultimately show ?thesis by (simp add: window_def)
qed

lemma window_window: "a + v \<le> w \<Longrightarrow> window (window x p w) a v = window x (p + a) v"
  by (rule bit_eqI) (auto simp: bit_window add.assoc)

lemma uint_drop_window: "uint (drop_bit a w) = window (uint w) a 64" for w :: u64
  by (rule bit_eqI) (auto simp: bit_window bit_uint_iff bit_drop_bit_eq dest: bit_imp_le_length)

lemma uint_window_21: "uint (2097151 AND drop_bit a w) = window (uint w) a 21" for w :: u64
proof -
  have "2097151 AND drop_bit a w = take_bit 21 (drop_bit a w)" by (simp add: take_bit_eq_mask mask_eq_exp_minus_1 and.commute)
  moreover have "uint (take_bit 21 (drop_bit a w)) = window (uint w) a 21"
    by (rule bit_eqI) (auto simp: bit_window bit_uint_iff bit_take_bit_iff bit_drop_bit_eq dest: bit_imp_le_length)
  ultimately show ?thesis by simp
qed

lemma window_nonneg: "0 \<le> window x p w" "window x p w < 2 ^ w"
  by (simp_all add: window_def)

lemma fits_of_u64_window: "uint w = window x p n \<Longrightarrow> b = 2 ^ n \<Longrightarrow> n < 63 \<Longrightarrow> fits (of_u64 w) (window x p n) b"
proof -
  assume a: "uint w = window x p n" "b = 2 ^ n" "n < 63"
  have "(2::int) ^ n \<le> 2 ^ 62" using a(3) by (intro power_increasing) auto
  then have "signed_take_bit 63 (window x p n) = window x p n" using window_nonneg[of x p n]
    by (intro signed_take_bit_int_eq_self) auto
  then show ?thesis using a window_nonneg[of x p n] by (simp add: of_u64_def sint_uint fits_def)
qed

lemma load_window:
  "k + 4 \<le> length s \<Longrightarrow> uint (load_4 (drop k s)) = window (le_val s) (8 * k) 32"
  "k + 3 \<le> length s \<Longrightarrow> uint (load_3 (drop k s)) = window (le_val s) (8 * k) 24"
  using le_val_window[of k 4 s] le_val_window[of k 3 s] by (simp_all add: uint_load_3 uint_load_4)

lemma limb_load_4:
  "k + 4 \<le> length s \<Longrightarrow> a \<le> 11 \<Longrightarrow> p = 8 * k + a \<Longrightarrow> fits (of_u64 (2097151 AND drop_bit a (load_4 (drop k s)))) (window (le_val s) p 21) (2 ^ 21)"
  by (rule fits_of_u64_window) (simp_all add: uint_window_21 load_window window_window)

lemma limb_load_3:
  "k + 3 \<le> length s \<Longrightarrow> a \<le> 3 \<Longrightarrow> p = 8 * k + a \<Longrightarrow> fits (of_u64 (2097151 AND drop_bit a (load_3 (drop k s)))) (window (le_val s) p 21) (2 ^ 21)"
  by (rule fits_of_u64_window) (simp_all add: uint_window_21 load_window window_window)

lemma limb_load_0:
  "k + 3 \<le> length s \<Longrightarrow> p = 8 * k \<Longrightarrow> fits (of_u64 (2097151 AND load_3 (drop k s))) (window (le_val s) p 21) (2 ^ 21)"
  "3 \<le> length s \<Longrightarrow> fits (of_u64 (2097151 AND load_3 s)) (window (le_val s) 0 21) (2 ^ 21)"
  using limb_load_3[of k s 0 p] limb_load_3[of 0 s 0 0] by simp_all

lemma limb_load_top:
  "k + 4 \<le> length s \<Longrightarrow> p = 8 * k + a \<Longrightarrow> a + n = 32 \<Longrightarrow> b = 2 ^ n \<Longrightarrow> fits (of_u64 (drop_bit a (load_4 (drop k s)))) (window (le_val s) p n) b"
proof (rule fits_of_u64_window)
  assume a: "k + 4 \<le> length s" "p = 8 * k + a" "a + n = 32"
  show "uint (drop_bit a (load_4 (drop k s))) = window (le_val s) p n"
    unfolding uint_drop_window load_window(1)[OF a(1)] by (rule bit_eqI) (use a in \<open>auto simp: bit_window add.assoc\<close>)
qed simp_all

lemmas limb_loads = limb_load_4[OF _ _ refl] limb_load_3[OF _ _ refl] limb_load_0(1)[OF _ refl] limb_load_0(2)

lemma upt24: "[0..<24] = [0, 1, 2, 3, 4, 5, 6, 7, 8, 9, 10, 11, 12, 13, 14, 15, 16, 17, 18, 19, 20, 21, 22, 23]"
  by (simp add: upt_rec)

definition load_vals :: "int \<Rightarrow> int list" where
  "load_vals x = map (\<lambda>i. window x (21 * i) (if i = 23 then 29 else 21)) [0..<24]"

lemma load_holds:
  assumes "length s = 64"
  shows "holds hash_bounds (sc_load s) (load_vals (le_val s))"
proof -
  have "list_all2 (\<lambda>x i. fits x (window (le_val s) (21 * i) (if i = 23 then 29 else 21)) (if i = 23 then 2 ^ 29 else 2 ^ 21)) (sc_load s) [0..<24]"
    unfolding sc_load_def upt24 list.map list_all2_Cons list_all2_Nil
    apply (intro conjI TrueI)
    by ((rule fits_eq, rule limb_loads limb_load_top[of 60 s _ 3 29, OF _ refl _ refl], (use assms in \<open>simp; fail\<close>)+)+)
  note all = this
  have l: "length (sc_load s) = 24" by (simp add: sc_load_def)
  have f: "fits (sc_load s ! i) (window (le_val s) (21 * i) (if i = 23 then 29 else 21)) (if i = 23 then 2 ^ 29 else 2 ^ 21)" if "i < 24" for i
    using list_all2_nthD[OF all, of i] l that by simp
  have "fits (sc_load s ! i) (load_vals (le_val s) ! i) (hash_bounds ! i)" if "i < 24" for i
    using f[OF that] that by (cases "i = 23") (auto simp: load_vals_def hash_bounds_def nth_append nth_Cons')
  then show ?thesis using l by (simp add: holds_def load_vals_def hash_bounds_def)
qed

lemma load_vals_val:
  assumes "0 \<le> x" "x < 2 ^ 512"
  shows "sval 24 (load_vals x) = x"
proof -
  have "x div 2 ^ 483 < 2 ^ 29" using assms by simp
  then have "window x 483 29 = x div 2 ^ 483" using assms by (simp add: window_def)
  then have "sval 24 (load_vals x) = x mod 2 ^ 483 + x div 2 ^ 483 * 2 ^ 483"
    using sval_Suc[of 23 "load_vals x"] windows_sum[of x 23] by (simp add: sval_def load_vals_def)
  then show ?thesis by (simp only: mod_div_mult_eq)
qed

lemma sc_reduce_val:
  assumes "length s = 64"
  shows "sc_reduce s = Some (le_bytes 32 (word_of_int (le_val s mod order) :: 256 word))"
proof -
  have "0 \<le> le_val s" "le_val s < 2 ^ 512" using le_val_bounds[of s] assms by simp_all
  then have "scalar hash_bounds (sc_load s) (le_val s)"
    unfolding scalar_def using load_holds[OF assms] load_vals_val by auto
  then have l: "low_limbs (le_val s mod order) (sc_reduce_low (sc_reduce_mid (sc_reduce_high (sc_load s))))"
    by (intro low_pass scalar_reduced[OF _ hash_bounds_ok hash_bounds_low])
  have "le_val s mod order < 2 ^ 256" "0 \<le> le_val s mod order"
    using pos_mod_bound[of order "le_val s"] by (simp_all add: order_def)
  then show ?thesis unfolding sc_reduce_def by (intro low_limbs_store[OF l])
qed

end
