(* ===== verification/Scalar_Muladd.thy ===== *)
theory Scalar_Muladd
  imports Scalar_Reduce
begin

unbundle bit_operations_syntax

text \<open>
  \<^verbatim>\<open>sc_muladd\<close>: the products of two scalars of 12 limbs are a convolution, a chain of carries makes them an argument of the reduction.
\<close>

section \<open>The convolution\<close>

definition conv :: "int list \<Rightarrow> int list \<Rightarrow> nat \<Rightarrow> int" where
  "conv as bs k = (\<Sum>i<12. if i \<le> k \<and> k - i < 12 then as ! i * bs ! (k - i) else 0)"

lemma conv_column:
  fixes F :: "nat \<Rightarrow> int"
  assumes "i < 12"
  shows "(\<Sum>k<24. (if i \<le> k \<and> k - i < 12 then F (k - i) else 0) * X ^ k) = (\<Sum>j<12. F j * X ^ (i + j))"
proof -
  have "(\<Sum>k<24. (if i \<le> k \<and> k - i < 12 then F (k - i) else 0) * X ^ k) = (\<Sum>k\<in>{k \<in> {..<24}. i \<le> k \<and> k - i < 12}. F (k - i) * X ^ k)"
    unfolding sum.inter_filter[OF finite_lessThan] by (rule sum.cong) auto
  also have "\<dots> = (\<Sum>j<12. F j * X ^ (i + j))"
    by (rule sum.reindex_bij_witness[where i = "\<lambda>j. i + j" and j = "\<lambda>k. k - i"]) (use assms in auto)
  finally show ?thesis .
qed

lemma conv_val: "(\<Sum>k<24. conv as bs k * 2 ^ (21 * k)) = sval 12 as * sval 12 bs"
proof -
  have "(\<Sum>k<24. conv as bs k * 2 ^ (21 * k)) =
    (\<Sum>i<12. \<Sum>k<24. (if i \<le> k \<and> k - i < 12 then as ! i * bs ! (k - i) else 0) * (2 ^ 21) ^ k)"
    unfolding conv_def power_mult sum_distrib_right by (rule sum.swap)
  also have "\<dots> = (\<Sum>i<12. \<Sum>j<12. as ! i * bs ! j * (2 ^ 21) ^ (i + j))"
    by (intro sum.cong refl conv_column) simp
  also have "\<dots> = sval 12 as * sval 12 bs"
    unfolding sval_def sum_product power_mult by (simp add: power_add algebra_simps)
  finally show ?thesis .
qed

definition muladd_vals :: "int list \<Rightarrow> int list \<Rightarrow> int list \<Rightarrow> int list" where
  "muladd_vals as bs cs = map (\<lambda>k. (if k < 12 then cs ! k else 0) + conv as bs k) [0..<24]"

lemma muladd_vals_val: "sval 24 (muladd_vals as bs cs) = sval 12 as * sval 12 bs + sval 12 cs"
proof -
  have "(\<Sum>k<24. (if k < 12 then cs ! k else 0) * 2 ^ (21 * k)) = (\<Sum>k\<in>{k \<in> {..<24}. k < 12}. cs ! k * 2 ^ (21 * k))"
    unfolding sum.inter_filter[OF finite_lessThan] by (rule sum.cong) auto
  also have "{k \<in> {..<24}. k < 12} = {..<12::nat}" by auto
  finally have c: "(\<Sum>k<24. (if k < 12 then cs ! k else 0) * 2 ^ (21 * k)) = sval 12 cs" by (simp only: sval_def)
  have "sval 24 (muladd_vals as bs cs) = (\<Sum>k<24. ((if k < 12 then cs ! k else 0) + conv as bs k) * 2 ^ (21 * k))"
    unfolding sval_def muladd_vals_def by (rule sum.cong) auto
  then show ?thesis unfolding distrib_right sum.distrib c conv_val by simp
qed

lemma sum12:
  "(\<Sum>i<12. f i) = f 0 + f 1 + f 2 + f 3 + f 4 + f 5 + f 6 + f 7 + f 8 + f 9 + f 10 + (f 11 :: int)" for f :: "nat \<Rightarrow> int"
  by (simp add: eval_nat_numeral)

definition limbs12 :: "i64 list \<Rightarrow> int list \<Rightarrow> bool" where
  "limbs12 s vs \<longleftrightarrow> (\<forall>i<12. fits (s ! i) (vs ! i) (if i = 11 then 2 ^ 25 else 2 ^ 21))"

lemma all12:
  "(\<forall>i<12. P i) \<longleftrightarrow> P 0 \<and> P 1 \<and> P 2 \<and> P 3 \<and> P 4 \<and> P 5 \<and> P 6 \<and> P 7 \<and> P 8 \<and> P 9 \<and> P 10 \<and> P (11::nat)"
proof -
  have "(\<forall>i<12. P i) \<longleftrightarrow> (\<forall>i\<in>set [0..<12]. P i)" by auto
  moreover have "[0..<12] = [0, 1, 2, 3, 4, 5, 6, 7, 8, 9, 10, 11]" by (simp add: upt_rec)
  ultimately show ?thesis by simp
qed

lemma limbs12_nth:
  assumes "limbs12 s vs"
  shows "fits (s ! 0) (vs ! 0) 2097152" "fits (s ! 1) (vs ! 1) 2097152" "fits (s ! 2) (vs ! 2) 2097152" "fits (s ! 3) (vs ! 3) 2097152"
    "fits (s ! 4) (vs ! 4) 2097152" "fits (s ! 5) (vs ! 5) 2097152" "fits (s ! 6) (vs ! 6) 2097152" "fits (s ! 7) (vs ! 7) 2097152"
    "fits (s ! 8) (vs ! 8) 2097152" "fits (s ! 9) (vs ! 9) 2097152" "fits (s ! 10) (vs ! 10) 2097152" "fits (s ! 11) (vs ! 11) 33554432"
  using assms unfolding limbs12_def all12 by simp_all

lemma conv_nth: "conv as bs k = (let t = \<lambda>i. if i \<le> k \<and> k - i < 12 then as ! i * bs ! (k - i) else 0 in
    t 0 + t 1 + t 2 + t 3 + t 4 + t 5 + t 6 + t 7 + t 8 + t 9 + t 10 + t 11)"
  unfolding conv_def sum12 Let_def by (rule refl)

lemma sc_products_fit:
  assumes "limbs12 a as" "limbs12 b bs" "limbs12 c cs"
  shows "list_all2 (\<lambda>x v. fits x v (2 ^ 51)) (sc_products a b c) (muladd_vals as bs cs)"
proof -
  note f = limbs12_nth[OF assms(1)] limbs12_nth[OF assms(2)] limbs12_nth[OF assms(3)]
  have z: "fits (C 0 :: i64) 0 0" by (simp add: fits_def)
  show ?thesis
    unfolding sc_products_def muladd_vals_def upt24 list.map list_all2_Cons list_all2_Nil
    apply (intro conjI TrueI)
    by (rule fits_eq, (rule fits_rules f z | (simp add: conv_nth; fail))+)+
qed

section \<open>Loading\<close>

definition load_vals_32 :: "int \<Rightarrow> int list" where
  "load_vals_32 x = map (\<lambda>i. window x (21 * i) (if i = 11 then 25 else 21)) [0..<12]"

lemma upt12: "[0..<12] = [0, 1, 2, 3, 4, 5, 6, 7, 8, 9, 10, 11]"
  by (simp add: upt_rec)

lemma load_32_limbs:
  assumes "length s = 32"
  shows "limbs12 (sc_load_32 s) (load_vals_32 (le_val s))"
proof -
  have all: "list_all2 (\<lambda>x i. fits x (window (le_val s) (21 * i) (if i = 11 then 25 else 21)) (if i = 11 then 2 ^ 25 else 2 ^ 21)) (sc_load_32 s) [0..<12]"
    unfolding sc_load_32_def upt12 list.map list_all2_Cons list_all2_Nil
    apply (intro conjI TrueI)
    by ((rule fits_eq, rule limb_loads limb_load_top[of 28 s _ 7 25, OF _ refl _ refl], (use assms in \<open>simp; fail\<close>)+)+)
  have "length (sc_load_32 s) = 12" by (simp add: sc_load_32_def)
  then have "fits (sc_load_32 s ! i) (window (le_val s) (21 * i) (if i = 11 then 25 else 21)) (if i = 11 then 2 ^ 25 else 2 ^ 21)" if "i < 12" for i
    using list_all2_nthD[OF all, of i] that by simp
  then show ?thesis by (simp add: limbs12_def load_vals_32_def)
qed

lemma load_vals_32_val:
  assumes "0 \<le> x" "x < 2 ^ 256"
  shows "sval 12 (load_vals_32 x) = x"
proof -
  have "x div 2 ^ 231 < 2 ^ 25" using assms by simp
  then have "window x 231 25 = x div 2 ^ 231" using assms by (simp add: window_def)
  then have "sval 12 (load_vals_32 x) = x mod 2 ^ 231 + x div 2 ^ 231 * 2 ^ 231"
    using sval_Suc[of 11 "load_vals_32 x"] windows_sum[of x 11] by (simp add: sval_def load_vals_32_def)
  then show ?thesis by (simp only: mod_div_mult_eq)
qed

lemma load_32:
  assumes "length s = 32"
  shows "limbs12 (sc_load_32 s) (load_vals_32 (le_val s))" "sval 12 (load_vals_32 (le_val s)) = le_val s"
  using load_32_limbs[OF assms] load_vals_32_val[of "le_val s"] le_val_bounds[of s] assms by simp_all

section \<open>Correctness\<close>

definition product_bounds :: "int list" where
  "product_bounds = replicate 24 (2 ^ 51)"

definition carried_bounds :: "int list" where
  "carried_bounds = fold sc_carry_bounds [0, 2, 4, 6, 8, 10, 12, 14, 16, 18, 20, 22, 1, 3, 5, 7, 9, 11, 13, 15, 17, 19, 21] (product_bounds[23 := 0])"

lemma product_bounds_ok: "all_ok sc_carry_ok sc_carry_bounds [0, 2, 4, 6, 8, 10, 12, 14, 16, 18, 20, 22, 1, 3, 5, 7, 9, 11, 13, 15, 17, 19, 21]
    (product_bounds[23 := 0])"
  by code_simp

lemma carried_bounds_ok: "reduce_ok carried_bounds"
  by code_simp

lemma carried_bounds_low: "list_all2 (\<le>) (mid_bounds (high_bounds carried_bounds)) low_bounds"
  by code_simp

lemma sc_products_holds:
  assumes "limbs12 a as" "limbs12 b bs" "limbs12 c cs"
  shows "holds (product_bounds[23 := 0]) (sc_products a b c) (muladd_vals as bs cs)"
proof -
  note all = sc_products_fit[OF assms]
  have l: "length (sc_products a b c) = 24" by (simp add: sc_products_def)
  have v: "length (muladd_vals as bs cs) = 24" by (simp add: muladd_vals_def)
  have top: "sc_products a b c ! 23 = C 0" by (simp add: sc_products_def)
  have "fits (sc_products a b c ! i) (muladd_vals as bs cs ! i) (product_bounds[23 := 0] ! i)" if "i < 24" for i
    using list_all2_nthD[OF all, of i] l that top by (cases "i = 23") (auto simp: product_bounds_def fits_def)
  then show ?thesis using l v by (simp add: holds_def product_bounds_def)
qed

lemma sc_muladd_val:
  assumes "length a = 32" "length b = 32" "length c = 32"
  shows "sc_muladd a b c = Some (le_bytes 32 (word_of_int ((le_val a * le_val b + le_val c) mod order) :: 256 word))"
proof -
  let ?V = "le_val a * le_val b + le_val c"
  have "scalar (product_bounds[23 := 0]) (sc_products (sc_load_32 a) (sc_load_32 b) (sc_load_32 c)) ?V"
    unfolding scalar_def using sc_products_holds[OF load_32(1)[OF assms(1)] load_32(1)[OF assms(2)] load_32(1)[OF assms(3)]]
      load_32(2)[OF assms(1)] load_32(2)[OF assms(2)] load_32(2)[OF assms(3)]
    by (auto simp: muladd_vals_val)
  then have "scalar carried_bounds (sc_muladd_carries (sc_products (sc_load_32 a) (sc_load_32 b) (sc_load_32 c))) ?V"
    unfolding carried_bounds_def sc_muladd_carries_def by (rule scalar_carries[OF _ product_bounds_ok])
  then have l: "low_limbs (?V mod order) (sc_muladd_reduce (sc_muladd_carries (sc_products (sc_load_32 a) (sc_load_32 b) (sc_load_32 c))))"
    unfolding sc_muladd_reduce_def by (intro low_pass scalar_reduced[OF _ carried_bounds_ok carried_bounds_low])
  have "?V mod order < 2 ^ 256" "0 \<le> ?V mod order"
    using pos_mod_bound[of order ?V] by (simp_all add: order_def)
  then show ?thesis unfolding sc_muladd_def by (intro low_limbs_store[OF l])
qed

section \<open>Properties\<close>

text \<open>
  C35. Reduction of a 512-bit number: no step overflows, and the 32 bytes are the little-endian image of the number modulo the order of the base
  point, so they are the canonical representative.
\<close>

theorem sc_reduce_correct:
  assumes "length s = 64"
  shows "sc_reduce s = Some (le_bytes 32 (word_of_int (le_val s mod order) :: 256 word))"
  by (rule sc_reduce_val[OF assms])

theorem sc_reduce_correct_witness:
  "sc_reduce (replicate 64 255) = Some (le_bytes 32 (word_of_int (le_val (replicate 64 255) mod order) :: 256 word))"
  by (rule sc_reduce_correct) simp

text \<open>
  C36. Multiplication and addition of scalars: for all 32-byte arguments, reduced or not, the 32 bytes are the image of \<open>a * b + c\<close> modulo the order.
\<close>

theorem sc_muladd_correct:
  assumes "length a = 32" "length b = 32" "length c = 32"
  shows "sc_muladd a b c = Some (le_bytes 32 (word_of_int ((le_val a * le_val b + le_val c) mod order) :: 256 word))"
  by (rule sc_muladd_val[OF assms])

theorem sc_muladd_correct_witness:
  "sc_muladd (replicate 32 255) (replicate 32 255) (replicate 32 255) =
    Some (le_bytes 32 (word_of_int ((le_val (replicate 32 255) * le_val (replicate 32 255) + le_val (replicate 32 255)) mod order) :: 256 word))"
  by (rule sc_muladd_correct) simp_all

end
