(* ===== verification/Signature.thy ===== *)
theory Signature
  imports SHA512 Scalarmult Scalar_Muladd
begin

unbundle bit_operations_syntax

text \<open>
  Keys and signatures (\<^verbatim>\<open>keypair.c\<close>, \<^verbatim>\<open>sign.c\<close>, \<^verbatim>\<open>verify.c\<close>, \<^verbatim>\<open>add_scalar.c\<close>, \<^verbatim>\<open>key_exchange.c\<close>).  A private key has 64 bytes: the scalar and the
  prefix that is hashed with the message.
\<close>

text \<open>\<^verbatim>\<open>sha512_init\<close>, one \<^verbatim>\<open>sha512_update\<close> per part, \<^verbatim>\<open>sha512_final\<close>; the result codes are dropped.\<close>

definition sha512_parts :: "sha512_context \<Rightarrow> bytes list \<Rightarrow> bytes option" where
  "sha512_parts hash parts = do { hash \<leftarrow> extend_all hash_extend (hash_init hash) parts; fst (hash_finalize hash) }"

section \<open>Keys\<close>

definition ed25519_compute_pubkey :: "bytes \<Rightarrow> bytes option" where
  "ed25519_compute_pubkey private_key = ge_p3_tobytes (ge_scalarmult_base private_key)"

definition ed25519_create_privkey :: "sha512_context \<Rightarrow> bytes \<Rightarrow> bytes option" where
  "ed25519_create_privkey ctx seed = do {
     k \<leftarrow> sha512 ctx (take 32 seed);
     let k = k[0 := k ! 0 AND 248];
     let k = k[31 := k ! 31 AND 63];
     Some (k[31 := k ! 31 OR 64]) }"

section \<open>Signatures\<close>

definition ed25519_sign :: "sha512_context \<Rightarrow> bytes \<Rightarrow> bytes \<Rightarrow> bytes \<Rightarrow> bytes option" where
  "ed25519_sign hash message public_key private_key = do {
     r \<leftarrow> sha512_parts hash [take 32 (drop 32 private_key), message];
     r \<leftarrow> sc_reduce r;
     R \<leftarrow> ge_p3_tobytes (ge_scalarmult_base r);
     hram \<leftarrow> sha512_parts hash [R, take 32 public_key, message];
     hram \<leftarrow> sc_reduce hram;
     S \<leftarrow> sc_muladd hram private_key r;
     Some (R @ S) }"

definition consttime_equal :: "bytes \<Rightarrow> bytes \<Rightarrow> bool" where
  "consttime_equal x y = (fold (\<lambda>i r. r OR (x ! i XOR y ! i)) [1..<32] (x ! 0 XOR y ! 0) = 0)"

text \<open>\<open>A\<close> is the uninitialised local of the C function.\<close>

definition ed25519_verify :: "sha512_context \<Rightarrow> ge_p3 \<Rightarrow> bytes \<Rightarrow> bytes \<Rightarrow> bytes \<Rightarrow> bool option" where
  "ed25519_verify hash A signature message public_key =
     (if signature ! 63 AND 224 \<noteq> 0 then Some False
      else do {
        (ret, A) \<leftarrow> ge_frombytes_negate_vartime A public_key;
        if ret \<noteq> 0 then Some False
        else do {
          h \<leftarrow> sha512_parts hash [take 32 signature, take 32 public_key, message];
          h \<leftarrow> sc_reduce h;
          checker \<leftarrow> ge_tobytes (ge_double_scalarmult_vartime h A (drop 32 signature));
          Some (consttime_equal checker signature) } })"

section \<open>Derived keys\<close>

text \<open>Both keys are optional, as the pointers of the C function are; the new keys.\<close>

definition add_scalar_private :: "sha512_context \<Rightarrow> bytes \<Rightarrow> bytes \<Rightarrow> bytes \<Rightarrow> bytes option" where
  "add_scalar_private hash sc n private_key = do {
     k \<leftarrow> sc_muladd (1 # replicate 31 0) n private_key;
     hashbuf \<leftarrow> sha512_parts hash [take 32 (drop 32 private_key), take 32 sc];
     Some (k @ take 32 hashbuf) }"

definition ed25519_add_scalar ::
  "sha512_context \<Rightarrow> ge_p3 \<Rightarrow> bytes option \<Rightarrow> bytes option \<Rightarrow> bytes \<Rightarrow> (bytes option \<times> bytes option) option" where
  "ed25519_add_scalar hash A public_key private_key sc =
     (let n = take 31 sc @ [sc ! 31 AND 127] in do {
        private_key \<leftarrow> (case private_key of None \<Rightarrow> Some None
          | Some k \<Rightarrow> map_option Some (add_scalar_private hash sc n k));
        public_key \<leftarrow> (case public_key of None \<Rightarrow> Some None
          | Some pk \<Rightarrow> map_option Some (case private_key of
              Some k \<Rightarrow> ge_p3_tobytes (ge_scalarmult_base k)
            | None \<Rightarrow> do {
                (_, T) \<leftarrow> ge_frombytes_negate_vartime A pk;
                let T = T\<lparr>p3_X := fe_neg (p3_X T)\<rparr>;
                let T = T\<lparr>p3_T := fe_neg (p3_T T)\<rparr>;
                ge_p3_tobytes (ge_p1p1_to_p3 (ge_add (ge_scalarmult_base n) (ge_p3_to_cached T))) }));
        Some (public_key, private_key) })"

section \<open>Key exchange\<close>

record ladder =
  ladder_x2 :: fe
  ladder_z2 :: fe
  ladder_x3 :: fe
  ladder_z3 :: fe
  ladder_swap :: u32

definition ladder_cswap :: "u32 \<Rightarrow> ladder \<Rightarrow> ladder" where
  "ladder_cswap swap l =
     (case fe_cswap (ladder_x2 l) (ladder_x3 l) swap of (x2, x3) \<Rightarrow>
      case fe_cswap (ladder_z2 l) (ladder_z3 l) swap of (z2, z3) \<Rightarrow>
        l\<lparr>ladder_x2 := x2, ladder_x3 := x3, ladder_z2 := z2, ladder_z3 := z3\<rparr>)"

definition ladder_step :: "bytes \<Rightarrow> fe \<Rightarrow> nat \<Rightarrow> ladder \<Rightarrow> ladder" where
  "ladder_step e x1 pos l =
     (let b = ucast (drop_bit (pos mod 8) (e ! (pos div 8))) AND 1 :: u32;
          l = ladder_cswap (ladder_swap l XOR b) l;
          x2 = ladder_x2 l; z2 = ladder_z2 l; x3 = ladder_x3 l; z3 = ladder_z3 l;
          tmp0 = fe_sub x3 z3;
          tmp1 = fe_sub x2 z2;
          x2 = fe_add x2 z2;
          z2 = fe_add x3 z3;
          z3 = fe_mul tmp0 x2;
          z2 = fe_mul z2 tmp1;
          tmp0 = fe_sq tmp1;
          tmp1 = fe_sq x2;
          x3 = fe_add z3 z2;
          z2 = fe_sub z3 z2;
          x2 = fe_mul tmp1 tmp0;
          tmp1 = fe_sub tmp1 tmp0;
          z2 = fe_sq z2;
          z3 = fe_mul121666 tmp1;
          x3 = fe_sq x3;
          tmp0 = fe_add tmp0 z3;
          z3 = fe_mul x1 z2;
          z2 = fe_mul tmp1 tmp0
      in \<lparr>ladder_x2 = x2, ladder_z2 = z2, ladder_x3 = x3, ladder_z3 = z3, ladder_swap = b\<rparr>)"

definition clamp :: "bytes \<Rightarrow> bytes" where
  "clamp k =
     (let e = take 32 k;
          e = e[0 := e ! 0 AND 248];
          e = e[31 := e ! 31 AND 63]
      in e[31 := e ! 31 OR 64])"

definition ed25519_key_exchange :: "bytes \<Rightarrow> bytes \<Rightarrow> bytes option" where
  "ed25519_key_exchange public_key private_key =
     (let e = clamp private_key;
          x1 = fe_frombytes public_key;
          tmp1 = fe_1;
          tmp0 = fe_add x1 tmp1;
          tmp1 = fe_sub tmp1 x1;
          tmp1 = fe_invert tmp1;
          x1 = fe_mul tmp0 tmp1;
          l = \<lparr>ladder_x2 = fe_1, ladder_z2 = fe_0, ladder_x3 = fe_copy x1, ladder_z3 = fe_1, ladder_swap = 0\<rparr>;
          l = fold (ladder_step e x1) (rev [0..<255]) l;
          l = ladder_cswap (ladder_swap l) l;
          z2 = fe_invert (ladder_z2 l)
      in fe_tobytes (fe_mul (ladder_x2 l) z2))"

end
