(* ===== verification/Digits.thy ===== *)
theory Digits
  imports Scalarmult
begin

unbundle bit_operations_syntax

text \<open>
  The digits with which \<^verbatim>\<open>ge_scalarmult_base\<close> works: 64 digits between -8 and 8 that add up to the scalar.
\<close>

lemma sum_pairs: "(\<Sum>i<2 * n. f i) = (\<Sum>i<n. f (2 * i) + f (2 * i + 1))" for f :: "nat \<Rightarrow> int"
  by (induction n) simp_all

lemma nibbles_concat: "length (concat (map (\<lambda>i. [f i, g i]) [0..<n])) = 2 * n \<and>
    (\<forall>i<n. concat (map (\<lambda>i. [f i, g i]) [0..<n]) ! (2 * i) = f i \<and> concat (map (\<lambda>i. [f i, g i]) [0..<n]) ! (2 * i + 1) = g i)"
  by (induction n) (auto simp: nth_append less_Suc_eq)

lemma uint_nibbles: "uint (x AND 15) + 16 * uint (drop_bit 4 x AND 15) = uint x" "uint (x AND 15) < 16" "uint (drop_bit 4 x AND 15) < 16" for x :: u8
proof -
  have m: "(15 :: u8) = mask 4" by (simp add: mask_eq_exp_minus_1)
  have lo: "uint (x AND 15) = uint x mod 16" unfolding m take_bit_eq_mask[symmetric] unsigned_take_bit_eq by (simp add: take_bit_eq_mod)
  have hi: "uint (drop_bit 4 x AND 15) = uint x div 16"
  proof -
    have "uint (take_bit 4 (drop_bit 4 x)) = drop_bit 4 (uint x)"
      by (rule bit_eqI) (auto simp: bit_uint_iff bit_take_bit_iff bit_drop_bit_eq dest: bit_imp_le_length)
    then show ?thesis unfolding m take_bit_eq_mask[symmetric] by (simp add: drop_bit_eq_div[of 4 "uint x"])
  qed
  show "uint (x AND 15) + 16 * uint (drop_bit 4 x AND 15) = uint x" "uint (x AND 15) < 16" "uint (drop_bit 4 x AND 15) < 16"
    unfolding lo hi using uint_byte[of x] by simp_all
qed

lemma le_val_sum: "le_val s = (\<Sum>i<length s. uint (s ! i) * 256 ^ i)"
proof (induction s)
  case (Cons b s)
  then show ?case by (simp add: sum.lessThan_Suc_shift sum_distrib_left algebra_simps del: sum.lessThan_Suc)
qed simp

lemma nibbles_props:
  "length (nibbles a) = 64" "i < 64 \<Longrightarrow> 0 \<le> nibbles a ! i \<and> nibbles a ! i < 16"
proof -
  let ?f = "\<lambda>i. uint (a ! i AND 15)" and ?g = "\<lambda>i. uint (drop_bit 4 (a ! i) AND 15)"
  note c = nibbles_concat[of ?f ?g 32, folded nibbles_def]
  show "length (nibbles a) = 64" using c by simp
  assume i: "i < 64"
  show "0 \<le> nibbles a ! i \<and> nibbles a ! i < 16"
  proof (cases "even i")
    case True
    then show ?thesis using c uint_nibbles(2)[of "a ! (i div 2)"] i by (auto elim!: evenE)
  next
    case False
    then show ?thesis using c uint_nibbles(3)[of "a ! (i div 2)"] i by (auto elim!: oddE)
  qed
qed

lemma nibbles_sum:
  assumes "32 \<le> length a"
  shows "(\<Sum>i<64. nibbles a ! i * 16 ^ i) = le_val (take 32 a)"
proof -
  let ?f = "\<lambda>i. uint (a ! i AND 15)" and ?g = "\<lambda>i. uint (drop_bit 4 (a ! i) AND 15)"
  note c = nibbles_concat[of ?f ?g 32, folded nibbles_def]
  have "(\<Sum>i<64. nibbles a ! i * 16 ^ i) = (\<Sum>i<32. nibbles a ! (2 * i) * 16 ^ (2 * i) + nibbles a ! (2 * i + 1) * 16 ^ (2 * i + 1))"
    using sum_pairs[of "\<lambda>i. nibbles a ! i * 16 ^ i" 32] by simp
  also have "\<dots> = (\<Sum>i<32. uint (a ! i) * 256 ^ i)"
  proof (rule sum.cong[OF refl])
    fix i :: nat
    assume "i \<in> {..<32}"
    then have n: "nibbles a ! (2 * i) = ?f i" "nibbles a ! (2 * i + 1) = ?g i" using c by auto
    have pw: "(16::int) ^ (2 * i) = 256 ^ i" unfolding power_mult by simp
    show "nibbles a ! (2 * i) * 16 ^ (2 * i) + nibbles a ! (2 * i + 1) * 16 ^ (2 * i + 1) = uint (a ! i) * 256 ^ i"
      unfolding n uint_nibbles(1)[of "a ! i", symmetric] power_add pw by (simp add: algebra_simps)
  qed
  also have "\<dots> = le_val (take 32 a)" using assms by (simp add: le_val_sum)
  finally show ?thesis .
qed

lemma to_i8_small: "- 128 \<le> v \<Longrightarrow> v < 128 \<Longrightarrow> to_i8 v = v"
  by (simp add: to_i8_def signed_take_bit_int_eq_self)

lemma digits_fold:
  assumes "length e = 64" "\<And>i. i < 64 \<Longrightarrow> 0 \<le> e ! i \<and> e ! i < 16" "n \<le> 63"
  shows "case fold digit_step [0..<n] (e, 0) of (d, c) \<Rightarrow> length d = 64 \<and> (c = 0 \<or> c = 1) \<and> (\<forall>i<n. - 8 \<le> d ! i \<and> d ! i \<le> 7) \<and>
    (\<forall>i<64. n \<le> i \<longrightarrow> d ! i = e ! i) \<and> (\<Sum>i<n. d ! i * 16 ^ i) + c * 16 ^ n = (\<Sum>i<n. e ! i * 16 ^ i)"
  using assms(3)
proof (induction n)
  case (Suc n)
  obtain d c where dc: "fold digit_step [0..<n] (e, 0) = (d, c)" by fastforce
  have d: "length d = 64" "c = 0 \<or> c = 1" "\<And>i. i < n \<Longrightarrow> - 8 \<le> d ! i \<and> d ! i \<le> 7" "\<And>i. i < 64 \<Longrightarrow> n \<le> i \<Longrightarrow> d ! i = e ! i"
    "(\<Sum>i<n. d ! i * 16 ^ i) + c * 16 ^ n = (\<Sum>i<n. e ! i * 16 ^ i)"
    using Suc by (auto simp: dc)
  define x where "x = e ! n + c"
  define q where "q = (x + 8) div 16"
  have x: "0 \<le> x" "x \<le> 16" using assms(2)[of n] d(2) Suc.prems by (auto simp: x_def)
  have q: "q = 0 \<or> q = 1" "- 8 \<le> x - q * 16" "x - q * 16 \<le> 7" using x by (auto simp: q_def)
  have "digit_step n (d, c) = (d[n := x - q * 16], q)"
    using d(1) d(4)[of n] Suc.prems x q by (simp add: digit_step_def Let_def x_def[symmetric] to_i8_small q_def[symmetric])
  then have s: "fold digit_step [0..<Suc n] (e, 0) = (d[n := x - q * 16], q)" by (simp add: dc)
  have "(\<Sum>i<n. d[n := x - q * 16] ! i * 16 ^ i) = (\<Sum>i<n. d ! i * 16 ^ i)" by (rule sum.cong) auto
  then have "(\<Sum>i<Suc n. d[n := x - q * 16] ! i * 16 ^ i) + q * 16 ^ Suc n = (\<Sum>i<Suc n. e ! i * 16 ^ i)"
    using d(1,5) Suc.prems by (simp add: x_def algebra_simps)
  then show ?case unfolding s using d q Suc.prems by (auto simp: nth_list_update less_Suc_eq)
qed (simp add: assms(1))

lemma scalar_digits_val:
  assumes "32 \<le> length a" "a ! 31 < 128"
  shows "length (scalar_digits a) = 64" "i < 64 \<Longrightarrow> - 8 \<le> scalar_digits a ! i \<and> scalar_digits a ! i \<le> 8"
    "(\<Sum>i<64. scalar_digits a ! i * 16 ^ i) = le_val (take 32 a)"
proof -
  obtain d c where dc: "fold digit_step [0..<63] (nibbles a, 0) = (d, c)" by fastforce
  have d: "length d = 64" "c = 0 \<or> c = 1" "\<And>i. i < 63 \<Longrightarrow> - 8 \<le> d ! i \<and> d ! i \<le> 7" "d ! 63 = nibbles a ! 63"
    "(\<Sum>i<63. d ! i * 16 ^ i) + c * 16 ^ 63 = (\<Sum>i<63. nibbles a ! i * 16 ^ i)"
    using digits_fold[OF nibbles_props(1)[of a] nibbles_props(2)[of _ a], of 63] by (auto simp: dc)
  have "nibbles a ! 63 = uint (drop_bit 4 (a ! 31) AND 15)"
    using conjunct2[OF nibbles_concat[of "\<lambda>i. uint (a ! i AND 15)" "\<lambda>i. uint (drop_bit 4 (a ! i) AND 15)" 32, folded nibbles_def],
      rule_format, of 31] by simp
  then have "16 * nibbles a ! 63 \<le> uint (a ! 31)" using uint_nibbles(1)[of "a ! 31"] uint_byte(1)[of "a ! 31 AND 15"] by linarith
  moreover have "uint (a ! 31) < 128" using assms(2) by (simp add: word_less_def)
  ultimately have t: "0 \<le> nibbles a ! 63" "nibbles a ! 63 \<le> 7" using nibbles_props(2)[of 63 a] by auto
  have e: "scalar_digits a = d[63 := nibbles a ! 63 + c]"
    using d(2,4) t by (auto simp: scalar_digits_def dc to_i8_small)
  show "length (scalar_digits a) = 64" using d(1) by (simp add: e)
  show "i < 64 \<Longrightarrow> - 8 \<le> scalar_digits a ! i \<and> scalar_digits a ! i \<le> 8"
    using d(1,2) d(3)[of i] t by (auto simp: e nth_list_update)
  have "(\<Sum>i<63. d[63 := nibbles a ! 63 + c] ! i * 16 ^ i) = (\<Sum>i<63. d ! i * 16 ^ i)" by (rule sum.cong) auto
  then have "(\<Sum>i<Suc 63. scalar_digits a ! i * 16 ^ i) = (\<Sum>i<Suc 63. nibbles a ! i * 16 ^ i)"
    unfolding sum.lessThan_Suc e using d(1,5) by (simp add: algebra_simps)
  then show "(\<Sum>i<64. scalar_digits a ! i * 16 ^ i) = le_val (take 32 a)" using nibbles_sum[OF assms(1)] by simp
qed

end
