(* ===== verification/Group_Law.thy ===== *)
theory Group_Law
  imports Group
begin

text \<open>
  The formulas of \<^verbatim>\<open>ge.c\<close> are the addition law of the twisted Edwards curve \<open>- x * x + y * y = 1 + d * x * x * y * y\<close>.
\<close>

section \<open>Congruence modulo the prime\<close>

definition cong_p :: "int \<Rightarrow> int \<Rightarrow> bool" where
  "cong_p a b \<longleftrightarrow> a mod p25519 = b mod p25519"

lemma cong_p_mult: "cong_p a b \<Longrightarrow> cong_p c e \<Longrightarrow> cong_p (a * c) (b * e)"
  unfolding cong_p_def by (metis mod_mult_eq)

lemma cong_p_refl [simp]: "cong_p a a"
  by (simp add: cong_p_def)

lemma cong_p_sym: "cong_p a b \<Longrightarrow> cong_p b a"
  by (simp add: cong_p_def)

lemma fe_in_cong: "fe_in k f V \<Longrightarrow> cong_p V W \<Longrightarrow> fe_in k f W"
  by (simp add: fe_in_iff cong_p_def)

definition unit_p :: "int \<Rightarrow> bool" where
  "unit_p a \<longleftrightarrow> (\<exists>b. cong_p (a * b) 1)"

lemma unit_p_mult: "unit_p a \<Longrightarrow> unit_p b \<Longrightarrow> unit_p (a * b)"
proof -
  assume "unit_p a" "unit_p b"
  then obtain c e where c: "cong_p (a * c) 1" "cong_p (b * e) 1" by (auto simp: unit_p_def)
  have "(a * b) * (c * e) = (a * c) * (b * e)" by (simp add: algebra_simps)
  then show ?thesis using cong_p_mult[OF c] unfolding unit_p_def by (metis mult_1)
qed

lemma unit_p_1 [simp]: "unit_p 1"
  unfolding unit_p_def by (intro exI[of _ 1]) simp

lemma unit_p_2 [simp]: "unit_p 2"
  unfolding unit_p_def cong_p_def by (intro exI[of _ "(p25519 + 1) div 2"]) (simp add: p25519_def)

section \<open>The curve\<close>

definition d25519 :: int where
  "d25519 = 37095705934669439343138083508754565189542113879843219016388785533085940283555"

definition on_curve :: "int \<Rightarrow> int \<Rightarrow> bool" where
  "on_curve x y \<longleftrightarrow> cong_p (y * y - x * x) (1 + d25519 * (x * x) * (y * y))"

text \<open>\<open>(x3, y3)\<close> is the sum of two points; the law has two denominators, which must be invertible.\<close>

definition ed_sum :: "int \<Rightarrow> int \<Rightarrow> int \<Rightarrow> int \<Rightarrow> int \<Rightarrow> int \<Rightarrow> bool" where
  "ed_sum x1 y1 x2 y2 x3 y3 \<longleftrightarrow>
     unit_p (1 + d25519 * (x1 * x2) * (y1 * y2)) \<and> unit_p (1 - d25519 * (x1 * x2) * (y1 * y2)) \<and>
     cong_p (x3 * (1 + d25519 * (x1 * x2) * (y1 * y2))) (x1 * y2 + y1 * x2) \<and>
     cong_p (y3 * (1 - d25519 * (x1 * x2) * (y1 * y2))) (y1 * y2 + x1 * x2)"

section \<open>What the representations stand for\<close>

definition p3_at :: "ge_p3 \<Rightarrow> int \<Rightarrow> int \<Rightarrow> bool" where
  "p3_at h x y \<longleftrightarrow> (\<exists>z. unit_p z \<and> fe_in 16944988 (p3_X h) (x * z) \<and> fe_in 16944988 (p3_Y h) (y * z) \<and> fe_in 16944988 (p3_Z h) z \<and>
     fe_in 16944988 (p3_T h) (x * y * z))"

definition p2_at :: "ge_p2 \<Rightarrow> int \<Rightarrow> int \<Rightarrow> bool" where
  "p2_at h x y \<longleftrightarrow> (\<exists>z. unit_p z \<and> fe_in 16944988 (p2_X h) (x * z) \<and> fe_in 16944988 (p2_Y h) (y * z) \<and> fe_in 16944988 (p2_Z h) z)"

definition p1p1_at :: "ge_p1p1 \<Rightarrow> int \<Rightarrow> int \<Rightarrow> bool" where
  "p1p1_at h x y \<longleftrightarrow> (\<exists>z t. unit_p z \<and> unit_p t \<and> fe_in 50834964 (p1_X h) (x * z) \<and> fe_in 50834964 (p1_Y h) (y * t) \<and>
     fe_in 50834964 (p1_Z h) z \<and> fe_in 50834964 (p1_T h) t)"

definition cached_at :: "ge_cached \<Rightarrow> int \<Rightarrow> int \<Rightarrow> bool" where
  "cached_at h x y \<longleftrightarrow> (\<exists>z. unit_p z \<and> fe_in 33889976 (YplusX h) ((y + x) * z) \<and> fe_in 33889976 (YminusX h) ((y - x) * z) \<and>
     fe_in 16944988 (cached_Z h) z \<and> fe_in 16944988 (T2d h) (2 * d25519 * (x * y) * z))"

definition precomp_at :: "ge_precomp \<Rightarrow> int \<Rightarrow> int \<Rightarrow> bool" where
  "precomp_at h x y \<longleftrightarrow> fe_in 16944988 (yplusx h) (y + x) \<and> fe_in 16944988 (yminusx h) (y - x) \<and> fe_in 16944988 (xy2d h) (2 * d25519 * (x * y))"

section \<open>Conversions\<close>

lemma arg_mul: "fe_in k f F \<Longrightarrow> fe_in l g G \<Longrightarrow> k \<le> 55364812 \<Longrightarrow> l \<le> 55364812 \<Longrightarrow> fe_in 16944988 (fe_mul f g) (F * G)"
  by (intro fe_in_mul) (auto intro: fe_in_mono)

lemma result_add: "fe_in 16944988 f F \<Longrightarrow> fe_in 16944988 g G \<Longrightarrow> fe_in 33889976 (fe_add f g) (F + G)"
  using fe_in_add[of 16944988 f F 16944988 g G] by simp

lemma result_sub: "fe_in 16944988 f F \<Longrightarrow> fe_in 16944988 g G \<Longrightarrow> fe_in 33889976 (fe_sub f g) (F - G)"
  using fe_in_sub[of 16944988 f F 16944988 g G] by simp

lemma result_add3: "fe_in 33889976 f F \<Longrightarrow> fe_in 16944988 g G \<Longrightarrow> fe_in 50834964 (fe_add f g) (F + G)"
  using fe_in_add[of 33889976 f F 16944988 g G] by simp

lemma result_sub3: "fe_in 33889976 f F \<Longrightarrow> fe_in 16944988 g G \<Longrightarrow> fe_in 50834964 (fe_sub f g) (F - G)"
  using fe_in_sub[of 33889976 f F 16944988 g G] by simp

lemma p1p1_to_p3_at: "p1p1_at h x y \<Longrightarrow> p3_at (ge_p1p1_to_p3 h) x y"
proof -
  assume "p1p1_at h x y"
  then obtain z t where h: "unit_p z" "unit_p t" "fe_in 50834964 (p1_X h) (x * z)" "fe_in 50834964 (p1_Y h) (y * t)"
    "fe_in 50834964 (p1_Z h) z" "fe_in 50834964 (p1_T h) t" by (auto simp: p1p1_at_def)
  show ?thesis unfolding p3_at_def ge_p1p1_to_p3_def ge_p3.simps
    using arg_mul[OF h(3,6)] arg_mul[OF h(4,5)] arg_mul[OF h(5,6)] arg_mul[OF h(3,4)]
    by (intro exI[of _ "z * t"]) (simp add: unit_p_mult[OF h(2,1)] mult.assoc mult.left_commute mult.commute)
qed

lemma p1p1_to_p2_at: "p1p1_at h x y \<Longrightarrow> p2_at (ge_p1p1_to_p2 h) x y"
proof -
  assume "p1p1_at h x y"
  then obtain z t where h: "unit_p z" "unit_p t" "fe_in 50834964 (p1_X h) (x * z)" "fe_in 50834964 (p1_Y h) (y * t)"
    "fe_in 50834964 (p1_Z h) z" "fe_in 50834964 (p1_T h) t" by (auto simp: p1p1_at_def)
  show ?thesis unfolding p2_at_def ge_p1p1_to_p2_def ge_p2.simps
    using arg_mul[OF h(3,6)] arg_mul[OF h(4,5)] arg_mul[OF h(5,6)]
    by (intro exI[of _ "z * t"]) (simp add: unit_p_mult[OF h(2,1)] mult.assoc mult.left_commute mult.commute)
qed

lemma p3_to_p2_at: "p3_at h x y \<Longrightarrow> p2_at (ge_p3_to_p2 h) x y"
  unfolding p3_at_def p2_at_def ge_p3_to_p2_def ge_p2.simps by (auto simp: fe_copy_id fe_in_length)

lemma fe_in_list:
  assumes "length vs = 10" "\<forall>i<10. \<bar>vs ! i\<bar> \<le> (if even i then 2 else 1) * k" "cong_p (limbs_val vs) V"
  shows "fe_in k (map C vs) V"
  using assms unfolding fe_in_iff cong_p_def by (intro conjI exI[of _ vs]) (auto simp: fits_def)

lemma ge_d2_val: "fe_in 16944988 ge_d2 (2 * d25519)"
  unfolding ge_d2_def by (rule fe_in_list) code_simp+

lemma ge_d_val: "fe_in 16944988 ge_d d25519"
  unfolding ge_d_def by (rule fe_in_list) code_simp+

lemma d25519_fraction: "cong_p (121666 * d25519) (- 121665)"
  by code_simp

lemma p3_to_cached_at: "p3_at h x y \<Longrightarrow> cached_at (ge_p3_to_cached h) x y"
proof -
  assume "p3_at h x y"
  then obtain z where h: "unit_p z" "fe_in 16944988 (p3_X h) (x * z)" "fe_in 16944988 (p3_Y h) (y * z)" "fe_in 16944988 (p3_Z h) z"
    "fe_in 16944988 (p3_T h) (x * y * z)" by (auto simp: p3_at_def)
  show ?thesis unfolding cached_at_def ge_p3_to_cached_def ge_cached.simps
    using result_add[OF h(3,2)] result_sub[OF h(3,2)] arg_mul[OF h(5) ge_d2_val] h(1,4)
    by (intro exI[of _ z]) (simp add: fe_copy_id[OF fe_in_length[OF h(4)]] algebra_simps)
qed

section \<open>Addition\<close>

text \<open>From the values of the four coordinates that all additions compute to the sum.\<close>

lemma sum_at:
  assumes v: "fe_in 33889976 (p1_X h) (2 * w * (x1 * y2 + y1 * x2))" "fe_in 33889976 (p1_Y h) (2 * w * (y1 * y2 + x1 * x2))"
    "fe_in 50834964 (p1_Z h) (2 * w * (1 + d25519 * (x1 * x2) * (y1 * y2)))" "fe_in 50834964 (p1_T h) (2 * w * (1 - d25519 * (x1 * x2) * (y1 * y2)))"
  and w: "unit_p w" and s: "ed_sum x1 y1 x2 y2 x3 y3"
  shows "p1p1_at h x3 y3"
proof -
  define a where "a = 1 + d25519 * (x1 * x2) * (y1 * y2)"
  define b where "b = 1 - d25519 * (x1 * x2) * (y1 * y2)"
  have s': "unit_p a" "unit_p b" "cong_p (x3 * a) (x1 * y2 + y1 * x2)" "cong_p (y3 * b) (y1 * y2 + x1 * x2)"
    using s by (simp_all add: ed_sum_def a_def b_def)
  have u: "unit_p (2 * w * a)" "unit_p (2 * w * b)" using s'(1,2) w by (auto intro!: unit_p_mult)
  have x: "cong_p (2 * w * (x1 * y2 + y1 * x2)) (x3 * (2 * w * a))"
    using cong_p_mult[OF cong_p_refl[of "2 * w"] cong_p_sym[OF s'(3)]] by (simp add: mult.left_commute)
  have y: "cong_p (2 * w * (y1 * y2 + x1 * x2)) (y3 * (2 * w * b))"
    using cong_p_mult[OF cong_p_refl[of "2 * w"] cong_p_sym[OF s'(4)]] by (simp add: mult.left_commute)
  have r: "fe_in 33889976 f V \<Longrightarrow> fe_in 50834964 f V" for f V by (erule fe_in_mono) simp
  show ?thesis unfolding p1p1_at_def using u fe_in_cong[OF r[OF v(1)] x] fe_in_cong[OF r[OF v(2)] y] v(3,4)
    unfolding a_def b_def by blast
qed

lemma ge_add_at:
  assumes "p3_at p x1 y1" "cached_at q x2 y2" "ed_sum x1 y1 x2 y2 x3 y3"
  shows "p1p1_at (ge_add p q) x3 y3"
proof -
  obtain z1 where p: "unit_p z1" "fe_in 16944988 (p3_X p) (x1 * z1)" "fe_in 16944988 (p3_Y p) (y1 * z1)" "fe_in 16944988 (p3_Z p) z1"
    "fe_in 16944988 (p3_T p) (x1 * y1 * z1)" using assms(1) by (auto simp: p3_at_def)
  obtain z2 where q: "unit_p z2" "fe_in 33889976 (YplusX q) ((y2 + x2) * z2)" "fe_in 33889976 (YminusX q) ((y2 - x2) * z2)"
    "fe_in 16944988 (cached_Z q) z2" "fe_in 16944988 (T2d q) (2 * d25519 * (x2 * y2) * z2)" using assms(2) by (auto simp: cached_at_def)
  note A = arg_mul[OF result_add[OF p(3,2)] q(2), simplified] and B = arg_mul[OF result_sub[OF p(3,2)] q(3), simplified]
    and T = arg_mul[OF q(5) p(5), simplified] and Z = arg_mul[OF p(4) q(4), simplified]
  show ?thesis
  proof (rule sum_at[OF _ _ _ _ unit_p_mult[OF p(1) q(1)] assms(3)])
    show "fe_in 33889976 (p1_X (ge_add p q)) (2 * (z1 * z2) * (x1 * y2 + y1 * x2))"
      using result_sub[OF A B] by (simp add: ge_add_def Let_def algebra_simps)
    show "fe_in 33889976 (p1_Y (ge_add p q)) (2 * (z1 * z2) * (y1 * y2 + x1 * x2))"
      using result_add[OF A B] by (simp add: ge_add_def Let_def algebra_simps)
    show "fe_in 50834964 (p1_Z (ge_add p q)) (2 * (z1 * z2) * (1 + d25519 * (x1 * x2) * (y1 * y2)))"
      using result_add3[OF result_add[OF Z Z] T] by (simp add: ge_add_def Let_def algebra_simps)
    show "fe_in 50834964 (p1_T (ge_add p q)) (2 * (z1 * z2) * (1 - d25519 * (x1 * x2) * (y1 * y2)))"
      using result_sub3[OF result_add[OF Z Z] T] by (simp add: ge_add_def Let_def algebra_simps)
  qed
qed

lemma ge_sub_at:
  assumes "p3_at p x1 y1" "cached_at q x2 y2" "ed_sum x1 y1 (- x2) y2 x3 y3"
  shows "p1p1_at (ge_sub p q) x3 y3"
proof -
  obtain z1 where p: "unit_p z1" "fe_in 16944988 (p3_X p) (x1 * z1)" "fe_in 16944988 (p3_Y p) (y1 * z1)" "fe_in 16944988 (p3_Z p) z1"
    "fe_in 16944988 (p3_T p) (x1 * y1 * z1)" using assms(1) by (auto simp: p3_at_def)
  obtain z2 where q: "unit_p z2" "fe_in 33889976 (YplusX q) ((y2 + x2) * z2)" "fe_in 33889976 (YminusX q) ((y2 - x2) * z2)"
    "fe_in 16944988 (cached_Z q) z2" "fe_in 16944988 (T2d q) (2 * d25519 * (x2 * y2) * z2)" using assms(2) by (auto simp: cached_at_def)
  note A = arg_mul[OF result_add[OF p(3,2)] q(3), simplified] and B = arg_mul[OF result_sub[OF p(3,2)] q(2), simplified]
    and T = arg_mul[OF q(5) p(5), simplified] and Z = arg_mul[OF p(4) q(4), simplified]
  show ?thesis
  proof (rule sum_at[OF _ _ _ _ unit_p_mult[OF p(1) q(1)] assms(3)])
    show "fe_in 33889976 (p1_X (ge_sub p q)) (2 * (z1 * z2) * (x1 * y2 + y1 * - x2))"
      using result_sub[OF A B] by (simp add: ge_sub_def Let_def algebra_simps)
    show "fe_in 33889976 (p1_Y (ge_sub p q)) (2 * (z1 * z2) * (y1 * y2 + x1 * - x2))"
      using result_add[OF A B] by (simp add: ge_sub_def Let_def algebra_simps)
    show "fe_in 50834964 (p1_Z (ge_sub p q)) (2 * (z1 * z2) * (1 + d25519 * (x1 * - x2) * (y1 * y2)))"
      using result_sub3[OF result_add[OF Z Z] T] by (simp add: ge_sub_def Let_def algebra_simps)
    show "fe_in 50834964 (p1_T (ge_sub p q)) (2 * (z1 * z2) * (1 - d25519 * (x1 * - x2) * (y1 * y2)))"
      using result_add3[OF result_add[OF Z Z] T] by (simp add: ge_sub_def Let_def algebra_simps)
  qed
qed

lemma ge_madd_at:
  assumes "p3_at p x1 y1" "precomp_at q x2 y2" "ed_sum x1 y1 x2 y2 x3 y3"
  shows "p1p1_at (ge_madd p q) x3 y3"
proof -
  obtain z1 where p: "unit_p z1" "fe_in 16944988 (p3_X p) (x1 * z1)" "fe_in 16944988 (p3_Y p) (y1 * z1)" "fe_in 16944988 (p3_Z p) z1"
    "fe_in 16944988 (p3_T p) (x1 * y1 * z1)" using assms(1) by (auto simp: p3_at_def)
  have q: "fe_in 16944988 (yplusx q) (y2 + x2)" "fe_in 16944988 (yminusx q) (y2 - x2)" "fe_in 16944988 (xy2d q) (2 * d25519 * (x2 * y2))"
    using assms(2) by (auto simp: precomp_at_def)
  note A = arg_mul[OF result_add[OF p(3,2)] q(1), simplified] and B = arg_mul[OF result_sub[OF p(3,2)] q(2), simplified]
    and T = arg_mul[OF q(3) p(5), simplified]
  show ?thesis
  proof (rule sum_at[OF _ _ _ _ p(1) assms(3)])
    show "fe_in 33889976 (p1_X (ge_madd p q)) (2 * z1 * (x1 * y2 + y1 * x2))"
      using result_sub[OF A B] by (simp add: ge_madd_def Let_def algebra_simps)
    show "fe_in 33889976 (p1_Y (ge_madd p q)) (2 * z1 * (y1 * y2 + x1 * x2))"
      using result_add[OF A B] by (simp add: ge_madd_def Let_def algebra_simps)
    show "fe_in 50834964 (p1_Z (ge_madd p q)) (2 * z1 * (1 + d25519 * (x1 * x2) * (y1 * y2)))"
      using result_add3[OF result_add[OF p(4,4)] T] by (simp add: ge_madd_def Let_def algebra_simps)
    show "fe_in 50834964 (p1_T (ge_madd p q)) (2 * z1 * (1 - d25519 * (x1 * x2) * (y1 * y2)))"
      using result_sub3[OF result_add[OF p(4,4)] T] by (simp add: ge_madd_def Let_def algebra_simps)
  qed
qed

lemma ge_msub_at:
  assumes "p3_at p x1 y1" "precomp_at q x2 y2" "ed_sum x1 y1 (- x2) y2 x3 y3"
  shows "p1p1_at (ge_msub p q) x3 y3"
proof -
  obtain z1 where p: "unit_p z1" "fe_in 16944988 (p3_X p) (x1 * z1)" "fe_in 16944988 (p3_Y p) (y1 * z1)" "fe_in 16944988 (p3_Z p) z1"
    "fe_in 16944988 (p3_T p) (x1 * y1 * z1)" using assms(1) by (auto simp: p3_at_def)
  have q: "fe_in 16944988 (yplusx q) (y2 + x2)" "fe_in 16944988 (yminusx q) (y2 - x2)" "fe_in 16944988 (xy2d q) (2 * d25519 * (x2 * y2))"
    using assms(2) by (auto simp: precomp_at_def)
  note A = arg_mul[OF result_add[OF p(3,2)] q(2), simplified] and B = arg_mul[OF result_sub[OF p(3,2)] q(1), simplified]
    and T = arg_mul[OF q(3) p(5), simplified]
  show ?thesis
  proof (rule sum_at[OF _ _ _ _ p(1) assms(3)])
    show "fe_in 33889976 (p1_X (ge_msub p q)) (2 * z1 * (x1 * y2 + y1 * - x2))"
      using result_sub[OF A B] by (simp add: ge_msub_def Let_def algebra_simps)
    show "fe_in 33889976 (p1_Y (ge_msub p q)) (2 * z1 * (y1 * y2 + x1 * - x2))"
      using result_add[OF A B] by (simp add: ge_msub_def Let_def algebra_simps)
    show "fe_in 50834964 (p1_Z (ge_msub p q)) (2 * z1 * (1 + d25519 * (x1 * - x2) * (y1 * y2)))"
      using result_sub3[OF result_add[OF p(4,4)] T] by (simp add: ge_msub_def Let_def algebra_simps)
    show "fe_in 50834964 (p1_T (ge_msub p q)) (2 * z1 * (1 - d25519 * (x1 * - x2) * (y1 * y2)))"
      using result_add3[OF result_add[OF p(4,4)] T] by (simp add: ge_msub_def Let_def algebra_simps)
  qed
qed

section \<open>Doubling\<close>

lemma ge_p2_dbl_at:
  assumes "p2_at p x y" "on_curve x y" "ed_sum x y x y x3 y3"
  shows "p1p1_at (ge_p2_dbl p) x3 y3"
proof -
  obtain z where p: "unit_p z" "fe_in 16944988 (p2_X p) (x * z)" "fe_in 16944988 (p2_Y p) (y * z)" "fe_in 16944988 (p2_Z p) z"
    using assms(1) by (auto simp: p2_at_def)
  define a where "a = 1 + d25519 * (x * x) * (y * y)"
  define b where "b = 1 - d25519 * (x * x) * (y * y)"
  have s: "unit_p a" "unit_p b" "cong_p (x3 * a) (2 * (x * y))" "cong_p (y3 * b) (y * y + x * x)"
    using assms(3) by (simp_all add: ed_sum_def a_def b_def mult.commute)
  have c: "cong_p (y * y - x * x) a" using assms(2) by (simp add: on_curve_def a_def)
  have c': "cong_p (2 - (y * y - x * x)) b"
  proof -
    have "(2 - (y * y - x * x)) mod p25519 = (2 - a) mod p25519" using c unfolding cong_p_def by (metis mod_diff_right_eq)
    then show ?thesis by (simp add: cong_p_def a_def b_def)
  qed
  let ?w = "z * z"
  have u: "unit_p (?w * a)" "unit_p (?w * b)" using s(1,2) p(1) by (auto intro!: unit_p_mult)
  have r: "fe_in 16944988 f V \<Longrightarrow> fe_in 55364812 f V" for f V by (erule fe_in_mono) simp
  have X: "fe_in 16944988 (fe_sq (p2_X p)) (x * z * (x * z))" and Y: "fe_in 16944988 (fe_sq (p2_Y p)) (y * z * (y * z))"
    and Z: "fe_in 16944988 (fe_sq2 (p2_Z p)) (2 * (z * z))"
    using p(2-4) by (auto intro!: fe_in_sq fe_in_sq2 r)
  have S: "fe_in 16944988 (fe_sq (fe_add (p2_X p) (p2_Y p))) ((x * z + y * z) * (x * z + y * z))"
    by (rule fe_in_sq[OF fe_in_mono[OF result_add[OF p(2,3)]]]) simp
  note add = result_add[OF Y X] and sub = result_sub[OF Y X]
  have "fe_in 50834964 (p1_X (ge_p2_dbl p)) (?w * (2 * (x * y)))"
    using fe_in_sub[OF S add] by (simp add: ge_p2_dbl_def Let_def algebra_simps)
  moreover have "cong_p (?w * (2 * (x * y))) (x3 * (?w * a))"
    using cong_p_mult[OF cong_p_refl[of ?w] cong_p_sym[OF s(3)]] by (simp add: mult.left_commute)
  ultimately have 1: "fe_in 50834964 (p1_X (ge_p2_dbl p)) (x3 * (?w * a))" by (rule fe_in_cong)
  have "fe_in 50834964 (p1_Y (ge_p2_dbl p)) (?w * (y * y + x * x))"
    using fe_in_mono[OF add, of 50834964] by (simp add: ge_p2_dbl_def Let_def algebra_simps)
  moreover have "cong_p (?w * (y * y + x * x)) (y3 * (?w * b))"
    using cong_p_mult[OF cong_p_refl[of ?w] cong_p_sym[OF s(4)]] by (simp add: mult.left_commute)
  ultimately have 2: "fe_in 50834964 (p1_Y (ge_p2_dbl p)) (y3 * (?w * b))" by (rule fe_in_cong)
  have "fe_in 50834964 (p1_Z (ge_p2_dbl p)) (?w * (y * y - x * x))"
    using fe_in_mono[OF sub, of 50834964] by (simp add: ge_p2_dbl_def Let_def algebra_simps)
  then have 3: "fe_in 50834964 (p1_Z (ge_p2_dbl p)) (?w * a)" by (rule fe_in_cong[OF _ cong_p_mult[OF cong_p_refl c]])
  have "fe_in 50834964 (p1_T (ge_p2_dbl p)) (?w * (2 - (y * y - x * x)))"
    using fe_in_sub[OF Z sub] by (simp add: ge_p2_dbl_def Let_def algebra_simps)
  then have 4: "fe_in 50834964 (p1_T (ge_p2_dbl p)) (?w * b)" by (rule fe_in_cong[OF _ cong_p_mult[OF cong_p_refl c']])
  show ?thesis unfolding p1p1_at_def using u 1 2 3 4 by blast
qed

lemma ge_p3_dbl_at: "p3_at p x y \<Longrightarrow> on_curve x y \<Longrightarrow> ed_sum x y x y x3 y3 \<Longrightarrow> p1p1_at (ge_p3_dbl p) x3 y3"
  unfolding ge_p3_dbl_def by (intro ge_p2_dbl_at p3_to_p2_at)

lemma ge_p3_0_at: "p3_at ge_p3_0 0 1"
  unfolding p3_at_def ge_p3_0_def ge_p3.simps
  by (intro exI[of _ 1]) (auto intro: fe_in_mono[OF fe_in_0] fe_in_mono[OF fe_in_1])

end
