(* ===== verification/Select.thy ===== *)
theory Select
  imports Digits Group_Law
begin

unbundle bit_operations_syntax

text \<open>
  Selection from the table of multiples is a lookup with a sign.
\<close>

section \<open>Lookup\<close>

definition precomp_ok :: "ge_precomp \<Rightarrow> bool" where
  "precomp_ok t \<longleftrightarrow> (\<exists>a b c. fe_in 16777216 (yplusx t) a \<and> fe_in 16777216 (yminusx t) b \<and> fe_in 16777216 (xy2d t) c)"

definition limbs_small :: "int list \<Rightarrow> bool" where
  "limbs_small vs \<longleftrightarrow> length vs = 10 \<and> list_all (\<lambda>i. \<bar>vs ! i\<bar> \<le> (if even i then 2 else 1) * 16777216) [0..<10]"

lemma limbs_small_in: "limbs_small vs \<Longrightarrow> fe_in 16777216 (map C vs) (limbs_val vs)"
  by (rule fe_in_list) (simp_all add: limbs_small_def list_all_iff Ball_def)

lemma base_small: "list_all (\<lambda>row. length row = 8 \<and> list_all (\<lambda>e. length e = 3 \<and> list_all limbs_small e) row) base_rows \<and> length base_rows = 32"
  by code_simp

lemma precomp_entry_ok: "length e = 3 \<Longrightarrow> list_all limbs_small e \<Longrightarrow> precomp_ok (precomp_entry e)"
  unfolding precomp_ok_def precomp_entry_def ge_precomp.simps
  using limbs_small_in[of "e ! 0"] limbs_small_in[of "e ! 1"] limbs_small_in[of "e ! 2"] by (fastforce simp: list_all_length)

lemma base_ok:
  assumes "pos < 32" "j < 8"
  shows "precomp_ok (base_table ! pos ! j)"
  using base_small assms by (simp add: base_table_def list_all_length precomp_entry_ok)

lemma precomp_ok_fe: "precomp_ok t \<Longrightarrow> fe_ok (yplusx t) \<and> fe_ok (yminusx t) \<and> fe_ok (xy2d t)"
  unfolding precomp_ok_def by (auto intro: fe_in_ok)

lemma cmov_c_0: "precomp_ok t \<Longrightarrow> precomp_ok u \<Longrightarrow> cmov_c t u 0 = t"
  using precomp_ok_fe[of t] precomp_ok_fe[of u] by (simp add: cmov_c_def fe_cmov_val)

lemma cmov_c_1: "precomp_ok t \<Longrightarrow> precomp_ok u \<Longrightarrow> cmov_c t u 1 = u"
  using precomp_ok_fe[of t] precomp_ok_fe[of u] by (simp add: cmov_c_def fe_cmov_val)

lemma select_bits:
  "list_all (\<lambda>b. negative_c b = (if b < 0 then 1 else 0) \<and> to_i8 (uint (word_of_int (b - ((- uint (negative_c b)) AND b) * 2) :: u8)) = \<bar>b\<bar> \<and>
     list_all (\<lambda>k. equal_c \<bar>b\<bar> k = (if \<bar>b\<bar> = k then 1 else 0)) [1, 2, 3, 4, 5, 6, 7, 8])
     [-8, -7, -6, -5, -4, -3, -2, -1, 0, 1, 2, 3, 4, 5, 6, 7, 8]"
  by code_simp

lemma small_cases: "- 8 \<le> b \<Longrightarrow> b \<le> 8 \<Longrightarrow> b \<in> set [-8, -7, -6, -5, -4, -3, -2, -1, 0, 1, 2, 3, 4, 5, 6, 7, 8]" for b :: int
  by (simp, presburger)

definition negate_precomp :: "ge_precomp \<Rightarrow> ge_precomp" where
  "negate_precomp t = \<lparr>yplusx = yminusx t, yminusx = yplusx t, xy2d = fe_neg (xy2d t)\<rparr>"

definition identity_precomp :: ge_precomp where
  "identity_precomp = \<lparr>yplusx = fe_1, yminusx = fe_1, xy2d = fe_0\<rparr>"

lemma identity_ok: "precomp_ok identity_precomp"
  unfolding precomp_ok_def identity_precomp_def ge_precomp.simps
  using fe_in_mono[OF fe_in_1, of 16777216] fe_in_mono[OF fe_in_0, of 16777216] by auto

lemma negate_ok: "precomp_ok t \<Longrightarrow> precomp_ok (negate_precomp t)"
  unfolding precomp_ok_def negate_precomp_def ge_precomp.simps by (fastforce intro: fe_in_neg)

lemma select_lookup:
  assumes "pos < 32" "- 8 \<le> b" "b \<le> 8"
  shows "select_c pos b = (let t = (if b = 0 then identity_precomp else base_table ! pos ! nat (\<bar>b\<bar> - 1)) in if b < 0 then negate_precomp t else t)"
proof -
  have bits: "negative_c b = (if b < 0 then 1 else 0)" "to_i8 (uint (word_of_int (b - ((- uint (negative_c b)) AND b) * 2) :: u8)) = \<bar>b\<bar>"
    "\<And>k. k \<in> set [1, 2, 3, 4, 5, 6, 7, 8] \<Longrightarrow> equal_c \<bar>b\<bar> k = (if \<bar>b\<bar> = k then 1 else 0)"
    using select_bits small_cases[OF assms(2,3)] unfolding list_all_iff by blast+
  have eq: "equal_c \<bar>b\<bar> 1 = (if \<bar>b\<bar> = 1 then 1 else 0)" "equal_c \<bar>b\<bar> 2 = (if \<bar>b\<bar> = 2 then 1 else 0)" "equal_c \<bar>b\<bar> 3 = (if \<bar>b\<bar> = 3 then 1 else 0)"
    "equal_c \<bar>b\<bar> 4 = (if \<bar>b\<bar> = 4 then 1 else 0)" "equal_c \<bar>b\<bar> 5 = (if \<bar>b\<bar> = 5 then 1 else 0)" "equal_c \<bar>b\<bar> 6 = (if \<bar>b\<bar> = 6 then 1 else 0)"
    "equal_c \<bar>b\<bar> 7 = (if \<bar>b\<bar> = 7 then 1 else 0)" "equal_c \<bar>b\<bar> 8 = (if \<bar>b\<bar> = 8 then 1 else 0)"
    by (rule bits(3), simp)+
  note ok = base_ok[OF assms(1), of 0] base_ok[OF assms(1), of "Suc 0"] base_ok[OF assms(1), of 2] base_ok[OF assms(1), of 3] base_ok[OF assms(1), of 4]
    base_ok[OF assms(1), of 5] base_ok[OF assms(1), of 6] base_ok[OF assms(1), of 7] identity_ok
  define t where "t = (if b = 0 then identity_precomp else base_table ! pos ! nat (\<bar>b\<bar> - 1))"
  have t: "precomp_ok t" using assms base_ok[OF assms(1), of "nat (\<bar>b\<bar> - 1)"] by (auto simp: t_def identity_ok)
  have len: "length (yplusx t) = 10" "length (yminusx t) = 10" using t by (auto simp: precomp_ok_def fe_in_length)
  consider "\<bar>b\<bar> = 0" | "\<bar>b\<bar> = 1" | "\<bar>b\<bar> = 2" | "\<bar>b\<bar> = 3" | "\<bar>b\<bar> = 4" | "\<bar>b\<bar> = 5" | "\<bar>b\<bar> = 6" | "\<bar>b\<bar> = 7" | "\<bar>b\<bar> = 8"
    using assms(2,3) by linarith
  then have "select_c pos b = cmov_c t \<lparr>yplusx = fe_copy (yminusx t), yminusx = fe_copy (yplusx t), xy2d = fe_neg (xy2d t)\<rparr> (negative_c b)"
    unfolding select_c_def Let_def bits(2) eq identity_precomp_def[symmetric]
    by cases (simp_all add: t_def cmov_c_0 cmov_c_1 ok)
  also have "\<dots> = cmov_c t (negate_precomp t) (negative_c b)" by (simp add: negate_precomp_def fe_copy_id[OF len(1)] fe_copy_id[OF len(2)])
  also have "\<dots> = (if b < 0 then negate_precomp t else t)" by (simp add: bits(1) cmov_c_0[OF t negate_ok[OF t]] cmov_c_1[OF t negate_ok[OF t]])
  finally show ?thesis by (simp add: t_def Let_def)
qed

section \<open>Properties\<close>

text \<open>
  C37. The group law.  For points in the representations of the file, \<^verbatim>\<open>ge_add\<close> and \<^verbatim>\<open>ge_madd\<close> compute the sum of the addition law of the curve and
  \<^verbatim>\<open>ge_sub\<close> and \<^verbatim>\<open>ge_msub\<close> the sum with the negated point, wherever the denominators of the law are invertible; \<^verbatim>\<open>ge_p2_dbl\<close> and \<^verbatim>\<open>ge_p3_dbl\<close> double
  a point of the curve.  The results are within the bounds that make them arguments again.
\<close>

theorem ge_group_law:
  assumes "p3_at p x1 y1" "p3_at q x2 y2" "precomp_at c x2 y2"
  shows "(ed_sum x1 y1 x2 y2 x3 y3 \<longrightarrow>
      p3_at (ge_p1p1_to_p3 (ge_add p (ge_p3_to_cached q))) x3 y3 \<and> p3_at (ge_p1p1_to_p3 (ge_madd p c)) x3 y3) \<and>
    (ed_sum x1 y1 (- x2) y2 x3 y3 \<longrightarrow>
      p3_at (ge_p1p1_to_p3 (ge_sub p (ge_p3_to_cached q))) x3 y3 \<and> p3_at (ge_p1p1_to_p3 (ge_msub p c)) x3 y3) \<and>
    (on_curve x1 y1 \<and> ed_sum x1 y1 x1 y1 x3 y3 \<longrightarrow>
      p3_at (ge_p1p1_to_p3 (ge_p3_dbl p)) x3 y3 \<and> p2_at (ge_p1p1_to_p2 (ge_p2_dbl (ge_p3_to_p2 p))) x3 y3)"
  using p1p1_to_p3_at[OF ge_add_at[OF assms(1) p3_to_cached_at[OF assms(2)]]] p1p1_to_p3_at[OF ge_madd_at[OF assms(1,3)]]
    p1p1_to_p3_at[OF ge_sub_at[OF assms(1) p3_to_cached_at[OF assms(2)]]] p1p1_to_p3_at[OF ge_msub_at[OF assms(1,3)]]
    p1p1_to_p3_at[OF ge_p3_dbl_at[OF assms(1)]] p1p1_to_p2_at[OF ge_p2_dbl_at[OF p3_to_p2_at[OF assms(1)]]] by blast

definition base_x :: int where
  "base_x = 15112221349535400772501151409588531511454012693041857206046113283949847762202"

definition base_y :: int where
  "base_y = 46316835694926478169428394003475163141307993866256225615783033603165251855960"

lemma base_entry: "precomp_at (precomp_entry (base_0 ! 0)) base_x base_y"
  unfolding precomp_at_def precomp_entry_def ge_precomp.simps
  by (intro conjI fe_in_list) code_simp+

lemma sum_identity: "ed_sum 0 1 x y x y"
  by (simp add: ed_sum_def)

theorem ge_group_law_witness:
  "p3_at (ge_p1p1_to_p3 (ge_add ge_p3_0 (ge_p3_to_cached (ge_p1p1_to_p3 (ge_madd ge_p3_0 (precomp_entry (base_0 ! 0))))))) base_x base_y"
  using ge_group_law[OF ge_p3_0_at p1p1_to_p3_at[OF ge_madd_at[OF ge_p3_0_at base_entry sum_identity]] base_entry, of base_x base_y] sum_identity
  by blast

text \<open>
  C38. The recoding of \<^verbatim>\<open>ge_scalarmult_base\<close>: for a scalar whose last byte is at most 127, as its comment demands, the 64 digits lie between
  -8 and 8 and add up to the scalar, and for each digit the selection without branches gives the table entry for its size, negated for a negative
  digit, and the neutral element for 0.
\<close>

theorem scalarmult_base_recoding:
  assumes "32 \<le> length a" "a ! 31 \<le> 127"
  shows "(\<Sum>i<64. scalar_digits a ! i * 16 ^ i) = le_val (take 32 a) \<and>
    (\<forall>i<64. let b = scalar_digits a ! i;
                t = (if b = 0 then identity_precomp else base_table ! (i div 2) ! nat (\<bar>b\<bar> - 1))
            in - 8 \<le> b \<and> b \<le> 8 \<and> select_c (i div 2) b = (if b < 0 then negate_precomp t else t))"
proof -
  have a: "a ! 31 < 128" using assms(2) by unat_arith
  show ?thesis using scalar_digits_val[OF assms(1) a] select_lookup unfolding Let_def by simp
qed

theorem scalarmult_base_recoding_witness:
  "(\<Sum>i<64. scalar_digits (replicate 31 255 @ [127]) ! i * 16 ^ i) = le_val (replicate 31 255 @ [127])"
  using scalarmult_base_recoding[of "replicate 31 255 @ [127]"] by (simp add: nth_append)

end
