(* ===== verification/Spec2Isabelle.thy ===== *)
theory Spec2Isabelle
  imports Reachable LLC_Protocol LLC_Partition Signature Select
begin

text \<open>
  A model of the Citadel security monitor, a machine-mode program for RISC-V that
  isolates enclaves from an untrusted operating system (\<^verbatim>\<open>src/\<close>).

  \<^bold>\<open>The program.\<close>  Physical memory is cut into 64 regions of 32 MB.  Each region belongs to the
  monitor, to untrusted software or to an enclave, or it is blocked or free; some regions hold metadata
  pages with the monitor's enclave and thread objects.  Each core has a bitmap of the regions that
  untrusted software may access on it and one for the enclave running on it.  Untrusted software creates an
  enclave, loads its pages, initialises it and enters it through calls that are routed from the trap
  vector to one function each; calls are transactions guarded by one lock per region, one per core and one for the
  state of untrusted software.

  \<^bold>\<open>The machine.\<close>  \<^verbatim>\<open>SM_Types\<close> has the monitor's objects (\<^verbatim>\<open>src/sm_types.h\<close>, \<^verbatim>\<open>api/api_types.h\<close>) as
  records and the state of the machine: the fields of \<^verbatim>\<open>sm_state_t\<close>, CSRs, registers and saved trap frames of each
  core, physical memory, and the metadata objects by address.  A call is a function
  from machines to a result code and a machine; \<^term>\<open>None\<close> stands for undefined behaviour of the C code
  (an index out of range, a division by zero), for \<^verbatim>\<open>platform_panic\<close> and for waiting on a condition that does not change.  Calls that may leave
  the monitor by \<^verbatim>\<open>mret\<close> return a sum: \<^term>\<open>Inl\<close> when they return to the dispatcher, \<^term>\<open>Inr\<close> when they do not.

  \<^bold>\<open>The theories.\<close>
  \<^item> \<^verbatim>\<open>Prelude\<close>: words, bytes, and the calculus of runs (\<open>yields\<close>, \<open>returns\<close>) with which all contracts are proved.
  \<^item> \<^verbatim>\<open>SHA512\<close>: \<^verbatim>\<open>src/crypto/ed25519/sha512.c\<close> and the hash interface; the stream equals the one-shot hash.
  \<^item> \<^verbatim>\<open>Machine\<close>, \<^verbatim>\<open>Address\<close>: memory copies; region and page arithmetic of \<^verbatim>\<open>src/sm.h\<close>.
  \<^item> \<^verbatim>\<open>Locks\<close>, \<^verbatim>\<open>Metadata\<close>: the locks and the lock-and-check functions of \<^verbatim>\<open>src/common/\<close>.
  \<^item> \<^verbatim>\<open>Platform\<close>: \<^verbatim>\<open>platform/\<close>, the CSRs behind memory protection, paging and interrupts.
  \<^item> \<^verbatim>\<open>Contract\<close>: the interface every call meets (\<open>monitor_call\<close>): success implies a guard and has the
    specified effect, any other result changes nothing but locks, and a free machine that meets the guard
    succeeds.  \<open>balanced_call\<close> adds that all locks are given back, \<open>total_call\<close> that the call returns.
  \<^item> \<^verbatim>\<open>Region_API\<close>, \<^verbatim>\<open>Enclave_Life\<close>, \<^verbatim>\<open>Enclave_Load\<close>, \<^verbatim>\<open>Thread_API\<close>, \<^verbatim>\<open>Enclave_Run\<close>, \<^verbatim>\<open>Mail_API\<close>: one definition
    per function of \<^verbatim>\<open>src/api/\<close>, its guard and effect, and an interpretation of the contract.
  \<^item> \<^verbatim>\<open>LLC\<close>, \<^verbatim>\<open>LLC_Protocol\<close>, \<^verbatim>\<open>LLC_Partition\<close>: the two calls that stop all cores and \<^verbatim>\<open>handle_llc_changes\<close>, as a step
    relation over all cores and as sequential functions.  The critical section is exclusive, every step of a call lowers a rank, the
    interleaved runs refine the sequential functions, and a deadlock is reachable when a core is interrupted twice for one change.
  \<^item> \<^verbatim>\<open>Kernel\<close>: SBI calls (\<^verbatim>\<open>src/kernel/mcall.c\<close>, \<^verbatim>\<open>mcall_enclave.c\<close>), console characters, and the emulation of CSR
    instructions, which is shown to reach no state but one register, counters and \<^verbatim>\<open>satp\<close> of its core.
  \<^item> \<^verbatim>\<open>Dispatch\<close>: entry code and event tables (\<^verbatim>\<open>entry_from_untrusted.S\<close>, \<^verbatim>\<open>entry_from_enclave.S\<close>), both dispatchers and
    the interrupt handlers, composed from the trap to \<^verbatim>\<open>mret\<close>.  A refused call changes nothing but locks, whichever number
    it has; unsupported calls and delegated exceptions keep all registers; any other exception of an enclave panics.
  \<^item> \<^verbatim>\<open>Boot\<close>: \<^verbatim>\<open>sm_init\<close> (\<^verbatim>\<open>src/init/init.c\<close>) and the set-up of traps and timers in \<^verbatim>\<open>kernel_init.c\<close>.
  \<^item> \<^verbatim>\<open>Isolation\<close>, \<^verbatim>\<open>Isolation_Calls\<close>, \<^verbatim>\<open>Reachable\<close>: an invariant that ties region maps and the bitmaps in the hardware to the owners
    of regions; boot establishes it and every trap, whichever call or interrupt it is, keeps it.  In all states reachable from power-on
    a core accesses only regions of untrusted software, of the enclave it runs, or blocked ones, never the monitor's; so
    software changes no memory of another enclave.  Boot returns.
  \<^item> \<^verbatim>\<open>C_Int\<close>: signed C integers with their width, where overflow is undefined, and rules that bound the values of expressions.
  \<^item> \<^verbatim>\<open>Field\<close>, \<^verbatim>\<open>Field_Limbs\<close>, \<^verbatim>\<open>Field_Mul\<close>, \<^verbatim>\<open>Field_Ops\<close>, \<^verbatim>\<open>Field_Ring\<close>, \<^verbatim>\<open>Field_Bytes\<close>, \<^verbatim>\<open>Field_Encode\<close>: the field arithmetic of
    \<^verbatim>\<open>src/crypto/ed25519/fe.c\<close>.  Within the bounds its comments state, every operation is free of overflow and computes the operation
    of its name modulo \<open>2 ^ 255 - 19\<close>; the encoding is canonical.
  \<^item> \<^verbatim>\<open>Scalar\<close>, \<^verbatim>\<open>Scalar_Limbs\<close>, \<^verbatim>\<open>Scalar_Reduce\<close>, \<^verbatim>\<open>Scalar_Muladd\<close>: \<^verbatim>\<open>src/crypto/ed25519/sc.c\<close>.  For all inputs, \<^verbatim>\<open>sc_reduce\<close> and
    \<^verbatim>\<open>sc_muladd\<close> are free of overflow and store the canonical representative modulo the order of the base point.
  \<^item> \<^verbatim>\<open>Group\<close>, \<^verbatim>\<open>Group_Law\<close>, \<^verbatim>\<open>Precomp\<close>, \<^verbatim>\<open>Scalarmult\<close>, \<^verbatim>\<open>Digits\<close>, \<^verbatim>\<open>Select\<close>: points, their tables and their multiples (\<^verbatim>\<open>ge.c\<close>,
    \<^verbatim>\<open>precomp_data.h\<close>).  The formulas are the addition law of the curve, the selection without branches is a table lookup, and the signed digits
    add up to the scalar.
  \<^item> \<^verbatim>\<open>Signature\<close>: keys, signatures and key exchange on top of these and of the hash.
  \<^item> \<^verbatim>\<open>Sample\<close>: a concrete machine on which the hypotheses of the properties hold.

  \<^bold>\<open>Modelling decisions.\<close>  Typed objects live in components of their own, so a store to plain memory does
  not change a metadata object; \<^verbatim>\<open>memset\<close> over a region clears all components.  Lock words are kept apart from the data they guard
  (\<open>erase\<close> forgets them).  Calls run without interleaving but for the LLC protocol, where the
  steps of all cores interleave; elsewhere, what other cores do to locks is the
  arbitrary lock state a call starts in.  The loops of the modelled code are bounded, or wait for another core or the host; so no fuel
  is needed.  The entry code stores registers in the trap frame of its core; what compiled C code leaves in registers that are
  reloaded from the frame is not tracked, and the one register that is read without being reloaded (\<^verbatim>\<open>t0\<close> in the handler of
  software interrupts) is a parameter.  A remote fence is modelled at the moment its wait ends; that the other cores answer is not proved.
  In \<^verbatim>\<open>Reachable\<close>, which trap vector a core uses is decided by the owner of the core, an access is allowed when one of the two bitmaps
  has the region, and traps of different cores do not overlap.  The memory is assumed to hold no enclave or thread objects at power-on,
  and the monitor's \<^verbatim>\<open>bss\<close> to be zero (\<open>power_on\<close>): \<^verbatim>\<open>init.S\<close> clears \<^verbatim>\<open>bss\<close>, and metadata regions are cleared when they are created.

  \<^bold>\<open>Parameters.\<close>  Linker symbols, the three ed25519 functions \<^verbatim>\<open>enclave_init\<close> uses, and the address
  translation of the hardware are fields of \<open>platform_env\<close>; no property assumes anything about them.

  \<^bold>\<open>Not modelled.\<close>  The device tree walk of boot (\<^verbatim>\<open>fdt.c\<close>) and the entry code \<^verbatim>\<open>init.S\<close>, curve arithmetic, formatted console output and
  the string functions these use.  Of the two builds the default one is modelled, with \<^verbatim>\<open>DEBUG_ENCLAVE\<close>, in which enclaves may use the console.
\<close>

end
